(* ===== verification/Prelude.thy ===== *)
theory Prelude
  imports Complex_Main "HOL-Library.AList" "HOL-Library.Char_ord" "HOL-Library.List_Lexorder"
begin

section \<open>Shared definitions and automation\<close>

text \<open>
  What every component theory builds on: the exceptions of the Python code and the
  result type that carries them, insertion-ordered dictionaries as association lists,
  the character classes and string operations of \<^verbatim>\<open>str\<close>, and decimal printing and
  reading of natural numbers.

  Strings are lists of \<^typ>\<open>char\<close>, read as code points 0 to 255 (the Latin-1 range of
  Unicode); \<open>lower\<close>, \<open>strip\<close> and the character classes follow CPython on that range.
\<close>

named_theorems result_simps \<open>evaluation and inversion of the result monad\<close>
named_theorems dict_simps \<open>lookups in updated dictionaries\<close>
named_theorems string_simps \<open>string operations of the standard library\<close>

subsection \<open>Exceptions and results\<close>

text \<open>
  One constructor per exception class that the code raises or lets through; the
  package's own exceptions carry their message.
\<close>

datatype py_exn =
    RegistryError string
  | CameraProfileError string
  | NetworkSetupError string
  | RuntimeErr string
  | KeyErr string
  | TypeErr
  | ValueErr
  | AttrErr
  | OverflowErr
  | OSErr
  | YAMLErr
  | TimeoutErr
  | JSONErr

type_synonym 'a result = "py_exn + 'a"

definition bindR :: "'e + 'a \<Rightarrow> ('a \<Rightarrow> 'e + 'b) \<Rightarrow> 'e + 'b" where
  "bindR m f = (case m of Inl e \<Rightarrow> Inl e | Inr x \<Rightarrow> f x)"

lemma bindR_Inr [simp]: "bindR (Inr x) f = f x"
  and bindR_Inl [simp]: "bindR (Inl e) f = Inl e"
  by (simp_all add: bindR_def)

text \<open>In code equations the bind is its case distinction, so evaluation is lazy in the continuation.\<close>

declare bindR_def [code_unfold]

lemma bindR_eq_Inr [result_simps]: "bindR m f = Inr y \<longleftrightarrow> (\<exists>x. m = Inr x \<and> f x = Inr y)"
  by (cases m) auto

lemma bindR_eq_Inl [result_simps]:
  "bindR m f = Inl e \<longleftrightarrow> m = Inl e \<or> (\<exists>x. m = Inr x \<and> f x = Inl e)"
  by (cases m) auto

lemma bindR_cong [fundef_cong]:
  "m = m' \<Longrightarrow> (\<And>x. m' = Inr x \<Longrightarrow> f x = g x) \<Longrightarrow> bindR m f = bindR m' g"
  by (cases m') auto

text \<open>Running an operation on each element of a list, stopping at the first exception.\<close>

fun mapR :: "('a \<Rightarrow> 'e + 'b) \<Rightarrow> 'a list \<Rightarrow> 'e + 'b list" where
  "mapR f [] = Inr []"
| "mapR f (x # xs) = bindR (f x) (\<lambda>y. bindR (mapR f xs) (\<lambda>ys. Inr (y # ys)))"

lemma mapR_Inr_iff [result_simps]:
  "mapR f xs = Inr ys \<longleftrightarrow> list_all2 (\<lambda>x y. f x = Inr y) xs ys"
  by (induction xs arbitrary: ys)
     (auto simp: result_simps list_all2_Cons1)

lemma mapR_Inr_eq: "(\<And>x. x \<in> set xs \<Longrightarrow> f x = Inr (g x)) \<Longrightarrow> mapR f xs = Inr (map g xs)"
  by (induction xs) auto

definition or_raise :: "'a option \<Rightarrow> 'e \<Rightarrow> 'e + 'a" where
  "or_raise x e = (case x of None \<Rightarrow> Inl e | Some y \<Rightarrow> Inr y)"

lemma or_raise_simps [simp]: "or_raise None e = Inl e" "or_raise (Some y) e = Inr y"
  by (simp_all add: or_raise_def)

text \<open>A guard that raises.\<close>

lemma guard_Inr: "(if c then Inl e else m) = Inr r \<longleftrightarrow> \<not> c \<and> m = Inr r"
  by simp

lemma or_raise_eq_Inr [result_simps]: "or_raise x e = Inr y \<longleftrightarrow> x = Some y"
  by (cases x) auto

subsection \<open>Insertion-ordered dictionaries\<close>

text \<open>
  A Python dict keeps insertion order, and iteration order decides which error is raised
  first and which entry is matched first. It is an association list; assignment is
  \<open>AList.update\<close> (in place for a known key, appended otherwise), \<open>del\<close> is
  \<open>AList.delete\<close>, lookup is \<open>map_of\<close>.
\<close>

type_synonym 'v dict = "(string \<times> 'v) list"

abbreviation dkeys :: "'v dict \<Rightarrow> string list" where
  "dkeys d \<equiv> map fst d"

abbreviation dvalues :: "'v dict \<Rightarrow> 'v list" where
  "dvalues d \<equiv> map snd d"

definition dhas :: "'v dict \<Rightarrow> string \<Rightarrow> bool" where
  "dhas d k \<longleftrightarrow> map_of d k \<noteq> None"

definition dset :: "string \<Rightarrow> 'v \<Rightarrow> 'v dict \<Rightarrow> 'v dict" where
  "dset k v d = AList.update k v d"

definition dpop :: "string \<Rightarrow> 'v dict \<Rightarrow> 'v dict" where
  "dpop k d = AList.delete k d"

definition dget :: "'v dict \<Rightarrow> string \<Rightarrow> 'v \<Rightarrow> 'v" where
  "dget d k v = (case map_of d k of None \<Rightarrow> v | Some w \<Rightarrow> w)"

definition setdefault :: "string \<Rightarrow> 'v \<Rightarrow> 'v dict \<Rightarrow> 'v dict" where
  "setdefault k v d = (if dhas d k then d else dset k v d)"

text \<open>\<open>d.update(values)\<close> and a run of \<open>d.setdefault(k, v)\<close> statements.\<close>

fun dupdate :: "'v dict \<Rightarrow> 'v dict \<Rightarrow> 'v dict" where
  "dupdate [] d = d"
| "dupdate ((k, v) # kvs) d = dupdate kvs (dset k v d)"

fun setdefaults :: "'v dict \<Rightarrow> 'v dict \<Rightarrow> 'v dict" where
  "setdefaults [] d = d"
| "setdefaults ((k, v) # kvs) d = setdefaults kvs (setdefault k v d)"

lemma map_of_dset [dict_simps]: "map_of (dset k v d) = (map_of d)(k \<mapsto> v)"
  by (simp add: dset_def update_conv')

lemma map_of_dpop [dict_simps]: "map_of (dpop k d) = (map_of d)(k := None)"
  by (simp add: dpop_def delete_conv')

lemma map_of_setdefault [dict_simps]:
  "map_of (setdefault k v d) = (if map_of d k = None then (map_of d)(k \<mapsto> v) else map_of d)"
  by (simp add: setdefault_def dhas_def dict_simps)

lemma dget_None [simp]: "map_of d k = None \<Longrightarrow> dget d k v = v"
  and dget_Some [simp]: "map_of d k = Some w \<Longrightarrow> dget d k v = w"
  by (simp_all add: dget_def)

lemma dget_cong: "map_of d k = map_of e k \<Longrightarrow> dget d k v = dget e k v"
  by (simp add: dget_def)

lemma dget_dset [dict_simps]: "dget (dset k v d) k' w = (if k' = k then v else dget d k' w)"
  by (simp add: dget_def map_of_dset)

lemma dhas_iff [dict_simps]: "dhas d k \<longleftrightarrow> k \<in> set (dkeys d)"
  by (auto simp: dhas_def map_of_eq_None_iff)

lemma dkeys_dset [dict_simps]:
  "set (dkeys (dset k v d)) = insert k (set (dkeys d))"
  by (auto simp: dset_def update_keys)

lemma dkeys_dpop [dict_simps]: "set (dkeys (dpop k d)) = set (dkeys d) - {k}"
  using map_of_dpop [of k d] by (metis (no_types, lifting) dom_fun_upd dom_map_of_conv_image_fst list.set_map)

lemma length_dset: "length (dset k v d) = (if dhas d k then length d else Suc (length d))"
  by (induction d) (auto simp: dset_def dhas_def)

lemma distinct_dset: "distinct (dkeys d) \<Longrightarrow> distinct (dkeys (dset k v d))"
  by (simp only: dset_def distinct_update)

lemma distinct_dpop: "distinct (dkeys d) \<Longrightarrow> distinct (dkeys (dpop k d))"
  by (simp only: dpop_def distinct_delete)

lemma dset_triv: "map_of d k = Some v \<Longrightarrow> dset k v d = d"
  by (simp add: dset_def update_triv)

lemma setdefault_triv: "map_of d k \<noteq> None \<Longrightarrow> setdefault k v d = d"
  by (simp add: setdefault_def dhas_def)

lemma set_dset_subset: "set (dset k v d) \<subseteq> insert (k, v) (set d)"
  unfolding dset_def by (induction d) auto

lemma set_dpop: "set (dpop k d) = {p \<in> set d. fst p \<noteq> k}"
  by (induction d) (auto simp: dpop_def)

lemma setdefaults_triv: "(\<And>k. k \<in> set (dkeys kvs) \<Longrightarrow> map_of d k \<noteq> None) \<Longrightarrow> setdefaults kvs d = d"
  by (induction kvs arbitrary: d) (auto simp: setdefault_triv)

lemma map_of_setdefaults:
  "map_of (setdefaults kvs d) k = (case map_of d k of Some v \<Rightarrow> Some v | None \<Rightarrow> map_of kvs k)"
  by (induction kvs arbitrary: d) (auto simp: dict_simps split: option.splits)

lemma map_of_setdefaults_Some [simp]:
  "map_of d k = Some v \<Longrightarrow> map_of (setdefaults kvs d) k = Some v"
  by (simp add: map_of_setdefaults)

lemma map_of_setdefaults_other:
  "k \<notin> set (dkeys kvs) \<Longrightarrow> map_of (setdefaults kvs d) k = map_of d k"
proof -
  assume "k \<notin> set (dkeys kvs)"
  then have "map_of kvs k = None" by (simp add: map_of_eq_None_iff)
  then show ?thesis by (simp add: map_of_setdefaults split: option.splits)
qed

lemma dget_setdefaults_other:
  "k \<notin> set (dkeys kvs) \<Longrightarrow> dget (setdefaults kvs d) k v = dget d k v"
  by (rule dget_cong) (rule map_of_setdefaults_other)

lemma map_of_dset_same [simp]: "map_of (dset k v d) k = Some v"
  and map_of_dset_other [simp]: "k \<noteq> k' \<Longrightarrow> map_of (dset k' v d) k = map_of d k"
  by (simp_all add: map_of_dset)

lemma map_of_setdefault_Some [simp]: "map_of d k = Some x \<Longrightarrow> map_of (setdefault k' v d) k = Some x"
  by (auto simp: map_of_setdefault)

lemma map_of_setdefault_other [simp]: "k \<noteq> k' \<Longrightarrow> map_of (setdefault k' v d) k = map_of d k"
  by (simp add: map_of_setdefault)

lemma dict_None_iff [simp]:
  "map_of (dset k' v d) k = None \<longleftrightarrow> k \<noteq> k' \<and> map_of d k = None"
  "map_of (setdefault k' v d) k = None \<longleftrightarrow> k \<noteq> k' \<and> map_of d k = None"
  "map_of (setdefaults kvs d) k = None \<longleftrightarrow> k \<notin> set (dkeys kvs) \<and> map_of d k = None"
  using map_of_eq_None_iff [of kvs k]
  by (auto simp: map_of_dset map_of_setdefault map_of_setdefaults split: option.splits)

lemma dict_Some_iff [simp]:
  "(\<exists>y. map_of (dset k' v d) k = Some y) \<longleftrightarrow> k = k' \<or> (\<exists>y. map_of d k = Some y)"
  "(\<exists>y. map_of (setdefault k' v d) k = Some y) \<longleftrightarrow> k = k' \<or> (\<exists>y. map_of d k = Some y)"
  "(\<exists>y. map_of (setdefaults kvs d) k = Some y) \<longleftrightarrow> k \<in> set (dkeys kvs) \<or> (\<exists>y. map_of d k = Some y)"
  using dict_None_iff(1) [of k' v d k] dict_None_iff(2) [of k' v d k] dict_None_iff(3) [of kvs d k]
  unfolding not_None_eq [symmetric] by argo+

lemma map_of_dupdate:
  "distinct (dkeys kvs) \<Longrightarrow>
   map_of (dupdate kvs d) k = (case map_of kvs k of Some v \<Rightarrow> Some v | None \<Rightarrow> map_of d k)"
proof (induction kvs d rule: dupdate.induct)
  case (1 d)
  then show ?case by simp
next
  case (2 k' v kvs d)
  then have "map_of kvs k' = None" by (simp add: map_of_eq_None_iff)
  with 2 show ?case by (simp add: dict_simps split: option.splits)
qed

lemma dupdate_triv: "(\<And>k v. (k, v) \<in> set kvs \<Longrightarrow> map_of d k = Some v) \<Longrightarrow> dupdate kvs d = d"
  by (induction kvs d rule: dupdate.induct) (auto simp: dset_triv)

declare setdefaults.simps [simp del] dupdate.simps [simp del]

lemma dset_dset: "dset k v (dset k w d) = dset k v d"
  by (simp add: dset_def)

lemma map_of_in_set: "map_of d k = Some v \<Longrightarrow> (k, v) \<in> set d"
  by (rule map_of_SomeD)

subsection \<open>Characters and strings\<close>

definition code :: "char \<Rightarrow> nat" where
  "code c = of_char c"

definition chr :: "nat \<Rightarrow> char" where
  "chr n = char_of n"

lemma code_chr [simp]: "n < 256 \<Longrightarrow> code (chr n) = n"
  by (simp add: code_def chr_def)

lemma code_lt [simp]: "code c < 256"
  by (simp add: code_def)

lemma code_inject [simp]: "code c = code d \<longleftrightarrow> c = d"
  by (simp add: code_def of_char_eq_iff)

lemma chr_code [simp]: "chr (code c) = c"
  by (simp add: code_def chr_def)

lemma code_eq_iff: "n < 256 \<Longrightarrow> code c = n \<longleftrightarrow> c = chr n"
  by (metis chr_code code_chr)

lemma chr_48: "chr 48 = CHR ''0''"
  by code_simp

definition is_digit :: "char \<Rightarrow> bool" where
  "is_digit c \<longleftrightarrow> 48 \<le> code c \<and> code c \<le> 57"

definition is_lower :: "char \<Rightarrow> bool" where
  "is_lower c \<longleftrightarrow> 97 \<le> code c \<and> code c \<le> 122"

text \<open>\<open>[a-z0-9]\<close> and \<open>[a-z0-9_]\<close>.\<close>

definition is_alnum_lower :: "char \<Rightarrow> bool" where
  "is_alnum_lower c \<longleftrightarrow> is_lower c \<or> is_digit c"

definition is_id_char :: "char \<Rightarrow> bool" where
  "is_id_char c \<longleftrightarrow> is_alnum_lower c \<or> c = CHR ''_''"

definition is_space :: "char \<Rightarrow> bool" where
  "is_space c \<longleftrightarrow> (9 \<le> code c \<and> code c \<le> 13) \<or> (28 \<le> code c \<and> code c \<le> 32)
     \<or> code c = 133 \<or> code c = 160"

definition lower_char :: "char \<Rightarrow> char" where
  "lower_char c =
     (let n = code c in
      if (65 \<le> n \<and> n \<le> 90) \<or> (192 \<le> n \<and> n \<le> 222 \<and> n \<noteq> 215) then chr (n + 32) else c)"

definition lower :: "string \<Rightarrow> string" where
  "lower s = map lower_char s"

definition strip_where :: "(char \<Rightarrow> bool) \<Rightarrow> string \<Rightarrow> string" where
  "strip_where p s = rev (dropWhile p (rev (dropWhile p s)))"

definition strip :: "string \<Rightarrow> string" where
  "strip s = strip_where is_space s"

lemma strip_where_subset: "set (strip_where p s) \<subseteq> set s"
  unfolding strip_where_def
  by (metis (no_types, lifting) set_dropWhileD set_rev subsetI)

lemma lower_char_idem [simp]: "lower_char (lower_char c) = lower_char c"
proof -
  have "code c < 256" by simp
  then show ?thesis by (auto simp: lower_char_def Let_def)
qed

lemma lower_idem [simp, string_simps]: "lower (lower s) = lower s"
  by (simp add: lower_def)

lemma lower_char_id: "is_id_char c \<Longrightarrow> lower_char c = c"
  by (auto simp: lower_char_def is_id_char_def is_alnum_lower_def is_lower_def is_digit_def Let_def
      code_def)

text \<open>
  \<open>re.fullmatch(r"[a-z][a-z0-9_]*", s)\<close>: the identifiers that are safe as ROS names.
\<close>

definition ros_safe :: "string \<Rightarrow> bool" where
  "ros_safe s \<longleftrightarrow> s \<noteq> [] \<and> is_lower (hd s) \<and> list_all is_id_char s"

lemma ros_safe_append: "ros_safe s \<Longrightarrow> list_all is_id_char t \<Longrightarrow> ros_safe (s @ t)"
  by (simp add: ros_safe_def)

text \<open>\<open>token in s\<close>, \<open>s.startswith(prefix)\<close>.\<close>

fun starts_with :: "string \<Rightarrow> string \<Rightarrow> bool" where
  "starts_with [] s = True"
| "starts_with (c # cs) [] = False"
| "starts_with (c # cs) (d # ds) = (c = d \<and> starts_with cs ds)"

fun contains :: "string \<Rightarrow> string \<Rightarrow> bool" where
  "contains t [] = (t = [])"
| "contains t (c # cs) = (starts_with t (c # cs) \<or> contains t cs)"

text \<open>\<open>s.split(sep)\<close> with a one-character separator, and \<open>sep.join(xs)\<close>.\<close>

fun split_on :: "char \<Rightarrow> string \<Rightarrow> string list" where
  "split_on c [] = [[]]"
| "split_on c (x # xs) =
     (if x = c then [] # split_on c xs
      else case split_on c xs of [] \<Rightarrow> [[x]] | y # ys \<Rightarrow> (x # y) # ys)"

fun join :: "string \<Rightarrow> string list \<Rightarrow> string" where
  "join sep [] = []"
| "join sep [x] = x"
| "join sep (x # y # ys) = x @ sep @ join sep (y # ys)"

lemma split_on_not_Nil [simp]: "split_on c s \<noteq> []"
  by (induction s) (auto split: list.splits)

lemma split_on_id: "c \<notin> set s \<Longrightarrow> split_on c s = [s]"
  by (induction s) auto

lemma split_on_append: "c \<notin> set s \<Longrightarrow> split_on c (s @ c # t) = s # split_on c t"
  by (induction s) auto

lemma split_on_join:
  "xs \<noteq> [] \<Longrightarrow> (\<And>x. x \<in> set xs \<Longrightarrow> c \<notin> set x) \<Longrightarrow> split_on c (join [c] xs) = xs"
proof (induction "[c]" xs rule: join.induct)
  case 1
  then show ?case by simp
next
  case (2 x)
  then show ?case by (simp add: split_on_id)
next
  case (3 x y ys)
  then show ?case by (simp add: split_on_append)
qed

text \<open>\<open>len(s.encode("utf-8"))\<close>.\<close>

definition utf8_length :: "string \<Rightarrow> nat" where
  "utf8_length s = sum_list (map (\<lambda>c. if code c < 128 then 1 else 2) s)"

subsection \<open>Decimal numbers\<close>

definition digit :: "nat \<Rightarrow> char" where
  "digit d = chr (48 + d)"

fun show_nat :: "nat \<Rightarrow> string" where
  "show_nat n = (if n < 10 then [digit n] else show_nat (n div 10) @ [digit (n mod 10)])"

declare show_nat.simps [simp del]

definition show_int :: "int \<Rightarrow> string" where
  "show_int i = (if i < 0 then CHR ''-'' # show_nat (nat (- i)) else show_nat (nat i))"

definition nat_of_digits :: "string \<Rightarrow> nat" where
  "nat_of_digits s = foldl (\<lambda>a c. 10 * a + (code c - 48)) 0 s"

lemma code_digit [simp]: "d < 10 \<Longrightarrow> code (digit d) = 48 + d"
  by (simp add: digit_def)

lemma is_digit_digit [simp]: "d < 10 \<Longrightarrow> is_digit (digit d)"
  by (simp add: is_digit_def)

lemma nat_of_digits_snoc: "nat_of_digits (s @ [c]) = 10 * nat_of_digits s + (code c - 48)"
  by (simp add: nat_of_digits_def)

lemma show_nat_digits: "list_all is_digit (show_nat n)"
proof (induction n rule: show_nat.induct)
  case (1 n)
  then show ?case
    by (cases "n < 10") (simp_all add: show_nat.simps [of n])
qed

lemma show_nat_not_Nil [simp]: "show_nat n \<noteq> []"
  by (simp add: show_nat.simps [of n])

lemma nat_of_show_nat [simp]: "nat_of_digits (show_nat n) = n"
proof (induction n rule: show_nat.induct)
  case (1 n)
  show ?case
  proof (cases "n < 10")
    case True
    then show ?thesis by (simp add: show_nat.simps [of n] nat_of_digits_def)
  next
    case False
    then show ?thesis
      using 1 by (simp add: show_nat.simps [of n] nat_of_digits_snoc)
  qed
qed

lemma show_nat_inject [simp]: "show_nat m = show_nat n \<longleftrightarrow> m = n"
  by (metis nat_of_show_nat)

lemma show_nat_no_leading_zero: "10 \<le> n \<Longrightarrow> hd (show_nat n) \<noteq> CHR ''0''"
proof (induction n rule: show_nat.induct)
  case (1 n)
  then have eq: "hd (show_nat n) = hd (show_nat (n div 10))"
    by (simp add: show_nat.simps [of n])
  show ?case
  proof (cases "n div 10 < 10")
    case True
    with 1 have "code (hd (show_nat n)) = 48 + n div 10"
      by (simp add: eq) (simp add: show_nat.simps [of "n div 10"])
    with 1 show ?thesis by (auto simp: code_def)
  next
    case False
    with 1 eq show ?thesis by simp
  qed
qed

lemma show_nat_length: "n < 10 ^ Suc k \<Longrightarrow> length (show_nat n) \<le> Suc k"
proof (induction k arbitrary: n)
  case 0
  then show ?case by (simp add: show_nat.simps [of n])
next
  case (Suc k)
  show ?case
  proof (cases "n < 10")
    case True
    then show ?thesis by (simp add: show_nat.simps [of n])
  next
    case False
    from Suc.prems have "n div 10 < 10 ^ Suc k" by (simp add: less_mult_imp_div_less mult.commute)
    then have "length (show_nat (n div 10)) \<le> Suc k" by (rule Suc.IH)
    with False show ?thesis by (simp add: show_nat.simps [of n])
  qed
qed

end
