(* ===== verification/Py_Value.thy ===== *)
theory Py_Value
  imports Prelude
begin

section \<open>Dynamic Python values\<close>

text \<open>
  The machine file, the inventory, observations and camera settings are trees of YAML/JSON
  values that the code inspects dynamically (\<open>isinstance\<close>, \<open>get\<close>, \<open>str()\<close>, \<open>int()\<close>,
  \<open>float()\<close>, truth value, \<open>==\<close>). This theory models those values and the built-in operations
  the code applies to them, exceptions included. \<open>copy.deepcopy\<close> is the identity, since
  HOL values are immutable.

  A finite float is the decimal number that its shortest \<open>repr\<close> prints:
  \<open>Dec m k\<close> is \<open>m / 10 ^ k\<close>; the code only compares, converts and prints floats
  that come from documents, so no rounding takes place. Mapping keys are strings.
\<close>

datatype pyfloat = Dec int nat | FInf | FNegInf | FNaN

datatype pyval =
    PNone
  | PBool bool
  | PInt int
  | PFloat pyfloat
  | PStr string
  | PList "pyval list"
  | PDict "(string \<times> pyval) list"

type_synonym pydict = "pyval dict"

subsection \<open>Floats\<close>

fun flt_lt :: "pyfloat \<Rightarrow> pyfloat \<Rightarrow> bool" where
  "flt_lt (Dec m k) (Dec n j) = (m * 10 ^ j < n * 10 ^ k)"
| "flt_lt (Dec m k) FInf = True"
| "flt_lt FNegInf (Dec n j) = True"
| "flt_lt FNegInf FInf = True"
| "flt_lt _ _ = False"

fun flt_eq :: "pyfloat \<Rightarrow> pyfloat \<Rightarrow> bool" where
  "flt_eq (Dec m k) (Dec n j) = (m * 10 ^ j = n * 10 ^ k)"
| "flt_eq FInf FInf = True"
| "flt_eq FNegInf FNegInf = True"
| "flt_eq _ _ = False"

definition flt_le :: "pyfloat \<Rightarrow> pyfloat \<Rightarrow> bool" where
  "flt_le x y \<longleftrightarrow> flt_lt x y \<or> flt_eq x y"

fun flt_val :: "pyfloat \<Rightarrow> rat option" where
  "flt_val (Dec m k) = Some (of_int m / 10 ^ k)"
| "flt_val _ = None"

lemma flt_lt_val: "flt_lt (Dec m k) (Dec n j) \<longleftrightarrow> (of_int m / 10 ^ k :: rat) < of_int n / 10 ^ j"
proof -
  have "(of_int m / 10 ^ k :: rat) < of_int n / 10 ^ j
    \<longleftrightarrow> of_int m * 10 ^ j < (of_int n * 10 ^ k :: rat)"
    by (simp add: field_simps)
  also have "\<dots> \<longleftrightarrow> (of_int (m * 10 ^ j) :: rat) < of_int (n * 10 ^ k)" by simp
  also have "\<dots> \<longleftrightarrow> m * 10 ^ j < n * 10 ^ k" by (rule of_int_less_iff)
  finally show ?thesis by simp
qed

fun dec_norm :: "int \<Rightarrow> nat \<Rightarrow> int \<times> nat" where
  "dec_norm m 0 = (m, 0)"
| "dec_norm m (Suc k) = (if m mod 10 = 0 then dec_norm (m div 10) k else (m, Suc k))"

definition float_repr :: "pyfloat \<Rightarrow> string" where
  "float_repr x = (case x of
      FInf \<Rightarrow> ''inf'' | FNegInf \<Rightarrow> ''-inf'' | FNaN \<Rightarrow> ''nan''
    | Dec m0 k0 \<Rightarrow>
       (let (m, k) = dec_norm m0 k0;
            s = show_nat (nat \<bar>m\<bar>);
            decpt = int (length s) - int k;
            sign = (if m < 0 then ''-'' else '''')
        in if m = 0 then ''0.0''
           else if -3 \<le> decpt \<and> decpt \<le> 16 then
             sign @ (if k = 0 then s @ ''.0''
                     else if 0 < decpt then take (nat decpt) s @ ''.'' @ drop (nat decpt) s
                     else ''0.'' @ replicate (nat (- decpt)) (CHR ''0'') @ s)
           else
             (let ds = rev (dropWhile (\<lambda>c. c = CHR ''0'') (rev s));
                  e = decpt - 1;
                  es = show_nat (nat \<bar>e\<bar>)
              in sign @ take 1 ds @ (if length ds = 1 then '''' else ''.'' @ drop 1 ds)
                 @ ''e'' @ (if e < 0 then ''-'' else ''+'')
                 @ (if length es < 2 then ''0'' @ es else es))))"

subsection \<open>\<open>repr\<close> and \<open>str\<close>\<close>

definition hex_digit :: "nat \<Rightarrow> char" where
  "hex_digit d = (if d < 10 then digit d else chr (87 + d))"

definition repr_char :: "char \<Rightarrow> char \<Rightarrow> string" where
  "repr_char q c =
     (if c = q \<or> code c = 92 then [chr 92, c]
      else if code c = 10 then [chr 92, CHR ''n'']
      else if code c = 13 then [chr 92, CHR ''r'']
      else if code c = 9 then [chr 92, CHR ''t'']
      else if code c < 32 \<or> (127 \<le> code c \<and> code c \<le> 160) \<or> code c = 173
        then [chr 92, CHR ''x'', hex_digit (code c div 16), hex_digit (code c mod 16)]
      else [c])"

definition str_repr :: "string \<Rightarrow> string" where
  "str_repr s =
     (let q = (if chr 39 \<in> set s \<and> chr 34 \<notin> set s then chr 34 else chr 39)
      in [q] @ concat (map (repr_char q) s) @ [q])"

fun py_repr :: "pyval \<Rightarrow> string" where
  "py_repr PNone = ''None''"
| "py_repr (PBool b) = (if b then ''True'' else ''False'')"
| "py_repr (PInt i) = show_int i"
| "py_repr (PFloat x) = float_repr x"
| "py_repr (PStr s) = str_repr s"
| "py_repr (PList xs) = ''['' @ join '', '' (map py_repr xs) @ '']''"
| "py_repr (PDict d) =
     ''{'' @ join '', '' (map (\<lambda>(k, v). str_repr k @ '': '' @ py_repr v) d) @ ''}''"

definition py_str :: "pyval \<Rightarrow> string" where
  "py_str v = (case v of PStr s \<Rightarrow> s | _ \<Rightarrow> py_repr v)"

lemma py_str_PStr [simp]: "py_str (PStr s) = s"
  by (simp add: py_str_def)

subsection \<open>Truth value, equality\<close>

fun truthy :: "pyval \<Rightarrow> bool" where
  "truthy PNone = False"
| "truthy (PBool b) = b"
| "truthy (PInt i) = (i \<noteq> 0)"
| "truthy (PFloat x) = (\<not> flt_eq x (Dec 0 0))"
| "truthy (PStr s) = (s \<noteq> [])"
| "truthy (PList xs) = (xs \<noteq> [])"
| "truthy (PDict d) = (d \<noteq> [])"

fun num_of :: "pyval \<Rightarrow> pyfloat option" where
  "num_of (PBool b) = Some (Dec (if b then 1 else 0) 0)"
| "num_of (PInt i) = Some (Dec i 0)"
| "num_of (PFloat x) = Some x"
| "num_of _ = None"

text \<open>\<open>==\<close>: numbers compare across types, dicts regardless of order.\<close>

fun py_eq :: "pyval \<Rightarrow> pyval \<Rightarrow> bool"
  and py_eq_list :: "pyval list \<Rightarrow> pyval list \<Rightarrow> bool"
  and py_eq_items :: "(string \<times> pyval) list \<Rightarrow> pydict \<Rightarrow> bool" where
  "py_eq (PStr s) w = (w = PStr s)"
| "py_eq PNone w = (w = PNone)"
| "py_eq (PList xs) w = (case w of PList ys \<Rightarrow> py_eq_list xs ys | _ \<Rightarrow> False)"
| "py_eq (PDict a) w =
     (case w of PDict b \<Rightarrow> length a = length b \<and> py_eq_items a b | _ \<Rightarrow> False)"
| "py_eq v w =
     (case (num_of v, num_of w) of (Some x, Some y) \<Rightarrow> flt_eq x y | _ \<Rightarrow> False)"
| "py_eq_list [] ys = (ys = [])"
| "py_eq_list (x # xs) ys =
     (case ys of [] \<Rightarrow> False | y # ys' \<Rightarrow> py_eq x y \<and> py_eq_list xs ys')"
| "py_eq_items [] b = True"
| "py_eq_items ((k, v) # a) b =
     ((case map_of b k of None \<Rightarrow> False | Some w \<Rightarrow> py_eq v w) \<and> py_eq_items a b)"

text \<open>\<open>len(xs) == len(set(xs))\<close> for hashable elements.\<close>

fun py_distinct :: "pyval list \<Rightarrow> bool" where
  "py_distinct [] = True"
| "py_distinct (x # xs) = (\<not> list_ex (py_eq x) xs \<and> py_distinct xs)"

fun hashable :: "pyval \<Rightarrow> bool" where
  "hashable (PList _) = False"
| "hashable (PDict _) = False"
| "hashable _ = True"

lemma py_distinct_strings [simp]: "py_distinct (map PStr xs) = distinct xs"
  by (induction xs) (auto simp: list_ex_iff)

lemma py_eq_list_strings [simp]:
  "py_eq_list (map PStr xs) ys \<longleftrightarrow> ys = map PStr xs"
  by (induction xs arbitrary: ys) (auto split: list.splits)

subsection \<open>\<open>int()\<close> and \<open>float()\<close>\<close>

definition digit_groups :: "string \<Rightarrow> string option" where
  "digit_groups s =
     (let gs = split_on (CHR ''_'') s
      in if list_all (\<lambda>g. g \<noteq> [] \<and> list_all is_digit g) gs then Some (concat gs) else None)"

definition split_sign :: "string \<Rightarrow> bool \<times> string" where
  "split_sign s = (case s of
      c # r \<Rightarrow> if c = CHR ''-'' then (True, r) else if c = CHR ''+'' then (False, r) else (False, s)
    | [] \<Rightarrow> (False, s))"

definition parse_int :: "string \<Rightarrow> int option" where
  "parse_int s =
     (let (neg, body) = split_sign (strip s)
      in map_option (\<lambda>ds. (if neg then -1 else 1) * int (nat_of_digits ds)) (digit_groups body))"

definition parse_mantissa :: "string \<Rightarrow> (nat \<times> nat) option" where
  "parse_mantissa s =
     (let part = (\<lambda>p. if p = [] then Some [] else digit_groups p) in
      case split_on (CHR ''.'') s of
        [i] \<Rightarrow> map_option (\<lambda>ds. (nat_of_digits ds, 0)) (digit_groups i)
      | [i, f] \<Rightarrow>
          (case (part i, part f) of
             (Some di, Some df) \<Rightarrow>
               if di = [] \<and> df = [] then None else Some (nat_of_digits (di @ df), length df)
           | _ \<Rightarrow> None)
      | _ \<Rightarrow> None)"

definition scale_dec :: "int \<Rightarrow> nat \<Rightarrow> int \<Rightarrow> pyfloat" where
  "scale_dec m k e =
     (if e \<le> int k then Dec m (nat (int k - e)) else Dec (m * 10 ^ nat (e - int k)) 0)"

definition parse_float :: "string \<Rightarrow> pyfloat option" where
  "parse_float s =
     (let (neg, body) = split_sign (lower (strip s)); sgn = (if neg then -1 else 1 :: int) in
      if body = ''inf'' \<or> body = ''infinity'' then Some (if neg then FNegInf else FInf)
      else if body = ''nan'' then Some FNaN
      else case split_on (CHR ''e'') body of
        [m] \<Rightarrow> map_option (\<lambda>(n, k). Dec (sgn * int n) k) (parse_mantissa m)
      | [m, e] \<Rightarrow>
          (let (eneg, edigits) = split_sign e in
           case (parse_mantissa m, digit_groups edigits) of
             (Some (n, k), Some ds) \<Rightarrow>
               Some (scale_dec (sgn * int n) k
                 ((if eneg then -1 else 1) * int (nat_of_digits ds)))
           | _ \<Rightarrow> None)
      | _ \<Rightarrow> None)"

fun py_int :: "pyval \<Rightarrow> int result" where
  "py_int (PInt i) = Inr i"
| "py_int (PBool b) = Inr (if b then 1 else 0)"
| "py_int (PFloat (Dec m k)) = Inr (sgn m * (\<bar>m\<bar> div 10 ^ k))"
| "py_int (PFloat FNaN) = Inl ValueErr"
| "py_int (PFloat _) = Inl OverflowErr"
| "py_int (PStr s) = or_raise (parse_int s) ValueErr"
| "py_int _ = Inl TypeErr"

fun py_float :: "pyval \<Rightarrow> pyfloat result" where
  "py_float (PFloat x) = Inr x"
| "py_float (PInt i) = Inr (Dec i 0)"
| "py_float (PBool b) = Inr (Dec (if b then 1 else 0) 0)"
| "py_float (PStr s) = or_raise (parse_float s) ValueErr"
| "py_float _ = Inl TypeErr"

subsection \<open>Mappings and sequences\<close>

fun is_dict :: "pyval \<Rightarrow> bool" where
  "is_dict (PDict _) = True"
| "is_dict _ = False"

fun is_list :: "pyval \<Rightarrow> bool" where
  "is_list (PList _) = True"
| "is_list _ = False"

fun is_str :: "pyval \<Rightarrow> bool" where
  "is_str (PStr _) = True"
| "is_str _ = False"

fun is_bool :: "pyval \<Rightarrow> bool" where
  "is_bool (PBool _) = True"
| "is_bool _ = False"

text \<open>The mapping a value is (callers test \<open>is_dict\<close> first, as the code does).\<close>

fun dict_of :: "pyval \<Rightarrow> pydict" where
  "dict_of (PDict d) = d"
| "dict_of _ = []"

fun list_of :: "pyval \<Rightarrow> pyval list" where
  "list_of (PList xs) = xs"
| "list_of _ = []"

text \<open>\<open>v[k]\<close>, \<open>v.get(k, d)\<close>, \<open>v.items()\<close>, \<open>list(v)\<close>.\<close>

fun py_index :: "pyval \<Rightarrow> string \<Rightarrow> pyval result" where
  "py_index (PDict d) k = or_raise (map_of d k) (KeyErr k)"
| "py_index _ k = Inl TypeErr"

fun py_get :: "pyval \<Rightarrow> string \<Rightarrow> pyval \<Rightarrow> pyval result" where
  "py_get (PDict d) k v = Inr (dget d k v)"
| "py_get _ k v = Inl AttrErr"

fun py_items :: "pyval \<Rightarrow> pydict result" where
  "py_items (PDict d) = Inr d"
| "py_items _ = Inl AttrErr"

fun py_list :: "pyval \<Rightarrow> pyval list result" where
  "py_list (PList xs) = Inr xs"
| "py_list (PStr s) = Inr (map (\<lambda>c. PStr [c]) s)"
| "py_list (PDict d) = Inr (map PStr (dkeys d))"
| "py_list _ = Inl TypeErr"

text \<open>The strings of a list value, and membership of a string in one.\<close>

definition str_of :: "pyval \<Rightarrow> string" where
  "str_of v = (case v of PStr s \<Rightarrow> s | _ \<Rightarrow> [])"

definition strings_of :: "pyval list \<Rightarrow> string list" where
  "strings_of xs = map str_of (filter is_str xs)"

lemma str_of_PStr [simp]: "str_of (PStr s) = s"
  by (simp add: str_of_def)

lemma strings_of_map [simp]: "strings_of (map PStr xs) = xs"
  by (induction xs) (auto simp: strings_of_def)

lemma is_dict_iff: "is_dict v \<longleftrightarrow> v = PDict (dict_of v)"
  by (cases v) auto

lemma is_list_iff: "is_list v \<longleftrightarrow> v = PList (list_of v)"
  by (cases v) auto

lemma is_str_iff: "is_str v \<longleftrightarrow> v = PStr (str_of v)"
  by (cases v) (auto simp: str_of_def)

lemma py_index_Inr [result_simps]: "py_index v k = Inr w \<longleftrightarrow> is_dict v \<and> map_of (dict_of v) k = Some w"
  by (cases v) (auto simp: result_simps)

lemma py_get_Inr [result_simps]: "py_get v k d = Inr w \<longleftrightarrow> is_dict v \<and> dget (dict_of v) k d = w"
  by (cases v) auto

text \<open>The \<open>isinstance\<close> tests of the code are a \<open>case\<close> on the value.\<close>

lemma dict_case_Inr [result_simps]:
  "(case v of PDict d \<Rightarrow> f d | _ \<Rightarrow> Inl e) = Inr r \<longleftrightarrow> (\<exists>d. v = PDict d \<and> f d = Inr r)"
  by (cases v) auto

subsection \<open>Items of a dictionary, one after another\<close>

text \<open>
  The loops \<open>for key, value in d.items(): ...\<close> that check or normalise each value in place:
  the body gets the loop's state \<open>s\<close> (what it has seen so far) and returns the new
  value and state.
\<close>

fun map_items ::
  "('s \<Rightarrow> string \<Rightarrow> 'v \<Rightarrow> ('w \<times> 's) result) \<Rightarrow> 's \<Rightarrow> 'v dict \<Rightarrow> 'w dict result" where
  "map_items f s [] = Inr []"
| "map_items f s ((k, v) # d) =
     bindR (f s k v) (\<lambda>(w, s'). bindR (map_items f s' d) (\<lambda>d'. Inr ((k, w) # d')))"

lemma map_items_keys: "map_items f s d = Inr d' \<Longrightarrow> dkeys d' = dkeys d"
  by (induction f s d arbitrary: d' rule: map_items.induct) (auto simp: result_simps)

lemma map_items_Cons [result_simps]:
  "map_items f s ((k, v) # d) = Inr d' \<longleftrightarrow>
     (\<exists>w s' d''. f s k v = Inr (w, s') \<and> map_items f s' d = Inr d'' \<and> d' = (k, w) # d'')"
  by (auto simp: result_simps)

text \<open>A body that accepts its own output makes the loop idempotent.\<close>

lemma map_items_idem:
  assumes "\<And>s k v w s'. f s k v = Inr (w, s') \<Longrightarrow> f s k w = Inr (w, s')"
    and "map_items f s d = Inr d'"
  shows "map_items f s d' = Inr d'"
  using assms(2)
proof (induction d arbitrary: s d')
  case Nil
  then show ?case by simp
next
  case (Cons p d)
  then show ?case
    by (cases p) (auto simp: map_items_Cons simp del: map_items.simps dest: assms(1))
qed

text \<open>What every iteration establishes holds of every item of the result.\<close>

lemma map_items_all:
  assumes "\<And>s k v w s'. f s k v = Inr (w, s') \<Longrightarrow> P k w"
    and "map_items f s d = Inr d'" and "(k, w) \<in> set d'"
  shows "P k w"
  using assms(2,3)
proof (induction d arbitrary: s d')
  case Nil
  then show ?case by simp
next
  case (Cons p d)
  then show ?case
    by (cases p) (auto simp: map_items_Cons simp del: map_items.simps dest: assms(1))
qed

text \<open>
  A list \<open>g k w\<close> of values recorded by each iteration, each compared by \<open>R\<close> with
  everything recorded before: the recorded values are pairwise related.
\<close>

lemma map_items_pairwise:
  assumes "\<And>s k v w s'. f s k v = Inr (w, s') \<Longrightarrow>
      (\<forall>x \<in> seen s. \<forall>y \<in> set (g k w). R x y) \<and> sorted_wrt R (g k w)
      \<and> seen s' = set (g k w) \<union> seen s"
    and "map_items f s d = Inr d'"
  shows "sorted_wrt R (concat (map (\<lambda>(k, w). g k w) d'))
    \<and> (\<forall>x \<in> seen s. \<forall>y \<in> set (concat (map (\<lambda>(k, w). g k w) d')). R x y)"
  using assms(2)
proof (induction d arbitrary: s d')
  case Nil
  then show ?case by simp
next
  case (Cons p d)
  then obtain k v w s' d'' where *: "p = (k, v)" "f s k v = Inr (w, s')" "map_items f s' d = Inr d''"
    "d' = (k, w) # d''" by (cases p) (auto simp: map_items_Cons simp del: map_items.simps)
  from Cons.IH [OF *(3)] assms(1) [OF *(2)] *(4) show ?case
    by (auto simp: sorted_wrt_append)
qed

lemma distinct_sorted_wrt_neq: "sorted_wrt (\<noteq>) xs \<longleftrightarrow> distinct xs"
  by (induction xs) auto

end
