(* ===== verification/Identity.thy ===== *)
theory Identity
  imports Py_Value
begin

section \<open>Sensor identity\<close>

text \<open>
  The pure functions at the head of \<^verbatim>\<open>registry.py\<close>: the ROS-safe sensor identifier made
  from provider and serial, the normalised MAC and vendor, and the hardware key by which
  one physical device is recognised whatever provider drives it.
\<close>

text \<open>\<open>re.sub(r"_+", "_", value)\<close>.\<close>

fun collapse :: "string \<Rightarrow> string" where
  "collapse [] = []"
| "collapse [c] = [c]"
| "collapse (c # d # cs) =
     (if c = CHR ''_'' \<and> d = CHR ''_'' then collapse (d # cs) else c # collapse (d # cs))"

definition is_underscore :: "char \<Rightarrow> bool" where
  "is_underscore c \<longleftrightarrow> c = CHR ''_''"

definition is_ascii_letter :: "char \<Rightarrow> bool" where
  "is_ascii_letter c \<longleftrightarrow> is_lower c \<or> (65 \<le> code c \<and> code c \<le> 90)"

definition stable_sensor_id :: "string \<Rightarrow> string \<Rightarrow> string" where
  "stable_sensor_id provider serial =
     (let raw = lower (provider @ ''_'' @ serial);
          v1 = map (\<lambda>c. if is_id_char c then c else CHR ''_'') raw;
          v2 = strip_where is_underscore (collapse v1)
      in if v2 = [] \<or> \<not> is_ascii_letter (hd v2) then ''sensor_'' @ v2 else v2)"

definition identity_part :: "pyval \<Rightarrow> string" where
  "identity_part v = filter is_alnum_lower (lower (py_str v))"

definition normalized_mac :: "pyval \<Rightarrow> string" where
  "normalized_mac v = (let compact = identity_part v in if length compact = 12 then compact else '''')"

definition vendor_aliases :: "string list" where
  "vendor_aliases = [''lucid'', ''ids'', ''basler'', ''alliedvision'', ''teledyneflir'']"

definition vendor_identity :: "pyval \<Rightarrow> string" where
  "vendor_identity v =
     (let normalized = identity_part v in
      case List.find (\<lambda>token. contains token normalized) vendor_aliases of
        Some canonical \<Rightarrow> canonical
      | None \<Rightarrow> normalized)"

text \<open>\<open>sensor.get("vendor", sensor.get("provider", ""))\<close>.\<close>

definition vendor_or_provider :: "pydict \<Rightarrow> pyval" where
  "vendor_or_provider sensor = dget sensor ''vendor'' (dget sensor ''provider'' (PStr ''''))"

definition hardware_key :: "pydict \<Rightarrow> string" where
  "hardware_key sensor =
     (let mac = normalized_mac (dget sensor ''mac_address'' (PStr '''')) in
      if mac \<noteq> '''' then ''mac:'' @ mac
      else ''vendor:'' @ vendor_identity (vendor_or_provider sensor) @ '':serial:''
             @ identity_part (dget sensor ''serial'' (PStr '''')))"

definition new_sensor_id :: "pydict \<Rightarrow> string result" where
  "new_sensor_id observation =
     (if py_eq (dget observation ''kind'' (PStr ''camera'')) (PStr ''camera'')
         \<and> map_of observation ''provider'' = Some (PStr ''genicam'')
      then
        (let vendor = dget observation ''vendor'' (dget observation ''provider'' (PStr ''camera'')) in
         bindR (py_index (PDict observation) ''serial'') (\<lambda>serial.
         Inr (stable_sensor_id (''camera_'' @ py_str vendor) (py_str serial))))
      else
        bindR (py_index (PDict observation) ''provider'') (\<lambda>provider.
        bindR (py_index (PDict observation) ''serial'') (\<lambda>serial.
        Inr (stable_sensor_id (py_str provider) (py_str serial)))))"

subsection \<open>Identifiers are ROS-safe and canonical\<close>

lemma set_collapse: "set (collapse s) \<subseteq> set s"
  by (induction s rule: collapse.induct) auto

lemma collapse_Nil_iff [simp]: "collapse s = [] \<longleftrightarrow> s = []"
  by (induction s rule: collapse.induct) auto

lemma is_id_char_letter: "is_id_char c \<Longrightarrow> is_ascii_letter c \<Longrightarrow> is_lower c"
  by (auto simp: is_id_char_def is_alnum_lower_def is_ascii_letter_def is_digit_def is_lower_def
      code_def)

lemma sensor_prefix_safe: "list_all is_id_char v \<Longrightarrow> ros_safe (''sensor_'' @ v)"
  by (rule ros_safe_append)
     (simp_all add: ros_safe_def is_id_char_def is_alnum_lower_def is_lower_def code_def)

lemma stable_sensor_id_safe: "ros_safe (stable_sensor_id provider serial)"
proof -
  define v2 where "v2 = strip_where is_underscore (collapse
    (map (\<lambda>c. if is_id_char c then c else CHR ''_'') (lower (provider @ ''_'' @ serial))))"
  have "set v2 \<subseteq> Collect is_id_char"
    unfolding v2_def using strip_where_subset set_collapse
    by (fastforce simp: is_id_char_def split: if_splits)
  then have v2: "list_all is_id_char v2" by (auto simp: list_all_iff)
  show ?thesis
  proof (cases "v2 = [] \<or> \<not> is_ascii_letter (hd v2)")
    case True
    then show ?thesis
      using sensor_prefix_safe [OF v2] by (simp add: stable_sensor_id_def Let_def v2_def)
  next
    case False
    with v2 have "ros_safe v2"
      by (cases v2) (auto simp: ros_safe_def is_id_char_letter)
    with False show ?thesis by (simp add: stable_sensor_id_def Let_def v2_def)
  qed
qed

lemma new_sensor_id_safe: "new_sensor_id obs = Inr sid \<Longrightarrow> ros_safe sid"
  by (auto simp: new_sensor_id_def result_simps stable_sensor_id_safe Let_def split: if_splits)

lemma new_sensor_id_total:
  "map_of obs ''provider'' = Some p \<Longrightarrow> map_of obs ''serial'' = Some s \<Longrightarrow> \<exists>sid. new_sensor_id obs = Inr sid"
  by (auto simp: new_sensor_id_def Let_def)

subsection \<open>Normalised parts\<close>

lemma identity_part_chars: "list_all is_alnum_lower (identity_part v)"
  by (simp add: identity_part_def list_all_iff)

lemma identity_part_idem [simp]: "identity_part (PStr (identity_part v)) = identity_part v"
proof -
  have "map lower_char s = s" if "list_all is_alnum_lower s" for s
    using that by (induction s) (auto simp: lower_char_id is_id_char_def)
  then have "lower (identity_part v) = identity_part v"
    by (simp add: lower_def identity_part_chars)
  then show ?thesis
    by (simp add: identity_part_def)
qed

lemma identity_part_py_str [simp]: "identity_part (PStr (py_str v)) = identity_part v"
  by (simp add: identity_part_def)

lemma vendor_identity_py_str [simp]: "vendor_identity (PStr (py_str v)) = vendor_identity v"
  by (simp add: vendor_identity_def)

lemma identity_part_Nil [simp]: "identity_part (PStr []) = []"
  by (simp add: identity_part_def lower_def)

lemma normalized_mac_Nil [simp]: "normalized_mac (PStr []) = []"
  by (simp add: normalized_mac_def)

lemma normalized_mac_chars: "list_all is_id_char (normalized_mac v)"
  using identity_part_chars [of v]
  by (auto simp: normalized_mac_def Let_def list_all_iff is_id_char_def)

lemma normalized_mac_length: "normalized_mac v \<noteq> [] \<Longrightarrow> length (normalized_mac v) = 12"
  by (auto simp: normalized_mac_def Let_def split: if_splits)

text \<open>
  The hardware key depends on four fields only, and on these only through their
  normalised form.
\<close>

lemma hardware_key_cong:
  assumes "map_of s ''mac_address'' = map_of t ''mac_address''"
    and "map_of s ''vendor'' = map_of t ''vendor''"
    and "map_of s ''provider'' = map_of t ''provider''"
    and "map_of s ''serial'' = map_of t ''serial''"
  shows "hardware_key s = hardware_key t"
  using assms [THEN dget_cong] by (simp add: hardware_key_def vendor_or_provider_def Let_def)

lemma hardware_key_mac:
  "normalized_mac (dget s ''mac_address'' (PStr [])) = m \<Longrightarrow> m \<noteq> [] \<Longrightarrow> hardware_key s = ''mac:'' @ m"
  by (simp add: hardware_key_def)

end
