(* ===== verification/Ip_Address.thy ===== *)
theory Ip_Address
  imports Py_Value
begin

section \<open>The part of \<^verbatim>\<open>ipaddress\<close> that the code uses\<close>

text \<open>
  \<open>ip_address\<close>, \<open>ip_interface\<close>, network membership and overlap, and the printed form of
  addresses and netmasks. An address is its integer value. IPv6 is kept because the code
  distinguishes an IPv6 address from an invalid string; scope identifiers are checked and
  dropped.

  The locale \<open>codec\<close> is the contract between a printed form and its parser; its
  interpretation for dotted-quad IPv4 is what lets the inventory compare addresses as
  strings.
\<close>

datatype ipaddr = IPv4 nat | IPv6 nat

record iface4 =
  if_ip :: nat
  if_plen :: nat

subsection \<open>Dotted quads\<close>

definition parse_octet :: "string \<Rightarrow> nat option" where
  "parse_octet s =
     (if s = [] \<or> \<not> list_all is_digit s \<or> 3 < length s \<or> (s \<noteq> ''0'' \<and> hd s = CHR ''0'')
         \<or> 255 < nat_of_digits s
      then None else Some (nat_of_digits s))"

definition parse_ipv4 :: "string \<Rightarrow> nat option" where
  "parse_ipv4 s = (case split_on (CHR ''.'') s of
      [a, b, c, d] \<Rightarrow>
        (case (parse_octet a, parse_octet b, parse_octet c, parse_octet d) of
           (Some w, Some x, Some y, Some z) \<Rightarrow> Some (((w * 256 + x) * 256 + y) * 256 + z)
         | _ \<Rightarrow> None)
    | _ \<Rightarrow> None)"

definition show_ipv4 :: "nat \<Rightarrow> string" where
  "show_ipv4 a = join ''.''
     [show_nat (a div 16777216), show_nat (a div 65536 mod 256), show_nat (a div 256 mod 256),
      show_nat (a mod 256)]"

subsection \<open>IPv6 syntax\<close>

definition hex_value :: "char \<Rightarrow> nat option" where
  "hex_value c =
     (if is_digit c then Some (code c - 48)
      else if 97 \<le> code c \<and> code c \<le> 102 then Some (code c - 87)
      else if 65 \<le> code c \<and> code c \<le> 70 then Some (code c - 55)
      else None)"

fun hex_digits :: "nat \<Rightarrow> string \<Rightarrow> nat option" where
  "hex_digits a [] = Some a"
| "hex_digits a (c # s) = (case hex_value c of None \<Rightarrow> None | Some d \<Rightarrow> hex_digits (16 * a + d) s)"

definition parse_hextet :: "string \<Rightarrow> nat option" where
  "parse_hextet s = (if s = [] \<or> 4 < length s then None else hex_digits 0 s)"

fun hextets :: "nat \<Rightarrow> string list \<Rightarrow> nat option" where
  "hextets a [] = Some a"
| "hextets a (p # ps) =
     (case parse_hextet p of None \<Rightarrow> None | Some h \<Rightarrow> hextets (65536 * a + h) ps)"

text \<open>The positions \<open>1 .. len - 2\<close> holding an empty part (a \<open>::\<close> in the text).\<close>

definition empty_inner :: "string list \<Rightarrow> nat list" where
  "empty_inner parts = filter (\<lambda>i. parts ! i = []) [1..<length parts - 1]"

definition parse_ipv6_parts :: "string list \<Rightarrow> nat option" where
  "parse_ipv6_parts parts =
     (if 9 < length parts then None
      else case empty_inner parts of
        [] \<Rightarrow> if length parts \<noteq> 8 then None else hextets 0 parts
      | [i] \<Rightarrow>
          (let hi0 = i; lo0 = length parts - i - 1;
               hi = (if hd parts = [] then hi0 - 1 else hi0);
               lo = (if last parts = [] then lo0 - 1 else lo0)
           in if (hd parts = [] \<and> hi \<noteq> 0) \<or> (last parts = [] \<and> lo \<noteq> 0) \<or> 8 \<le> hi + lo then None
              else case hextets 0 (take hi parts) of
                None \<Rightarrow> None
              | Some a \<Rightarrow> hextets (a * 65536 ^ (8 - (hi + lo))) (drop (length parts - lo) parts))
      | _ \<Rightarrow> None)"

definition show_hextet :: "nat \<Rightarrow> string" where
  "show_hextet n =
     [hex_digit (n div 4096 mod 16), hex_digit (n div 256 mod 16),
      hex_digit (n div 16 mod 16), hex_digit (n mod 16)]"

definition parse_ipv6 :: "string \<Rightarrow> nat option" where
  "parse_ipv6 s0 =
     (let zs = split_on (CHR ''%'') s0; s = hd zs; parts = split_on (CHR '':'') s in
      if CHR ''/'' \<in> set s0 \<or> 2 < length zs \<or> (length zs = 2 \<and> zs ! 1 = []) \<or> length parts < 3
      then None
      else if CHR ''.'' \<in> set (last parts) then
        (case parse_ipv4 (last parts) of
           None \<Rightarrow> None
         | Some v \<Rightarrow>
             parse_ipv6_parts (butlast parts @ [show_hextet (v div 65536), show_hextet (v mod 65536)]))
      else parse_ipv6_parts parts)"

definition ip_address :: "string \<Rightarrow> ipaddr result" where
  "ip_address s = (case parse_ipv4 s of
      Some a \<Rightarrow> Inr (IPv4 a)
    | None \<Rightarrow> (case parse_ipv6 s of Some a \<Rightarrow> Inr (IPv6 a) | None \<Rightarrow> Inl ValueErr))"

subsection \<open>Interfaces and networks\<close>

definition netmask :: "nat \<Rightarrow> nat" where
  "netmask p = 2 ^ 32 - 2 ^ (32 - p)"

definition parse_prefix :: "string \<Rightarrow> nat option" where
  "parse_prefix s =
     (if s \<noteq> [] \<and> list_all is_digit s \<and> nat_of_digits s \<le> 32 then Some (nat_of_digits s)
      else case parse_ipv4 s of
        None \<Rightarrow> None
      | Some m \<Rightarrow>
          (case List.find (\<lambda>p. netmask p = m) [0..<33] of
             Some p \<Rightarrow> Some p
           | None \<Rightarrow> List.find (\<lambda>p. netmask p = 4294967295 - m) [0..<33]))"

definition parse_iface4 :: "string \<Rightarrow> iface4 option" where
  "parse_iface4 s = (case split_on (CHR ''/'') s of
      [a] \<Rightarrow> map_option (\<lambda>ip. \<lparr>if_ip = ip, if_plen = 32\<rparr>) (parse_ipv4 a)
    | [a, m] \<Rightarrow>
        (case (parse_ipv4 a, parse_prefix m) of
           (Some ip, Some p) \<Rightarrow> Some \<lparr>if_ip = ip, if_plen = p\<rparr>
         | _ \<Rightarrow> None)
    | _ \<Rightarrow> None)"

definition valid_iface6 :: "string \<Rightarrow> bool" where
  "valid_iface6 s = (case split_on (CHR ''/'') s of
      [a] \<Rightarrow> parse_ipv6 a \<noteq> None
    | [a, m] \<Rightarrow> parse_ipv6 a \<noteq> None \<and> m \<noteq> [] \<and> list_all is_digit m \<and> nat_of_digits m \<le> 128
    | _ \<Rightarrow> False)"

text \<open>\<open>ip_interface(s)\<close>: \<open>Inr None\<close> is an IPv6 interface.\<close>

definition ip_interface :: "string \<Rightarrow> iface4 option result" where
  "ip_interface s = (case parse_iface4 s of
      Some h \<Rightarrow> Inr (Some h)
    | None \<Rightarrow> if valid_iface6 s then Inr None else Inl ValueErr)"

definition net_size :: "iface4 \<Rightarrow> nat" where
  "net_size h = 2 ^ (32 - if_plen h)"

definition net_addr :: "iface4 \<Rightarrow> nat" where
  "net_addr h = if_ip h - if_ip h mod net_size h"

definition net_broadcast :: "iface4 \<Rightarrow> nat" where
  "net_broadcast h = net_addr h + net_size h - 1"

definition in_net :: "nat \<Rightarrow> iface4 \<Rightarrow> bool" where
  "in_net a h \<longleftrightarrow> a - a mod net_size h = net_addr h"

fun addr_in_net :: "ipaddr \<Rightarrow> iface4 \<Rightarrow> bool" where
  "addr_in_net (IPv4 a) h = in_net a h"
| "addr_in_net (IPv6 _) h = False"

text \<open>\<open>network.overlaps(other)\<close>.\<close>

definition net_overlaps :: "iface4 \<Rightarrow> iface4 \<Rightarrow> bool" where
  "net_overlaps g h \<longleftrightarrow>
     in_net (net_addr h) g \<or> in_net (net_broadcast h) g \<or> in_net (net_addr g) h
     \<or> in_net (net_broadcast g) h"

definition show_netmask :: "iface4 \<Rightarrow> string" where
  "show_netmask h = show_ipv4 (netmask (if_plen h))"

text \<open>\<open>str(interface)\<close> and \<open>str(interface.network)\<close>.\<close>

definition show_iface :: "iface4 \<Rightarrow> string" where
  "show_iface h = show_ipv4 (if_ip h) @ ''/'' @ show_nat (if_plen h)"

definition show_net :: "iface4 \<Rightarrow> string" where
  "show_net h = show_ipv4 (net_addr h) @ ''/'' @ show_nat (if_plen h)"

subsection \<open>Printing and parsing agree\<close>

locale codec =
  fixes print :: "'a \<Rightarrow> string"
    and parse :: "string \<Rightarrow> 'a option"
    and valid :: "'a \<Rightarrow> bool"
  assumes parse_print: "valid x \<Longrightarrow> parse (print x) = Some x"
    and parse_canonical: "parse s = Some x \<Longrightarrow> valid x \<and> print x = s"
begin

lemma print_inject: "valid x \<Longrightarrow> valid y \<Longrightarrow> print x = print y \<Longrightarrow> x = y"
  by (metis option.inject parse_print)

lemma parse_inject: "parse s = Some x \<Longrightarrow> parse t = Some x \<Longrightarrow> s = t"
  using parse_canonical by metis

lemma parse_range: "(\<exists>s. parse s = Some x) \<longleftrightarrow> valid x"
  using parse_print parse_canonical by blast

end

lemma is_digit_bounds: "is_digit c \<Longrightarrow> 48 \<le> code c \<and> code c - 48 < 10"
  unfolding is_digit_def by arith

lemma is_digit_digit_of: "is_digit c \<Longrightarrow> digit (code c - 48) = c"
proof -
  assume "is_digit c"
  then have "code c - 48 < 10" and "48 \<le> code c" by (auto dest: is_digit_bounds)
  then have "code (digit (code c - 48)) = code c" by simp
  then show ?thesis by (simp only: code_inject)
qed

lemma nat_of_digits_pos:
  "list_all is_digit s \<Longrightarrow> s \<noteq> [] \<Longrightarrow> hd s \<noteq> CHR ''0'' \<Longrightarrow> 0 < nat_of_digits s"
proof (induction s rule: rev_induct)
  case Nil
  then show ?case by simp
next
  case (snoc c s)
  show ?case
  proof (cases s)
    case Nil
    with snoc.prems have "is_digit c" "code c \<noteq> 48"
      by (auto simp: code_eq_iff chr_48)
    with Nil show ?thesis by (simp add: nat_of_digits_def is_digit_def)
  next
    case (Cons d t)
    with snoc have "0 < nat_of_digits s" by simp
    then show ?thesis by (simp add: nat_of_digits_snoc)
  qed
qed

text \<open>A digit string without leading zero is the printed form of its value.\<close>

lemma show_nat_of_digits:
  "list_all is_digit s \<Longrightarrow> s \<noteq> [] \<Longrightarrow> s = ''0'' \<or> hd s \<noteq> CHR ''0'' \<Longrightarrow> show_nat (nat_of_digits s) = s"
proof (induction s rule: rev_induct)
  case Nil
  then show ?case by simp
next
  case (snoc c s)
  have c: "is_digit c" using snoc.prems by simp
  show ?case
  proof (cases "s = []")
    case True
    moreover have "code c - 48 < 10" using c by (auto dest: is_digit_bounds)
    ultimately show ?thesis using c
      by (simp add: nat_of_digits_def show_nat.simps [of "code c - 48"] is_digit_digit_of)
  next
    case False
    with snoc.prems have hd: "hd s \<noteq> CHR ''0''" and dig: "list_all is_digit s" by auto
    have pos: "0 < nat_of_digits s" using dig False hd by (rule nat_of_digits_pos)
    have lt: "code c - 48 < 10" using c by (auto dest: is_digit_bounds)
    have "nat_of_digits (s @ [c]) div 10 = nat_of_digits s"
      and "nat_of_digits (s @ [c]) mod 10 = code c - 48"
      using lt by (simp_all add: nat_of_digits_snoc)
    moreover have "\<not> nat_of_digits (s @ [c]) < 10" using pos by (simp add: nat_of_digits_snoc)
    ultimately show ?thesis
      using snoc.IH dig False hd c
      by (simp add: show_nat.simps [of "nat_of_digits (s @ [c])"] is_digit_digit_of)
  qed
qed

lemma parse_octet_show: "n < 256 \<Longrightarrow> parse_octet (show_nat n) = Some n"
proof -
  assume n: "n < 256"
  have "length (show_nat n) \<le> Suc 2" by (rule show_nat_length) (use n in simp)
  moreover have "show_nat n = ''0'' \<or> hd (show_nat n) \<noteq> CHR ''0''"
  proof (cases "n < 10")
    case True
    have "n = 0 \<or> digit n \<noteq> CHR ''0''"
    proof (cases "n = 0")
      case False
      with True have "code (digit n) \<noteq> 48" by simp
      then show ?thesis by (auto simp: code_eq_iff chr_48)
    qed simp
    moreover have "digit 0 = CHR ''0''" by (simp add: digit_def chr_48)
    ultimately show ?thesis using True by (auto simp: show_nat.simps [of n])
  next
    case False
    then show ?thesis by (simp add: show_nat_no_leading_zero)
  qed
  ultimately show ?thesis using n by (auto simp: parse_octet_def show_nat_digits)
qed

lemma parse_octet_Some:
  "parse_octet s = Some n \<longleftrightarrow> n < 256 \<and> s = show_nat n"
proof
  assume "parse_octet s = Some n"
  then show "n < 256 \<and> s = show_nat n"
    using show_nat_of_digits [of s]
    by (auto simp: parse_octet_def split: if_splits)
qed (auto simp: parse_octet_show)

lemma dot_not_in_show_nat: "CHR ''.'' \<notin> set (show_nat n)"
proof
  assume "CHR ''.'' \<in> set (show_nat n)"
  with show_nat_digits [of n] have "is_digit (CHR ''.'')" by (simp add: list_all_iff)
  then show False by (simp add: is_digit_def code_def)
qed

lemma split_show_ipv4:
  "split_on (CHR ''.'') (show_ipv4 a) =
     [show_nat (a div 16777216), show_nat (a div 65536 mod 256), show_nat (a div 256 mod 256),
      show_nat (a mod 256)]"
  unfolding show_ipv4_def by (rule split_on_join) (auto simp: dot_not_in_show_nat)

lemma quad_value:
  "(((a div 16777216 * 256 + a div 65536 mod 256) * 256 + a div 256 mod 256) * 256 + a mod 256) = (a::nat)"
proof -
  have "a div 65536 = a div 256 div 256" "a div 16777216 = a div 65536 div 256"
    by (simp_all flip: div_mult2_eq)
  then show ?thesis by simp
qed

lemma parse_show_ipv4: "a < 4294967296 \<Longrightarrow> parse_ipv4 (show_ipv4 a) = Some a"
  using quad_value [of a]
  by (simp add: parse_ipv4_def split_show_ipv4 parse_octet_show less_mult_imp_div_less del: distrib_right)

lemma join_split: "join [c] (split_on c s) = s"
proof (induction s)
  case (Cons x s)
  obtain y ys where ys: "split_on c s = y # ys" by (cases "split_on c s") auto
  show ?case
  proof (cases ys)
    case Nil
    with Cons ys show ?thesis by auto
  next
    case (Cons z zs)
    with Cons.IH ys show ?thesis by auto
  qed
qed simp

lemma parse_ipv4_canonical: "parse_ipv4 s = Some a \<Longrightarrow> a < 4294967296 \<and> show_ipv4 a = s"
proof -
  assume "parse_ipv4 s = Some a"
  then obtain w x y z where
    s: "split_on (CHR ''.'') s = [show_nat w, show_nat x, show_nat y, show_nat z]"
    and lt: "w < 256" "x < 256" "y < 256" "z < 256"
    and a: "a = ((w * 256 + x) * 256 + y) * 256 + z"
    by (auto simp: parse_ipv4_def parse_octet_Some split: list.splits option.splits)
  have m: "(r + q * 256) mod 256 = r" "(r + q * 256) div 256 = q" if "r < 256" for r q :: nat
    using that by simp_all
  have "a = z + ((w * 256 + x) * 256 + y) * 256" using a by simp
  then have z: "a mod 256 = z" "a div 256 = (w * 256 + x) * 256 + y"
    by (simp_all only: m [OF lt(4)])
  have "a div 65536 = a div 256 div 256" "a div 16777216 = a div 65536 div 256"
    by (simp_all flip: div_mult2_eq)
  moreover have "a div 256 = y + (w * 256 + x) * 256" using z by simp
  then have y: "a div 256 mod 256 = y" "a div 256 div 256 = w * 256 + x" by (simp_all only: m [OF lt(3)])
  moreover have "a div 256 div 256 = x + w * 256" using y by simp
  then have "a div 256 div 256 mod 256 = x" "a div 256 div 256 div 256 = w" by (simp_all only: m [OF lt(2)])
  ultimately have "a div 16777216 = w" "a div 65536 mod 256 = x" "a div 256 mod 256 = y" "a mod 256 = z"
    using z by simp_all
  moreover have "s = join ''.'' [show_nat w, show_nat x, show_nat y, show_nat z]"
    using join_split [of "CHR ''.''" s] s by simp
  ultimately show ?thesis using lt a by (simp add: show_ipv4_def)
qed

interpretation ipv4: codec show_ipv4 parse_ipv4 "\<lambda>a. a < 4294967296"
  by unfold_locales (auto simp: parse_show_ipv4 dest: parse_ipv4_canonical)

lemma ip_address_IPv4 [result_simps]: "ip_address s = Inr (IPv4 a) \<longleftrightarrow> parse_ipv4 s = Some a"
  by (auto simp: ip_address_def split: option.splits)

lemma ip_address_show [simp]: "a < 4294967296 \<Longrightarrow> ip_address (show_ipv4 a) = Inr (IPv4 a)"
  by (simp add: ip_address_def parse_show_ipv4)

text \<open>A caller that accepts only IPv4 interfaces.\<close>

lemma ip_interface_case_Inr [result_simps]:
  "bindR (ip_interface x) (\<lambda>i. case i of None \<Rightarrow> Inl e | Some h \<Rightarrow> f h) = Inr r \<longleftrightarrow>
     (\<exists>h. parse_iface4 x = Some h \<and> f h = Inr r)"
  by (auto simp: ip_interface_def split: option.splits)

lemma ip_address_in_net:
  "(\<exists>p. ip_address x = Inr p \<and> addr_in_net p h \<and> P p) \<longleftrightarrow>
     (\<exists>a. parse_ipv4 x = Some a \<and> in_net a h \<and> P (IPv4 a))"
proof
  assume "\<exists>p. ip_address x = Inr p \<and> addr_in_net p h \<and> P p"
  then obtain p where "ip_address x = Inr p" "addr_in_net p h" "P p" by blast
  then show "\<exists>a. parse_ipv4 x = Some a \<and> in_net a h \<and> P (IPv4 a)"
    by (cases p) (auto simp: ip_address_IPv4)
next
  assume "\<exists>a. parse_ipv4 x = Some a \<and> in_net a h \<and> P (IPv4 a)"
  then show "\<exists>p. ip_address x = Inr p \<and> addr_in_net p h \<and> P p"
    by (metis addr_in_net.simps(1) ip_address_IPv4)
qed

subsection \<open>Networks as address ranges\<close>

lemma net_size_pos [simp]: "0 < net_size h"
  by (simp add: net_size_def)

lemma net_addr_mult: "net_addr h = net_size h * (if_ip h div net_size h)"
  by (simp add: net_addr_def minus_mod_eq_mult_div)

lemma in_net_div: "in_net a h \<longleftrightarrow> a div net_size h = if_ip h div net_size h"
  by (auto simp: in_net_def net_addr_def minus_mod_eq_mult_div)

lemma div_nat_eqI_iff: "(0::nat) < n \<Longrightarrow> a div n = q \<longleftrightarrow> q * n \<le> a \<and> a < Suc q * n"
  using div_nat_eqI [of n q a] dividend_less_div_times [of n a] div_times_less_eq_dividend [of a n]
  by (auto simp: mult.commute)

lemma in_net_iff: "in_net a h \<longleftrightarrow> net_addr h \<le> a \<and> a \<le> net_broadcast h"
proof -
  let ?n = "net_size h" and ?q = "if_ip h div net_size h"
  have "a div ?n = ?q \<longleftrightarrow> ?q * ?n \<le> a \<and> a < Suc ?q * ?n"
    by (rule div_nat_eqI_iff) simp
  moreover have "a < Suc ?q * ?n \<longleftrightarrow> a \<le> ?q * ?n + ?n - 1"
    using net_size_pos [of h] by (simp del: net_size_pos) arith
  ultimately show ?thesis
    by (simp add: in_net_div net_addr_mult net_broadcast_def mult.commute)
qed

lemma host_in_net: "in_net (if_ip h) h"
  by (simp add: in_net_div)

text \<open>Two networks overlap exactly when they share an address.\<close>

lemma net_overlaps_iff: "net_overlaps g h \<longleftrightarrow> (\<exists>a. in_net a g \<and> in_net a h)"
proof -
  have "net_addr g \<le> net_broadcast g" "net_addr h \<le> net_broadcast h"
    using net_size_pos [of g] net_size_pos [of h] by (simp_all add: net_broadcast_def del: net_size_pos)
  moreover have "\<exists>a. in_net a g \<and> in_net a h \<Longrightarrow>
      in_net (max (net_addr g) (net_addr h)) g \<and> in_net (max (net_addr g) (net_addr h)) h"
    using calculation by (auto simp: in_net_iff)
  ultimately show ?thesis
    unfolding net_overlaps_def by (auto simp: in_net_iff max_def split: if_splits)
qed

end
