(* ===== verification/Machine_Config.thy ===== *)
theory Machine_Config
  imports Identity Ip_Address
begin

section \<open>The static machine configuration\<close>

text \<open>
  \<^verbatim>\<open>validate_machine\<close> of \<^verbatim>\<open>registry.py\<close>: schema check, defaults, the migration of the
  legacy \<open>providers.lucid\<close> section, range checks on the recording and default settings,
  and the checks of every managed network (approval, interface, subnet, address pool,
  capacities). A validated machine satisfies \<open>valid_machine\<close>, which the registry and the
  manager rely on.
\<close>

definition valid_network_modes :: "string list" where
  "valid_network_modes = [''direct'', ''switched'']"

definition valid_operating_modes :: "string list" where
  "valid_operating_modes = [''idle'', ''preview'', ''capture'']"

definition valid_missing_policies :: "string list" where
  "valid_missing_policies = [''strict'', ''degraded'']"

definition valid_catalog_states :: "string list" where
  "valid_catalog_states = [''observed'', ''enrolled'', ''archived'', ''retired'']"

text \<open>\<open>lo <= int(section[key]) <= hi\<close>, or the section's error message.\<close>

definition check_int :: "pydict \<Rightarrow> string \<Rightarrow> (int \<Rightarrow> bool) \<Rightarrow> string \<Rightarrow> unit result" where
  "check_int section key ok msg =
     bindR (py_index (PDict section) key) (\<lambda>v.
     bindR (py_int v) (\<lambda>i. if ok i then Inr () else Inl (RegistryError msg)))"

text \<open>\<open>except (KeyError, ValueError) as error: raise RegistryError(...)\<close>.\<close>

fun key_or_value_error :: "'a result \<Rightarrow> string \<Rightarrow> 'a result" where
  "key_or_value_error (Inl (KeyErr _)) msg = Inl (RegistryError msg)"
| "key_or_value_error (Inl ValueErr) msg = Inl (RegistryError msg)"
| "key_or_value_error r msg = r"

lemma key_or_value_error_Inr [result_simps]: "key_or_value_error r msg = Inr x \<longleftrightarrow> r = Inr x"
  by (cases "(r, msg)" rule: key_or_value_error.cases) auto

subsection \<open>Sections other than the networks\<close>

definition machine_sections :: "pydict \<Rightarrow> pydict" where
  "machine_sections data =
     setdefaults
       [(''managed_networks'', PDict []), (''providers'', PDict []), (''recording'', PDict []),
        (''camera_profiles'', PDict []), (''defaults'', PDict [])]
       (dset ''schema_version'' (PInt 1) data)"

definition validate_profile_paths :: "pydict \<Rightarrow> pydict result" where
  "validate_profile_paths section =
     (let cp = setdefaults
         [(''directory'', PStr ''/etc/vixel/camera-profiles''),
          (''managed_file'', PStr ''/var/lib/vixel/camera-profiles.yaml'')] section in
      if strip (py_str (dget cp ''directory'' PNone)) = [] then
        Inl (RegistryError ''camera_profiles.directory must not be empty'')
      else if strip (py_str (dget cp ''managed_file'' PNone)) = [] then
        Inl (RegistryError ''camera_profiles.managed_file must not be empty'')
      else Inr cp)"

definition migrate_lucid_provider :: "pydict \<Rightarrow> pydict result" where
  "migrate_lucid_provider providers =
     (case map_of providers ''lucid'' of
        Some (PDict legacy) \<Rightarrow>
          if dhas providers ''genicam'' then Inr providers
          else
            (let legacy_imaging =
                   (case dget legacy ''imaging'' (PDict []) of PDict d \<Rightarrow> d | _ \<Rightarrow> []) in
             bindR (py_int (dget legacy ''image_timeout_ms'' (PInt 1000))) (\<lambda>timeout.
             Inr (dset ''genicam'' (PDict
               [(''vendor_allowlist'', PList []),
                (''discovery_period_ms'', dget legacy ''discovery_period_ms'' (PInt 2000)),
                (''image_timeout_ms'', PInt (min timeout 1000)),
                (''buffer_count'', PInt 16),
                (''socket_buffer_bytes'', PInt 33554432),
                (''stream_restart_error_threshold'', PInt 10),
                (''stream_restart_window_ms'', PInt 30000),
                (''stream_restart_backoff_ms'', PInt 30000),
                (''stream_health_log_period_ms'', PInt 60000),
                (''imaging'', PDict (setdefault ''frame_rate_hz'' (PFloat (Dec 10 0)) legacy_imaging))])
               (dpop ''lucid'' providers))))
      | _ \<Rightarrow> Inr providers)"

definition imaging_defaults :: pydict where
  "imaging_defaults =
     [(''pixel_format'', PStr ''BGR8''), (''use_max_width'', PBool True),
      (''use_max_height'', PBool True), (''exposure_auto'', PStr ''Continuous''),
      (''exposure_time_us'', PFloat (Dec 1000 0)), (''gain_auto'', PStr ''Continuous''),
      (''gain_db'', PFloat (Dec 0 0)), (''frame_rate_hz'', PFloat (Dec 10 0))]"

definition validate_providers :: "pydict \<Rightarrow> pydict result" where
  "validate_providers providers0 =
     bindR (migrate_lucid_provider providers0) (\<lambda>providers1.
     (let providers = setdefault ''genicam'' (PDict []) providers1 in
      case dget providers ''genicam'' PNone of
        PDict genicam0 \<Rightarrow>
          (let genicam1 = setdefault ''imaging'' (PDict []) genicam0 in
           case dget genicam1 ''imaging'' PNone of
             PDict imaging \<Rightarrow>
               Inr (dset ''genicam''
                 (PDict (setdefault ''capture_png_compression'' (PInt 1)
                   (dset ''imaging'' (PDict (setdefaults imaging_defaults imaging)) genicam1)))
                 providers)
           | _ \<Rightarrow> Inl (RegistryError ''providers.genicam.imaging must be a mapping''))
      | _ \<Rightarrow> Inl (RegistryError ''providers.genicam must be a mapping'')))"

definition recording_defaults :: pydict where
  "recording_defaults =
     [(''root_directory'', PStr ''/var/lib/vixel/captures''),
      (''minimum_free_bytes'', PInt (5 * 1024 * 1024 * 1024)),
      (''capture_timeout_ms'', PInt 10000), (''recent_limit'', PInt 100),
      (''operation_history_limit'', PInt 100), (''operation_capture_id_limit'', PInt 100),
      (''max_active_operations'', PInt 64), (''capture_session_ttl_ms'', PInt 15000)]"

definition validate_recording :: "pydict \<Rightarrow> pydict result" where
  "validate_recording section =
     (let r = setdefaults recording_defaults section in
      if strip (py_str (dget r ''root_directory'' PNone)) = [] then
        Inl (RegistryError ''recording.root_directory must not be empty'')
      else
        bindR (check_int r ''minimum_free_bytes'' (\<lambda>i. 0 \<le> i)
          ''recording.minimum_free_bytes must not be negative'') (\<lambda>_.
        bindR (check_int r ''capture_timeout_ms'' (\<lambda>i. 1000 \<le> i \<and> i \<le> 60000)
          ''recording.capture_timeout_ms must be between 1000 and 60000'') (\<lambda>_.
        bindR (check_int r ''recent_limit'' (\<lambda>i. 1 \<le> i \<and> i \<le> 1000)
          ''recording.recent_limit must be between 1 and 1000'') (\<lambda>_.
        bindR (check_int r ''operation_history_limit'' (\<lambda>i. 1 \<le> i \<and> i \<le> 1000)
          ''recording.operation_history_limit must be between 1 and 1000'') (\<lambda>_.
        bindR (check_int r ''operation_capture_id_limit'' (\<lambda>i. 1 \<le> i \<and> i \<le> 1000)
          ''recording.operation_capture_id_limit must be between 1 and 1000'') (\<lambda>_.
        bindR (check_int r ''max_active_operations'' (\<lambda>i. 1 \<le> i \<and> i \<le> 256)
          ''recording.max_active_operations must be between 1 and 256'') (\<lambda>_.
        bindR (check_int r ''capture_session_ttl_ms'' (\<lambda>i. 5000 \<le> i \<and> i \<le> 300000)
          ''recording.capture_session_ttl_ms must be between 5000 and 300000'') (\<lambda>_.
        Inr r))))))))"

definition machine_defaults :: pydict where
  "machine_defaults =
     [(''preview_rate_hz'', PFloat (Dec 2 0)), (''preview_width'', PInt 960),
      (''jpeg_quality'', PInt 70), (''startup_mode'', PStr ''idle'')]"

definition preview_rate_ok :: "pyfloat \<Rightarrow> bool" where
  "preview_rate_ok x \<longleftrightarrow> flt_lt (Dec 0 0) x \<and> flt_le x (Dec 10 0)"

definition validate_defaults :: "pyval \<Rightarrow> pydict result" where
  "validate_defaults v =
     (case v of
        PDict section \<Rightarrow>
          (let d = setdefaults machine_defaults section; mode = dget d ''startup_mode'' PNone in
           if \<not> hashable mode then Inl TypeErr
           else if mode \<notin> PStr ` set valid_operating_modes then
             Inl (RegistryError ''defaults.startup_mode must be idle, preview, or capture'')
           else
             bindR (py_float (dget d ''preview_rate_hz'' PNone)) (\<lambda>rate.
             if \<not> preview_rate_ok rate then
               Inl (RegistryError ''defaults.preview_rate_hz must be greater than 0 and at most 10'')
             else
             bindR (check_int d ''preview_width'' (\<lambda>i. 0 < i)
               ''defaults.preview_width must be positive'') (\<lambda>_.
             bindR (check_int d ''jpeg_quality'' (\<lambda>i. 1 \<le> i \<and> i \<le> 100)
               ''defaults.jpeg_quality must be between 1 and 100'') (\<lambda>_.
             Inr d))))
      | _ \<Rightarrow> Inl AttrErr)"

subsection \<open>Managed networks\<close>

definition network_error :: "string \<Rightarrow> string \<Rightarrow> py_exn" where
  "network_error nid what = RegistryError (''managed network '' @ nid @ what)"

definition pool_address :: "pyval \<Rightarrow> string \<Rightarrow> ipaddr result" where
  "pool_address pool key = bindR (py_index pool key) (\<lambda>v. ip_address (py_str v))"

fun ip_int :: "ipaddr \<Rightarrow> nat" where
  "ip_int (IPv4 a) = a"
| "ip_int (IPv6 a) = a"

text \<open>
  The capacity and transfer defaults of a network and their checks; \<open>pool_size\<close> is the number
  of addresses of the pool.
\<close>

definition finish_network :: "string \<Rightarrow> string \<Rightarrow> int \<Rightarrow> pydict \<Rightarrow> pydict result" where
  "finish_network nid mode pool_size network =
     (let n1 = setdefaults
         [(''mtu'', PInt 9000), (''rp_filter'', PInt 0),
          (''max_devices'', PInt (if mode = ''direct'' then 1 else pool_size)),
          (''switched_max_devices'', PInt pool_size), (''gateway'', PStr ''0.0.0.0'')] network in
      bindR (py_int (dget n1 ''mtu'' PNone)) (\<lambda>mtu.
      (let n2 = setdefaults
         [(''packet_size'', PInt (min mtu 9000)), (''packet_delay'', PInt 50000),
          (''transfer_slot_ms'', PInt 30)] n1 in
       if mtu < 1500 then Inl (network_error nid '' has invalid MTU or max_devices'') else
       bindR (py_int (dget n2 ''max_devices'' PNone)) (\<lambda>max_devices.
       if max_devices \<le> 0 then Inl (network_error nid '' has invalid MTU or max_devices'') else
       if pool_size < max_devices then Inl (network_error nid '' max_devices exceeds its pool'') else
       bindR (py_int (dget n2 ''switched_max_devices'' PNone)) (\<lambda>switched_max.
       if \<not> (1 \<le> switched_max \<and> switched_max \<le> pool_size) then
         Inl (network_error nid '' switched_max_devices exceeds its pool'')
       else if mode = ''direct'' \<and> max_devices \<noteq> 1 then
         Inl (RegistryError (''direct managed network '' @ nid @ '' must have max_devices 1''))
       else Inr n2)))))"

text \<open>
  One iteration of the network loop; the state is the interfaces and subnets seen so far.
\<close>

definition validate_network ::
  "string list \<times> iface4 list \<Rightarrow> string \<Rightarrow> pyval
     \<Rightarrow> (pydict \<times> (string list \<times> iface4 list)) result" where
  "validate_network seen nid v =
     (case v of
        PDict network \<Rightarrow>
          (let interface = py_str (dget network ''interface'' (PStr ''''));
               interface_mac = lower (py_str (dget network ''interface_mac'' (PStr '''')));
               mode = py_str (dget network ''mode'' (PStr '''')) in
           if interface = '''' \<or> interface \<in> set (fst seen) then
             Inl (network_error nid '' has an empty or duplicate interface'')
           else if mode \<notin> set valid_network_modes then
             Inl (network_error nid '' mode must be direct or switched'')
           else if \<not> is_bool (dget network ''approved'' PNone) then
             Inl (network_error nid '' approved must be an explicit boolean'')
           else if \<not> is_bool (dget network ''auto_enroll'' (PBool False)) then
             Inl (network_error nid '' auto_enroll must be a boolean'')
           else
             (let n1 = setdefaults [(''interface_mac'', PStr interface_mac),
                        (''auto_enroll'', PBool False)] network in
              bindR (key_or_value_error
                  (bindR (py_index (PDict n1) ''host_cidr'') (\<lambda>c. ip_interface (py_str c)))
                  (''managed network '' @ nid @ '' has invalid host_cidr'')) (\<lambda>iface.
              case iface of
                None \<Rightarrow> Inl (network_error nid '' must use IPv4'')
              | Some host \<Rightarrow>
                (case List.find (\<lambda>previous. net_overlaps previous host) (snd seen) of
                  Some previous \<Rightarrow> Inl (network_error nid ('' overlaps '' @ show_net previous))
                | None \<Rightarrow>
                  (let pool = dget n1 ''address_pool'' (PDict []) in
                   bindR (key_or_value_error
                       (bindR (pool_address pool ''start'') (\<lambda>start.
                        bindR (pool_address pool ''end'') (\<lambda>end. Inr (start, end))))
                       (''managed network '' @ nid @ '' has an invalid address_pool''))
                     (\<lambda>(start, end).
                   if \<not> addr_in_net start host \<or> \<not> addr_in_net end host
                      \<or> ip_int end < ip_int start then
                     Inl (network_error nid '' pool is outside its subnet'')
                   else if ip_int start \<le> if_ip host \<and> if_ip host \<le> ip_int end then
                     Inl (network_error nid '' pool contains the host address'')
                   else
                     bindR (finish_network nid mode
                         (int (ip_int end) - int (ip_int start) + 1) n1) (\<lambda>n2.
                     Inr (n2, (interface # fst seen, host # snd seen)))))))))
      | _ \<Rightarrow> Inl (network_error nid '' must be a mapping''))"

definition validate_networks :: "pydict \<Rightarrow> pydict result" where
  "validate_networks networks =
     bindR (map_items (\<lambda>s k v. bindR (validate_network s k v) (\<lambda>(w, s'). Inr (PDict w, s')))
       ([], []) networks) Inr"

definition validate_machine :: "pydict \<Rightarrow> pydict result" where
  "validate_machine data =
     (if \<not> py_eq (dget data ''schema_version'' (PInt 1)) (PInt 1) then
        Inl (RegistryError ''unsupported machine schema_version'')
      else
        (let result = machine_sections data;
             section = (\<lambda>k. dget result k PNone) in
         if \<not> is_dict (section ''managed_networks'') \<or> \<not> is_dict (section ''providers'')
            \<or> \<not> is_dict (section ''recording'') \<or> \<not> is_dict (section ''camera_profiles'') then
           Inl (RegistryError
             ''managed_networks, providers, recording, and camera_profiles must be mappings'')
         else
           bindR (validate_profile_paths (dict_of (section ''camera_profiles''))) (\<lambda>cp.
           bindR (validate_providers (dict_of (section ''providers''))) (\<lambda>providers.
           bindR (validate_recording (dict_of (section ''recording''))) (\<lambda>recording.
           bindR (validate_defaults (section ''defaults'')) (\<lambda>defaults.
           bindR (validate_networks (dict_of (section ''managed_networks''))) (\<lambda>networks.
           Inr (dupdate
             [(''camera_profiles'', PDict cp), (''providers'', PDict providers),
              (''recording'', PDict recording), (''defaults'', PDict defaults),
              (''managed_networks'', PDict networks)] result))))))))"

subsection \<open>What a validated network is\<close>

text \<open>
  The typed view of a managed network: what the rest of the program reads out of the
  dictionary. \<open>sound_net\<close> is the contract of the validation.
\<close>

record managed_net =
  mn_interface :: string
  mn_mode :: string
  mn_approved :: bool
  mn_auto_enroll :: bool
  mn_host :: iface4
  mn_start :: nat
  mn_end :: nat
  mn_max_devices :: int
  mn_switched_max :: int

definition network_interface :: "pydict \<Rightarrow> string" where
  "network_interface w = py_str (dget w ''interface'' (PStr ''''))"

definition network_pool :: "pydict \<Rightarrow> (nat \<times> nat) option" where
  "network_pool w =
     (case (pool_address (dget w ''address_pool'' (PDict [])) ''start'',
            pool_address (dget w ''address_pool'' (PDict [])) ''end'') of
        (Inr (IPv4 s), Inr (IPv4 e)) \<Rightarrow> Some (s, e)
      | _ \<Rightarrow> None)"

definition view_network :: "pydict \<Rightarrow> managed_net option" where
  "view_network w =
     (case (parse_iface4 (py_str (dget w ''host_cidr'' PNone)), network_pool w,
            py_int (dget w ''max_devices'' PNone), py_int (dget w ''switched_max_devices'' PNone)) of
        (Some h, Some (s, e), Inr m, Inr sm) \<Rightarrow>
          Some \<lparr>mn_interface = network_interface w,
                mn_mode = py_str (dget w ''mode'' (PStr '''')),
                mn_approved = truthy (dget w ''approved'' PNone),
                mn_auto_enroll = truthy (dget w ''auto_enroll'' PNone),
                mn_host = h, mn_start = s, mn_end = e,
                mn_max_devices = m, mn_switched_max = sm\<rparr>
      | _ \<Rightarrow> None)"

definition pool_count :: "managed_net \<Rightarrow> int" where
  "pool_count n = int (mn_end n) - int (mn_start n) + 1"

definition sound_net :: "managed_net \<Rightarrow> bool" where
  "sound_net n \<longleftrightarrow>
     mn_interface n \<noteq> '''' \<and> mn_mode n \<in> set valid_network_modes
     \<and> in_net (mn_start n) (mn_host n) \<and> in_net (mn_end n) (mn_host n)
     \<and> mn_start n \<le> mn_end n
     \<and> \<not> (mn_start n \<le> if_ip (mn_host n) \<and> if_ip (mn_host n) \<le> mn_end n)
     \<and> 1 \<le> mn_max_devices n \<and> mn_max_devices n \<le> pool_count n
     \<and> 1 \<le> mn_switched_max n \<and> mn_switched_max n \<le> pool_count n
     \<and> (mn_mode n = ''direct'' \<longrightarrow> mn_max_devices n = 1)"

definition machine_networks :: "pydict \<Rightarrow> pydict" where
  "machine_networks m = dict_of (dget m ''managed_networks'' (PDict []))"

definition network_views :: "pydict \<Rightarrow> managed_net list" where
  "network_views nets = map (\<lambda>(k, v). the (view_network (dict_of v))) nets"

definition valid_networks :: "pydict \<Rightarrow> bool" where
  "valid_networks nets \<longleftrightarrow>
     (\<forall>(k, v) \<in> set nets. is_dict v \<and> view_network (dict_of v) \<noteq> None)
     \<and> (\<forall>n \<in> set (network_views nets). sound_net n)
     \<and> distinct (map mn_interface (network_views nets))
     \<and> sorted_wrt (\<lambda>g h. \<not> net_overlaps g h) (map mn_host (network_views nets))"

lemma finish_network_Inr:
  assumes "finish_network nid mode sz n = Inr w"
  obtains mtu mx sm n1 where
    "n1 = setdefaults
       [(''mtu'', PInt 9000), (''rp_filter'', PInt 0), (''max_devices'', PInt (if mode = ''direct'' then 1 else sz)),
        (''switched_max_devices'', PInt sz), (''gateway'', PStr ''0.0.0.0'')] n"
    "w = setdefaults [(''packet_size'', PInt (min mtu 9000)), (''packet_delay'', PInt 50000),
         (''transfer_slot_ms'', PInt 30)] n1"
    "py_int (dget w ''max_devices'' PNone) = Inr mx" "py_int (dget w ''switched_max_devices'' PNone) = Inr sm"
    "1 \<le> mx" "mx \<le> sz" "1 \<le> sm" "sm \<le> sz" "mode = ''direct'' \<longrightarrow> mx = 1"
proof -
  define n1 where "n1 = setdefaults
       [(''mtu'', PInt 9000), (''rp_filter'', PInt 0), (''max_devices'', PInt (if mode = ''direct'' then 1 else sz)),
        (''switched_max_devices'', PInt sz), (''gateway'', PStr ''0.0.0.0'')] n"
  define n2 where "n2 mtu = setdefaults [(''packet_size'', PInt (min mtu 9000)), (''packet_delay'', PInt 50000),
         (''transfer_slot_ms'', PInt 30)] n1" for mtu
  from assms [unfolded finish_network_def Let_def, folded n1_def, folded n2_def] obtain mtu mx sm where
    "w = n2 mtu" "py_int (dget (n2 mtu) ''max_devices'' PNone) = Inr mx"
    "py_int (dget (n2 mtu) ''switched_max_devices'' PNone) = Inr sm"
    "1 \<le> mx" "mx \<le> sz" "1 \<le> sm" "sm \<le> sz" "mode = ''direct'' \<longrightarrow> mx = 1"
    by (auto simp: bindR_eq_Inr split: if_splits)
  then show thesis by - (rule that [OF n1_def, of mtu mx sm], simp_all only: n2_def)
qed

lemma finish_network_frame:
  assumes "finish_network nid mode sz n = Inr w"
    and "k \<notin> {''mtu'', ''rp_filter'', ''max_devices'', ''switched_max_devices'', ''gateway'',
      ''packet_size'', ''packet_delay'', ''transfer_slot_ms''}"
  shows "map_of w k = map_of n k"
  using assms by (elim finish_network_Inr) (simp add: map_of_setdefaults_other)

lemma finish_network_capacity:
  assumes "finish_network nid mode sz n = Inr w"
  shows "\<exists>m sm. py_int (dget w ''max_devices'' PNone) = Inr m
    \<and> py_int (dget w ''switched_max_devices'' PNone) = Inr sm
    \<and> 1 \<le> m \<and> m \<le> sz \<and> 1 \<le> sm \<and> sm \<le> sz \<and> (mode = ''direct'' \<longrightarrow> m = 1)"
  using assms by (elim finish_network_Inr) blast

lemma validate_network_sound:
  assumes "validate_network seen nid v = Inr (w, seen')"
  shows "\<exists>n. view_network w = Some n \<and> sound_net n \<and> mn_interface n \<notin> set (fst seen)
    \<and> (\<forall>p \<in> set (snd seen). \<not> net_overlaps p (mn_host n))
    \<and> seen' = (mn_interface n # fst seen, mn_host n # snd seen)"
proof -
  from assms obtain network host start stop where
    v: "v = PDict network"
    and iface: "network_interface network \<noteq> ''''" "network_interface network \<notin> set (fst seen)"
    and mode: "py_str (dget network ''mode'' (PStr '''')) \<in> set valid_network_modes"
    and host: "ip_interface (py_str (dget network ''host_cidr'' PNone)) = Inr (Some host)"
    and disj: "List.find (\<lambda>previous. net_overlaps previous host) (snd seen) = None"
    and start: "pool_address (dget network ''address_pool'' (PDict [])) ''start'' = Inr start"
    and stop: "pool_address (dget network ''address_pool'' (PDict [])) ''end'' = Inr stop"
    and inside: "addr_in_net start host" "addr_in_net stop host" "ip_int start \<le> ip_int stop"
    and nohost: "\<not> (ip_int start \<le> if_ip host \<and> if_ip host \<le> ip_int stop)"
    and fin: "finish_network nid (py_str (dget network ''mode'' (PStr '''')))
        (int (ip_int stop) - int (ip_int start) + 1)
        (setdefaults [(''interface_mac'',
            PStr (lower (py_str (dget network ''interface_mac'' (PStr ''''))))),
          (''auto_enroll'', PBool False)] network) = Inr w"
    and seen': "seen' = (network_interface network # fst seen, host # snd seen)"
    by (auto simp: validate_network_def Let_def result_simps dget_setdefaults_other
        map_of_setdefaults_other network_interface_def
        split: pyval.splits if_splits option.splits)
  have frame: "dget w k d = dget network k d"
    if "k \<in> {''interface'', ''mode'', ''approved'', ''host_cidr'', ''address_pool''}" for k d
    using that finish_network_frame [OF fin, of k]
    by (intro dget_cong) (auto simp: map_of_setdefaults_other)
  from inside obtain s e where se: "start = IPv4 s" "stop = IPv4 e"
    by (cases start; cases stop) auto
  have h: "parse_iface4 (py_str (dget network ''host_cidr'' PNone)) = Some host"
    using host by (auto simp: ip_interface_def split: option.splits if_splits)
  have pool: "network_pool w = Some (s, e)"
    using start stop se by (simp add: network_pool_def frame)
  from finish_network_capacity [OF fin] obtain m sm where
    cap: "py_int (dget w ''max_devices'' PNone) = Inr m" "py_int (dget w ''switched_max_devices'' PNone) = Inr sm"
    "1 \<le> m" "m \<le> int e - int s + 1" "1 \<le> sm" "sm \<le> int e - int s + 1"
    "py_str (dget network ''mode'' (PStr '''')) = ''direct'' \<longrightarrow> m = 1"
    using se by auto
  show ?thesis
    using iface mode disj inside nohost cap se h
    by (auto simp: view_network_def frame pool sound_net_def pool_count_def network_interface_def
        seen' find_None_iff)
qed

lemma validate_network_step:
  assumes "bindR (validate_network s k v) (\<lambda>(w, s'). Inr (PDict w, s')) = Inr (pv, s')"
  shows "\<exists>w n. pv = PDict w \<and> view_network w = Some n \<and> sound_net n
    \<and> mn_interface n \<notin> set (fst s) \<and> (\<forall>p \<in> set (snd s). \<not> net_overlaps p (mn_host n))
    \<and> fst s' = mn_interface n # fst s \<and> snd s' = mn_host n # snd s"
  using assms validate_network_sound by (fastforce simp: result_simps)

lemma concat_singletons: "concat (map (\<lambda>(k, w). [h k w]) d) = map (\<lambda>(k, w). h k w) d"
  by (induction d) auto

lemma map_network_views:
  "map (\<lambda>(k, v). f (the (view_network (dict_of v)))) nets = map f (network_views nets)"
  by (simp add: network_views_def split_def)

lemma validate_networks_valid:
  assumes "validate_networks networks = Inr nets"
  shows "valid_networks nets"
proof -
  let ?f = "\<lambda>s k v. bindR (validate_network s k v) (\<lambda>(w, s'). Inr (PDict w, s'))"
  from assms have run: "map_items ?f ([], []) networks = Inr nets"
    by (simp add: validate_networks_def result_simps)
  have "is_dict v \<and> view_network (dict_of v) \<noteq> None \<and> sound_net (the (view_network (dict_of v)))"
    if "(k, v) \<in> set nets" for k v
    by (rule map_items_all [where P = "\<lambda>k v. is_dict v \<and> view_network (dict_of v) \<noteq> None
          \<and> sound_net (the (view_network (dict_of v)))", OF _ run that])
       (drule validate_network_step, auto)
  moreover have "distinct (map mn_interface (network_views nets))"
    using map_items_pairwise [where f = ?f and R = "(\<noteq>)" and seen = "\<lambda>s. set (fst s)"
        and g = "\<lambda>k v. [mn_interface (the (view_network (dict_of v)))]", OF _ run]
    by (force simp: concat_singletons map_network_views distinct_sorted_wrt_neq
        dest!: validate_network_step)
  moreover have "sorted_wrt (\<lambda>g h. \<not> net_overlaps g h) (map mn_host (network_views nets))"
    using map_items_pairwise [where f = ?f and R = "\<lambda>g h. \<not> net_overlaps g h"
        and seen = "\<lambda>s. set (snd s)"
        and g = "\<lambda>k v. [mn_host (the (view_network (dict_of v)))]", OF _ run]
    by (force simp: concat_singletons map_network_views dest!: validate_network_step)
  ultimately show ?thesis
    by (auto simp: valid_networks_def network_views_def)
qed

text \<open>
  A validated machine: the sections are mappings, the networks are sound and pairwise
  separate, and every limit the manager and the gateway read is in its range.
\<close>

definition int_between :: "pydict \<Rightarrow> string \<Rightarrow> int \<Rightarrow> int \<Rightarrow> bool" where
  "int_between d k lo hi \<longleftrightarrow>
     (case py_int (dget d k PNone) of Inr i \<Rightarrow> lo \<le> i \<and> i \<le> hi | Inl _ \<Rightarrow> False)"

definition machine_section :: "pydict \<Rightarrow> string \<Rightarrow> pydict" where
  "machine_section m k = dict_of (dget m k (PDict []))"

definition valid_machine :: "pydict \<Rightarrow> bool" where
  "valid_machine m \<longleftrightarrow>
     map_of m ''schema_version'' = Some (PInt 1)
     \<and> (\<forall>k \<in> {''managed_networks'', ''providers'', ''recording'', ''camera_profiles'', ''defaults''}.
          is_dict (dget m k PNone))
     \<and> valid_networks (machine_networks m)
     \<and> is_dict (dget (machine_section m ''providers'') ''genicam'' PNone)
     \<and> int_between (machine_section m ''recording'') ''capture_timeout_ms'' 1000 60000
     \<and> int_between (machine_section m ''recording'') ''recent_limit'' 1 1000
     \<and> int_between (machine_section m ''recording'') ''operation_history_limit'' 1 1000
     \<and> int_between (machine_section m ''recording'') ''operation_capture_id_limit'' 1 1000
     \<and> int_between (machine_section m ''recording'') ''max_active_operations'' 1 256
     \<and> int_between (machine_section m ''recording'') ''capture_session_ttl_ms'' 5000 300000
     \<and> (case py_float (dget (machine_section m ''defaults'') ''preview_rate_hz'' PNone) of
          Inr r \<Rightarrow> preview_rate_ok r | Inl _ \<Rightarrow> False)
     \<and> dget (machine_section m ''defaults'') ''startup_mode'' PNone
         \<in> PStr ` set valid_operating_modes"

lemma check_int_Inr [result_simps]:
  "check_int d k ok msg = Inr u \<longleftrightarrow> (\<exists>v i. map_of d k = Some v \<and> py_int v = Inr i \<and> ok i)"
  by (auto simp: check_int_def result_simps split: if_splits)

lemma validate_recording_valid:
  assumes "validate_recording section = Inr r"
  shows "int_between r ''capture_timeout_ms'' 1000 60000 \<and> int_between r ''recent_limit'' 1 1000
    \<and> int_between r ''operation_history_limit'' 1 1000
    \<and> int_between r ''operation_capture_id_limit'' 1 1000
    \<and> int_between r ''max_active_operations'' 1 256
    \<and> int_between r ''capture_session_ttl_ms'' 5000 300000"
  using assms by (auto simp: validate_recording_def Let_def result_simps int_between_def
      split: if_splits)

lemma validate_defaults_valid:
  assumes "validate_defaults v = Inr d"
  shows "(case py_float (dget d ''preview_rate_hz'' PNone) of Inr r \<Rightarrow> preview_rate_ok r | Inl _ \<Rightarrow> False)
    \<and> dget d ''startup_mode'' PNone \<in> PStr ` set valid_operating_modes"
  using assms by (auto simp: validate_defaults_def Let_def result_simps
      split: pyval.splits if_splits)

lemma validate_providers_valid:
  assumes "validate_providers ps = Inr r"
  shows "is_dict (dget r ''genicam'' PNone)"
  using assms by (auto simp: validate_providers_def Let_def result_simps dict_simps)

theorem validate_machine_valid:
  assumes "validate_machine data = Inr m"
  shows "valid_machine m"
proof -
  from assms obtain cp ps rec ds nets where
    parts: "validate_providers (dict_of (dget (machine_sections data) ''providers'' PNone)) = Inr ps"
      "validate_recording (dict_of (dget (machine_sections data) ''recording'' PNone)) = Inr rec"
      "validate_defaults (dget (machine_sections data) ''defaults'' PNone) = Inr ds"
      "validate_networks (dict_of (dget (machine_sections data) ''managed_networks'' PNone)) = Inr nets"
    and m: "m = dupdate
      [(''camera_profiles'', PDict cp), (''providers'', PDict ps), (''recording'', PDict rec),
       (''defaults'', PDict ds), (''managed_networks'', PDict nets)] (machine_sections data)"
    by (auto simp: validate_machine_def Let_def result_simps split: if_splits)
  have look: "map_of m ''providers'' = Some (PDict ps)" "map_of m ''recording'' = Some (PDict rec)"
    "map_of m ''defaults'' = Some (PDict ds)" "map_of m ''managed_networks'' = Some (PDict nets)"
    "map_of m ''camera_profiles'' = Some (PDict cp)"
    by (simp_all add: m map_of_dupdate)
  have "map_of m ''schema_version'' = Some (PInt 1)"
    by (simp add: m map_of_dupdate machine_sections_def map_of_setdefaults_other dict_simps)
  with parts look show ?thesis
    using validate_networks_valid validate_recording_valid validate_defaults_valid
      validate_providers_valid
    by (simp add: valid_machine_def machine_networks_def machine_section_def)
qed

end
