(* ===== verification/Inventory_Schema.thy ===== *)
theory Inventory_Schema
  imports Machine_Config
begin

section \<open>The inventory document: migration and validation\<close>

text \<open>
  \<^verbatim>\<open>_known_from_sensor\<close>, \<^verbatim>\<open>migrate_inventory\<close> and \<^verbatim>\<open>validate_inventory\<close> of
  \<^verbatim>\<open>registry.py\<close>. The validation is what stands between every in-memory change and the
  file on disk: the registry saves nothing that it rejects. \<open>valid_inventory\<close> is what a
  validated document satisfies; validating it again changes nothing.

  The machine argument is a validated machine, whose sections are mappings
  (\<open>validate_machine_valid\<close>), so the look-ups in it cannot fail.
\<close>

definition max_known_changes :: nat where
  "max_known_changes = 50"

text \<open>\<open>xs[-n:]\<close> for a positive \<open>n\<close>.\<close>

definition last_n :: "nat \<Rightarrow> 'a list \<Rightarrow> 'a list" where
  "last_n n xs = drop (length xs - n) xs"

lemma length_last_n: "length (last_n n xs) \<le> n"
  by (simp add: last_n_def)

lemma last_n_id: "length xs \<le> n \<Longrightarrow> last_n n xs = xs"
  by (simp add: last_n_def)

lemma last_n_idem [simp]: "last_n n (last_n n xs) = last_n n xs"
  by (rule last_n_id) (rule length_last_n)

definition known_from_sensor :: "pydict \<Rightarrow> string \<Rightarrow> string \<Rightarrow> pydict result" where
  "known_from_sensor sensor catalog_state timestamp =
     bindR (py_list (dget sensor ''capabilities'' (PList []))) (\<lambda>capabilities.
     Inr
      [(''provider'', dget sensor ''provider'' (PStr '''')),
       (''kind'', dget sensor ''kind'' (PStr ''camera'')),
       (''vendor'', vendor_or_provider sensor),
       (''model'', dget sensor ''model'' (PStr '''')),
       (''serial'', dget sensor ''serial'' (PStr '''')),
       (''mac_address'', dget sensor ''mac_address'' (PStr '''')),
       (''capabilities'', PList capabilities),
       (''catalog_state'', PStr catalog_state),
       (''first_seen_at'', PStr timestamp),
       (''last_seen_at'', PStr timestamp),
       (''sighting_count'', PInt 0),
       (''latest_observation'', PDict []),
       (''changes'', PList []),
       (''notes'', PStr ''''),
       (''camera_profile'', PStr ''''),
       (''provider_settings'', PDict []),
       (''hardware_key'', PStr (hardware_key sensor)),
       (''last_provider'', dget sensor ''provider'' (PStr '''')),
       (''last_configuration'', PDict sensor),
       (''replaced_by'', dget sensor ''replaced_by'' (PStr ''''))])"

subsection \<open>Migration\<close>

text \<open>The loops that add a known sensor for every enrolled or retired sensor of schema 1.\<close>

fun migrate_known ::
  "string \<Rightarrow> (pydict \<Rightarrow> string) \<Rightarrow> pydict \<Rightarrow> pyval \<Rightarrow> pyval result" where
  "migrate_known catalog_state stamp [] known = Inr known"
| "migrate_known catalog_state stamp ((sid, v) # rest) known =
     (case known of
        PDict kd \<Rightarrow>
          (case v of
             PDict sensor \<Rightarrow>
               bindR (known_from_sensor sensor catalog_state (stamp sensor)) (\<lambda>k.
               migrate_known catalog_state stamp rest (PDict (setdefault sid (PDict k) kd)))
           | _ \<Rightarrow> Inl AttrErr)
      | _ \<Rightarrow> Inl AttrErr)"

text \<open>\<open>for sensor in (result.get(key) or {}).values()\<close>, changing each sensor in place.\<close>

definition update_section ::
  "(pydict \<Rightarrow> pydict) \<Rightarrow> string \<Rightarrow> pydict \<Rightarrow> pydict result" where
  "update_section f key result =
     (if \<not> truthy (dget result key PNone) then Inr result
      else case dget result key PNone of
        PDict d \<Rightarrow>
          bindR (map_items (\<lambda>_ k v. case v of PDict s \<Rightarrow> Inr (PDict (f s), ()) | _ \<Rightarrow> Inl AttrErr) () d)
            (\<lambda>d'. Inr (dset key (PDict d') result))
      | _ \<Rightarrow> Inl AttrErr)"

definition add_hardware_key :: "pydict \<Rightarrow> pydict" where
  "add_hardware_key s = setdefault ''hardware_key'' (PStr (hardware_key s)) s"

definition add_last_provider :: "pydict \<Rightarrow> pydict" where
  "add_last_provider s = setdefault ''last_provider'' (dget s ''provider'' (PStr '''')) s"

definition or_empty :: "pyval \<Rightarrow> pyval" where
  "or_empty v = (if truthy v then v else PDict [])"

definition migrate_v1 :: "string \<Rightarrow> pydict \<Rightarrow> pydict result" where
  "migrate_v1 now result0 =
     (let result = setdefault ''known_sensors'' (PDict []) result0 in
      bindR (py_items (or_empty (dget result ''sensors'' PNone))) (\<lambda>sensors.
      bindR (migrate_known ''enrolled'' (\<lambda>_. now) sensors (dget result ''known_sensors'' PNone))
        (\<lambda>known1.
      bindR (py_items (or_empty (dget result ''retired_sensors'' (PDict [])))) (\<lambda>retired.
      bindR (migrate_known ''retired''
          (\<lambda>s. py_str (dget s ''retired_at'' (PStr now))) retired known1) (\<lambda>known2.
      Inr (dset ''known_sensors'' known2 (dpop ''retired_sensors'' result)))))))"

definition migrate_inventory :: "string \<Rightarrow> pydict \<Rightarrow> pydict result" where
  "migrate_inventory now data =
     bindR (py_int (dget data ''schema_version'' (PInt 1))) (\<lambda>version.
     if version = 3 then Inr data
     else if version \<noteq> 1 \<and> version \<noteq> 2 then
       Inl (RegistryError (''unsupported inventory schema_version '' @ show_int version))
     else
       bindR (if version = 1 then migrate_v1 now data else Inr data) (\<lambda>r1.
       bindR (update_section add_hardware_key ''sensors'' r1) (\<lambda>r2.
       bindR (update_section (add_last_provider \<circ> add_hardware_key) ''known_sensors'' r2) (\<lambda>r3.
       Inr (dset ''schema_version'' (PInt 3) r3)))))"

subsection \<open>Enrolled sensors\<close>

text \<open>A field read with \<open>str(sensor.get(key, ""))\<close>.\<close>

definition field :: "pydict \<Rightarrow> string \<Rightarrow> string" where
  "field s k = py_str (dget s k (PStr ''''))"

definition sensor_defaults :: "string \<Rightarrow> string \<Rightarrow> pydict" where
  "sensor_defaults sid provider =
     [(''kind'', PStr ''camera''), (''vendor'', PStr provider), (''model'', PStr ''''),
      (''mac_address'', PStr ''''), (''enabled'', PBool True), (''display_name'', PStr sid),
      (''location_label'', PStr ''unknown''), (''pose'', PNone), (''calibration_url'', PStr ''''),
      (''capabilities'', PList [])]"

definition sensor_error :: "string \<Rightarrow> string \<Rightarrow> py_exn" where
  "sensor_error sid what = RegistryError (''sensor '' @ sid @ what)"

text \<open>
  The checks of a sensor's network and address; the result is the pair that must be
  unique, if the sensor has a network.
\<close>

definition check_address ::
  "pydict \<Rightarrow> (string \<times> string) list \<Rightarrow> string \<Rightarrow> pydict \<Rightarrow> (string \<times> string) list result" where
  "check_address networks addresses sid sensor =
     (let network_id = field sensor ''network_id''; address = field sensor ''assigned_address'' in
      if network_id = '''' then Inr []
      else case map_of networks network_id of
        None \<Rightarrow> Inl (sensor_error sid ('' references unknown network '' @ network_id))
      | Some network \<Rightarrow>
          bindR (key_or_value_error (ip_address address)
              (''sensor '' @ sid @ '' has invalid assigned_address'')) (\<lambda>parsed_address.
          bindR (py_index network ''host_cidr'') (\<lambda>cidr.
          bindR (ip_interface (py_str cidr)) (\<lambda>iface.
          case iface of
            None \<Rightarrow> Inl (sensor_error sid ('' address is outside '' @ network_id))
          | Some host \<Rightarrow>
              if \<not> addr_in_net parsed_address host \<or> parsed_address = IPv4 (if_ip host) then
                Inl (sensor_error sid ('' address is outside '' @ network_id))
              else if (network_id, address) \<in> set addresses then
                Inl (RegistryError (''duplicate address '' @ address @ '' on '' @ network_id))
              else Inr [(network_id, address)]))))"

text \<open>One iteration of the sensor loop; the state is the identities and addresses seen.\<close>

definition validate_sensor ::
  "pydict \<Rightarrow> string list \<times> (string \<times> string) list \<Rightarrow> string \<Rightarrow> pyval
     \<Rightarrow> (pyval \<times> (string list \<times> (string \<times> string) list)) result" where
  "validate_sensor networks seen sid v =
     (case v of
        PDict sensor \<Rightarrow>
          (let provider = field sensor ''provider''; serial = field sensor ''serial'';
               identity = hardware_key sensor in
           if \<not> ros_safe sid then Inl (RegistryError (''sensor ID '' @ sid @ '' is not ROS-safe''))
           else if provider = '''' \<or> serial = '''' \<or> identity \<in> set (fst seen) then
             Inl (sensor_error sid '' has an empty or duplicate identity'')
           else
             bindR (check_address networks (snd seen) sid sensor) (\<lambda>address.
             (let s1 = setdefaults (sensor_defaults sid provider) sensor in
              Inr (PDict (dset ''hardware_key'' (PStr (hardware_key s1)) s1),
                   (identity # fst seen, address @ snd seen)))))
      | _ \<Rightarrow> Inl (sensor_error sid '' must be a mapping''))"

subsection \<open>Known sensors\<close>

definition known_error :: "string \<Rightarrow> string \<Rightarrow> py_exn" where
  "known_error sid what = RegistryError (''known sensor '' @ sid @ what)"

definition known_defaults_head :: "string \<Rightarrow> pydict" where
  "known_defaults_head provider =
     [(''kind'', PStr ''camera''), (''vendor'', PStr provider), (''model'', PStr ''''),
      (''mac_address'', PStr ''''), (''capabilities'', PList []),
      (''catalog_state'', PStr ''observed'')]"

definition known_defaults_tail :: "pyval \<Rightarrow> pydict" where
  "known_defaults_tail first_seen =
     [(''last_seen_at'', first_seen), (''sighting_count'', PInt 0),
      (''latest_observation'', PDict []), (''changes'', PList []), (''notes'', PStr ''''),
      (''camera_profile'', PStr ''''), (''provider_settings'', PDict []),
      (''last_configuration'', PNone), (''replaced_by'', PStr '''')]"

text \<open>The assignments after the catalog state has been checked, up to the type checks.\<close>

definition complete_known :: "string list \<Rightarrow> string \<Rightarrow> string \<Rightarrow> pydict \<Rightarrow> pydict" where
  "complete_known enrolled sid provider s1 =
     (let s2 = (if sid \<in> set enrolled
                then dset ''catalog_state'' (PStr ''enrolled'') s1 else s1);
          s3 = setdefault ''first_seen_at'' (PStr '''') s2;
          s4 = setdefaults (known_defaults_tail (dget s3 ''first_seen_at'' PNone)) s3;
          s5 = dset ''hardware_key'' (PStr (hardware_key s4)) s4
      in setdefault ''last_provider'' (PStr provider) s5)"

text \<open>The type checks and the normalisation of the counters, after the defaults.\<close>

definition finish_known :: "string \<Rightarrow> pydict \<Rightarrow> pydict result" where
  "finish_known sid s =
     (if \<not> is_dict (dget s ''latest_observation'' PNone) then
        Inl (known_error sid '' latest_observation must be a mapping'')
      else if \<not> is_list (dget s ''changes'' PNone) then
        Inl (known_error sid '' changes must be a list'')
      else
        (let s1 = dset ''changes'' (PList (last_n max_known_changes
                    (list_of (dget s ''changes'' PNone)))) s in
         if \<not> is_dict (dget s1 ''provider_settings'' PNone) then
           Inl (known_error sid '' provider_settings must be a mapping'')
         else if \<not> is_str (dget s1 ''camera_profile'' PNone) then
           Inl (known_error sid '' camera_profile must be a string'')
         else if \<not> is_dict (dget s1 ''last_configuration'' PNone)
              \<and> dget s1 ''last_configuration'' PNone \<noteq> PNone then
           Inl (known_error sid '' last_configuration is invalid'')
         else case py_int (dget s1 ''sighting_count'' PNone) of
             Inr i \<Rightarrow> Inr (dset ''sighting_count'' (PInt (max 0 i)) s1)
           | Inl TypeErr \<Rightarrow> Inl (known_error sid '' has invalid sighting_count'')
           | Inl ValueErr \<Rightarrow> Inl (known_error sid '' has invalid sighting_count'')
           | Inl e \<Rightarrow> Inl e))"

text \<open>One iteration of the known-sensor loop; the state is the (provider, serial) pairs seen.\<close>

definition validate_known ::
  "string list \<Rightarrow> (string \<times> string) list \<Rightarrow> string \<Rightarrow> pyval
     \<Rightarrow> (pyval \<times> (string \<times> string) list) result" where
  "validate_known enrolled seen sid v =
     (case v of
        PDict sensor \<Rightarrow>
          (let provider = field sensor ''provider''; serial = field sensor ''serial'' in
           if \<not> ros_safe sid then
             Inl (RegistryError (''known sensor ID '' @ sid @ '' is not ROS-safe''))
           else if provider = '''' \<or> serial = '''' \<or> (provider, serial) \<in> set seen then
             Inl (known_error sid '' has an empty or duplicate identity'')
           else
             (let s1 = setdefaults (known_defaults_head provider) sensor;
                  state = dget s1 ''catalog_state'' PNone in
              if \<not> hashable state then Inl TypeErr
              else if state \<notin> PStr ` set valid_catalog_states then
                Inl (known_error sid '' has invalid catalog_state'')
              else
                bindR (finish_known sid (complete_known enrolled sid provider s1)) (\<lambda>s7.
                Inr (PDict s7, (provider, serial) # seen))))
      | _ \<Rightarrow> Inl (known_error sid '' must be a mapping''))"

subsection \<open>Synchronization groups\<close>

definition group_error :: "string \<Rightarrow> string \<Rightarrow> py_exn" where
  "group_error gid what = RegistryError (''sync group '' @ gid @ what)"

text \<open>\<open>for member in members: if member not in sensors: raise\<close>.\<close>

fun check_members :: "string \<Rightarrow> string list \<Rightarrow> pyval list \<Rightarrow> unit result" where
  "check_members gid enrolled [] = Inr ()"
| "check_members gid enrolled (m # ms) =
     (if m \<in> PStr ` set enrolled then check_members gid enrolled ms
      else Inl (group_error gid ('' references unknown sensor '' @ py_str m)))"

definition validate_group :: "pydict \<Rightarrow> string list \<Rightarrow> string \<Rightarrow> pyval \<Rightarrow> pyval result" where
  "validate_group machine enrolled gid v =
     (if \<not> ros_safe gid then
        Inl (RegistryError (''sync group ID '' @ gid @ '' is not ROS-safe''))
      else case v of
        PDict grp \<Rightarrow>
          (let provider = field grp ''provider'';
               default_rate = dget (machine_section machine ''defaults'') ''preview_rate_hz'' PNone in
           bindR (py_list (dget grp ''members'' (PList []))) (\<lambda>members.
           if provider = '''' \<or> members = [] then
             Inl (group_error gid '' needs a provider and members'')
           else if py_str (dget grp ''missing_policy'' (PStr ''strict''))
                \<notin> set valid_missing_policies then
             Inl (group_error gid '' has invalid missing_policy'')
           else if \<not> list_all hashable members then Inl TypeErr
           else if \<not> py_distinct members then
             Inl (group_error gid '' contains duplicate members'')
           else
             bindR (py_float (dget grp ''preview_rate_hz'' default_rate)) (\<lambda>rate.
             if \<not> preview_rate_ok rate then
               Inl (group_error gid '' has invalid preview_rate_hz'')
             else
               bindR (check_members gid enrolled members) (\<lambda>_.
               Inr (PDict (dset ''preferred_master_id'' (PStr '''')
                 (setdefault ''preview_rate_hz'' default_rate
                   (setdefault ''missing_policy'' (PStr ''strict'')
                     (dset ''trigger_source'' (PStr ''Action0'') grp))))))))
           )
      | _ \<Rightarrow> Inl (group_error gid '' must be a mapping''))"

subsection \<open>The whole document\<close>

fun check_port_modes :: "pydict \<Rightarrow> pydict \<Rightarrow> unit result" where
  "check_port_modes networks [] = Inr ()"
| "check_port_modes networks ((nid, mode) # rest) =
     (if \<not> dhas networks nid then
        Inl (RegistryError (''invalid runtime mode for managed network '' @ nid))
      else if \<not> hashable mode then Inl TypeErr
      else if mode \<notin> PStr ` set valid_network_modes then
        Inl (RegistryError (''invalid runtime mode for managed network '' @ nid))
      else check_port_modes networks rest)"

definition inventory_sections :: "pydict \<Rightarrow> pydict" where
  "inventory_sections data =
     setdefaults
       [(''sensors'', PDict []), (''known_sensors'', PDict []), (''sync_groups'', PDict []),
        (''port_modes'', PDict []), (''history'', PList [])]
       (dset ''schema_version'' (PInt 3) data)"

definition missing_known :: "pydict \<Rightarrow> pydict \<Rightarrow> string list" where
  "missing_known sensors known = sort (filter (\<lambda>k. k \<notin> set (dkeys known)) (remdups (dkeys sensors)))"

definition validate_inventory :: "string \<Rightarrow> pydict \<Rightarrow> pydict \<Rightarrow> pydict result" where
  "validate_inventory now data machine =
     bindR (migrate_inventory now data) (\<lambda>migrated.
     if \<not> py_eq (dget migrated ''schema_version'' PNone) (PInt 3) then
       Inl (RegistryError ''unsupported inventory schema_version'')
     else
       (let result = inventory_sections migrated;
            section = (\<lambda>k. dget result k PNone);
            networks = machine_networks machine in
        if \<not> is_dict (section ''sensors'') \<or> \<not> is_dict (section ''sync_groups'') then
          Inl (RegistryError ''sensors and sync_groups must be mappings'')
        else if \<not> is_dict (section ''known_sensors'') then
          Inl (RegistryError ''known_sensors must be a mapping'')
        else if \<not> is_dict (section ''port_modes'') \<or> \<not> is_list (section ''history'') then
          Inl (RegistryError ''port_modes and history have invalid types'')
        else
          bindR (check_port_modes networks (dict_of (section ''port_modes''))) (\<lambda>_.
          bindR (map_items (validate_sensor networks) ([], []) (dict_of (section ''sensors'')))
            (\<lambda>sensors.
          bindR (map_items (validate_known (dkeys sensors)) []
              (dict_of (section ''known_sensors''))) (\<lambda>known.
          if missing_known sensors known \<noteq> [] then
            Inl (RegistryError (''enrolled sensors missing from known_sensors: ''
              @ join '', '' (missing_known sensors known)))
          else
            bindR (map_items (\<lambda>_ gid v. bindR (validate_group machine (dkeys sensors) gid v)
                (\<lambda>w. Inr (w, ()))) () (dict_of (section ''sync_groups''))) (\<lambda>groups.
            Inr (dupdate
              [(''sensors'', PDict sensors), (''known_sensors'', PDict known),
               (''sync_groups'', PDict groups)] result)))))))"

subsection \<open>What a validated inventory is\<close>

definition network_host :: "pydict \<Rightarrow> string \<Rightarrow> iface4 option" where
  "network_host networks nid =
     (case map_of networks nid of
        None \<Rightarrow> None
      | Some net \<Rightarrow>
          (case py_index net ''host_cidr'' of
             Inl _ \<Rightarrow> None
           | Inr c \<Rightarrow> parse_iface4 (py_str c)))"

text \<open>The (network, address) pair a sensor occupies, if it is assigned to a network.\<close>

definition sensor_address :: "pydict \<Rightarrow> (string \<times> string) list" where
  "sensor_address s =
     (if field s ''network_id'' = '''' then []
      else [(field s ''network_id'', field s ''assigned_address'')])"

definition address_ok :: "pydict \<Rightarrow> pydict \<Rightarrow> bool" where
  "address_ok networks s \<longleftrightarrow>
     field s ''network_id'' = ''''
     \<or> (case (network_host networks (field s ''network_id''),
              parse_ipv4 (field s ''assigned_address'')) of
          (Some h, Some a) \<Rightarrow> in_net a h \<and> a \<noteq> if_ip h
        | _ \<Rightarrow> False)"

definition valid_sensor :: "pydict \<Rightarrow> string \<Rightarrow> pydict \<Rightarrow> bool" where
  "valid_sensor networks sid s \<longleftrightarrow>
     ros_safe sid \<and> field s ''provider'' \<noteq> '''' \<and> field s ''serial'' \<noteq> ''''
     \<and> address_ok networks s
     \<and> map_of s ''hardware_key'' = Some (PStr (hardware_key s))
     \<and> list_all (dhas s) (dkeys (sensor_defaults '''' ''''))"

definition known_identity :: "pydict \<Rightarrow> string \<times> string" where
  "known_identity s = (field s ''provider'', field s ''serial'')"

definition valid_known :: "string list \<Rightarrow> string \<Rightarrow> pydict \<Rightarrow> bool" where
  "valid_known enrolled sid s \<longleftrightarrow>
     ros_safe sid \<and> field s ''provider'' \<noteq> '''' \<and> field s ''serial'' \<noteq> ''''
     \<and> dget s ''catalog_state'' PNone \<in> PStr ` set valid_catalog_states
     \<and> (sid \<in> set enrolled \<longrightarrow> map_of s ''catalog_state'' = Some (PStr ''enrolled''))
     \<and> map_of s ''hardware_key'' = Some (PStr (hardware_key s))
     \<and> is_list (dget s ''changes'' PNone)
     \<and> length (list_of (dget s ''changes'' PNone)) \<le> max_known_changes
     \<and> is_dict (dget s ''latest_observation'' PNone) \<and> is_dict (dget s ''provider_settings'' PNone)
     \<and> is_str (dget s ''camera_profile'' PNone)
     \<and> (case map_of s ''sighting_count'' of Some (PInt i) \<Rightarrow> 0 \<le> i | _ \<Rightarrow> False)"

definition group_members :: "pydict \<Rightarrow> string list" where
  "group_members g =
     (case py_list (dget g ''members'' (PList [])) of Inr ms \<Rightarrow> map str_of ms | Inl _ \<Rightarrow> [])"

definition valid_group :: "string list \<Rightarrow> string \<Rightarrow> pydict \<Rightarrow> bool" where
  "valid_group enrolled gid g \<longleftrightarrow>
     ros_safe gid \<and> field g ''provider'' \<noteq> ''''
     \<and> group_members g \<noteq> [] \<and> distinct (group_members g) \<and> set (group_members g) \<subseteq> set enrolled
     \<and> field g ''missing_policy'' \<in> set valid_missing_policies
     \<and> map_of g ''trigger_source'' = Some (PStr ''Action0'')
     \<and> map_of g ''preferred_master_id'' = Some (PStr '''')
     \<and> (case py_float (dget g ''preview_rate_hz'' PNone) of Inr r \<Rightarrow> preview_rate_ok r | Inl _ \<Rightarrow> False)"

definition inv_section :: "pydict \<Rightarrow> string \<Rightarrow> pydict" where
  "inv_section ivt k = dict_of (dget ivt k (PDict []))"

abbreviation inv_sensors :: "pydict \<Rightarrow> pydict" where
  "inv_sensors ivt \<equiv> inv_section ivt ''sensors''"

abbreviation inv_known :: "pydict \<Rightarrow> pydict" where
  "inv_known ivt \<equiv> inv_section ivt ''known_sensors''"

abbreviation inv_groups :: "pydict \<Rightarrow> pydict" where
  "inv_groups ivt \<equiv> inv_section ivt ''sync_groups''"

abbreviation inv_port_modes :: "pydict \<Rightarrow> pydict" where
  "inv_port_modes ivt \<equiv> inv_section ivt ''port_modes''"

definition valid_inventory :: "pydict \<Rightarrow> pydict \<Rightarrow> bool" where
  "valid_inventory machine ivt \<longleftrightarrow>
     map_of ivt ''schema_version'' = Some (PInt 3)
     \<and> list_all (\<lambda>k. is_dict (dget ivt k PNone))
         [''sensors'', ''known_sensors'', ''sync_groups'', ''port_modes'']
     \<and> is_list (dget ivt ''history'' PNone)
     \<and> (\<forall>(nid, mode) \<in> set (inv_port_modes ivt).
          dhas (machine_networks machine) nid \<and> mode \<in> PStr ` set valid_network_modes)
     \<and> (\<forall>(sid, s) \<in> set (inv_sensors ivt).
          is_dict s \<and> valid_sensor (machine_networks machine) sid (dict_of s))
     \<and> distinct (map (\<lambda>(sid, s). hardware_key (dict_of s)) (inv_sensors ivt))
     \<and> distinct (concat (map (\<lambda>(sid, s). sensor_address (dict_of s)) (inv_sensors ivt)))
     \<and> (\<forall>(sid, s) \<in> set (inv_known ivt).
          is_dict s \<and> valid_known (dkeys (inv_sensors ivt)) sid (dict_of s))
     \<and> distinct (map (\<lambda>(sid, s). known_identity (dict_of s)) (inv_known ivt))
     \<and> set (dkeys (inv_sensors ivt)) \<subseteq> set (dkeys (inv_known ivt))
     \<and> (\<forall>(gid, g) \<in> set (inv_groups ivt).
          is_dict g \<and> valid_group (dkeys (inv_sensors ivt)) gid (dict_of g))"

subsection \<open>One sensor\<close>

lemma field_cong: "map_of s k = map_of t k \<Longrightarrow> field s k = field t k"
  by (simp add: field_def dget_def)

lemma hardware_key_eqI:
  assumes "normalized_mac (dget s ''mac_address'' (PStr '''')) = normalized_mac (dget t ''mac_address'' (PStr ''''))"
    and "vendor_identity (vendor_or_provider s) = vendor_identity (vendor_or_provider t)"
    and "identity_part (dget s ''serial'' (PStr '''')) = identity_part (dget t ''serial'' (PStr ''''))"
  shows "hardware_key s = hardware_key t"
  using assms by (simp add: hardware_key_def Let_def)

text \<open>Filling in the defaults does not change what hardware a record describes.\<close>

lemma hardware_key_setdefaults:
  assumes "map_of kvs ''mac_address'' = Some (PStr '''')"
    and "map_of kvs ''vendor'' = Some (PStr (field s ''provider''))"
    and "''provider'' \<notin> set (dkeys kvs)" and "''serial'' \<notin> set (dkeys kvs)"
  shows "hardware_key (setdefaults kvs s) = hardware_key s"
proof (rule hardware_key_eqI)
  show "normalized_mac (dget (setdefaults kvs s) ''mac_address'' (PStr ''''))
    = normalized_mac (dget s ''mac_address'' (PStr ''''))"
    using assms(1) by (simp add: dget_def map_of_setdefaults split: option.splits)
  show "vendor_identity (vendor_or_provider (setdefaults kvs s)) = vendor_identity (vendor_or_provider s)"
    using assms(2) by (cases "map_of s ''vendor''")
      (simp_all add: vendor_or_provider_def dget_def field_def map_of_setdefaults
        map_of_setdefaults_other assms(3))
  show "identity_part (dget (setdefaults kvs s) ''serial'' (PStr ''''))
    = identity_part (dget s ''serial'' (PStr ''''))"
    using assms(4) by (simp add: dget_setdefaults_other)
qed

lemma hardware_key_dset [simp]:
  "k \<notin> {''mac_address'', ''vendor'', ''provider'', ''serial''} \<Longrightarrow> hardware_key (dset k v s) = hardware_key s"
  by (rule hardware_key_cong) (auto simp: dict_simps)

lemma hardware_key_setdefault [simp]:
  "k \<notin> {''mac_address'', ''vendor'', ''provider'', ''serial''} \<Longrightarrow>
   hardware_key (setdefault k v s) = hardware_key s"
  by (simp add: setdefault_def)

lemma check_address_Inr [result_simps]:
  "check_address networks addresses sid s = Inr r \<longleftrightarrow>
     r = sensor_address s \<and> address_ok networks s \<and> set (sensor_address s) \<inter> set addresses = {}"
proof (cases "field s ''network_id'' = ''''")
  case True
  then show ?thesis by (auto simp: check_address_def sensor_address_def address_ok_def)
next
  case False
  show ?thesis
  proof (cases "map_of networks (field s ''network_id'')")
    case None
    with False show ?thesis
      by (simp add: check_address_def address_ok_def network_host_def Let_def)
  next
    case (Some net)
    have "check_address networks addresses sid s = Inr r \<longleftrightarrow>
        (\<exists>c h. py_index net ''host_cidr'' = Inr c \<and> parse_iface4 (py_str c) = Some h
          \<and> (\<exists>p. ip_address (field s ''assigned_address'') = Inr p \<and> addr_in_net p h \<and> p \<noteq> IPv4 (if_ip h))
          \<and> (field s ''network_id'', field s ''assigned_address'') \<notin> set addresses
          \<and> r = [(field s ''network_id'', field s ''assigned_address'')])"
      using False Some
      by (simp add: check_address_def Let_def bindR_eq_Inr [of "key_or_value_error _ _"]
            bindR_eq_Inr [of "py_index _ _"] key_or_value_error_Inr ip_interface_case_Inr)
         (auto split: if_splits)
    also have "\<dots> \<longleftrightarrow> r = sensor_address s \<and> address_ok networks s
        \<and> set (sensor_address s) \<inter> set addresses = {}"
      unfolding ip_address_in_net using False Some
      by (cases "py_index net ''host_cidr''")
         (auto simp: address_ok_def network_host_def sensor_address_def split: option.splits)
    finally show ?thesis .
  qed
qed

abbreviation filled_sensor :: "string \<Rightarrow> pydict \<Rightarrow> pydict" where
  "filled_sensor sid s \<equiv> setdefaults (sensor_defaults sid (field s ''provider'')) s"

lemma filled_sensor_hardware_key [simp]: "hardware_key (filled_sensor sid s) = hardware_key s"
  by (rule hardware_key_setdefaults) (simp_all add: sensor_defaults_def)

lemma validate_sensor_Inr:
  "validate_sensor networks seen sid v = Inr (w, seen') \<longleftrightarrow>
     (\<exists>s. v = PDict s \<and> ros_safe sid \<and> field s ''provider'' \<noteq> '''' \<and> field s ''serial'' \<noteq> ''''
       \<and> hardware_key s \<notin> set (fst seen) \<and> address_ok networks s
       \<and> set (sensor_address s) \<inter> set (snd seen) = {}
       \<and> w = PDict (dset ''hardware_key'' (PStr (hardware_key s)) (filled_sensor sid s))
       \<and> seen' = (hardware_key s # fst seen, sensor_address s @ snd seen))"
  by (auto simp: validate_sensor_def Let_def result_simps)

lemma filled_sensor_field:
  "k \<in> {''provider'', ''serial'', ''network_id'', ''assigned_address''} \<Longrightarrow>
   field (dset ''hardware_key'' x (filled_sensor sid s)) k = field s k"
  by (rule field_cong) (auto simp: dict_simps map_of_setdefaults_other sensor_defaults_def)

lemma filled_sensor_address [simp]:
  "sensor_address (dset ''hardware_key'' x (filled_sensor sid s)) = sensor_address s"
  "address_ok networks (dset ''hardware_key'' x (filled_sensor sid s)) = address_ok networks s"
  by (simp_all add: sensor_address_def address_ok_def filled_sensor_field)

lemma dkeys_sensor_defaults: "dkeys (sensor_defaults sid p) = dkeys (sensor_defaults sid' p')"
  by (simp add: sensor_defaults_def)

lemma dhas_setdefaults: "k \<in> set (dkeys kvs) \<Longrightarrow> dhas (setdefaults kvs s) k"
proof -
  assume "k \<in> set (dkeys kvs)"
  then have "map_of kvs k \<noteq> None" by (simp add: map_of_eq_None_iff)
  then show ?thesis by (simp add: dhas_def map_of_setdefaults split: option.splits)
qed

lemma dhas_dset [dict_simps]: "dhas (dset k v d) k' \<longleftrightarrow> k' = k \<or> dhas d k'"
  by (simp add: dhas_def map_of_dset)

lemma validate_sensor_valid:
  assumes "validate_sensor networks seen sid v = Inr (w, seen')"
  shows "is_dict w \<and> valid_sensor networks sid (dict_of w)"
proof -
  from assms obtain s where s: "ros_safe sid" "field s ''provider'' \<noteq> ''''" "field s ''serial'' \<noteq> ''''"
    "address_ok networks s"
    "w = PDict (dset ''hardware_key'' (PStr (hardware_key s)) (filled_sensor sid s))"
    by (auto simp: validate_sensor_Inr)
  have "dhas (dict_of w) k" if "k \<in> set (dkeys (sensor_defaults '''' ''''))" for k
    using that dhas_setdefaults [of k "sensor_defaults sid (field s ''provider'')" s]
    by (simp add: s(5) dhas_dset dkeys_sensor_defaults [of "''''" "''''" sid "field s ''provider''"]
        del: list.set_map)
  then have "list_all (dhas (dict_of w)) (dkeys (sensor_defaults '''' ''''))"
    by (simp only: list_all_iff) blast
  with s show ?thesis
    by (simp add: valid_sensor_def filled_sensor_field dict_simps)
qed

lemma validate_sensor_idem:
  assumes "validate_sensor networks seen sid v = Inr (w, seen')"
  shows "validate_sensor networks seen sid w = Inr (w, seen')"
proof -
  from assms obtain s where s: "v = PDict s" and
    w: "w = PDict (dset ''hardware_key'' (PStr (hardware_key s)) (filled_sensor sid s))"
    by (auto simp: validate_sensor_Inr)
  let ?t = "dset ''hardware_key'' (PStr (hardware_key s)) (filled_sensor sid s)"
  have triv: "filled_sensor sid ?t = ?t"
  proof (rule setdefaults_triv)
    fix k assume "k \<in> set (dkeys (sensor_defaults sid (field ?t ''provider'')))"
    then have "k \<in> set (dkeys (sensor_defaults sid (field s ''provider'')))"
      by (metis dkeys_sensor_defaults)
    then show "map_of ?t k \<noteq> None" by simp
  qed
  moreover have "dset ''hardware_key'' (PStr (hardware_key ?t)) ?t = ?t"
    by (rule dset_triv) (simp add: dict_simps)
  ultimately show ?thesis
    using assms by (auto simp: validate_sensor_Inr w s filled_sensor_field)
qed

subsection \<open>One known sensor\<close>

lemma finish_known_Inr:
  "finish_known sid s = Inr t \<longleftrightarrow>
     is_dict (dget s ''latest_observation'' PNone) \<and> is_list (dget s ''changes'' PNone)
     \<and> is_dict (dget s ''provider_settings'' PNone) \<and> is_str (dget s ''camera_profile'' PNone)
     \<and> (is_dict (dget s ''last_configuration'' PNone) \<or> dget s ''last_configuration'' PNone = PNone)
     \<and> (\<exists>i. py_int (dget s ''sighting_count'' PNone) = Inr i
          \<and> t = dset ''sighting_count'' (PInt (max 0 i))
                (dset ''changes'' (PList (last_n max_known_changes (list_of (dget s ''changes'' PNone)))) s))"
  by (auto simp: finish_known_def Let_def dict_simps split: sum.splits py_exn.splits)

lemma finish_known_frame:
  assumes "finish_known sid s = Inr t" and "k \<notin> {''changes'', ''sighting_count''}"
  shows "map_of t k = map_of s k"
  using assms by (auto simp: finish_known_Inr dict_simps)

lemma finish_known_kept:
  assumes "finish_known sid s = Inr t" and "map_of s k \<noteq> None"
  shows "map_of t k \<noteq> None"
proof -
  from assms(1) obtain x y where "t = dset ''sighting_count'' x (dset ''changes'' y s)"
    by (auto simp: finish_known_Inr)
  with assms(2) show ?thesis by simp
qed

lemma finish_known_idem:
  assumes "finish_known sid s = Inr t"
  shows "finish_known sid t = Inr t"
proof -
  from assms obtain i where "is_dict (dget s ''latest_observation'' PNone)" "is_list (dget s ''changes'' PNone)"
      "is_dict (dget s ''provider_settings'' PNone)" "is_str (dget s ''camera_profile'' PNone)"
      "is_dict (dget s ''last_configuration'' PNone) \<or> dget s ''last_configuration'' PNone = PNone"
    and t: "t = dset ''sighting_count'' (PInt (max 0 i))
      (dset ''changes'' (PList (last_n max_known_changes (list_of (dget s ''changes'' PNone)))) s)"
    by (auto simp: finish_known_Inr)
  moreover have "dset ''changes'' (PList (last_n max_known_changes (list_of (dget t ''changes'' PNone)))) t = t"
    by (rule dset_triv) (simp add: t dict_simps)
  moreover have "dset ''sighting_count'' (PInt (max 0 i)) t = t"
    by (rule dset_triv) (simp add: t dict_simps)
  ultimately show ?thesis
    by (auto simp: finish_known_Inr t dict_simps)
qed

lemma validate_known_PDict:
  defines "s1 \<equiv> \<lambda>s. setdefaults (known_defaults_head (field s ''provider'')) s"
  shows "validate_known enrolled seen sid (PDict s) = Inr r \<longleftrightarrow>
     ros_safe sid \<and> field s ''provider'' \<noteq> '''' \<and> field s ''serial'' \<noteq> '''' \<and> known_identity s \<notin> set seen
     \<and> dget (s1 s) ''catalog_state'' PNone \<in> PStr ` set valid_catalog_states
     \<and> bindR (finish_known sid (complete_known enrolled sid (field s ''provider'') (s1 s)))
         (\<lambda>t. Inr (PDict t, known_identity s # seen)) = Inr r"
proof -
  have "hashable x \<and> x \<in> PStr ` A \<and> B \<longleftrightarrow> x \<in> PStr ` A \<and> B" for x A B by auto
  then show ?thesis
    unfolding validate_known_def Let_def pyval.case guard_Inr known_identity_def s1_def
      de_Morgan_disj not_not by (simp only: conj_assoc)
qed

lemma validate_known_Inr:
  "validate_known enrolled seen sid v = Inr (w, seen') \<longleftrightarrow>
     (\<exists>s t. v = PDict s \<and> ros_safe sid \<and> field s ''provider'' \<noteq> '''' \<and> field s ''serial'' \<noteq> ''''
       \<and> known_identity s \<notin> set seen
       \<and> dget (setdefaults (known_defaults_head (field s ''provider'')) s) ''catalog_state'' PNone
           \<in> PStr ` set valid_catalog_states
       \<and> finish_known sid (complete_known enrolled sid (field s ''provider'')
           (setdefaults (known_defaults_head (field s ''provider'')) s)) = Inr t
       \<and> w = PDict t \<and> seen' = known_identity s # seen)"
proof (cases v)
  case (PDict s)
  show ?thesis
    unfolding PDict validate_known_PDict bindR_eq_Inr sum.inject prod.inject pyval.inject by blast
qed (simp_all add: validate_known_def)

text \<open>Validation keeps every field that the record already has, except the computed ones.\<close>

lemma complete_known_frame:
  assumes "map_of s k = Some x" and "k \<notin> {''catalog_state'', ''hardware_key''}"
  shows "map_of (complete_known enrolled sid p s) k = Some x"
  using assms by (simp add: complete_known_def Let_def)

lemma complete_known_other:
  assumes "k \<notin> {''catalog_state'', ''hardware_key'', ''first_seen_at'', ''last_provider''}"
    and "k \<notin> set (dkeys (known_defaults_tail PNone))"
  shows "map_of (complete_known enrolled sid p s) k = map_of s k"
  using assms by (simp add: complete_known_def Let_def map_of_setdefaults_other known_defaults_tail_def)

lemma complete_known_triv:
  assumes "sid \<in> set enrolled \<Longrightarrow> map_of t ''catalog_state'' = Some (PStr ''enrolled'')"
    and "map_of t ''hardware_key'' = Some (PStr (hardware_key t))"
    and "\<And>k. k \<in> {''first_seen_at'', ''last_provider''} \<union> set (dkeys (known_defaults_tail PNone))
      \<Longrightarrow> map_of t k \<noteq> None"
  shows "complete_known enrolled sid p t = t"
proof -
  have 1: "(if sid \<in> set enrolled then dset ''catalog_state'' (PStr ''enrolled'') t else t) = t"
    using assms(1) by (simp add: dset_triv)
  have 2: "setdefault k v t = t" if "k \<in> {''first_seen_at'', ''last_provider''}" for k v
    using assms(3) [of k] that by (auto intro!: setdefault_triv)
  have 3: "setdefaults (known_defaults_tail x) t = t" for x
    using assms(3) by (intro setdefaults_triv) (auto simp: known_defaults_tail_def)
  have 4: "dset ''hardware_key'' (PStr (hardware_key t)) t = t"
    using assms(2) by (rule dset_triv)
  show ?thesis by (simp add: complete_known_def 1 2 3 4)
qed

lemma complete_known_hardware_key [simp]: "hardware_key (complete_known enrolled sid p s) = hardware_key s"
  by (rule hardware_key_cong) (simp_all add: complete_known_other known_defaults_tail_def)

lemma complete_known_computed:
  "map_of (complete_known enrolled sid p s) ''hardware_key'' = Some (PStr (hardware_key s))"
  "sid \<in> set enrolled \<Longrightarrow>
   map_of (complete_known enrolled sid p s) ''catalog_state'' = Some (PStr ''enrolled'')"
  "sid \<notin> set enrolled \<Longrightarrow>
   map_of (complete_known enrolled sid p s) ''catalog_state'' = map_of s ''catalog_state''"
proof -
  have key: "hardware_key (setdefaults (known_defaults_tail x) (setdefault ''first_seen_at'' y
      (if b then dset ''catalog_state'' z s else s))) = hardware_key s" for x y z b
    by (rule hardware_key_cong) (simp_all add: map_of_setdefaults_other known_defaults_tail_def)
  show "map_of (complete_known enrolled sid p s) ''hardware_key'' = Some (PStr (hardware_key s))"
    by (simp add: complete_known_def Let_def key)
qed (simp_all add: complete_known_def Let_def map_of_setdefaults_other known_defaults_tail_def)

lemma complete_known_present:
  assumes "k \<in> {''first_seen_at'', ''last_provider''} \<union> set (dkeys (known_defaults_tail PNone))"
  shows "map_of (complete_known enrolled sid p s) k \<noteq> None"
  using assms by (elim UnE) (auto simp: complete_known_def Let_def known_defaults_tail_def)

lemma complete_known_kept:
  "map_of s k \<noteq> None \<Longrightarrow> map_of (complete_known enrolled sid p s) k \<noteq> None"
  by (simp add: complete_known_def Let_def)

text \<open>What the fields of an accepted record are, relative to the record given.\<close>

lemma validate_known_frame:
  assumes "validate_known enrolled seen sid (PDict s) = Inr (PDict t, seen')"
    and "map_of s k = Some x"
    and "k \<notin> {''catalog_state'', ''hardware_key'', ''changes'', ''sighting_count''}"
  shows "map_of t k = Some x"
proof -
  from assms(1) obtain fin where "finish_known sid (complete_known enrolled sid (field s ''provider'')
      (setdefaults (known_defaults_head (field s ''provider'')) s)) = Inr fin" "t = fin"
    by (auto simp only: validate_known_Inr pyval.inject)
  with assms(2,3) show ?thesis
    by (simp add: finish_known_frame complete_known_frame)
qed

lemma validate_known_shape:
  assumes "validate_known enrolled seen sid v = Inr (w, seen')"
  obtains s t where "v = PDict s" "w = PDict t"
    "\<And>k. k \<in> {''provider'', ''serial''} \<Longrightarrow> map_of t k = map_of s k"
    "map_of t ''hardware_key'' = Some (PStr (hardware_key t))"
    "sid \<in> set enrolled \<Longrightarrow> map_of t ''catalog_state'' = Some (PStr ''enrolled'')"
    "dget t ''catalog_state'' PNone \<in> PStr ` set valid_catalog_states"
    "finish_known sid t = Inr t"
    "\<And>k. k \<in> set (dkeys (known_defaults_head '''')) \<union> {''first_seen_at'', ''last_provider''}
      \<union> set (dkeys (known_defaults_tail PNone)) \<Longrightarrow> map_of t k \<noteq> None"
proof -
  from assms obtain s t where v: "v = PDict s" and w: "w = PDict t"
    and state: "dget (setdefaults (known_defaults_head (field s ''provider'')) s) ''catalog_state'' PNone
      \<in> PStr ` set valid_catalog_states"
    and fin: "finish_known sid (complete_known enrolled sid (field s ''provider'')
      (setdefaults (known_defaults_head (field s ''provider'')) s)) = Inr t"
    by (auto simp only: validate_known_Inr)
  let ?s1 = "setdefaults (known_defaults_head (field s ''provider'')) s"
  let ?c = "complete_known enrolled sid (field s ''provider'') ?s1"
  have t: "map_of t k = map_of ?c k" if "k \<notin> {''changes'', ''sighting_count''}" for k
    using finish_known_frame [OF fin that] .
  have key: "hardware_key t = hardware_key ?s1"
    using hardware_key_cong [of t ?c] by (simp add: t)
  show thesis
  proof (rule that [OF v w])
    show "map_of t k = map_of s k" if "k \<in> {''provider'', ''serial''}" for k
      using that by (auto simp: t complete_known_other known_defaults_tail_def known_defaults_head_def
          map_of_setdefaults_other)
    show "map_of t ''hardware_key'' = Some (PStr (hardware_key t))"
      by (simp add: t complete_known_computed key)
    show "sid \<in> set enrolled \<Longrightarrow> map_of t ''catalog_state'' = Some (PStr ''enrolled'')"
      by (simp add: t complete_known_computed)
    show "dget t ''catalog_state'' PNone \<in> PStr ` set valid_catalog_states"
      using state by (cases "sid \<in> set enrolled")
        (auto simp: dget_def t complete_known_computed valid_catalog_states_def)
    show "finish_known sid t = Inr t" by (rule finish_known_idem [OF fin])
  next
    fix k assume k: "k \<in> set (dkeys (known_defaults_head '''')) \<union> {''first_seen_at'', ''last_provider''}
      \<union> set (dkeys (known_defaults_tail PNone))"
    have "map_of ?c k \<noteq> None"
    proof (cases "k \<in> set (dkeys (known_defaults_head ''''))")
      case True
      then have "map_of ?s1 k \<noteq> None" by (auto simp: known_defaults_head_def)
      then show ?thesis by (rule complete_known_kept)
    next
      case False
      with k show ?thesis by (intro complete_known_present) blast
    qed
    with fin show "map_of t k \<noteq> None" by (rule finish_known_kept)
  qed
qed

lemma known_identity_cong:
  assumes "\<And>k. k \<in> {''provider'', ''serial''} \<Longrightarrow> map_of t k = map_of s k"
  shows "known_identity t = known_identity s"
    and "field t ''provider'' = field s ''provider''" and "field t ''serial'' = field s ''serial''"
  using assms by (simp_all add: known_identity_def field_def dget_def)

lemma validate_known_valid:
  assumes "validate_known enrolled seen sid v = Inr (w, seen')"
  shows "is_dict w \<and> valid_known enrolled sid (dict_of w)
    \<and> known_identity (dict_of w) \<notin> set seen \<and> seen' = known_identity (dict_of w) # seen"
  using assms
proof (rule validate_known_shape)
  fix s t assume v: "v = PDict s" and w: "w = PDict t"
    and same: "\<And>k. k \<in> {''provider'', ''serial''} \<Longrightarrow> map_of t k = map_of s k"
    and parts: "map_of t ''hardware_key'' = Some (PStr (hardware_key t))"
      "sid \<in> set enrolled \<Longrightarrow> map_of t ''catalog_state'' = Some (PStr ''enrolled'')"
      "dget t ''catalog_state'' PNone \<in> PStr ` set valid_catalog_states"
    and fin: "finish_known sid t = Inr t"
  from fin obtain i where i: "t = dset ''sighting_count'' (PInt (max 0 i))
      (dset ''changes'' (PList (last_n max_known_changes (list_of (dget t ''changes'' PNone)))) t)"
    and types: "is_dict (dget t ''latest_observation'' PNone)" "is_list (dget t ''changes'' PNone)"
      "is_dict (dget t ''provider_settings'' PNone)" "is_str (dget t ''camera_profile'' PNone)"
    unfolding finish_known_Inr by blast
  have count: "map_of t ''sighting_count'' = Some (PInt (max 0 i))" by (subst i) simp
  have "length (list_of (dget t ''changes'' PNone)) \<le> max_known_changes"
    if "map_of t ''changes'' = Some (PList (last_n max_known_changes xs))" for xs
    using that length_last_n by simp
  then have len: "length (list_of (dget t ''changes'' PNone)) \<le> max_known_changes"
    by this (subst i, simp)
  have ids: "ros_safe sid \<and> field s ''provider'' \<noteq> '''' \<and> field s ''serial'' \<noteq> ''''
      \<and> known_identity s \<notin> set seen \<and> seen' = known_identity s # seen"
    using assms unfolding validate_known_Inr v pyval.inject by blast
  show ?thesis
    using ids parts types len count known_identity_cong [OF same] by (simp add: valid_known_def w)
qed

lemma validate_known_idem:
  assumes "validate_known enrolled seen sid v = Inr (w, seen')"
  shows "validate_known enrolled seen sid w = Inr (w, seen')"
  using assms
proof (rule validate_known_shape)
  fix s t assume v: "v = PDict s" and w: "w = PDict t"
    and same: "\<And>k. k \<in> {''provider'', ''serial''} \<Longrightarrow> map_of t k = map_of s k"
    and parts: "map_of t ''hardware_key'' = Some (PStr (hardware_key t))"
      "sid \<in> set enrolled \<Longrightarrow> map_of t ''catalog_state'' = Some (PStr ''enrolled'')"
    and state: "dget t ''catalog_state'' PNone \<in> PStr ` set valid_catalog_states"
    and fin: "finish_known sid t = Inr t"
    and there: "\<And>k. k \<in> set (dkeys (known_defaults_head '''')) \<union> {''first_seen_at'', ''last_provider''}
      \<union> set (dkeys (known_defaults_tail PNone)) \<Longrightarrow> map_of t k \<noteq> None"
  have head: "setdefaults (known_defaults_head p) t = t" for p
    by (rule setdefaults_triv, rule there) (auto simp: known_defaults_head_def)
  have rest: "complete_known enrolled sid p t = t" for p
    using parts there by (intro complete_known_triv) blast+
  have ids: "ros_safe sid \<and> field s ''provider'' \<noteq> '''' \<and> field s ''serial'' \<noteq> ''''
      \<and> known_identity s \<notin> set seen \<and> seen' = known_identity s # seen"
    using assms unfolding validate_known_Inr v pyval.inject by blast
  show ?thesis
    unfolding validate_known_Inr
    by (rule exI [of _ t], rule exI [of _ t])
       (use ids state fin known_identity_cong [OF same] in \<open>simp add: w head rest\<close>)
qed

subsection \<open>Groups and port modes\<close>

lemma check_members_Inr: "check_members gid enrolled ms = Inr u \<longleftrightarrow> set ms \<subseteq> PStr ` set enrolled"
  by (induction ms) auto

lemma check_port_modes_Inr:
  "check_port_modes networks pm = Inr u \<longleftrightarrow>
     (\<forall>(nid, mode) \<in> set pm. dhas networks nid \<and> mode \<in> PStr ` set valid_network_modes)"
proof (induction pm)
  case (Cons p pm)
  obtain nid mode where p: "p = (nid, mode)" by (cases p)
  have "mode \<in> PStr ` A \<Longrightarrow> hashable mode" for A by auto
  then show ?case
    unfolding p check_port_modes.simps guard_Inr Cons.IH not_not set_simps ball_simps prod.case by blast
qed simp

lemma strings_image: "set ms \<subseteq> range PStr \<Longrightarrow> ms = map PStr (map str_of ms)"
  by (induction ms) auto

lemma validate_group_PDict:
  "validate_group machine enrolled gid (PDict g) = Inr w \<longleftrightarrow>
     ros_safe gid \<and> field g ''provider'' \<noteq> ''''
     \<and> (\<exists>ms. py_list (dget g ''members'' (PList [])) = Inr ms \<and> ms \<noteq> []
          \<and> py_str (dget g ''missing_policy'' (PStr ''strict'')) \<in> set valid_missing_policies
          \<and> py_distinct ms \<and> set ms \<subseteq> PStr ` set enrolled)
     \<and> (\<exists>r. py_float (dget g ''preview_rate_hz''
              (dget (machine_section machine ''defaults'') ''preview_rate_hz'' PNone)) = Inr r
          \<and> preview_rate_ok r)
     \<and> w = PDict (dset ''preferred_master_id'' (PStr '''')
             (setdefault ''preview_rate_hz'' (dget (machine_section machine ''defaults'') ''preview_rate_hz'' PNone)
               (setdefault ''missing_policy'' (PStr ''strict'')
                 (dset ''trigger_source'' (PStr ''Action0'') g))))"
proof -
  have hash: "set ms \<subseteq> PStr ` set enrolled \<Longrightarrow> list_all hashable ms" for ms
    by (auto simp: list_all_iff)
  show ?thesis
    unfolding validate_group_def Let_def pyval.case guard_Inr bindR_eq_Inr check_members_Inr
      de_Morgan_disj not_not sum.inject
    using hash by blast
qed

definition filled_group :: "pydict \<Rightarrow> pydict \<Rightarrow> pydict" where
  "filled_group machine g =
     dset ''preferred_master_id'' (PStr '''')
       (setdefault ''preview_rate_hz'' (dget (machine_section machine ''defaults'') ''preview_rate_hz'' PNone)
         (setdefault ''missing_policy'' (PStr ''strict'')
           (dset ''trigger_source'' (PStr ''Action0'') g)))"

lemma filled_group_lookup:
  "k \<in> {''provider'', ''members''} \<Longrightarrow> map_of (filled_group machine g) k = map_of g k"
  "dget (filled_group machine g) ''missing_policy'' d = dget g ''missing_policy'' (PStr ''strict'')"
  "dget (filled_group machine g) ''preview_rate_hz'' d
     = dget g ''preview_rate_hz'' (dget (machine_section machine ''defaults'') ''preview_rate_hz'' PNone)"
  "map_of (filled_group machine g) ''trigger_source'' = Some (PStr ''Action0'')"
  "map_of (filled_group machine g) ''preferred_master_id'' = Some (PStr '''')"
  by (auto simp: filled_group_def dget_def map_of_dset map_of_setdefault split: option.splits)

lemma filled_group_idem: "filled_group machine (filled_group machine g) = filled_group machine g"
proof -
  let ?f = "filled_group machine g"
  have "dset ''trigger_source'' (PStr ''Action0'') ?f = ?f"
    "dset ''preferred_master_id'' (PStr '''') ?f = ?f"
    by (rule dset_triv, rule filled_group_lookup)+
  moreover have "setdefault k v ?f = ?f" if "k \<in> {''missing_policy'', ''preview_rate_hz''}" for k v
    using that by (intro setdefault_triv) (auto simp: filled_group_def)
  ultimately show ?thesis
    by (subst filled_group_def) simp
qed

lemma filled_group_fields:
  "field (filled_group machine g) ''provider'' = field g ''provider''"
  "dget (filled_group machine g) ''members'' d = dget g ''members'' d"
  "group_members (filled_group machine g) = group_members g"
  "field (filled_group machine g) ''missing_policy'' = py_str (dget g ''missing_policy'' (PStr ''strict''))"
  using filled_group_lookup(1) [of _ machine g]
  by (simp_all add: field_def group_members_def filled_group_lookup(2)) (simp_all add: dget_def)

lemma validate_group_valid:
  assumes "validate_group machine enrolled gid v = Inr w"
  shows "is_dict w \<and> valid_group enrolled gid (dict_of w) \<and> validate_group machine enrolled gid w = Inr w"
proof (cases v)
  case (PDict g)
  from assms obtain ms where w: "w = PDict (filled_group machine g)"
    and ms: "py_list (dget g ''members'' (PList [])) = Inr ms" "set ms \<subseteq> PStr ` set enrolled"
      "py_distinct ms" "ms \<noteq> []"
    and ids: "ros_safe gid" "field g ''provider'' \<noteq> ''''"
    and policy: "py_str (dget g ''missing_policy'' (PStr ''strict'')) \<in> set valid_missing_policies"
    unfolding PDict validate_group_PDict filled_group_def by blast
  from ms(2) have "set ms \<subseteq> range PStr" by blast
  then have strs: "ms = map PStr (map str_of ms)" by (rule strings_image)
  have gm: "group_members g = map str_of ms" by (simp add: group_members_def ms)
  have "distinct (map str_of ms)" using ms(3) strs py_distinct_strings by metis
  moreover have "set (map str_of ms) \<subseteq> set enrolled" using ms(2) by auto
  moreover have "validate_group machine enrolled gid w = Inr w"
    using assms unfolding w PDict validate_group_PDict filled_group_def [symmetric] filled_group_idem
      filled_group_fields filled_group_lookup(2,3) by blast
  moreover have "case py_float (dget g ''preview_rate_hz''
      (dget (machine_section machine ''defaults'') ''preview_rate_hz'' PNone)) of
        Inr r \<Rightarrow> preview_rate_ok r | Inl _ \<Rightarrow> False"
    using assms unfolding PDict validate_group_PDict by (elim conjE exE) simp
  ultimately show ?thesis
    using ids policy ms(4)
    by (simp add: w valid_group_def filled_group_fields filled_group_lookup gm)
qed (use assms in \<open>auto simp: validate_group_def split: if_splits\<close>)

subsection \<open>The document\<close>

abbreviation group_loop :: "pydict \<Rightarrow> string list \<Rightarrow> unit \<Rightarrow> string \<Rightarrow> pyval \<Rightarrow> (pyval \<times> unit) result" where
  "group_loop machine enrolled \<equiv>
     (\<lambda>_ gid v. bindR (validate_group machine enrolled gid v) (\<lambda>w. Inr (w, ())))"

text \<open>The checks after the migration, as one statement.\<close>

definition accepts :: "pydict \<Rightarrow> pydict \<Rightarrow> pydict \<Rightarrow> pydict \<Rightarrow> pydict \<Rightarrow> bool" where
  "accepts machine result sensors known groups \<longleftrightarrow>
     list_all (\<lambda>k. is_dict (dget result k PNone)) [''sensors'', ''known_sensors'', ''sync_groups'', ''port_modes'']
     \<and> is_list (dget result ''history'' PNone)
     \<and> check_port_modes (machine_networks machine) (dict_of (dget result ''port_modes'' PNone)) = Inr ()
     \<and> map_items (validate_sensor (machine_networks machine)) ([], []) (dict_of (dget result ''sensors'' PNone)) = Inr sensors
     \<and> map_items (validate_known (dkeys sensors)) [] (dict_of (dget result ''known_sensors'' PNone)) = Inr known
     \<and> missing_known sensors known = []
     \<and> map_items (group_loop machine (dkeys sensors)) () (dict_of (dget result ''sync_groups'' PNone)) = Inr groups"

lemma validate_inventory_Inr:
  "validate_inventory now data machine = Inr r \<longleftrightarrow>
     (\<exists>mig sensors known groups. migrate_inventory now data = Inr mig
       \<and> py_eq (dget mig ''schema_version'' PNone) (PInt 3)
       \<and> accepts machine (inventory_sections mig) sensors known groups
       \<and> r = dupdate [(''sensors'', PDict sensors), (''known_sensors'', PDict known),
               (''sync_groups'', PDict groups)] (inventory_sections mig))"
proof -
  have unit: "(\<exists>x. m = Inr (x :: unit) \<and> Q) \<longleftrightarrow> m = Inr () \<and> Q" for m :: "unit result" and Q by auto
  show ?thesis
    unfolding validate_inventory_def Let_def guard_Inr bindR_eq_Inr accepts_def de_Morgan_disj not_not
      list.pred_inject sum.inject unit by (simp only: list.pred_inject simp_thms) blast
qed

lemma missing_known_Nil: "missing_known sensors known = [] \<longleftrightarrow> set (dkeys sensors) \<subseteq> set (dkeys known)"
proof -
  have "missing_known sensors known = [] \<longleftrightarrow> set (missing_known sensors known) = {}" by simp
  also have "set (missing_known sensors known) = set (dkeys sensors) - set (dkeys known)"
    unfolding missing_known_def set_sort set_filter set_remdups by blast
  finally show ?thesis by blast
qed

lemma inventory_sections_there:
  "k \<in> {''schema_version'', ''sensors'', ''known_sensors'', ''sync_groups'', ''port_modes'', ''history''}
    \<Longrightarrow> map_of (inventory_sections d) k \<noteq> None"
  by (auto simp: inventory_sections_def)

lemma inventory_sections_version: "map_of (inventory_sections d) ''schema_version'' = Some (PInt 3)"
  by (simp add: inventory_sections_def map_of_setdefaults_other)

lemma inventory_sections_triv:
  assumes "map_of d ''schema_version'' = Some (PInt 3)"
    and "\<And>k. k \<in> {''sensors'', ''known_sensors'', ''sync_groups'', ''port_modes'', ''history''}
      \<Longrightarrow> map_of d k \<noteq> None"
  shows "inventory_sections d = d"
  unfolding inventory_sections_def dset_triv [OF assms(1)]
  by (rule setdefaults_triv, rule assms(2)) auto

lemma py_eq_3: "py_eq (PInt 3) (PInt 3)"
  by code_simp

lemma migrate_current: "map_of d ''schema_version'' = Some (PInt 3) \<Longrightarrow> migrate_inventory now d = Inr d"
  by (simp add: migrate_inventory_def)

abbreviation with_sections :: "pydict \<Rightarrow> pydict \<Rightarrow> pydict \<Rightarrow> pydict \<Rightarrow> pydict" where
  "with_sections sensors known groups result \<equiv>
     dupdate [(''sensors'', PDict sensors), (''known_sensors'', PDict known),
              (''sync_groups'', PDict groups)] result"

lemma with_sections_lookup [simp]:
  "map_of (with_sections s k g r) ''sensors'' = Some (PDict s)"
  "map_of (with_sections s k g r) ''known_sensors'' = Some (PDict k)"
  "map_of (with_sections s k g r) ''sync_groups'' = Some (PDict g)"
  "key \<notin> {''sensors'', ''known_sensors'', ''sync_groups''} \<Longrightarrow>
   map_of (with_sections s k g r) key = map_of r key"
  by (simp_all add: map_of_dupdate)

lemma accepts_idem:
  assumes "accepts machine result sensors known groups"
  shows "accepts machine (with_sections sensors known groups result) sensors known groups"
proof -
  have look: "dget (with_sections sensors known groups result) key PNone = dget result key PNone"
    if "key \<in> {''port_modes'', ''history''}" for key
    using that by (auto simp: dget_def)
  have "map_items (validate_sensor (machine_networks machine)) ([], []) sensors = Inr sensors"
    using assms by (intro map_items_idem [OF validate_sensor_idem]) (auto simp: accepts_def)
  moreover have "map_items (validate_known (dkeys sensors)) [] known = Inr known"
    using assms by (intro map_items_idem [OF validate_known_idem]) (auto simp: accepts_def)
  moreover have "map_items (group_loop machine (dkeys sensors)) () groups = Inr groups"
    using assms by (intro map_items_idem [of "group_loop machine (dkeys sensors)"])
      (auto simp: accepts_def bindR_eq_Inr dest: validate_group_valid)
  ultimately show ?thesis
    using assms by (simp add: accepts_def look)
qed

lemma sensors_pairwise:
  assumes "map_items (validate_sensor nets) ([], []) d = Inr sensors"
  shows "distinct (map (\<lambda>(sid, s). hardware_key (dict_of s)) sensors)
    \<and> distinct (concat (map (\<lambda>(sid, s). sensor_address (dict_of s)) sensors))"
proof -
  have "validate_sensor nets s k v = Inr (w, s') \<Longrightarrow>
      hardware_key (dict_of w) \<notin> set (fst s) \<and> set (sensor_address (dict_of w)) \<inter> set (snd s) = {}
      \<and> s' = (hardware_key (dict_of w) # fst s, sensor_address (dict_of w) @ snd s)" for s k v w s'
    unfolding validate_sensor_Inr by (elim exE conjE) simp
  note step = this
  have one: "distinct (sensor_address s)" for s by (simp add: sensor_address_def)
  have "sorted_wrt (\<noteq>) (concat (map (\<lambda>(k, w). [hardware_key (dict_of w)]) sensors))"
    using map_items_pairwise [where R = "(\<noteq>)" and seen = "\<lambda>s. set (fst s)"
        and g = "\<lambda>k w. [hardware_key (dict_of w)]", OF _ assms] by (fastforce dest: step)
  moreover have "sorted_wrt (\<noteq>) (concat (map (\<lambda>(k, w). sensor_address (dict_of w)) sensors))"
    using map_items_pairwise [where R = "(\<noteq>)" and seen = "\<lambda>s. set (snd s)"
        and g = "\<lambda>k w. sensor_address (dict_of w)", OF _ assms]
    by (fastforce dest: step simp: distinct_sorted_wrt_neq one)
  ultimately show ?thesis by (simp add: distinct_sorted_wrt_neq concat_singletons)
qed

lemma known_pairwise:
  assumes "map_items (validate_known enrolled) [] d = Inr known"
  shows "distinct (map (\<lambda>(sid, s). known_identity (dict_of s)) known)"
proof -
  have "sorted_wrt (\<noteq>) (concat (map (\<lambda>(k, w). [known_identity (dict_of w)]) known))"
    using map_items_pairwise [where R = "(\<noteq>)" and seen = set
        and g = "\<lambda>k w. [known_identity (dict_of w)]", OF _ assms] by (fastforce dest: validate_known_valid)
  then show ?thesis by (simp add: distinct_sorted_wrt_neq concat_singletons)
qed

lemma accepts_valid:
  assumes "accepts machine result sensors known groups"
    and "map_of result ''schema_version'' = Some (PInt 3)"
    and "map_of result ''port_modes'' \<noteq> None"
  shows "valid_inventory machine (with_sections sensors known groups result)"
proof -
  let ?ivt = "with_sections sensors known groups result"
  let ?nets = "machine_networks machine"
  from assms(1) have
    S: "map_items (validate_sensor ?nets) ([], []) (dict_of (dget result ''sensors'' PNone)) = Inr sensors"
    and K: "map_items (validate_known (dkeys sensors)) [] (dict_of (dget result ''known_sensors'' PNone)) = Inr known"
    and G: "map_items (group_loop machine (dkeys sensors)) () (dict_of (dget result ''sync_groups'' PNone)) = Inr groups"
    and M: "set (dkeys sensors) \<subseteq> set (dkeys known)"
    and P: "\<forall>(nid, mode) \<in> set (dict_of (dget result ''port_modes'' PNone)).
      dhas ?nets nid \<and> mode \<in> PStr ` set valid_network_modes"
    unfolding accepts_def missing_known_Nil check_port_modes_Inr by blast+
  have sec: "inv_sensors ?ivt = sensors" "inv_known ?ivt = known" "inv_groups ?ivt = groups"
    by (simp_all add: inv_section_def)
  have pm: "inv_port_modes ?ivt = dict_of (dget result ''port_modes'' PNone)"
    using assms(3) by (auto simp: inv_section_def)
  have s_all: "is_dict v \<and> valid_sensor ?nets sid (dict_of v)" if "(sid, v) \<in> set sensors" for sid v
    by (rule map_items_all [where P = "\<lambda>sid v. is_dict v \<and> valid_sensor ?nets sid (dict_of v)", OF _ S that])
       (rule validate_sensor_valid)
  have k_all: "is_dict v \<and> valid_known (dkeys sensors) sid (dict_of v)" if "(sid, v) \<in> set known" for sid v
    by (rule map_items_all [where P = "\<lambda>sid v. is_dict v \<and> valid_known (dkeys sensors) sid (dict_of v)", OF _ K that])
       (use validate_known_valid in blast)
  have g_all: "is_dict v \<and> valid_group (dkeys sensors) gid (dict_of v)" if "(gid, v) \<in> set groups" for gid v
    by (rule map_items_all [where P = "\<lambda>gid v. is_dict v \<and> valid_group (dkeys sensors) gid (dict_of v)", OF _ G that])
       (use validate_group_valid in \<open>auto simp: bindR_eq_Inr\<close>)
  have keyset: "distinct (map (\<lambda>(sid, s). hardware_key (dict_of s)) sensors)"
    and addrs: "distinct (concat (map (\<lambda>(sid, s). sensor_address (dict_of s)) sensors))"
    using sensors_pairwise [OF S] by blast+
  have ids: "distinct (map (\<lambda>(sid, s). known_identity (dict_of s)) known)"
    using known_pairwise [OF K] .
  have types: "list_all (\<lambda>k. is_dict (dget ?ivt k PNone)) [''sensors'', ''known_sensors'', ''sync_groups'', ''port_modes'']"
    "is_list (dget ?ivt ''history'' PNone)"
    using assms(1) by (simp_all add: accepts_def dget_def)
  show ?thesis
    unfolding valid_inventory_def sec pm
    by (intro conjI types P keyset addrs ids M) (use assms(2) s_all k_all g_all in simp_all, blast+)
qed


theorem validate_inventory_valid:
  assumes "validate_inventory now data machine = Inr r"
  shows "valid_inventory machine r"
proof -
  from assms obtain mig sensors known groups
    where acc: "accepts machine (inventory_sections mig) sensors known groups"
      and r: "r = with_sections sensors known groups (inventory_sections mig)"
    unfolding validate_inventory_Inr by blast
  show ?thesis
    unfolding r
    by (rule accepts_valid [OF acc inventory_sections_version]) (rule inventory_sections_there, simp)
qed

theorem validate_inventory_idem:
  assumes "validate_inventory now data machine = Inr r"
  shows "validate_inventory now' r machine = Inr r"
proof -
  from assms obtain mig sensors known groups
    where acc: "accepts machine (inventory_sections mig) sensors known groups"
      and r: "r = with_sections sensors known groups (inventory_sections mig)"
    unfolding validate_inventory_Inr by blast
  have version: "map_of r ''schema_version'' = Some (PInt 3)"
    by (simp add: r inventory_sections_version)
  have triv: "inventory_sections r = r"
  proof (rule inventory_sections_triv [OF version])
    fix k assume k: "k \<in> {''sensors'', ''known_sensors'', ''sync_groups'', ''port_modes'', ''history''}"
    show "map_of r k \<noteq> None"
    proof (cases "k \<in> {''sensors'', ''known_sensors'', ''sync_groups''}")
      case False
      then have "map_of r k = map_of (inventory_sections mig) k" unfolding r by (rule with_sections_lookup)
      with k inventory_sections_there [of k mig] show ?thesis by auto
    qed (auto simp: r)
  qed
  have same: "with_sections sensors known groups r = r"
    by (rule dupdate_triv) (use with_sections_lookup(1-3) [of sensors known groups] r in auto)
  have acc': "accepts machine r sensors known groups"
    using accepts_idem [OF acc] by (simp only: r)
  show ?thesis
    unfolding validate_inventory_Inr
    by (rule exI [of _ r], rule exI [of _ sensors], rule exI [of _ known], rule exI [of _ groups])
       (simp only: migrate_current [OF version] triv same acc' dget_Some [OF version] py_eq_3 simp_thms)
qed

end
