(* ===== verification/Store.thy ===== *)
theory Store
  imports Py_Value
begin

section \<open>Atomic file replacement and validated stores\<close>

text \<open>
  The file-system side of \<^verbatim>\<open>Registry.save\<close> (\<^verbatim>\<open>registry.py\<close>) and
  \<^verbatim>\<open>save_managed_camera_profiles\<close> (\<^verbatim>\<open>camera_profiles.py\<close>): the state is the three
  files the code touches, the operations are the system calls in the order the code
  makes them, and every one of them may raise. What is in a file is a value of a type
  \<open>'f\<close>; the environment says which call raises and what an interrupted write leaves.

  The second part is the interface between a saved document and its check: a check that
  establishes a validity predicate and accepts its own output. Every transaction that
  saves through such a check keeps the document valid.
\<close>

subsection \<open>State and exceptions\<close>

text \<open>Operations that change a state and may raise: the state survives the exception.\<close>

type_synonym ('s, 'a) op = "'s \<Rightarrow> 'a result \<times> 's"

definition returnS :: "'a \<Rightarrow> ('s, 'a) op" where
  "returnS x s = (Inr x, s)"

definition raiseS :: "py_exn \<Rightarrow> ('s, 'a) op" where
  "raiseS e s = (Inl e, s)"

definition bindS :: "('s, 'a) op \<Rightarrow> ('a \<Rightarrow> ('s, 'b) op) \<Rightarrow> ('s, 'b) op" where
  "bindS m f s = (case m s of (Inl e, s') \<Rightarrow> (Inl e, s') | (Inr x, s') \<Rightarrow> f x s')"

definition getS :: "('s, 's) op" where
  "getS s = (Inr s, s)"

definition modifyS :: "('s \<Rightarrow> 's) \<Rightarrow> ('s, unit) op" where
  "modifyS f s = (Inr (), f s)"

definition liftS :: "'a result \<Rightarrow> ('s, 'a) op" where
  "liftS r s = (r, s)"

declare bindS_def [code_unfold]

lemma op_simps [simp]:
  "returnS x s = (Inr x, s)" "raiseS e s = (Inl e, s)" "getS s = (Inr s, s)"
  "modifyS f s = (Inr (), f s)" "liftS r s = (r, s)"
  by (simp_all add: returnS_def raiseS_def getS_def modifyS_def liftS_def)

lemma bindS_Inr [result_simps]:
  "bindS m f s = (Inr y, s'') \<longleftrightarrow> (\<exists>x s'. m s = (Inr x, s') \<and> f x s' = (Inr y, s''))"
  by (auto simp: bindS_def split: prod.splits sum.splits)

lemma bindS_Inl [result_simps]:
  "bindS m f s = (Inl e, s'') \<longleftrightarrow>
     m s = (Inl e, s'') \<or> (\<exists>x s'. m s = (Inr x, s') \<and> f x s' = (Inl e, s''))"
  by (auto simp: bindS_def split: prod.splits sum.splits)

lemma bindS_steps [simp]:
  "bindS (returnS x) f s = f x s" "bindS (raiseS e) f s = (Inl e, s)"
  "bindS getS f2 s = f2 s s" "bindS (modifyS g) f3 s = f3 () (g s)"
  "bindS (liftS (Inr x)) f s = f x s" "bindS (liftS (Inl e)) f s = (Inl e, s)"
  by (simp_all add: bindS_def)

subsection \<open>Replacing a file\<close>

record 'f disk =
  dk_file :: "'f option"
  dk_backup :: "'f option"
  dk_temp :: "'f option"

datatype io_step =
  Make_dir | Copy_backup | Make_temp | Write_temp | Chmod_temp | Replace_file | Sync_dir | Unlink_temp

record 'f fs_env =
  fe_torn :: 'f
  fe_fault :: "io_step \<Rightarrow> py_exn option"

text \<open>
  One call: what it does to the files when it succeeds, and what it leaves when it raises.
\<close>

fun io_effect :: "'f \<Rightarrow> 'f \<Rightarrow> io_step \<Rightarrow> 'f disk \<Rightarrow> 'f disk" where
  "io_effect torn content Copy_backup d = d\<lparr>dk_backup := dk_file d\<rparr>"
| "io_effect torn content Make_temp d = d\<lparr>dk_temp := Some torn\<rparr>"
| "io_effect torn content Write_temp d = d\<lparr>dk_temp := Some content\<rparr>"
| "io_effect torn content Replace_file d = d\<lparr>dk_file := dk_temp d, dk_temp := None\<rparr>"
| "io_effect torn content Unlink_temp d = d\<lparr>dk_temp := None\<rparr>"
| "io_effect torn content _ d = d"

fun io_failure :: "'f \<Rightarrow> io_step \<Rightarrow> 'f disk \<Rightarrow> 'f disk" where
  "io_failure torn Copy_backup d = d\<lparr>dk_backup := Some torn\<rparr>"
| "io_failure torn Write_temp d = d\<lparr>dk_temp := Some torn\<rparr>"
| "io_failure torn _ d = d"

fun run_io :: "'f fs_env \<Rightarrow> 'f \<Rightarrow> io_step list \<Rightarrow> ('f disk, unit) op" where
  "run_io env content [] d = (Inr (), d)"
| "run_io env content (s # rest) d =
     (case fe_fault env s of
        Some e \<Rightarrow> (Inl e, io_failure (fe_torn env) s d)
      | None \<Rightarrow> run_io env content rest (io_effect (fe_torn env) content s d))"

text \<open>\<open>finally: if os.path.exists(temporary): os.unlink(temporary)\<close>.\<close>

definition cleanup :: "'f fs_env \<Rightarrow> unit result \<times> 'f disk \<Rightarrow> unit result \<times> 'f disk" where
  "cleanup env rd =
     (case rd of (r, d) \<Rightarrow>
        if dk_temp d = None then (r, d)
        else (case fe_fault env Unlink_temp of
                Some e \<Rightarrow> (Inl e, d)
              | None \<Rightarrow> (r, d\<lparr>dk_temp := None\<rparr>)))"

text \<open>What a reader of the file finds after any part of the replacement.\<close>

lemma run_io_file:
  assumes "run_io env content steps d = (r, d')"
    and "set steps \<subseteq> - {Replace_file}"
  shows "dk_file d' = dk_file d"
  using assms
proof (induction steps arbitrary: d)
  case (Cons s steps)
  then show ?case by (cases s) (auto split: option.splits)
qed simp

subsection \<open>Documents that are checked before they are saved\<close>

text \<open>
  The interface a client of a validated document relies on: the check establishes the
  validity predicate, and a checked document passes the check unchanged.
\<close>

locale checked_document =
  fixes check :: "'d \<Rightarrow> 'd result"
    and valid :: "'d \<Rightarrow> bool"
  assumes check_valid: "check d = Inr r \<Longrightarrow> valid r"
    and check_again: "check d = Inr r \<Longrightarrow> check r = Inr r"
begin

definition accepted :: "'d \<Rightarrow> bool" where
  "accepted d \<longleftrightarrow> check d = Inr d"

lemma accepted_valid: "accepted d \<Longrightarrow> valid d"
  unfolding accepted_def by (rule check_valid)

lemma check_accepted: "check d = Inr r \<Longrightarrow> accepted r"
  unfolding accepted_def by (rule check_again)

text \<open>
  A reader that checks what it loads gets back exactly what an earlier checked save wrote.
\<close>

lemma reload:
  assumes "check d = Inr r" and "read (write r) = Inr r"
  shows "bindR (read (write r)) check = Inr r"
  using assms check_again by simp

end

end
