(* ===== verification/Registry.thy ===== *)
theory Registry
  imports Inventory_Schema Store
begin

section \<open>The registry\<close>

text \<open>
  The class \<^verbatim>\<open>Registry\<close> of \<^verbatim>\<open>registry.py\<close>: the machine and inventory documents in
  memory, the inventory file with its backup, and every operation of the class. The lock
  (\<^verbatim>\<open>threading.RLock\<close>) makes each operation one atomic step.

  The operations on the in-memory inventory are values of type \<open>(pydict, 'a) op\<close>: they
  return the inventory as it is when they return or raise, so a change that is made
  before an exception is visible. \<open>transact\<close> adds what the methods share: the copy of the
  inventory taken first, the save, and the rollback when the save raises.

  Parameters: PyYAML's \<^verbatim>\<open>safe_dump\<close> and \<^verbatim>\<open>safe_load\<close> (functions between documents and
  file contents), the failures of the file system, and the clock, one reading of which is
  the time of an operation.
\<close>

record 'f registry =
  rg_machine :: pydict
  rg_inventory :: pydict
  rg_disk :: "'f disk"

record 'f reg_env =
  re_fs :: "'f fs_env"
  re_dump :: "pydict \<Rightarrow> 'f"
  re_load :: "'f \<Rightarrow> pyval result"
  re_now :: string

subsection \<open>Access to the inventory\<close>

definition put_section :: "string \<Rightarrow> pydict \<Rightarrow> pydict \<Rightarrow> pydict" where
  "put_section key d ivt = dset key (PDict d) ivt"

definition known_record :: "pydict \<Rightarrow> string \<Rightarrow> pydict" where
  "known_record ivt sid = dict_of (dget (inv_known ivt) sid (PDict []))"

definition put_known :: "string \<Rightarrow> pydict \<Rightarrow> pydict \<Rightarrow> pydict" where
  "put_known sid k ivt = put_section ''known_sensors'' (dset sid (PDict k) (inv_known ivt)) ivt"

definition sensor_record :: "pydict \<Rightarrow> string \<Rightarrow> pydict" where
  "sensor_record ivt sid = dict_of (dget (inv_sensors ivt) sid (PDict []))"

definition put_sensor :: "string \<Rightarrow> pydict \<Rightarrow> pydict \<Rightarrow> pydict" where
  "put_sensor sid s ivt = put_section ''sensors'' (dset sid (PDict s) (inv_sensors ivt)) ivt"

definition drop_sensor :: "string \<Rightarrow> pydict \<Rightarrow> pydict" where
  "drop_sensor sid ivt = put_section ''sensors'' (dpop sid (inv_sensors ivt)) ivt"

lemma put_section_lookup [simp]:
  "inv_section (put_section key d ivt) key = d"
  "key' \<noteq> key \<Longrightarrow> inv_section (put_section key d ivt) key' = inv_section ivt key'"
  "map_of (put_section key d ivt) key = Some (PDict d)"
  "key' \<noteq> key \<Longrightarrow> map_of (put_section key d ivt) key' = map_of ivt key'"
  by (simp_all add: put_section_def inv_section_def dget_dset)

definition append_history :: "string \<Rightarrow> string \<Rightarrow> string \<Rightarrow> pydict \<Rightarrow> pydict \<Rightarrow> pydict" where
  "append_history now operation sid details ivt =
     dset ''history'' (PList (list_of (dget ivt ''history'' (PList [])) @
       [PDict (dupdate details
          [(''timestamp'', PStr now), (''operation'', PStr operation), (''sensor_id'', PStr sid)])])) ivt"

lemma append_history_section [simp]:
  "key \<noteq> ''history'' \<Longrightarrow> inv_section (append_history now op sid details ivt) key = inv_section ivt key"
  "key \<noteq> ''history'' \<Longrightarrow> map_of (append_history now op sid details ivt) key = map_of ivt key"
  by (simp_all add: append_history_def inv_section_def dget_dset)

subsection \<open>Saving\<close>

definition write_inventory :: "'f fs_env \<Rightarrow> 'f \<Rightarrow> ('f disk, unit) op" where
  "write_inventory fs content d =
     (case run_io fs content
         ([Make_dir] @ (if dk_file d = None then [] else [Copy_backup]) @ [Make_temp]) d of
        (Inl e, d') \<Rightarrow> (Inl e, d')
      | (Inr _, d') \<Rightarrow>
          cleanup fs (run_io fs content [Write_temp, Chmod_temp, Replace_file, Sync_dir] d'))"

definition save :: "'f reg_env \<Rightarrow> ('f registry, unit) op" where
  "save env r =
     (case validate_inventory (re_now env) (rg_inventory r) (rg_machine r) of
        Inl e \<Rightarrow> (Inl e, r)
      | Inr validated \<Rightarrow>
          (case write_inventory (re_fs env) (re_dump env validated) (rg_disk r) of
             (Inl e, d) \<Rightarrow> (Inl e, r\<lparr>rg_disk := d\<rparr>)
           | (Inr _, d) \<Rightarrow> (Inr (), r\<lparr>rg_disk := d, rg_inventory := validated\<rparr>)))"

text \<open>\<open>try: self.save() except Exception: self.inventory = previous; raise\<close>.\<close>

definition commit :: "'f reg_env \<Rightarrow> pydict \<Rightarrow> ('f registry, unit) op" where
  "commit env previous r =
     (case save env r of
        (Inl e, r') \<Rightarrow> (Inl e, r'\<lparr>rg_inventory := previous\<rparr>)
      | (Inr u, r') \<Rightarrow> (Inr u, r'))"

definition transact :: "'f reg_env \<Rightarrow> (pydict, 'a) op \<Rightarrow> ('f registry, 'a) op" where
  "transact env body r =
     (case body (rg_inventory r) of
        (Inl e, ivt) \<Rightarrow> (Inl e, r\<lparr>rg_inventory := ivt\<rparr>)
      | (Inr x, ivt) \<Rightarrow>
          (case commit env (rg_inventory r) (r\<lparr>rg_inventory := ivt\<rparr>) of
             (Inl e, r') \<Rightarrow> (Inl e, r')
           | (Inr _, r') \<Rightarrow> (Inr x, r')))"

definition snapshot :: "('f registry, pydict) op" where
  "snapshot r = (Inr (rg_inventory r), r)"

subsection \<open>Ports and address allocation\<close>

text \<open>
  On a validated machine the addresses are strings, so \<open>ip_address(x)\<close> and
  \<open>ip_interface(x)\<close> are applied to \<open>py_str x\<close>.
\<close>

definition unknown_network :: "string \<Rightarrow> py_exn" where
  "unknown_network nid = RegistryError (''unknown managed network '' @ nid)"

definition managed_network :: "pydict \<Rightarrow> string \<Rightarrow> pyval result" where
  "managed_network machine nid = or_raise (map_of (machine_networks machine) nid) (unknown_network nid)"

definition port_mode :: "pydict \<Rightarrow> pydict \<Rightarrow> string \<Rightarrow> string result" where
  "port_mode machine ivt nid =
     bindR (managed_network machine nid) (\<lambda>network.
     bindR (py_index network ''mode'') (\<lambda>mode.
     Inr (py_str (dget (inv_port_modes ivt) nid mode))))"

definition port_capacity :: "pydict \<Rightarrow> pydict \<Rightarrow> string \<Rightarrow> int result" where
  "port_capacity machine ivt nid =
     bindR (or_raise (map_of (machine_networks machine) nid) (KeyErr nid)) (\<lambda>network.
     bindR (port_mode machine ivt nid) (\<lambda>mode.
     bindR (py_index network (if mode = ''direct'' then ''max_devices'' else ''switched_max_devices''))
       py_int))"

text \<open>The sensors assigned to a network, and the addresses they hold.\<close>

definition assigned_to :: "string \<Rightarrow> pydict \<Rightarrow> pydict" where
  "assigned_to nid ivt =
     filter (\<lambda>(sid, s). dget (dict_of s) ''network_id'' PNone = PStr nid) (inv_sensors ivt)"

definition used_addresses :: "pydict \<Rightarrow> string \<Rightarrow> ipaddr list result" where
  "used_addresses ivt nid =
     mapR (\<lambda>(sid, s). ip_address (py_str (dget (dict_of s) ''assigned_address'' PNone)))
       (filter (\<lambda>(sid, s). truthy (dget (dict_of s) ''assigned_address'' PNone)) (assigned_to nid ivt))"

record allocation =
  al_network :: string
  al_address :: string
  al_mask :: string
  al_gateway :: string

definition first_free :: "nat \<Rightarrow> nat \<Rightarrow> ipaddr list \<Rightarrow> nat option" where
  "first_free start end used = List.find (\<lambda>a. IPv4 a \<notin> set used) [start..<end + 1]"

fun show_ip :: "ipaddr \<Rightarrow> string" where
  "show_ip (IPv4 a) = show_ipv4 a"
| "show_ip (IPv6 a) = show_nat a"

definition choose_address ::
  "string \<Rightarrow> iface4 \<Rightarrow> nat \<Rightarrow> nat \<Rightarrow> ipaddr list \<Rightarrow> string \<Rightarrow> ipaddr result" where
  "choose_address nid host start end used requested =
     (if requested \<noteq> '''' then
        bindR (ip_address requested) (\<lambda>candidate.
        if \<not> addr_in_net candidate host \<or> \<not> (start \<le> ip_int candidate \<and> ip_int candidate \<le> end) then
          Inl (RegistryError (''requested address is outside the pool for '' @ nid))
        else if candidate \<in> set used then
          Inl (RegistryError (''requested address '' @ show_ip candidate @ '' is already reserved''))
        else Inr candidate)
      else case first_free start end used of
          None \<Rightarrow> Inl (network_error nid '' has no free address'')
        | Some a \<Rightarrow> Inr (IPv4 a))"

definition allocate :: "pydict \<Rightarrow> pydict \<Rightarrow> string \<Rightarrow> string \<Rightarrow> allocation result" where
  "allocate machine ivt nid requested =
     bindR (managed_network machine nid) (\<lambda>network.
     bindR (py_index network ''approved'') (\<lambda>approved.
     if \<not> truthy approved then Inl (network_error nid '' is not approved'') else
     bindR (py_index network ''host_cidr'') (\<lambda>cidr.
     bindR (ip_interface (py_str cidr)) (\<lambda>iface.
     case iface of
       None \<Rightarrow> Inl ValueErr
     | Some host \<Rightarrow>
         bindR (py_index network ''address_pool'') (\<lambda>pool.
         bindR (pool_address pool ''start'') (\<lambda>start.
         bindR (pool_address pool ''end'') (\<lambda>end.
         bindR (used_addresses ivt nid) (\<lambda>used.
         bindR (port_capacity machine ivt nid) (\<lambda>capacity.
         if capacity \<le> int (card (set used)) then Inl (network_error nid '' reached max_devices'')
         else
           bindR (choose_address nid host (ip_int start) (ip_int end) used requested) (\<lambda>candidate.
           bindR (py_get network ''gateway'' (PStr ''0.0.0.0'')) (\<lambda>gateway.
           Inr \<lparr>al_network = nid, al_address = show_ip candidate,
                al_mask = show_netmask host, al_gateway = py_str gateway\<rparr>)))))))))))"

definition set_port_mode_body :: "string \<Rightarrow> pydict \<Rightarrow> string \<Rightarrow> string \<Rightarrow> (pydict, unit) op" where
  "set_port_mode_body now machine nid mode ivt =
     (if \<not> dhas (machine_networks machine) nid then raiseS (unknown_network nid) ivt
      else if mode \<notin> set valid_network_modes then
        raiseS (RegistryError ''port mode must be direct or switched'') ivt
      else if mode = ''direct'' \<and> 1 < length (assigned_to nid ivt) then
        raiseS (RegistryError (''cannot set '' @ nid @ '' to direct while ''
          @ show_nat (length (assigned_to nid ivt)) @ '' sensors are assigned'')) ivt
      else
        (Inr (), append_history now ''port_mode'' nid [(''mode'', PStr mode)]
          (put_section ''port_modes'' (dset nid (PStr mode) (inv_port_modes ivt)) ivt)))"

definition set_port_mode :: "'f reg_env \<Rightarrow> string \<Rightarrow> string \<Rightarrow> ('f registry, unit) op" where
  "set_port_mode env nid mode r = transact env (set_port_mode_body (re_now env) (rg_machine r) nid mode) r"

subsection \<open>The catalogue of known sensors\<close>

definition identity_fields :: "string list" where
  "identity_fields = [''kind'', ''vendor'', ''model'', ''serial'', ''mac_address'', ''capabilities'']"

definition copy_identity :: "pydict \<Rightarrow> pydict \<Rightarrow> pydict" where
  "copy_identity source known =
     foldl (\<lambda>k key. if dget source key PNone \<in> {PNone, PStr '''', PList []} then k
                    else dset key (dget source key PNone) k) known identity_fields"

definition refresh_known :: "pydict \<Rightarrow> pydict \<Rightarrow> pydict" where
  "refresh_known source known =
     (let k1 = setdefault ''provider'' (dget source ''provider'' (PStr '''')) (copy_identity source known);
          k2 = dset ''last_provider'' (dget source ''provider'' (dget k1 ''last_provider'' (PStr ''''))) k1
      in dset ''hardware_key'' (PStr (hardware_key k2)) k2)"

definition ensure_known :: "string \<Rightarrow> string \<Rightarrow> pydict \<Rightarrow> pydict \<Rightarrow> pydict result" where
  "ensure_known now sid source ivt =
     bindR (case map_of (inv_known ivt) sid of
         Some k \<Rightarrow> Inr (dict_of k)
       | None \<Rightarrow> bindR (known_from_sensor source ''observed'' now)
                   (\<lambda>k. Inr (dset ''last_configuration'' PNone k)))
       (\<lambda>known. Inr (put_known sid (refresh_known source known) ivt))"

definition known_mac :: "pydict \<Rightarrow> string" where
  "known_mac k = normalized_mac (dget k ''mac_address'' (PStr ''''))"

definition known_vendor_serial :: "pydict \<Rightarrow> string \<times> string" where
  "known_vendor_serial k =
     (vendor_identity (vendor_or_provider k), identity_part (dget k ''serial'' (PStr '''')))"

definition match_known :: "pydict \<Rightarrow> pydict \<Rightarrow> string option" where
  "match_known observation known =
     (let mac = known_mac observation in
      case (if mac = '''' then None
            else List.find (\<lambda>(sid, k). known_mac (dict_of k) = mac) known) of
        Some (sid, k) \<Rightarrow> Some sid
      | None \<Rightarrow> map_option fst (List.find
          (\<lambda>(sid, k). known_vendor_serial (dict_of k) = known_vendor_serial observation) known))"

definition sensor_id_for_observation :: "pydict \<Rightarrow> pydict \<Rightarrow> string result" where
  "sensor_id_for_observation ivt observation =
     (case match_known observation (inv_known ivt) of
        Some sid \<Rightarrow> Inr sid
      | None \<Rightarrow>
          bindR (new_sensor_id observation) (\<lambda>candidate.
          if \<not> dhas (inv_known ivt) candidate then Inr candidate
          else Inr (candidate @ ''_'' @
            (if known_mac observation \<noteq> '''' then last_n 6 (known_mac observation)
             else show_nat (length (inv_known ivt) + 1)))))"

text \<open>
  \<open>record_observation\<close>: the fields that identify the device, the connection it is
  seen on, and what changed. The result says whether the catalogue needs saving.
\<close>

definition observed_fields :: "string list" where
  "observed_fields = [''kind'', ''vendor'', ''model'', ''mac_address'', ''capabilities'']"

definition change_entry :: "pyval \<Rightarrow> pyval \<Rightarrow> pyval" where
  "change_entry old new = PDict [(''from'', old), (''to'', new)]"

definition apply_identity :: "pydict \<Rightarrow> pydict \<Rightarrow> pydict \<times> pydict" where
  "apply_identity observation known0 =
     foldl (\<lambda>(known, changed) key.
        let value = dget observation key (if key = ''capabilities'' then PList [] else PStr '''') in
        if value \<notin> {PStr '''', PList []} \<and> \<not> py_eq (dget known key PNone) value
        then (dset key value known, dset key (change_entry (dget known key PNone) value) changed)
        else (known, changed))
       (known0, []) observed_fields"

definition latest_connection :: "pydict \<Rightarrow> string \<Rightarrow> bool \<Rightarrow> pydict" where
  "latest_connection observation nid managed =
     [(''provider'', PStr (field observation ''provider'')),
      (''transport'', PStr (field observation ''transport'')),
      (''interface_name'', PStr (field observation ''interface_name'')),
      (''current_address'', PStr (field observation ''current_address'')),
      (''network_id'', PStr nid), (''managed'', PBool managed)]"

definition connection_changes :: "pydict \<Rightarrow> pydict \<Rightarrow> pydict" where
  "connection_changes previous latest =
     map (\<lambda>(key, value). (key, change_entry (dget previous key PNone) value))
       (filter (\<lambda>(key, value). \<not> py_eq (dget previous key PNone) value) latest)"

definition append_change :: "string \<Rightarrow> pydict \<Rightarrow> pydict \<Rightarrow> pydict" where
  "append_change stamp changed known =
     dset ''changes'' (PList (last_n max_known_changes (list_of (dget known ''changes'' (PList []))
       @ [PDict [(''timestamp'', PStr stamp), (''fields'', PDict changed)]]))) known"

definition observe_known ::
  "string \<Rightarrow> bool \<Rightarrow> pydict \<Rightarrow> pydict \<Rightarrow> bool \<Rightarrow> pydict \<Rightarrow> pydict \<times> bool" where
  "observe_known stamp is_enrolled observation latest touch known0 =
     (let (known1, identity_changed) = apply_identity observation known0;
          previous = dict_of (dget known1 ''latest_observation'' (PDict []));
          connection_changed = connection_changes previous latest;
          meaningful = identity_changed \<noteq> [] \<or> (previous \<noteq> [] \<and> connection_changed \<noteq> []);
          known2 = dset ''last_provider'' (PStr (field observation ''provider''))
                     (dset ''latest_observation'' (PDict latest) known1);
          known3 = dset ''hardware_key'' (PStr (hardware_key known2)) known2;
          known4 = (if is_enrolled then dset ''catalog_state'' (PStr ''enrolled'') known3 else known3);
          known5 = (if meaningful
                    then append_change stamp (dupdate connection_changed identity_changed) known4
                    else known4);
          known6 = (if touch \<or> meaningful then dset ''last_seen_at'' (PStr stamp) known5 else known5)
      in (known6, touch \<or> meaningful))"

definition count_sighting :: "pydict \<Rightarrow> pydict result" where
  "count_sighting known =
     bindR (py_int (dget known ''sighting_count'' (PInt 0)))
       (\<lambda>n. Inr (dset ''sighting_count'' (PInt (n + 1)) known))"

definition record_observation ::
  "string \<Rightarrow> pydict \<Rightarrow> string \<Rightarrow> bool \<Rightarrow> bool \<Rightarrow> bool \<Rightarrow> (pydict, bool) op" where
  "record_observation now observation nid managed new_session checkpoint ivt =
     (case sensor_id_for_observation ivt observation of
        Inl e \<Rightarrow> (Inl e, ivt)
      | Inr sid \<Rightarrow>
          (let created = \<not> dhas (inv_known ivt) sid in
           case (if created then
                   bindR (ensure_known now sid observation ivt) (\<lambda>ivt1.
                   Inr (ivt1, dset ''sighting_count'' (PInt 1)
                                (dset ''first_seen_at'' (PStr now) (known_record ivt1 sid))))
                 else if new_session then
                   bindR (count_sighting (known_record ivt sid)) (\<lambda>k. Inr (ivt, k))
                 else Inr (ivt, known_record ivt sid)) of
             Inl e \<Rightarrow> (Inl e, ivt)
           | Inr (ivt1, known) \<Rightarrow>
               (let (known', changed) = observe_known now (dhas (inv_sensors ivt1) sid) observation
                      (latest_connection observation nid managed) (created \<or> new_session \<or> checkpoint) known
                in (Inr changed, put_known sid known' ivt1))))"

subsection \<open>Enrolled sensors\<close>

definition sensor_from_observation :: "pydict \<Rightarrow> pydict \<Rightarrow> pydict result" where
  "sensor_from_observation observation source =
     bindR (py_index (PDict observation) ''provider'') (\<lambda>provider.
     bindR (py_index (PDict observation) ''serial'') (\<lambda>serial.
     bindR (py_list (dget observation ''capabilities'' (dget source ''capabilities'' (PList [])))) (\<lambda>capabilities.
     Inr
       [(''provider'', provider),
        (''kind'', dget observation ''kind'' (dget source ''kind'' (PStr ''camera''))),
        (''vendor'', dget observation ''vendor'' provider),
        (''model'', dget observation ''model'' (PStr '''')),
        (''serial'', serial),
        (''mac_address'', dget observation ''mac_address'' (PStr '''')),
        (''capabilities'', PList capabilities),
        (''hardware_key'', PStr (hardware_key observation))])))"

definition or_else :: "string \<Rightarrow> string \<Rightarrow> string" where
  "or_else s t = (if s = '''' then t else s)"

definition enrolled_known :: "pydict \<Rightarrow> pydict" where
  "enrolled_known k =
     dset ''last_configuration'' PNone (dpop ''archived_at'' (dset ''catalog_state'' (PStr ''enrolled'') k))"

definition new_sensor :: "string \<Rightarrow> pydict \<Rightarrow> allocation \<Rightarrow> string \<Rightarrow> string \<Rightarrow> pydict result" where
  "new_sensor sid observation alloc display_name location =
     bindR (py_index (PDict observation) ''provider'') (\<lambda>provider.
     bindR (py_index (PDict observation) ''serial'') (\<lambda>serial.
     bindR (py_list (dget observation ''capabilities'' (PList []))) (\<lambda>capabilities.
     Inr
       [(''provider'', provider),
        (''kind'', dget observation ''kind'' (PStr ''camera'')),
        (''vendor'', dget observation ''vendor'' provider),
        (''model'', dget observation ''model'' (PStr '''')),
        (''serial'', serial),
        (''mac_address'', dget observation ''mac_address'' (PStr '''')),
        (''enabled'', PBool True),
        (''display_name'', PStr (or_else display_name sid)),
        (''location_label'', PStr (or_else location ''unknown'')),
        (''pose'', PNone),
        (''calibration_url'', PStr ''''),
        (''network_id'', PStr (al_network alloc)),
        (''assigned_address'', PStr (al_address alloc)),
        (''capabilities'', PList capabilities),
        (''hardware_key'', PStr (hardware_key observation))])))"

definition already_enrolled :: "string \<Rightarrow> py_exn" where
  "already_enrolled sid = RegistryError (''sensor '' @ sid @ '' is already enrolled'')"

definition unknown_enrolled :: "string \<Rightarrow> py_exn" where
  "unknown_enrolled sid = RegistryError (''unknown enrolled sensor '' @ sid)"

definition enroll_body ::
  "string \<Rightarrow> pydict \<Rightarrow> allocation \<Rightarrow> string \<Rightarrow> string \<Rightarrow> (pydict, string) op" where
  "enroll_body now observation alloc display_name location ivt =
     (case sensor_id_for_observation ivt observation of
        Inl e \<Rightarrow> (Inl e, ivt)
      | Inr sid \<Rightarrow>
          if dhas (inv_sensors ivt) sid then raiseS (already_enrolled sid) ivt
          else case ensure_known now sid observation ivt of
            Inl e \<Rightarrow> (Inl e, ivt)
          | Inr ivt1 \<Rightarrow>
              if dget (known_record ivt1 sid) ''catalog_state'' PNone = PStr ''retired'' then
                raiseS (RegistryError (''sensor '' @ sid
                  @ '' is retired and cannot be enrolled directly'')) ivt1
              else case new_sensor sid observation alloc display_name location of
                Inl e \<Rightarrow> (Inl e, ivt1)
              | Inr sensor \<Rightarrow>
                  (Inr sid,
                   append_history now ''enroll'' sid
                     [(''network_id'', PStr (al_network alloc)),
                      (''assigned_address'', PStr (al_address alloc))]
                     (put_known sid (enrolled_known (known_record ivt1 sid))
                       (put_sensor sid sensor ivt1))))"

definition enroll ::
  "'f reg_env \<Rightarrow> pydict \<Rightarrow> allocation \<Rightarrow> string \<Rightarrow> string \<Rightarrow> ('f registry, string) op" where
  "enroll env observation alloc display_name location =
     transact env (enroll_body (re_now env) observation alloc display_name location)"

text \<open>\<open>sid in members\<close>, and the list a group's members are rewritten to.\<close>

fun py_in :: "string \<Rightarrow> pyval \<Rightarrow> bool result" where
  "py_in s (PList xs) = Inr (PStr s \<in> set xs)"
| "py_in s (PStr t) = Inr (contains s t)"
| "py_in s (PDict d) = Inr (dhas d s)"
| "py_in s _ = Inl TypeErr"

definition swap_member :: "string \<Rightarrow> string \<Rightarrow> pyval \<Rightarrow> pyval" where
  "swap_member old new m = (if m = PStr old then PStr new else m)"

definition replace_in_group :: "string \<Rightarrow> string \<Rightarrow> pydict \<Rightarrow> pydict result" where
  "replace_in_group old new g =
     bindR (py_index (PDict g) ''members'') (\<lambda>v.
     bindR (py_list v) (\<lambda>members.
     (let g1 = dset ''members'' (PList (map (swap_member old new) members)) g in
      Inr (if dget g1 ''preferred_master_id'' PNone = PStr old
           then dset ''preferred_master_id'' (PStr new) g1 else g1))))"

definition replace_in_groups :: "string \<Rightarrow> string \<Rightarrow> pydict \<Rightarrow> pydict result" where
  "replace_in_groups old new groups =
     map_items (\<lambda>_ gid v. bindR (replace_in_group old new (dict_of v)) (\<lambda>g. Inr (PDict g, ()))) () groups"

definition retired_known :: "string \<Rightarrow> string \<Rightarrow> pydict \<Rightarrow> pydict \<Rightarrow> pydict" where
  "retired_known now replacement_id source k =
     dset ''last_configuration'' (PDict source)
       (dset ''replaced_by'' (PStr replacement_id)
         (dset ''retired_at'' (PStr now) (dset ''catalog_state'' (PStr ''retired'') k)))"

text \<open>
  The replacement takes over the record of the source (network, address, labels), its
  place in every group and its position among the enrolled sensors; the source is retired.
\<close>

definition replace_body :: "string \<Rightarrow> string \<Rightarrow> pydict \<Rightarrow> (pydict, string) op" where
  "replace_body now source_id observation ivt =
     (if \<not> dhas (inv_sensors ivt) source_id then raiseS (unknown_enrolled source_id) ivt
      else case new_sensor_id observation of
        Inl e \<Rightarrow> (Inl e, ivt)
      | Inr rid \<Rightarrow>
          if dhas (inv_sensors ivt) rid then raiseS (already_enrolled rid) ivt
          else
            (let source = sensor_record ivt source_id; ivt1 = drop_sensor source_id ivt in
             case sensor_from_observation observation source of
               Inl e \<Rightarrow> (Inl e, ivt1)
             | Inr identity \<Rightarrow>
                 (let replacement = dupdate identity source in
                  case ensure_known now rid observation ivt1 of
                    Inl e \<Rightarrow> (Inl e, ivt1)
                  | Inr ivt2 \<Rightarrow>
                      (let ivt3 = put_sensor rid replacement
                                    (put_known rid (enrolled_known (known_record ivt2 rid)) ivt2) in
                       case replace_in_groups source_id rid (inv_groups ivt3) of
                         Inl e \<Rightarrow> (Inl e, ivt3)
                       | Inr groups \<Rightarrow>
                           (let ivt4 = put_section ''sync_groups'' groups ivt3 in
                            case ensure_known now source_id source ivt4 of
                              Inl e \<Rightarrow> (Inl e, ivt4)
                            | Inr ivt5 \<Rightarrow>
                                (let ivt6 = put_known source_id
                                       (retired_known now rid source (known_record ivt5 source_id)) ivt5 in
                                 case py_index (PDict replacement) ''network_id'' of
                                   Inl e \<Rightarrow> (Inl e, ivt6)
                                 | Inr network \<Rightarrow>
                                     (Inr rid, append_history now ''replace'' rid
                                        [(''source_sensor_id'', PStr source_id),
                                         (''network_id'', network)] ivt6)))))))"

definition replace_sensor :: "'f reg_env \<Rightarrow> string \<Rightarrow> pydict \<Rightarrow> ('f registry, string) op" where
  "replace_sensor env source_id observation = transact env (replace_body (re_now env) source_id observation)"

definition move_body :: "string \<Rightarrow> string \<Rightarrow> allocation \<Rightarrow> (pydict, unit) op" where
  "move_body now sid alloc ivt =
     (if \<not> dhas (inv_sensors ivt) sid then raiseS (unknown_enrolled sid) ivt
      else
        (let sensor = sensor_record ivt sid;
             moved = dset ''pose'' PNone (dset ''location_label'' (PStr ''unknown'')
               (dset ''assigned_address'' (PStr (al_address alloc))
                 (dset ''network_id'' (PStr (al_network alloc)) sensor)))
         in (Inr (), append_history now ''move'' sid
               [(''from_network_id'', dget sensor ''network_id'' (PStr '''')),
                (''from_address'', dget sensor ''assigned_address'' (PStr '''')),
                (''to_network_id'', PStr (al_network alloc)),
                (''to_address'', PStr (al_address alloc)),
                (''location_requires_review'', PBool True)] (put_sensor sid moved ivt))))"

definition move_sensor :: "'f reg_env \<Rightarrow> string \<Rightarrow> allocation \<Rightarrow> ('f registry, unit) op" where
  "move_sensor env sid alloc = transact env (move_body (re_now env) sid alloc)"

definition editable_fields :: "string list" where
  "editable_fields = [''display_name'', ''location_label'', ''pose'', ''calibration_url'', ''enabled'']"

definition update_body :: "string \<Rightarrow> pydict \<Rightarrow> (pydict, unit) op" where
  "update_body sid values ivt =
     (if \<not> dhas (inv_sensors ivt) sid then raiseS (unknown_enrolled sid) ivt
      else (Inr (), put_sensor sid
        (dupdate (filter (\<lambda>(k, v). k \<in> set editable_fields) values) (sensor_record ivt sid)) ivt))"

definition update_sensor :: "'f reg_env \<Rightarrow> string \<Rightarrow> pydict \<Rightarrow> ('f registry, unit) op" where
  "update_sensor env sid values = transact env (update_body sid values)"

text \<open>\<open>forget\<close>: a sensor that is in no group is archived with its configuration.\<close>

definition memberships :: "string \<Rightarrow> pydict \<Rightarrow> string list result" where
  "memberships sid groups =
     bindR (mapR (\<lambda>(gid, g). bindR (py_index g ''members'') (\<lambda>ms.
                   bindR (py_in sid ms) (\<lambda>b. Inr (gid, b)))) groups)
       (\<lambda>flags. Inr (sort (map fst (filter snd flags))))"

definition archived_known :: "string \<Rightarrow> pydict \<Rightarrow> pydict \<Rightarrow> pydict" where
  "archived_known now sensor k =
     dset ''last_configuration'' (PDict sensor)
       (dset ''archived_at'' (PStr now) (dset ''catalog_state'' (PStr ''archived'') k))"

definition forget_body :: "string \<Rightarrow> string \<Rightarrow> (pydict, unit) op" where
  "forget_body now sid ivt =
     (if \<not> dhas (inv_sensors ivt) sid then raiseS (unknown_enrolled sid) ivt
      else case memberships sid (inv_groups ivt) of
        Inl e \<Rightarrow> (Inl e, ivt)
      | Inr gids \<Rightarrow>
          if gids \<noteq> [] then
            raiseS (RegistryError (''sensor '' @ sid @ '' belongs to sync group(s): '' @ join '', '' gids
              @ ''; remove it from those groups before archiving'')) ivt
          else
            (let sensor = sensor_record ivt sid; ivt1 = drop_sensor sid ivt in
             case ensure_known now sid sensor ivt1 of
               Inl e \<Rightarrow> (Inl e, ivt1)
             | Inr ivt2 \<Rightarrow>
                 (Inr (), append_history now ''archive'' sid
                    [(''network_id'', dget sensor ''network_id'' (PStr '''')),
                     (''assigned_address'', dget sensor ''assigned_address'' (PStr ''''))]
                    (put_known sid (archived_known now sensor (known_record ivt2 sid)) ivt2))))"

definition forget :: "'f reg_env \<Rightarrow> string \<Rightarrow> ('f registry, unit) op" where
  "forget env sid = transact env (forget_body (re_now env) sid)"

subsection \<open>Known sensors, groups\<close>

definition unknown_sensor :: "string \<Rightarrow> py_exn" where
  "unknown_sensor sid = RegistryError (''unknown sensor '' @ sid)"

definition known_editable :: "string list" where
  "known_editable = [''notes'', ''camera_profile'', ''provider_settings'']"

definition update_known_body :: "string \<Rightarrow> string \<Rightarrow> pydict \<Rightarrow> (pydict, unit) op" where
  "update_known_body now sid values ivt =
     (if \<not> dhas (inv_known ivt) sid then raiseS (unknown_sensor sid) ivt
      else if dhas values ''provider_settings'' \<and> \<not> is_dict (dget values ''provider_settings'' PNone) then
        raiseS (RegistryError ''provider_settings must be a JSON object'') ivt
      else (Inr (), append_history now ''update_known'' sid []
        (put_known sid (dupdate (filter (\<lambda>(k, v). k \<in> set known_editable) values) (known_record ivt sid)) ivt)))"

definition update_known_sensor :: "'f reg_env \<Rightarrow> string \<Rightarrow> pydict \<Rightarrow> ('f registry, unit) op" where
  "update_known_sensor env sid values = transact env (update_known_body (re_now env) sid values)"

definition other_history :: "string \<Rightarrow> pyval list \<Rightarrow> pyval list" where
  "other_history sid entries =
     filter (\<lambda>entry. dget (dict_of entry) ''sensor_id'' PNone \<noteq> PStr sid) entries"

definition purge_body :: "string \<Rightarrow> (pydict, unit) op" where
  "purge_body sid ivt =
     (if dhas (inv_sensors ivt) sid then
        raiseS (RegistryError ''enrolled sensors must be archived before permanent deletion'') ivt
      else if \<not> dhas (inv_known ivt) sid then raiseS (unknown_sensor sid) ivt
      else
        (let ivt1 = put_section ''known_sensors'' (dpop sid (inv_known ivt)) ivt;
             history = list_of (dget ivt ''history'' (PList []))
         in if \<not> list_all is_dict history then raiseS AttrErr ivt1
            else (Inr (), dset ''history'' (PList (other_history sid history)) ivt1)))"

definition purge_known_sensor :: "'f reg_env \<Rightarrow> string \<Rightarrow> ('f registry, unit) op" where
  "purge_known_sensor env sid = transact env (purge_body sid)"

definition upsert_group_body ::
  "string \<Rightarrow> string \<Rightarrow> string list \<Rightarrow> string \<Rightarrow> pyfloat \<Rightarrow> (pydict, unit) op" where
  "upsert_group_body gid provider members missing_policy rate ivt =
     (if \<not> ros_safe gid then
        raiseS (RegistryError ''group_id must be a lowercase ROS-safe identifier'') ivt
      else (Inr (), put_section ''sync_groups'' (dset gid (PDict
        [(''provider'', PStr provider), (''members'', PList (map PStr members)),
         (''missing_policy'', PStr missing_policy), (''trigger_source'', PStr ''Action0''),
         (''preview_rate_hz'', PFloat rate), (''preferred_master_id'', PStr '''')])
        (inv_groups ivt)) ivt))"

definition upsert_group ::
  "'f reg_env \<Rightarrow> string \<Rightarrow> string \<Rightarrow> string list \<Rightarrow> string \<Rightarrow> pyfloat \<Rightarrow> ('f registry, unit) op" where
  "upsert_group env gid provider members missing_policy rate =
     transact env (upsert_group_body gid provider members missing_policy rate)"

definition delete_group_body :: "string \<Rightarrow> (pydict, unit) op" where
  "delete_group_body gid ivt =
     (if \<not> dhas (inv_groups ivt) gid then
        raiseS (RegistryError (''unknown sync group '' @ gid)) ivt
      else (Inr (), put_section ''sync_groups'' (dpop gid (inv_groups ivt)) ivt))"

definition delete_group :: "'f reg_env \<Rightarrow> string \<Rightarrow> ('f registry, unit) op" where
  "delete_group env gid = transact env (delete_group_body gid)"

subsection \<open>Opening the registry\<close>

definition upper_char :: "char \<Rightarrow> char" where
  "upper_char c =
     (let n = code c in
      if (97 \<le> n \<and> n \<le> 122) \<or> (224 \<le> n \<and> n \<le> 254 \<and> n \<noteq> 247) then chr (n - 32) else c)"

definition is_cased :: "char \<Rightarrow> bool" where
  "is_cased c \<longleftrightarrow> upper_char c \<noteq> c \<or> lower_char c \<noteq> c"

text \<open>\<open>s.title()\<close>: the first letter of each run of letters in upper case, the others in lower.\<close>

fun title_from :: "bool \<Rightarrow> string \<Rightarrow> string" where
  "title_from cased [] = []"
| "title_from cased (c # cs) =
     (if cased then lower_char c else upper_char c) # title_from (is_cased c) cs"

definition placeholder :: "string \<Rightarrow> bool" where
  "placeholder serial \<longleftrightarrow>
     starts_with ''REPLACE_'' serial \<or> starts_with ''UNKNOWN'' serial \<or> starts_with ''TODO'' serial"

definition empty_inventory :: pydict where
  "empty_inventory =
     [(''schema_version'', PInt 3), (''sensors'', PDict []), (''known_sensors'', PDict []),
      (''sync_groups'', PDict []), (''port_modes'', PDict []), (''history'', PList [])]"

definition networks_by_role :: "pydict \<Rightarrow> string dict" where
  "networks_by_role networks =
     foldl (\<lambda>d (nid, network). dset (field (dict_of network) ''legacy_role'') nid d) []
       (filter (\<lambda>(nid, network). truthy (dget (dict_of network) ''legacy_role'' PNone)) networks)"

definition legacy_sensor :: "pydict \<Rightarrow> string dict \<Rightarrow> pyval \<Rightarrow> string \<Rightarrow> pydict \<Rightarrow> string \<Rightarrow> pydict" where
  "legacy_sensor networks roles camera_model role camera serial =
     (let nid = dget roles role '''' in
      [(''provider'', PStr ''lucid''), (''kind'', PStr ''camera''), (''vendor'', PStr ''LUCID''),
       (''model'', camera_model), (''serial'', PStr serial), (''mac_address'', PStr ''''),
       (''enabled'', PBool True),
       (''display_name'', PStr (title_from False (map (\<lambda>c. if c = CHR ''_'' then CHR '' '' else c) role))),
       (''location_label'', PStr role), (''pose'', PNone),
       (''calibration_url'', PStr (field camera ''calibration_url'')),
       (''network_id'', PStr nid),
       (''assigned_address'', PStr (if nid = '''' then ''''
          else field (dict_of (dget networks nid PNone)) ''legacy_address'')),
       (''capabilities'', PList [PStr ''image'', PStr ''jpeg_preview''])])"

fun migrate_cameras ::
  "string \<Rightarrow> pydict \<Rightarrow> string dict \<Rightarrow> pyval \<Rightarrow> pydict \<Rightarrow> pydict \<Rightarrow> pydict result" where
  "migrate_cameras now networks roles camera_model [] ivt = Inr ivt"
| "migrate_cameras now networks roles camera_model ((role, v) # rest) ivt =
     bindR (py_items (or_empty v)) (\<lambda>camera.
     (let serial = field camera ''serial'' in
      if serial = '''' \<or> placeholder serial
      then migrate_cameras now networks roles camera_model rest ivt
      else
        (let sid = stable_sensor_id ''lucid'' serial;
             sensor = legacy_sensor networks roles camera_model role camera serial in
         bindR (known_from_sensor sensor ''enrolled'' now) (\<lambda>k.
         migrate_cameras now networks roles camera_model rest
           (put_known sid k (put_sensor sid sensor ivt))))))"

definition migrate_legacy :: "string \<Rightarrow> pydict \<Rightarrow> pydict \<Rightarrow> pydict result" where
  "migrate_legacy now machine legacy =
     bindR (py_items (or_empty (dget legacy ''cameras'' PNone))) (\<lambda>cameras.
     migrate_cameras now (machine_networks machine) (networks_by_role (machine_networks machine))
       (dget legacy ''camera_model'' (PStr '''')) cameras empty_inventory)"

text \<open>\<open>_read_yaml\<close>: an empty document is an empty mapping.\<close>

definition read_yaml :: "('f \<Rightarrow> pyval result) \<Rightarrow> 'f \<Rightarrow> pydict result" where
  "read_yaml load content =
     (case load content of
        Inl OSErr \<Rightarrow> Inl (RegistryError ''cannot read'')
      | Inl YAMLErr \<Rightarrow> Inl (RegistryError ''invalid YAML'')
      | Inl e \<Rightarrow> Inl e
      | Inr v \<Rightarrow>
          (case or_empty v of
             PDict d \<Rightarrow> Inr d
           | _ \<Rightarrow> Inl (RegistryError ''must contain a YAML mapping'')))"

definition raw_inventory :: "'f reg_env \<Rightarrow> pydict \<Rightarrow> 'f option \<Rightarrow> 'f option \<Rightarrow> pydict result" where
  "raw_inventory env machine inventory_file legacy_file =
     (case inventory_file of
        Some content \<Rightarrow> read_yaml (re_load env) content
      | None \<Rightarrow>
          (case legacy_file of
             Some content \<Rightarrow>
               bindR (read_yaml (re_load env) content) (migrate_legacy (re_now env) machine)
           | None \<Rightarrow> Inr empty_inventory))"

text \<open>\<open>Registry.__init__\<close>; the state on an exception is the disk as it is left.\<close>

definition open_registry ::
  "'f reg_env \<Rightarrow> 'f option \<Rightarrow> 'f option \<Rightarrow> 'f disk \<Rightarrow> 'f registry result \<times> 'f disk" where
  "open_registry env machine_file legacy_file d =
     (case bindR (or_raise machine_file (RegistryError ''machine configuration not found''))
             (\<lambda>content. bindR (read_yaml (re_load env) content) validate_machine) of
        Inl e \<Rightarrow> (Inl e, d)
      | Inr machine \<Rightarrow>
          (case bindR (raw_inventory env machine (dk_file d) legacy_file) (\<lambda>raw.
                bindR (py_int (dget raw ''schema_version'' (PInt 1))) (\<lambda>version.
                bindR (validate_inventory (re_now env) raw machine) (\<lambda>ivt. Inr (version, ivt)))) of
             Inl e \<Rightarrow> (Inl e, d)
           | Inr (version, ivt) \<Rightarrow>
               (let r = \<lparr>rg_machine = machine, rg_inventory = ivt, rg_disk = d\<rparr> in
                if dk_file d = None \<or> version \<noteq> 3 then
                  (case save env r of
                     (Inl e, r') \<Rightarrow> (Inl e, rg_disk r')
                   | (Inr _, r') \<Rightarrow> (Inr r', rg_disk r'))
                else (Inr r, d))))"

end
