(* ===== verification/Registry_Safety.thy ===== *)
theory Registry_Safety
  imports Registry
begin

section \<open>What is on disk, and rollback\<close>

text \<open>
  The save of the registry under every pattern of failing system calls, the rollback of
  the operations, and the registry as a transition system: whatever sequence of
  operations runs, whichever calls fail, the inventory file holds a validated document.
\<close>

interpretation inventory_check:
  checked_document "\<lambda>d. validate_inventory now d machine" "valid_inventory machine"
  for now machine
  by unfold_locales (rule validate_inventory_valid, assumption, rule validate_inventory_idem)

subsection \<open>Replacing the inventory file\<close>

lemma prepare_run:
  assumes "run_io fs content ([Make_dir] @ (if dk_file d = None then [] else [Copy_backup]) @ [Make_temp]) d
    = (res, d')"
  shows "dk_file d' = dk_file d
    \<and> (res = Inr () \<longrightarrow> dk_backup d' = (if dk_file d = None then dk_backup d else dk_file d))"
  using assms by (auto split: option.splits if_splits)

lemma publish_run:
  assumes "cleanup fs (run_io fs content [Write_temp, Chmod_temp, Replace_file, Sync_dir] d) = (res, d')"
  shows "dk_backup d' = dk_backup d"
    and "dk_file d' = dk_file d \<or> dk_file d' = Some content"
    and "res = Inr () \<Longrightarrow> dk_file d' = Some content \<and> dk_temp d' = None"
    and "res = Inl e \<Longrightarrow> dk_file d' \<noteq> dk_file d \<Longrightarrow> fe_fault fs Sync_dir = Some e"
  using assms by (auto simp: cleanup_def split: option.splits if_splits)

lemma write_inventory_cases:
  assumes "write_inventory fs content d = (res, d')"
  obtains (prepare) e where "res = Inl e" "dk_file d' = dk_file d"
  | (publish) d1 where "dk_file d1 = dk_file d"
      "dk_backup d1 = (if dk_file d = None then dk_backup d else dk_file d)"
      "cleanup fs (run_io fs content [Write_temp, Chmod_temp, Replace_file, Sync_dir] d1) = (res, d')"
proof -
  obtain res1 d1 where prep: "run_io fs content
      ([Make_dir] @ (if dk_file d = None then [] else [Copy_backup]) @ [Make_temp]) d = (res1, d1)"
    by (cases "run_io fs content ([Make_dir] @ (if dk_file d = None then [] else [Copy_backup]) @ [Make_temp]) d")
  note p = prepare_run [OF prep]
  show thesis
  proof (cases res1)
    case (Inl e)
    with assms prep p show thesis by (intro prepare [of e]) (auto simp: write_inventory_def)
  next
    case (Inr u)
    with assms prep p show thesis by (intro publish [of d1]) (auto simp: write_inventory_def)
  qed
qed

lemma write_inventory_summary:
  assumes "write_inventory fs content d = (res, d')"
  shows "(dk_file d' = dk_file d \<or> dk_file d' = Some content)
    \<and> (res = Inr () \<longrightarrow> dk_file d' = Some content \<and> dk_temp d' = None
        \<and> dk_backup d' = (if dk_file d = None then dk_backup d else dk_file d))
    \<and> (\<forall>e. res = Inl e \<longrightarrow> dk_file d' \<noteq> dk_file d \<longrightarrow>
        fe_fault fs Sync_dir = Some e \<and> dk_file d' = Some content)"
  using assms
proof (cases rule: write_inventory_cases)
  case (publish d1)
  show ?thesis
    using publish(1,2) publish_run(1-3) [OF publish(3)] publish_run(4) [OF publish(3)]
    by (simp only:) auto
qed auto

lemmas write_inventory_file =
  write_inventory_summary [THEN conjunct1]
  write_inventory_summary [THEN conjunct2, THEN conjunct1, rule_format]
  write_inventory_summary [THEN conjunct2, THEN conjunct2, rule_format]

lemma write_inventory_ok:
  assumes "fe_fault fs = (\<lambda>_. None)"
  shows "fst (write_inventory fs content d) = Inr ()"
  using assms by (simp add: write_inventory_def cleanup_def)

subsection \<open>Saving\<close>

lemma save_machine: "save env r = (res, r') \<Longrightarrow> rg_machine r' = rg_machine r"
  by (auto simp: save_def split: sum.splits prod.splits)

lemma save_Inr:
  assumes "save env r = (Inr u, r')"
  shows "validate_inventory (re_now env) (rg_inventory r) (rg_machine r) = Inr (rg_inventory r')"
    and "dk_file (rg_disk r') = Some (re_dump env (rg_inventory r'))"
    and "dk_temp (rg_disk r') = None"
    and "valid_inventory (rg_machine r') (rg_inventory r')"
proof -
  from assms obtain v d where v: "validate_inventory (re_now env) (rg_inventory r) (rg_machine r) = Inr v"
    and d: "write_inventory (re_fs env) (re_dump env v) (rg_disk r) = (Inr (), d)"
    and r': "r' = r\<lparr>rg_disk := d, rg_inventory := v\<rparr>"
    by (auto simp: save_def split: sum.splits prod.splits)
  show "validate_inventory (re_now env) (rg_inventory r) (rg_machine r) = Inr (rg_inventory r')"
    using v r' by simp
  show "dk_file (rg_disk r') = Some (re_dump env (rg_inventory r'))" "dk_temp (rg_disk r') = None"
    using write_inventory_file(2) [OF d] r' by simp_all
  show "valid_inventory (rg_machine r') (rg_inventory r')"
    using inventory_check.check_valid [OF v] r' by simp
qed

lemma save_backup:
  assumes "save env r = (Inr u, r')"
  shows "dk_backup (rg_disk r')
    = (if dk_file (rg_disk r) = None then dk_backup (rg_disk r) else dk_file (rg_disk r))"
  using assms write_inventory_file(2) by (fastforce simp: save_def split: sum.splits prod.splits)

lemma save_Inl:
  assumes "save env r = (Inl e, r')"
  shows "rg_inventory r' = rg_inventory r"
    and "dk_file (rg_disk r') = dk_file (rg_disk r) \<or>
      (\<exists>v. validate_inventory (re_now env) (rg_inventory r) (rg_machine r) = Inr v
         \<and> dk_file (rg_disk r') = Some (re_dump env v) \<and> fe_fault (re_fs env) Sync_dir = Some e)"
proof -
  consider (invalid) "r' = r"
    | (io) v d where "validate_inventory (re_now env) (rg_inventory r) (rg_machine r) = Inr v"
        "write_inventory (re_fs env) (re_dump env v) (rg_disk r) = (Inl e, d)" "r' = r\<lparr>rg_disk := d\<rparr>"
    using assms by (auto simp: save_def split: sum.splits prod.splits)
  then have "rg_inventory r' = rg_inventory r \<and> (dk_file (rg_disk r') = dk_file (rg_disk r) \<or>
      (\<exists>v. validate_inventory (re_now env) (rg_inventory r) (rg_machine r) = Inr v
         \<and> dk_file (rg_disk r') = Some (re_dump env v) \<and> fe_fault (re_fs env) Sync_dir = Some e))"
  proof cases
    case io
    then show ?thesis using write_inventory_file(3) [OF io(2) refl] by (cases "dk_file d = dk_file (rg_disk r)") simp_all
  qed simp
  then show "rg_inventory r' = rg_inventory r"
    and "dk_file (rg_disk r') = dk_file (rg_disk r) \<or>
      (\<exists>v. validate_inventory (re_now env) (rg_inventory r) (rg_machine r) = Inr v
         \<and> dk_file (rg_disk r') = Some (re_dump env v) \<and> fe_fault (re_fs env) Sync_dir = Some e)"
    by blast+
qed

text \<open>
  The document on disk: what a save may leave there. \<open>saved_document\<close> is the invariant of
  the inventory file.
\<close>

definition saved_document :: "(pydict \<Rightarrow> 'f) \<Rightarrow> pydict \<Rightarrow> 'f disk \<Rightarrow> bool" where
  "saved_document dump machine d \<longleftrightarrow>
     (case dk_file d of None \<Rightarrow> True
      | Some content \<Rightarrow> \<exists>v. valid_inventory machine v \<and> content = dump v)"

lemma save_saved_document:
  assumes "save env r = (res, r')" and "saved_document (re_dump env) (rg_machine r) (rg_disk r)"
  shows "saved_document (re_dump env) (rg_machine r') (rg_disk r')"
proof (cases res)
  case (Inl e)
  with assms save_Inl(2) [of env r e r'] save_machine [of env r res r'] show ?thesis
    by (auto simp: saved_document_def dest: inventory_check.check_valid split: option.splits)
next
  case (Inr u)
  with assms save_Inr [of env r u r'] show ?thesis by (auto simp: saved_document_def)
qed

subsection \<open>Transactions\<close>

lemma transact_machine: "transact env body r = (res, r') \<Longrightarrow> rg_machine r' = rg_machine r"
  by (auto simp: transact_def commit_def dest: save_machine split: prod.splits sum.splits)

text \<open>
  A transaction raises before its save with the inventory as the body left it, or is rolled
  back, or is saved.
\<close>

lemma transact_cases:
  assumes "transact env body r = (res, r')"
  obtains (raised) e ivt where "body (rg_inventory r) = (Inl e, ivt)" "res = Inl e"
      "r' = r\<lparr>rg_inventory := ivt\<rparr>"
  | (rolled_back) e x ivt r1 where "body (rg_inventory r) = (Inr x, ivt)"
      "save env (r\<lparr>rg_inventory := ivt\<rparr>) = (Inl e, r1)" "res = Inl e"
      "r' = r1\<lparr>rg_inventory := rg_inventory r\<rparr>"
  | (saved) x ivt where "body (rg_inventory r) = (Inr x, ivt)" "res = Inr x"
      "save env (r\<lparr>rg_inventory := ivt\<rparr>) = (Inr (), r')"
proof -
  obtain b ivt where b: "body (rg_inventory r) = (b, ivt)" by (cases "body (rg_inventory r)")
  obtain sres r1 where s: "save env (r\<lparr>rg_inventory := ivt\<rparr>) = (sres, r1)"
    by (cases "save env (r\<lparr>rg_inventory := ivt\<rparr>)")
  show thesis
  proof (cases b)
    case (Inl e)
    with assms b show thesis by (intro raised) (auto simp: transact_def)
  next
    case (Inr x)
    show thesis
    proof (cases sres)
      fix e assume "sres = Inl e"
      with assms b s Inr show thesis by (intro rolled_back) (auto simp: transact_def commit_def)
    next
      fix u assume "sres = Inr u"
      with assms b s Inr show thesis by (intro saved) (auto simp: transact_def commit_def)
    qed
  qed
qed

text \<open>Bodies that raise only before they change anything.\<close>

definition raises_clean :: "(pydict, 'a) op \<Rightarrow> bool" where
  "raises_clean body \<longleftrightarrow> (\<forall>ivt e ivt'. body ivt = (Inl e, ivt') \<longrightarrow> ivt' = ivt)"

lemma transact_outcome:
  assumes "transact env body r = (res, r')" and "raises_clean body"
  shows "case res of
      Inl e \<Rightarrow> rg_inventory r' = rg_inventory r
    | Inr x \<Rightarrow> valid_inventory (rg_machine r') (rg_inventory r')
        \<and> dk_file (rg_disk r') = Some (re_dump env (rg_inventory r'))"
  using assms(1)
proof (cases rule: transact_cases)
  case raised
  with assms(2) show ?thesis by (simp add: raises_clean_def)
next
  case saved
  from save_Inr(2,4) [OF saved(3)] saved(2) show ?thesis by simp
qed simp

lemma clean_bodies [intro!, simp]:
  "raises_clean (set_port_mode_body now machine nid mode)"
  "raises_clean (move_body now sid alloc)"
  "raises_clean (update_body sid values)"
  "raises_clean (update_known_body now sid values)"
  "raises_clean (upsert_group_body gid provider members policy rate)"
  "raises_clean (delete_group_body gid)"
  by (auto simp: raises_clean_def set_port_mode_body_def move_body_def update_body_def
      update_known_body_def upsert_group_body_def delete_group_body_def Let_def split: if_splits)

subsection \<open>The registry as a transition system\<close>

datatype reg_cmd =
    Set_port_mode string string
  | Enroll pydict allocation string string
  | Replace string pydict
  | Move string allocation
  | Update string pydict
  | Forget string
  | Update_known string pydict
  | Purge string
  | Upsert_group string string "string list" string pyfloat
  | Delete_group string
  | Observe pydict string bool bool bool
  | Save

definition discard :: "('s, 'a) op \<Rightarrow> ('s, unit) op" where
  "discard m s = (case m s of (Inl e, s') \<Rightarrow> (Inl e, s') | (Inr x, s') \<Rightarrow> (Inr (), s'))"

definition observe :: "'f reg_env \<Rightarrow> pydict \<Rightarrow> string \<Rightarrow> bool \<Rightarrow> bool \<Rightarrow> bool \<Rightarrow> ('f registry, bool) op" where
  "observe env observation nid managed new_session checkpoint r =
     (case record_observation (re_now env) observation nid managed new_session checkpoint (rg_inventory r) of
        (res, ivt) \<Rightarrow> (res, r\<lparr>rg_inventory := ivt\<rparr>))"

fun run_cmd :: "'f reg_env \<Rightarrow> reg_cmd \<Rightarrow> ('f registry, unit) op" where
  "run_cmd env (Set_port_mode nid mode) = set_port_mode env nid mode"
| "run_cmd env (Enroll obs alloc name location) = discard (enroll env obs alloc name location)"
| "run_cmd env (Replace sid obs) = discard (replace_sensor env sid obs)"
| "run_cmd env (Move sid alloc) = move_sensor env sid alloc"
| "run_cmd env (Update sid values) = update_sensor env sid values"
| "run_cmd env (Forget sid) = forget env sid"
| "run_cmd env (Update_known sid values) = update_known_sensor env sid values"
| "run_cmd env (Purge sid) = purge_known_sensor env sid"
| "run_cmd env (Upsert_group gid provider members policy rate) =
     upsert_group env gid provider members policy rate"
| "run_cmd env (Delete_group gid) = delete_group env gid"
| "run_cmd env (Observe obs nid managed new_session checkpoint) =
     discard (observe env obs nid managed new_session checkpoint)"
| "run_cmd env Save = save env"

text \<open>
  One step: a command with any clock and any failing calls, under the same PyYAML and the
  same rendering of torn writes.
\<close>

inductive reg_step :: "(pydict \<Rightarrow> 'f) \<Rightarrow> 'f registry \<Rightarrow> 'f registry \<Rightarrow> bool" for dump where
  run: "re_dump env = dump \<Longrightarrow> run_cmd env cmd r = (res, r') \<Longrightarrow> reg_step dump r r'"

inductive_cases reg_stepE: "reg_step dump r r'"

definition reg_reach :: "(pydict \<Rightarrow> 'f) \<Rightarrow> 'f registry \<Rightarrow> 'f registry \<Rightarrow> bool" where
  "reg_reach dump = (reg_step dump)\<^sup>*\<^sup>*"

text \<open>
  The file after a save attempt: unchanged, or the dump of a document that passes its check
  unchanged.
\<close>

definition file_advances :: "(pydict \<Rightarrow> 'f) \<Rightarrow> 'f registry \<Rightarrow> 'f registry \<Rightarrow> bool" where
  "file_advances dump r r' \<longleftrightarrow>
     rg_machine r' = rg_machine r
     \<and> (dk_file (rg_disk r') = dk_file (rg_disk r)
        \<or> (\<exists>v. valid_inventory (rg_machine r) v \<and> dk_file (rg_disk r') = Some (dump v)
             \<and> (\<forall>now. validate_inventory now v (rg_machine r) = Inr v)))"

lemma save_advances: "save env r = (res, r') \<Longrightarrow> file_advances (re_dump env) r r'"
proof (cases res)
  case (Inl e)
  moreover assume "save env r = (res, r')"
  ultimately show ?thesis
    using save_Inl(2) [of env r e r'] save_machine [of env r res r']
    by (auto simp: file_advances_def dest: validate_inventory_valid intro: validate_inventory_idem)
next
  case (Inr u)
  moreover assume "save env r = (res, r')"
  ultimately show ?thesis
    using save_Inr [of env r u r'] save_machine [of env r res r']
    by (auto simp: file_advances_def intro: validate_inventory_idem)
qed

lemma transact_advances:
  assumes "transact env body r = (res, r')"
  shows "file_advances (re_dump env) r r'"
  using assms
proof (cases rule: transact_cases)
  case raised
  then show ?thesis by (simp add: file_advances_def)
next
  case rolled_back
  from save_advances [OF rolled_back(2)] rolled_back(4) show ?thesis by (simp add: file_advances_def)
next
  case saved
  from save_advances [OF saved(3)] show ?thesis by (simp add: file_advances_def)
qed

lemma discard_eq: "discard m s = (res, s') \<Longrightarrow> \<exists>res0. m s = (res0, s')"
  by (auto simp: discard_def split: prod.splits sum.splits)

lemma discarded_Inl: "discard m s = (Inl e, s') \<Longrightarrow> m s = (Inl e, s')"
  by (auto simp: discard_def split: prod.splits sum.splits)

lemma discarded_Inr: "discard m s = (Inr u, s') \<Longrightarrow> \<exists>x. m s = (Inr x, s')"
  by (auto simp: discard_def split: prod.splits sum.splits)

lemma run_cmd_advances: "run_cmd env cmd r = (res, r') \<Longrightarrow> file_advances (re_dump env) r r'"
  by (cases cmd)
     (auto simp: set_port_mode_def enroll_def replace_sensor_def move_sensor_def update_sensor_def
       forget_def update_known_sensor_def purge_known_sensor_def upsert_group_def delete_group_def
       intro: save_advances dest!: discard_eq dest: transact_advances,
      auto simp: observe_def file_advances_def split: prod.splits)

lemma reg_reach_advances: "reg_reach dump r r' \<Longrightarrow> file_advances dump r r'"
  unfolding reg_reach_def
proof (induction rule: rtranclp_induct)
  case base
  then show ?case by (simp add: file_advances_def)
next
  case (step r1 r2)
  from step(2) have "file_advances dump r1 r2"
    by (auto elim!: reg_stepE dest: run_cmd_advances)
  with step.IH show ?case by (auto simp: file_advances_def)
qed

subsection \<open>Opening again\<close>

text \<open>
  What opening needs of the inventory file: it reads as a document of the current schema
  that passes the check, with the same result at any time.
\<close>

definition readable :: "('f \<Rightarrow> pyval result) \<Rightarrow> pydict \<Rightarrow> 'f \<Rightarrow> pydict \<Rightarrow> bool" where
  "readable load machine content v \<longleftrightarrow>
     (\<exists>raw. read_yaml load content = Inr raw
        \<and> py_int (dget raw ''schema_version'' (PInt 1)) = Inr 3
        \<and> (\<forall>now. validate_inventory now raw machine = Inr v))"

lemma validate_current_now:
  assumes "py_int (dget raw ''schema_version'' (PInt 1)) = Inr 3"
  shows "validate_inventory now raw machine = validate_inventory now' raw machine"
proof -
  from assms have "migrate_inventory n raw = Inr raw" for n by (simp add: migrate_inventory_def)
  then show ?thesis by (simp only: validate_inventory_def)
qed

lemma valid_inventory_version: "valid_inventory machine v \<Longrightarrow> map_of v ''schema_version'' = Some (PInt 3)"
  by (simp add: valid_inventory_def)

lemma readable_dump:
  assumes "load (dump v) = Inr (PDict v)" and "\<And>now. validate_inventory now v machine = Inr v"
  shows "readable load machine (dump v) v"
proof -
  have version: "map_of v ''schema_version'' = Some (PInt 3)"
    using assms(2) validate_inventory_valid valid_inventory_version by blast
  then have "v \<noteq> []" by auto
  with assms version show ?thesis
    by (simp add: readable_def read_yaml_def or_empty_def)
qed

lemma open_readable:
  assumes "dk_file d = Some content"
    and "read_yaml (re_load env) mf = Inr mdoc" and "validate_machine mdoc = Inr machine"
    and "readable (re_load env) machine content v"
  shows "open_registry env (Some mf) lf d
    = (Inr \<lparr>rg_machine = machine, rg_inventory = v, rg_disk = d\<rparr>, d)"
  using assms by (auto simp: open_registry_def raw_inventory_def readable_def)

lemma open_registry_Inr:
  assumes "open_registry env (Some mf) lf d = (Inr r, d')"
  obtains mdoc where "read_yaml (re_load env) mf = Inr mdoc" "validate_machine mdoc = Inr (rg_machine r)"
    "rg_disk r = d'" "valid_inventory (rg_machine r) (rg_inventory r)"
    "dk_file d' = Some (re_dump env (rg_inventory r))
       \<and> (\<forall>now. validate_inventory now (rg_inventory r) (rg_machine r) = Inr (rg_inventory r))
     \<or> (\<exists>content. dk_file d' = Some content
          \<and> readable (re_load env) (rg_machine r) content (rg_inventory r))"
proof -
  from assms obtain mdoc machine where m: "read_yaml (re_load env) mf = Inr mdoc"
      "validate_machine mdoc = Inr machine"
    by (auto simp: open_registry_def split: sum.splits prod.splits simp: bindR_eq_Inr)
  from assms m obtain raw version ivt
    where raw: "raw_inventory env machine (dk_file d) lf = Inr raw"
      "py_int (dget raw ''schema_version'' (PInt 1)) = Inr version"
      "validate_inventory (re_now env) raw machine = Inr ivt"
    by (auto simp: open_registry_def bindR_eq_Inr split: sum.splits prod.splits)
  let ?r = "\<lparr>rg_machine = machine, rg_inventory = ivt, rg_disk = d\<rparr>"
  show thesis
  proof (cases "dk_file d = None \<or> version \<noteq> 3")
    case True
    with assms m raw have s: "save env ?r = (Inr (), r)" and d': "rg_disk r = d'"
      by (auto simp: open_registry_def Let_def split: sum.splits prod.splits)
    note f = save_Inr [OF s] and k = save_machine [OF s]
    from f(1) have "\<forall>now. validate_inventory now (rg_inventory r) (rg_machine r) = Inr (rg_inventory r)"
      using k by (auto intro: validate_inventory_idem)
    with f(2,4) k d' m show thesis by (intro that) auto
  next
    case False
    then obtain content where c: "dk_file d = Some content" by auto
    from False assms m raw have r: "r = ?r" "d' = d" by (auto simp: open_registry_def)
    from c raw(1) have "read_yaml (re_load env) content = Inr raw" by (simp add: raw_inventory_def)
    moreover from False raw(2) have v3: "py_int (dget raw ''schema_version'' (PInt 1)) = Inr 3" by simp
    moreover have "\<forall>now. validate_inventory now raw machine = Inr ivt"
      using raw(3) validate_current_now [OF v3] by metis
    ultimately have "readable (re_load env) machine content ivt" by (auto simp: readable_def)
    with c r m validate_inventory_valid [OF raw(3)] show thesis by (intro that) auto
  qed
qed

lemma reopen_lemma:
  assumes roundtrip: "\<And>v. valid_inventory (rg_machine r0) v \<Longrightarrow> re_load env (re_dump env v) = Inr (PDict v)"
    and opened: "open_registry env (Some mf) lf d = (Inr r0, d0)"
    and steps: "reg_reach (re_dump env) r0 r1"
    and same: "re_dump env' = re_dump env" "re_load env' = re_load env"
  shows "\<exists>v. valid_inventory (rg_machine r0) v
    \<and> open_registry env' (Some mf) lf (rg_disk r1)
      = (Inr \<lparr>rg_machine = rg_machine r0, rg_inventory = v, rg_disk = rg_disk r1\<rparr>, rg_disk r1)"
proof -
  from opened obtain mdoc where m: "read_yaml (re_load env) mf = Inr mdoc"
      "validate_machine mdoc = Inr (rg_machine r0)" and d0: "rg_disk r0 = d0"
    and valid0: "valid_inventory (rg_machine r0) (rg_inventory r0)"
    and file0: "dk_file d0 = Some (re_dump env (rg_inventory r0))
       \<and> (\<forall>now. validate_inventory now (rg_inventory r0) (rg_machine r0) = Inr (rg_inventory r0))
     \<or> (\<exists>content. dk_file d0 = Some content
          \<and> readable (re_load env) (rg_machine r0) content (rg_inventory r0))"
    by (rule open_registry_Inr)
  have "\<exists>content v. dk_file (rg_disk r1) = Some content \<and> valid_inventory (rg_machine r0) v
      \<and> readable (re_load env) (rg_machine r0) content v"
    using reg_reach_advances [OF steps] file0 d0 valid0 roundtrip
    unfolding file_advances_def by (metis readable_dump)
  then obtain content v where "dk_file (rg_disk r1) = Some content" "valid_inventory (rg_machine r0) v"
      "readable (re_load env') (rg_machine r0) content v" using same by auto
  with m same show ?thesis by (metis open_readable)
qed

subsection \<open>When an operation leaves no trace\<close>

text \<open>An observation as the manager builds it: the identifying fields are there.\<close>

definition complete_observation :: "pydict \<Rightarrow> bool" where
  "complete_observation obs \<longleftrightarrow>
     is_str (dget obs ''provider'' PNone) \<and> is_str (dget obs ''serial'' PNone)
     \<and> is_list (dget obs ''capabilities'' PNone)"

lemma complete_observation_lookup:
  assumes "complete_observation obs"
  obtains p s c where "map_of obs ''provider'' = Some (PStr p)" "map_of obs ''serial'' = Some (PStr s)"
    "map_of obs ''capabilities'' = Some (PList c)"
proof -
  have "\<exists>w. map_of obs k = Some w \<and> v = w" if "dget obs k PNone = v" "v \<noteq> PNone" for k v
    using that by (cases "map_of obs k") auto
  with assms that show thesis
    unfolding complete_observation_def is_str_iff is_list_iff by (metis pyval.distinct(7,9))
qed

lemma ensure_known_total:
  "complete_observation source \<or> dhas (inv_known ivt) sid \<Longrightarrow>
   \<exists>ivt'. ensure_known now sid source ivt = Inr ivt'"
proof (cases "map_of (inv_known ivt) sid")
  case None
  moreover assume "complete_observation source \<or> dhas (inv_known ivt) sid"
  ultimately have "complete_observation source" by (simp add: dhas_def)
  then obtain c where "map_of source ''capabilities'' = Some (PList c)"
    by (rule complete_observation_lookup)
  with None show ?thesis by (simp add: ensure_known_def known_from_sensor_def)
qed (simp add: ensure_known_def)

lemma ensure_known_sections:
  assumes "ensure_known now sid source ivt = Inr ivt'"
  shows "key \<noteq> ''known_sensors'' \<Longrightarrow> inv_section ivt' key = inv_section ivt key"
    and "key \<noteq> ''known_sensors'' \<Longrightarrow> map_of ivt' key = map_of ivt key"
    and "dhas (inv_known ivt') s \<longleftrightarrow> s = sid \<or> dhas (inv_known ivt) s"
  using assms by (auto simp: ensure_known_def put_known_def bindR_eq_Inr dhas_dset)

lemma valid_known_enrolled: "valid_inventory machine ivt \<Longrightarrow> dhas (inv_sensors ivt) sid \<Longrightarrow> dhas (inv_known ivt) sid"
  by (auto simp: valid_inventory_def dhas_iff)

definition stock_groups :: "pydict \<Rightarrow> bool" where
  "stock_groups groups \<longleftrightarrow> (\<forall>(gid, g) \<in> set groups. \<exists>v ms. map_of (dict_of g) ''members'' = Some v \<and> py_list v = Inr ms)"

lemma valid_inventory_groups: "valid_inventory machine ivt \<Longrightarrow> stock_groups (inv_groups ivt)"
proof -
  assume v: "valid_inventory machine ivt"
  have "\<exists>v ms. map_of (dict_of g) ''members'' = Some v \<and> py_list v = Inr ms" if "(gid, g) \<in> set (inv_groups ivt)" for gid g
  proof -
    from v that have "group_members (dict_of g) \<noteq> []"
      by (auto simp: valid_inventory_def valid_group_def)
    then show ?thesis
      by (cases "map_of (dict_of g) ''members''") (auto simp: group_members_def split: sum.splits)
  qed
  then show ?thesis by (auto simp: stock_groups_def)
qed

lemma replace_in_groups_total:
  "stock_groups groups \<Longrightarrow> \<exists>groups'. replace_in_groups old new groups = Inr groups'"
  unfolding replace_in_groups_def
proof (induction groups)
  case (Cons p groups)
  then show ?case
    by (cases p) (auto simp: stock_groups_def replace_in_group_def Let_def)
qed simp

text \<open>The commands that raise only before they have changed the inventory.\<close>

fun untraced :: "pydict \<Rightarrow> reg_cmd \<Rightarrow> bool" where
  "untraced ivt (Enroll obs alloc name location) =
     (complete_observation obs
      \<and> (\<forall>sid. sensor_id_for_observation ivt obs = Inr sid \<longrightarrow>
           dget (known_record ivt sid) ''catalog_state'' PNone \<noteq> PStr ''retired''))"
| "untraced ivt (Replace sid obs) =
     (complete_observation obs \<and> dhas (sensor_record ivt sid) ''network_id'')"
| "untraced ivt (Purge sid) = list_all is_dict (list_of (dget ivt ''history'' (PList [])))"
| "untraced ivt (Observe obs nid managed new_session checkpoint) = False"
| "untraced ivt _ = True"

lemma transact_untraced:
  assumes "transact env body r = (Inl e, r')"
    and "\<And>ivt'. body (rg_inventory r) = (Inl e, ivt') \<Longrightarrow> ivt' = rg_inventory r"
  shows "rg_inventory r' = rg_inventory r"
  using assms(1) by (cases rule: transact_cases) (auto dest: assms(2))

lemma foldl_dset_frame:
  "k \<notin> set ks \<Longrightarrow> map_of (foldl (\<lambda>d key. if P key then d else dset key (v key) d) d ks) k = map_of d k"
  by (induction ks arbitrary: d) auto

lemma copy_identity_frame: "k \<notin> set identity_fields \<Longrightarrow> map_of (copy_identity source known) k = map_of known k"
  unfolding copy_identity_def by (rule foldl_dset_frame)

lemma refresh_known_frame:
  "k \<notin> set identity_fields \<union> {''provider'', ''last_provider'', ''hardware_key''} \<Longrightarrow>
   map_of (refresh_known source known) k = map_of known k"
  by (simp add: refresh_known_def Let_def copy_identity_frame)

lemma known_record_put [simp]:
  "known_record (put_known sid k ivt) sid = k"
  "s \<noteq> sid \<Longrightarrow> known_record (put_known sid k ivt) s = known_record ivt s"
  by (simp_all add: known_record_def put_known_def dget_dset)

lemma ensure_known_record:
  assumes "ensure_known now sid source ivt = Inr ivt'"
  obtains k where "known_record ivt' sid = refresh_known source k"
    "ivt' = put_known sid (refresh_known source k) ivt"
    "map_of (inv_known ivt) sid \<noteq> None \<longrightarrow> k = known_record ivt sid"
    "map_of (inv_known ivt) sid = None \<longrightarrow> map_of k ''catalog_state'' = Some (PStr ''observed'')"
proof (cases "map_of (inv_known ivt) sid")
  case None
  with assms obtain k where "known_from_sensor source ''observed'' now = Inr k"
      "ivt' = put_known sid (refresh_known source (dset ''last_configuration'' PNone k)) ivt"
    by (auto simp: ensure_known_def bindR_eq_Inr)
  with None show thesis
    by (intro that [of "dset ''last_configuration'' PNone k"])
       (auto simp: known_from_sensor_def bindR_eq_Inr)
next
  case (Some v)
  then have k: "dict_of v = known_record ivt sid" by (simp add: known_record_def)
  with Some assms have "ivt' = put_known sid (refresh_known source (known_record ivt sid)) ivt"
    by (simp add: ensure_known_def)
  with Some show thesis by (intro that [of "known_record ivt sid"]) simp_all
qed

lemma enroll_untraced:
  assumes "untraced ivt (Enroll obs alloc name location)"
    and "enroll_body now obs alloc name location ivt = (Inl e, ivt')"
  shows "ivt' = ivt"
proof -
  from assms(1) have obs: "complete_observation obs" by simp
  show ?thesis
  proof (cases "sensor_id_for_observation ivt obs")
    case (Inr sid)
    from ensure_known_total obs obtain ivt1 where e: "ensure_known now sid obs ivt = Inr ivt1" by blast
    obtain k where k: "known_record ivt1 sid = refresh_known obs k"
      "ivt1 = put_known sid (refresh_known obs k) ivt"
      "map_of (inv_known ivt) sid \<noteq> None \<longrightarrow> k = known_record ivt sid"
      "map_of (inv_known ivt) sid = None \<longrightarrow> map_of k ''catalog_state'' = Some (PStr ''observed'')"
      by (rule ensure_known_record [OF e])
    have "dget (known_record ivt1 sid) ''catalog_state'' PNone = dget k ''catalog_state'' PNone"
      by (simp add: k(1) dget_def refresh_known_frame identity_fields_def)
    then have "dget (known_record ivt1 sid) ''catalog_state'' PNone \<noteq> PStr ''retired''"
      using k(3,4) assms(1) Inr by (cases "map_of (inv_known ivt) sid") auto
    moreover from obs obtain s where "new_sensor sid obs alloc name location = Inr s"
      by (elim complete_observation_lookup) (auto simp: new_sensor_def)
    ultimately show ?thesis
      using assms(2) Inr e by (simp add: enroll_body_def split: if_splits)
  qed (use assms(2) in \<open>simp add: enroll_body_def\<close>)
qed

lemma put_sensor_section [simp]:
  "key \<noteq> ''sensors'' \<Longrightarrow> inv_section (put_sensor sid s ivt) key = inv_section ivt key"
  "key \<noteq> ''sensors'' \<Longrightarrow> inv_section (drop_sensor sid ivt) key = inv_section ivt key"
  "inv_sensors (put_sensor sid s ivt) = dset sid (PDict s) (inv_sensors ivt)"
  "inv_sensors (drop_sensor sid ivt) = dpop sid (inv_sensors ivt)"
  by (simp_all add: put_sensor_def drop_sensor_def)

lemma put_known_section [simp]:
  "key \<noteq> ''known_sensors'' \<Longrightarrow> inv_section (put_known sid k ivt) key = inv_section ivt key"
  "inv_known (put_known sid k ivt) = dset sid (PDict k) (inv_known ivt)"
  by (simp_all add: put_known_def)

lemma forget_untraced:
  assumes "valid_inventory machine ivt" and "forget_body now sid ivt = (Inl e, ivt')"
  shows "ivt' = ivt"
proof (cases "dhas (inv_sensors ivt) sid \<and> memberships sid (inv_groups ivt) = Inr []")
  case True
  then have "dhas (inv_known (drop_sensor sid ivt)) sid"
    using valid_known_enrolled [OF assms(1)] by simp
  then obtain ivt2 where "ensure_known now sid (sensor_record ivt sid) (drop_sensor sid ivt) = Inr ivt2"
    using ensure_known_total by blast
  with True assms(2) show ?thesis by (simp add: forget_body_def Let_def)
qed (use assms(2) in \<open>auto simp: forget_body_def split: sum.splits if_splits\<close>)

lemma replace_untraced:
  assumes "valid_inventory machine ivt" and "untraced ivt (Replace sid obs)"
    and "replace_body now sid obs ivt = (Inl e, ivt')"
  shows "ivt' = ivt"
proof (cases "dhas (inv_sensors ivt) sid")
  case enrolled: True
  from assms(2) obtain p s c where obs: "map_of obs ''provider'' = Some (PStr p)"
      "map_of obs ''serial'' = Some (PStr s)" "map_of obs ''capabilities'' = Some (PList c)"
    by (auto elim: complete_observation_lookup)
  then obtain rid where rid: "new_sensor_id obs = Inr rid" using new_sensor_id_total by blast
  show ?thesis
  proof (cases "dhas (inv_sensors ivt) rid")
    case False
    let ?source = "sensor_record ivt sid"
    from obs obtain identity where identity: "sensor_from_observation obs ?source = Inr identity"
      "dkeys identity = [''provider'', ''kind'', ''vendor'', ''model'', ''serial'', ''mac_address'',
        ''capabilities'', ''hardware_key'']"
      by (simp add: sensor_from_observation_def)
    from assms(2) obtain ivt2 where e1: "ensure_known now rid obs (drop_sensor sid ivt) = Inr ivt2"
      using ensure_known_total by force
    note sec = ensure_known_sections [OF e1]
    let ?ivt3 = "put_sensor rid (dupdate identity ?source)
      (put_known rid (enrolled_known (known_record ivt2 rid)) ivt2)"
    from valid_inventory_groups [OF assms(1)] sec(1) obtain groups where
      g: "replace_in_groups sid rid (inv_groups ?ivt3) = Inr groups"
      using replace_in_groups_total by fastforce
    let ?ivt4 = "put_section ''sync_groups'' groups ?ivt3"
    have "dhas (inv_known ?ivt4) sid"
      using valid_known_enrolled [OF assms(1) enrolled] sec(3) by (simp add: dhas_dset)
    then obtain ivt5 where e2: "ensure_known now sid ?source ?ivt4 = Inr ivt5"
      using ensure_known_total by blast
    from assms(2) obtain nid where "map_of ?source ''network_id'' = Some nid"
      by (auto simp: dhas_def)
    then have "map_of (dupdate identity ?source) ''network_id'' = Some nid"
      using identity(2) by (subst map_of_dupdate)
        (auto simp: map_of_eq_None_iff split: option.splits dest: map_of_in_set)
    with enrolled rid False identity(1) e1 g e2 assms(3) show ?thesis
      by (simp add: replace_body_def Let_def)
  qed (use enrolled rid assms(3) in \<open>simp add: replace_body_def\<close>)
qed (use assms(3) in \<open>simp add: replace_body_def\<close>)

lemma purge_untraced:
  "untraced ivt (Purge sid) \<Longrightarrow> purge_body sid ivt = (Inl e, ivt') \<Longrightarrow> ivt' = ivt"
  by (auto simp: purge_body_def Let_def split: if_splits)

subsection \<open>Commands that raise\<close>

lemma run_cmd_rolls_back:
  assumes "valid_inventory (rg_machine r) (rg_inventory r)" and "untraced (rg_inventory r) cmd"
    and "run_cmd env cmd r = (Inl e, r')"
  shows "rg_inventory r' = rg_inventory r"
proof -
  have clean: "raises_clean body \<Longrightarrow> transact env body r = (Inl e, r') \<Longrightarrow> ?thesis" for body :: "(pydict, unit) op"
    by (drule transact_outcome) simp_all
  show ?thesis
  proof (cases cmd)
    case Enroll
    with assms(2,3) show ?thesis
      by (auto simp: enroll_def simp del: untraced.simps intro: transact_untraced enroll_untraced
          dest!: discarded_Inl)
  next
    case Replace
    with assms show ?thesis
      by (auto simp: replace_sensor_def simp del: untraced.simps intro: transact_untraced replace_untraced
          dest!: discarded_Inl)
  next
    case Forget
    with assms show ?thesis by (auto simp: forget_def intro: transact_untraced forget_untraced)
  next
    case Purge
    with assms show ?thesis
      by (auto simp: purge_known_sensor_def simp del: untraced.simps intro: transact_untraced purge_untraced)
  next
    case Observe
    with assms(2) show ?thesis by simp
  next
    case Save
    with assms(3) show ?thesis by (auto dest: save_Inl)
  qed (use assms(3) clean in \<open>auto simp: set_port_mode_def move_sensor_def update_sensor_def
      update_known_sensor_def upsert_group_def delete_group_def\<close>)
qed

text \<open>A command other than an observation that returns has saved a valid inventory.\<close>

fun saving :: "reg_cmd \<Rightarrow> bool" where
  "saving (Observe _ _ _ _ _) = False"
| "saving _ = True"

lemma transact_saved:
  assumes "transact env body r = (Inr x, r')"
  shows "valid_inventory (rg_machine r) (rg_inventory r')
    \<and> dk_file (rg_disk r') = Some (re_dump env (rg_inventory r')) \<and> dk_temp (rg_disk r') = None"
  using assms
proof (cases rule: transact_cases)
  case saved
  from save_Inr(2-4) [OF saved(3)] transact_machine [OF assms] show ?thesis by simp
qed simp_all

lemma run_cmd_saved:
  assumes "saving cmd" and "run_cmd env cmd r = (Inr u, r')"
  shows "valid_inventory (rg_machine r) (rg_inventory r')
    \<and> dk_file (rg_disk r') = Some (re_dump env (rg_inventory r')) \<and> dk_temp (rg_disk r') = None"
proof (cases cmd)
  case Save
  with assms(2) save_Inr(2-4) [of env r u r'] save_machine [of env r "Inr u" r'] show ?thesis by simp
next
  case Observe
  with assms(1) show ?thesis by simp
qed (use assms(2) in \<open>auto simp: set_port_mode_def enroll_def replace_sensor_def move_sensor_def
    update_sensor_def forget_def update_known_sensor_def purge_known_sensor_def upsert_group_def
    delete_group_def dest!: discarded_Inr dest: transact_saved\<close>)

subsection \<open>A concrete registry\<close>

text \<open>
  The witnesses run on a machine with the default configuration and an inventory of
  schema 1 with one enrolled camera, with documents as file contents.
\<close>

definition demo_env :: "pydict reg_env" where
  "demo_env = \<lparr>re_fs = \<lparr>fe_torn = [], fe_fault = (\<lambda>_. None)\<rparr>, re_dump = (\<lambda>d. d),
     re_load = (\<lambda>d. Inr (PDict d)), re_now = ''t''\<rparr>"

definition demo_machine :: pydict where
  "demo_machine =
     [(''managed_networks'', PDict []), (''defaults'', PDict [(''preview_rate_hz'', PFloat (Dec 2 0))])]"

definition demo_raw :: pydict where
  "demo_raw = [(''schema_version'', PInt 1), (''sensors'', PDict [(''cam'', PDict
     [(''provider'', PStr ''genicam''), (''serial'', PStr ''A1''), (''network_id'', PStr '''')])])]"

definition demo_sensor :: pydict where
  "demo_sensor =
     [(''provider'', PStr ''genicam''), (''serial'', PStr ''A1''), (''network_id'', PStr ''''),
      (''hardware_key'', PStr ''vendor:genicam:serial:a1''), (''kind'', PStr ''camera''),
      (''vendor'', PStr ''genicam''), (''model'', PStr ''''), (''mac_address'', PStr ''''),
      (''enabled'', PBool True), (''display_name'', PStr ''cam''), (''location_label'', PStr ''unknown''),
      (''pose'', PNone), (''calibration_url'', PStr ''''), (''capabilities'', PList [])]"

definition demo_known :: pydict where
  "demo_known =
     [(''provider'', PStr ''genicam''), (''kind'', PStr ''camera''), (''vendor'', PStr ''genicam''),
      (''model'', PStr ''''), (''serial'', PStr ''A1''), (''mac_address'', PStr ''''),
      (''capabilities'', PList []), (''catalog_state'', PStr ''enrolled''),
      (''first_seen_at'', PStr ''t''), (''last_seen_at'', PStr ''t''), (''sighting_count'', PInt 0),
      (''latest_observation'', PDict []), (''changes'', PList []), (''notes'', PStr ''''),
      (''camera_profile'', PStr ''''), (''provider_settings'', PDict []),
      (''hardware_key'', PStr ''vendor:genicam:serial:a1''), (''last_provider'', PStr ''genicam''),
      (''last_configuration'', PDict
        [(''provider'', PStr ''genicam''), (''serial'', PStr ''A1''), (''network_id'', PStr '''')]),
      (''replaced_by'', PStr '''')]"

definition demo_inventory :: pydict where
  "demo_inventory =
     [(''schema_version'', PInt 3), (''sensors'', PDict [(''cam'', PDict demo_sensor)]),
      (''known_sensors'', PDict [(''cam'', PDict demo_known)]), (''sync_groups'', PDict []),
      (''port_modes'', PDict []), (''history'', PList [])]"

definition empty_disk :: "'f disk" where
  "empty_disk = \<lparr>dk_file = None, dk_backup = None, dk_temp = None\<rparr>"

definition demo_registry :: "pydict registry" where
  "demo_registry = \<lparr>rg_machine = demo_machine, rg_inventory = demo_inventory, rg_disk = empty_disk\<rparr>"

lemma demo_inventory_validated: "validate_inventory ''t'' demo_raw demo_machine = Inr demo_inventory"
  by code_simp

lemma demo_inventory_valid: "valid_inventory demo_machine demo_inventory"
  by (rule validate_inventory_valid [OF demo_inventory_validated])

subsection \<open>Properties\<close>

text \<open>C1: After any sequence of registry operations, whichever system calls fail in whichever
  operation, the registry can be opened again from the files it left, and comes up with a
  valid inventory. (PyYAML's loader inverts its dumper on valid inventories.)\<close>

theorem reopen_after_any_history:
  assumes roundtrip: "\<And>v. valid_inventory (rg_machine r0) v \<Longrightarrow> re_load env (re_dump env v) = Inr (PDict v)"
    and opened: "open_registry env (Some mf) lf d = (Inr r0, d0)"
    and steps: "reg_reach (re_dump env) r0 r1"
    and same: "re_dump env' = re_dump env" "re_load env' = re_load env"
  shows "\<exists>v. valid_inventory (rg_machine r0) v
    \<and> open_registry env' (Some mf) lf (rg_disk r1)
      = (Inr \<lparr>rg_machine = rg_machine r0, rg_inventory = v, rg_disk = rg_disk r1\<rparr>, rg_disk r1)"
  using assms by (rule reopen_lemma)

lemma demo_opens:
  "\<exists>r. open_registry demo_env (Some []) None empty_disk = (Inr r, rg_disk r)"
proof -
  obtain m where "validate_machine [] = Inr m" by (cases "validate_machine []") (code_simp, simp)
  moreover have "validate_inventory ''t'' empty_inventory machine = Inr empty_inventory" for machine
    by code_simp
  moreover have "dget empty_inventory ''schema_version'' (PInt 1) = PInt 3" by code_simp
  ultimately show ?thesis
    by (simp add: Let_def open_registry_def demo_env_def empty_disk_def read_yaml_def or_empty_def raw_inventory_def
        save_def write_inventory_def cleanup_def)
qed

theorem reopen_after_any_history_witness:
  "\<exists>r v. open_registry demo_env (Some []) None empty_disk = (Inr r, rg_disk r)
    \<and> open_registry demo_env (Some []) None (rg_disk r)
      = (Inr \<lparr>rg_machine = rg_machine r, rg_inventory = v, rg_disk = rg_disk r\<rparr>, rg_disk r)"
proof -
  from demo_opens obtain r where r: "open_registry demo_env (Some []) None empty_disk = (Inr r, rg_disk r)"
    by blast
  have "\<exists>v. valid_inventory (rg_machine r) v
    \<and> open_registry demo_env (Some []) None (rg_disk r)
      = (Inr \<lparr>rg_machine = rg_machine r, rg_inventory = v, rg_disk = rg_disk r\<rparr>, rg_disk r)"
    by (rule reopen_after_any_history [OF _ r]) (simp_all add: demo_env_def reg_reach_def)
  with r show ?thesis by blast
qed

text \<open>C2: A save that raises, at whatever system call, leaves the inventory in memory as it was
  and the file either unchanged or, only when the final directory sync is what failed, the
  complete new document; a save that returns leaves exactly the validated document in the
  file and in memory, the previous file as its backup and no temporary file.\<close>

theorem save_is_crash_safe:
  assumes "save env r = (res, r')"
  shows "case res of
      Inl e \<Rightarrow> rg_inventory r' = rg_inventory r \<and>
        (dk_file (rg_disk r') = dk_file (rg_disk r)
         \<or> fe_fault (re_fs env) Sync_dir = Some e \<and>
           (\<exists>v. validate_inventory (re_now env) (rg_inventory r) (rg_machine r) = Inr v
              \<and> dk_file (rg_disk r') = Some (re_dump env v)))
    | Inr _ \<Rightarrow>
        validate_inventory (re_now env) (rg_inventory r) (rg_machine r) = Inr (rg_inventory r')
        \<and> dk_file (rg_disk r') = Some (re_dump env (rg_inventory r'))
        \<and> dk_temp (rg_disk r') = None
        \<and> dk_backup (rg_disk r')
          = (if dk_file (rg_disk r) = None then dk_backup (rg_disk r) else dk_file (rg_disk r))"
proof (cases res)
  case (Inl e)
  with assms save_Inl [of env r e r'] show ?thesis by auto
next
  case (Inr u)
  with assms save_Inr [of env r u r'] save_backup [of env r u r'] show ?thesis by simp
qed

theorem save_is_crash_safe_witness:
  "dk_file (rg_disk (snd (save demo_env demo_registry))) = Some demo_inventory"
proof -
  have "save demo_env demo_registry = (Inr (), snd (save demo_env demo_registry))" by code_simp
  from save_is_crash_safe [OF this]
  have "dk_file (rg_disk (snd (save demo_env demo_registry)))
      = Some (rg_inventory (snd (save demo_env demo_registry)))" by (simp add: demo_env_def)
  also have "rg_inventory (snd (save demo_env demo_registry)) = demo_inventory" by code_simp
  finally show ?thesis .
qed

text \<open>C3: Every operation of the registry that changes the inventory and returns (enrol, replace,
  move, update, archive, purge, group and port changes) has left a valid inventory in memory
  and that same inventory in the file.\<close>

theorem successful_commands_are_saved:
  assumes "saving cmd" and "run_cmd env cmd r = (Inr u, r')"
  shows "valid_inventory (rg_machine r) (rg_inventory r')
    \<and> dk_file (rg_disk r') = Some (re_dump env (rg_inventory r')) \<and> dk_temp (rg_disk r') = None"
  using assms by (rule run_cmd_saved)

theorem successful_commands_are_saved_witness:
  "valid_inventory demo_machine (rg_inventory (snd (run_cmd demo_env (Forget ''cam'') demo_registry)))"
proof -
  have "run_cmd demo_env (Forget ''cam'') demo_registry
      = (Inr (), snd (run_cmd demo_env (Forget ''cam'') demo_registry))" by code_simp
  from successful_commands_are_saved [OF _ this] show ?thesis by (simp add: demo_registry_def)
qed



text \<open>C5: An inventory that \<open>validate_inventory\<close> accepts, migrated from whatever schema, has the
  shape the rest of the manager relies on (every section, sensor, known sensor, group and port
  mode well formed, hardware and addresses unique, every enrolled sensor known, every member of
  a group enrolled), and checking it again at any time gives it back unchanged.\<close>

theorem accepted_inventory_is_well_formed:
  assumes "validate_inventory now raw machine = Inr v"
  shows "valid_inventory machine v \<and> (\<forall>now'. validate_inventory now' v machine = Inr v)"
  using assms by (blast intro: validate_inventory_valid validate_inventory_idem)

theorem accepted_inventory_is_well_formed_witness:
  "valid_inventory demo_machine demo_inventory
    \<and> validate_inventory ''later'' demo_inventory demo_machine = Inr demo_inventory"
  using accepted_inventory_is_well_formed [OF demo_inventory_validated] by blast

end
