(* ===== verification/Allocation.thy ===== *)
theory Allocation
  imports Registry_Safety
begin

section \<open>Addresses and ports\<close>

text \<open>
  \<^verbatim>\<open>Registry.allocate\<close> on a validated machine: which address is given out, that one is
  given out whenever the port has capacity left, and what \<open>set_port_mode\<close> ensures.
\<close>

lemma network_entry:
  assumes "valid_networks nets" and "map_of nets nid = Some v"
  obtains w n where "v = PDict w" "view_network w = Some n" "sound_net n" "n \<in> set (network_views nets)"
proof -
  have m: "(nid, v) \<in> set nets" by (rule map_of_SomeD) (rule assms(2))
  with assms(1) have "is_dict v" "view_network (dict_of v) \<noteq> None"
    by (auto simp: valid_networks_def)
  moreover have "the (view_network (dict_of v)) \<in> set (network_views nets)"
    using m by (force simp: network_views_def)
  ultimately show thesis
    using assms(1) that by (auto simp: valid_networks_def is_dict_iff)
qed

text \<open>Every key the view reads is present.\<close>

lemma view_network_keys:
  assumes "view_network w = Some n"
  obtains cidr pool mx sm where
    "map_of w ''host_cidr'' = Some cidr" "parse_iface4 (py_str cidr) = Some (mn_host n)"
    "map_of w ''address_pool'' = Some pool"
    "pool_address pool ''start'' = Inr (IPv4 (mn_start n))" "pool_address pool ''end'' = Inr (IPv4 (mn_end n))"
    "map_of w ''max_devices'' = Some mx" "py_int mx = Inr (mn_max_devices n)"
    "map_of w ''switched_max_devices'' = Some sm" "py_int sm = Inr (mn_switched_max n)"
    "mn_approved n = truthy (dget w ''approved'' PNone)"
    "mn_mode n = py_str (dget w ''mode'' (PStr ''''))"
proof -
  have none: "parse_iface4 (py_str PNone) = None" by code_simp
  have empty: "pool_address (PDict []) k = Inl (KeyErr k)" for k by (simp add: pool_address_def)
  from assms obtain h st en mx sm where
    v: "parse_iface4 (py_str (dget w ''host_cidr'' PNone)) = Some h"
      "pool_address (dget w ''address_pool'' (PDict [])) ''start'' = Inr (IPv4 st)"
      "pool_address (dget w ''address_pool'' (PDict [])) ''end'' = Inr (IPv4 en)"
      "py_int (dget w ''max_devices'' PNone) = Inr mx" "py_int (dget w ''switched_max_devices'' PNone) = Inr sm"
    and n: "mn_host n = h" "mn_start n = st" "mn_end n = en" "mn_max_devices n = mx" "mn_switched_max n = sm"
      "mn_approved n = truthy (dget w ''approved'' PNone)" "mn_mode n = py_str (dget w ''mode'' (PStr ''''))"
    by (auto simp: view_network_def network_pool_def split: option.splits sum.splits ipaddr.splits)
  from v(1) none obtain cidr where c: "map_of w ''host_cidr'' = Some cidr"
    by (cases "map_of w ''host_cidr''") auto
  from v(2) empty obtain pool where p: "map_of w ''address_pool'' = Some pool"
    by (cases "map_of w ''address_pool''") auto
  from v(4) obtain mxv where m: "map_of w ''max_devices'' = Some mxv"
    by (cases "map_of w ''max_devices''") auto
  from v(5) obtain smv where s: "map_of w ''switched_max_devices'' = Some smv"
    by (cases "map_of w ''switched_max_devices''") auto
  from v n c p m s show thesis by (intro that [of cidr pool mxv smv]) simp_all
qed

lemma port_capacity_view:
  assumes "map_of (machine_networks machine) nid = Some (PDict w)" and "view_network w = Some n"
    and "port_mode machine ivt nid = Inr mode"
  shows "port_capacity machine ivt nid
    = Inr (if mode = ''direct'' then mn_max_devices n else mn_switched_max n)"
  using assms(2)
proof (rule view_network_keys)
qed (use assms in \<open>auto simp: port_capacity_def\<close>)


lemma choose_address_Inr:
  assumes "choose_address nid host start stop used requested = Inr c"
  obtains a where "c = IPv4 a" "start \<le> a" "a \<le> stop" "IPv4 a \<notin> set used"
    "requested = '''' \<Longrightarrow> (\<forall>b. start \<le> b \<longrightarrow> b < a \<longrightarrow> IPv4 b \<in> set used)"
    "requested \<noteq> '''' \<Longrightarrow> parse_ipv4 requested = Some a \<and> in_net a host"
proof (cases "requested = ''''")
  case True
  with assms obtain a where a: "first_free start stop used = Some a" "c = IPv4 a"
    by (auto simp: choose_address_def split: option.splits)
  from a(1) obtain i where i: "i < length [start..<stop + 1]" "[start..<stop + 1] ! i = a"
      "IPv4 a \<notin> set used" "\<forall>j<i. \<not> IPv4 ([start..<stop + 1] ! j) \<notin> set used"
    by (auto simp: first_free_def find_Some_iff)
  have "\<forall>b. start \<le> b \<longrightarrow> b < a \<longrightarrow> IPv4 b \<in> set used"
  proof (intro allI impI)
    fix b assume b: "start \<le> b" "b < a"
    with i(1,2) have "b - start < i" "[start..<stop + 1] ! (b - start) = b" by (auto simp del: upt_Suc)
    with i(4) show "IPv4 b \<in> set used" by force
  qed
  with a i True show thesis by (intro that [of a]) (auto simp del: upt_Suc)
next
  case False
  with assms obtain p where p: "ip_address requested = Inr p" "addr_in_net p host"
      "start \<le> ip_int p" "ip_int p \<le> stop" "p \<notin> set used" "c = p"
    by (auto simp: choose_address_def result_simps split: if_splits)
  from p(2) obtain a where "p = IPv4 a" by (cases p) auto
  with p False show thesis by (intro that [of a]) (auto simp: ip_address_IPv4)
qed

lemma in_net_between: "in_net a h \<Longrightarrow> in_net c h \<Longrightarrow> a \<le> b \<Longrightarrow> b \<le> c \<Longrightarrow> in_net b h"
  by (auto simp: in_net_iff)

lemma allocate_cases:
  assumes "valid_networks (machine_networks machine)" and "allocate machine ivt nid requested = Inr al"
  obtains w n mode used a where
    "map_of (machine_networks machine) nid = Some (PDict w)" "view_network w = Some n" "sound_net n"
    "n \<in> set (network_views (machine_networks machine))"
    "mn_approved n" "port_mode machine ivt nid = Inr mode" "used_addresses ivt nid = Inr used"
    "int (card (set used)) < (if mode = ''direct'' then mn_max_devices n else mn_switched_max n)"
    "choose_address nid (mn_host n) (mn_start n) (mn_end n) used requested = Inr (IPv4 a)"
    "mn_start n \<le> a" "a \<le> mn_end n" "in_net a (mn_host n)" "a \<noteq> if_ip (mn_host n)"
    "IPv4 a \<notin> set used"
    "al = \<lparr>al_network = nid, al_address = show_ipv4 a, al_mask = show_netmask (mn_host n),
           al_gateway = py_str (dget w ''gateway'' (PStr ''0.0.0.0''))\<rparr>"
proof -
  from assms(2) obtain v where v: "map_of (machine_networks machine) nid = Some v"
    by (auto simp: allocate_def managed_network_def result_simps)
  with assms(1) obtain w n where w: "v = PDict w" and n: "view_network w = Some n" "sound_net n"
      "n \<in> set (network_views (machine_networks machine))" by (rule network_entry)
  from n(1) obtain cidr pool mx sm where k: "map_of w ''host_cidr'' = Some cidr" "parse_iface4 (py_str cidr) = Some (mn_host n)"
    "map_of w ''address_pool'' = Some pool"
    "pool_address pool ''start'' = Inr (IPv4 (mn_start n))" "pool_address pool ''end'' = Inr (IPv4 (mn_end n))"
    "mn_approved n = truthy (dget w ''approved'' PNone)"
    by (rule view_network_keys)
  from k(2) have iface: "ip_interface (py_str cidr) = Inr (Some (mn_host n))" by (simp add: ip_interface_def)
  from assms(2) obtain appr used capacity c where
    a: "map_of w ''approved'' = Some appr" "truthy appr" "used_addresses ivt nid = Inr used"
      "port_capacity machine ivt nid = Inr capacity" "int (card (set used)) < capacity"
      "choose_address nid (mn_host n) (mn_start n) (mn_end n) used requested = Inr c"
      "al = \<lparr>al_network = nid, al_address = show_ip c, al_mask = show_netmask (mn_host n),
           al_gateway = py_str (dget w ''gateway'' (PStr ''0.0.0.0''))\<rparr>"
    by (auto simp: allocate_def managed_network_def v w k iface bindR_eq_Inr or_raise_eq_Inr split: if_splits)
  from a(4) obtain mode where mode: "port_mode machine ivt nid = Inr mode"
    by (auto simp: port_capacity_def bindR_eq_Inr)
  have cap: "capacity = (if mode = ''direct'' then mn_max_devices n else mn_switched_max n)"
    using port_capacity_view [OF _ n(1) mode] v w a(4) by simp
  from a(6) obtain x where x: "c = IPv4 x" "mn_start n \<le> x" "x \<le> mn_end n" "IPv4 x \<notin> set used"
    by (rule choose_address_Inr)
  have "in_net x (mn_host n)" "x \<noteq> if_ip (mn_host n)"
    using n(2) x(2,3) in_net_between unfolding sound_net_def by blast+
  with v w n k a mode cap x show thesis
    by (intro that [of w n mode used x]) auto
qed

text \<open>
  Addresses in their order (versions are compared first): the automatic choice is the lowest free
  address of the pool.
\<close>

instantiation ipaddr :: linorder
begin

fun less_eq_ipaddr :: "ipaddr \<Rightarrow> ipaddr \<Rightarrow> bool" where
  "less_eq_ipaddr (IPv4 a) (IPv4 b) \<longleftrightarrow> a \<le> b"
| "less_eq_ipaddr (IPv4 a) (IPv6 b) \<longleftrightarrow> True"
| "less_eq_ipaddr (IPv6 a) (IPv4 b) \<longleftrightarrow> False"
| "less_eq_ipaddr (IPv6 a) (IPv6 b) \<longleftrightarrow> a \<le> b"

definition less_ipaddr :: "ipaddr \<Rightarrow> ipaddr \<Rightarrow> bool" where
  "less_ipaddr a b \<longleftrightarrow> a \<le> b \<and> \<not> b \<le> a"

instance
proof
  fix a b c :: ipaddr
  show "a < b \<longleftrightarrow> a \<le> b \<and> \<not> b \<le> a" by (rule less_ipaddr_def)
  show "a \<le> a" by (cases a) simp_all
  show "a \<le> b \<Longrightarrow> b \<le> c \<Longrightarrow> a \<le> c" by (cases a; cases b; cases c) simp_all
  show "a \<le> b \<Longrightarrow> b \<le> a \<Longrightarrow> a = b" by (cases a; cases b) simp_all
  show "a \<le> b \<or> b \<le> a" by (cases a; cases b) auto
qed

end

lemma first_free_lowest:
  "map_option IPv4 (first_free start stop used) =
     (let free = IPv4 ` {start..stop} - set used in if free = {} then None else Some (Min free))"
proof (cases "first_free start stop used")
  case None
  then have "IPv4 ` {start..stop} - set used = {}" by (auto simp: first_free_def find_None_iff)
  with None show ?thesis by simp
next
  case (Some a)
  then obtain i where i: "i < length [start..<stop + 1]" "[start..<stop + 1] ! i = a"
      "IPv4 a \<notin> set used" "\<forall>j<i. \<not> IPv4 ([start..<stop + 1] ! j) \<notin> set used"
    by (auto simp: first_free_def find_Some_iff)
  have "IPv4 a \<le> x" if x: "x \<in> IPv4 ` {start..stop} - set used" for x
  proof (rule ccontr)
    assume "\<not> IPv4 a \<le> x"
    with x obtain b where b: "x = IPv4 b" "start \<le> b" "b < a" by auto
    with i(1,2) have "b - start < i" "[start..<stop + 1] ! (b - start) = b" by (auto simp del: upt_Suc)
    with i(4) x b(1) show False by force
  qed
  moreover have "IPv4 a \<in> IPv4 ` {start..stop} - set used" using i by (auto simp del: upt_Suc)
  ultimately have "Min (IPv4 ` {start..stop} - set used) = IPv4 a" by (intro Min_eqI) auto
  with Some \<open>IPv4 a \<in> _\<close> show ?thesis by (auto simp: Let_def)
qed

text \<open>Free capacity means a free address: the pool is at least as large as the capacity.\<close>

lemma first_free_exists:
  assumes "card (set used) < stop + 1 - start"
  shows "\<exists>a. first_free start stop used = Some a"
proof (rule ccontr)
  assume "\<nexists>a. first_free start stop used = Some a"
  then have "first_free start stop used = None" by simp
  then have "IPv4 ` {start..<stop + 1} \<subseteq> set used"
    by (auto simp: first_free_def find_None_iff)
  then have "card (IPv4 ` {start..<stop + 1}) \<le> card (set used)"
    by (intro card_mono) simp_all
  moreover have "card (IPv4 ` {start..<stop + 1}) = stop + 1 - start"
    by (subst card_image) (simp_all add: inj_on_def)
  ultimately show False using assms by simp
qed

lemma allocate_total:
  assumes "map_of (machine_networks machine) nid = Some (PDict w)" and "view_network w = Some n" and "sound_net n"
    and "mn_approved n" and "used_addresses ivt nid = Inr used"
    and "port_mode machine ivt nid = Inr mode"
    and "int (card (set used)) < (if mode = ''direct'' then mn_max_devices n else mn_switched_max n)"
  shows "\<exists>al. allocate machine ivt nid '''' = Inr al"
proof -
  from assms(2) obtain cidr pool where k: "map_of w ''host_cidr'' = Some cidr" "parse_iface4 (py_str cidr) = Some (mn_host n)"
    "map_of w ''address_pool'' = Some pool"
    "pool_address pool ''start'' = Inr (IPv4 (mn_start n))" "pool_address pool ''end'' = Inr (IPv4 (mn_end n))"
    "mn_approved n = truthy (dget w ''approved'' PNone)"
    by (rule view_network_keys)
  from k(2) have iface: "ip_interface (py_str cidr) = Inr (Some (mn_host n))" by (simp add: ip_interface_def)
  from k(6) assms(4) obtain appr where appr: "map_of w ''approved'' = Some appr" "truthy appr"
    by (cases "map_of w ''approved''") auto
  have "card (set used) < mn_end n + 1 - mn_start n"
    using assms(3,7) by (auto simp: sound_net_def pool_count_def split: if_splits)
  then obtain a where "first_free (mn_start n) (mn_end n) used = Some a"
    using first_free_exists by blast
  then show ?thesis
    using port_capacity_view [OF assms(1,2,6)] assms(1,5,7) k iface appr
    by (auto simp: allocate_def managed_network_def choose_address_def)
qed

subsection \<open>A machine with one port\<close>

text \<open>
  One approved port with a pool of three addresses, configured as switched and set to direct
  at runtime, with one camera assigned.
\<close>

definition port_network :: pydict where
  "port_network =
     [(''interface'', PStr ''eth0''), (''mode'', PStr ''switched''), (''approved'', PBool True),
      (''host_cidr'', PStr ''0.0.0.1/24''),
      (''address_pool'', PDict [(''start'', PStr ''0.0.0.10''), (''end'', PStr ''0.0.0.12'')])]"

definition port_doc :: pydict where
  "port_doc = [(''managed_networks'', PDict [(''net0'', PDict port_network)])]"

definition port_machine :: pydict where
  "port_machine = [(''managed_networks'', PDict [(''net0'', PDict
     (port_network @ [(''interface_mac'', PStr ''''), (''auto_enroll'', PBool False), (''mtu'', PInt 9000),
        (''rp_filter'', PInt 0), (''max_devices'', PInt 3), (''switched_max_devices'', PInt 3),
        (''gateway'', PStr ''0.0.0.0''), (''packet_size'', PInt 9000), (''packet_delay'', PInt 50000),
        (''transfer_slot_ms'', PInt 30)]))]),
     (''defaults'', PDict [(''preview_rate_hz'', PFloat (Dec 2 0))])]"

lemma port_networks_validated:
  "validate_networks [(''net0'', PDict port_network)] = Inr (machine_networks port_machine)"
  by code_simp

lemma port_networks_valid: "valid_networks (machine_networks port_machine)"
  by (rule validate_networks_valid [OF port_networks_validated])

definition port_inventory :: "string \<Rightarrow> pydict" where
  "port_inventory mode = [(''schema_version'', PInt 3),
     (''sensors'', PDict [(''cam'', PDict [(''provider'', PStr ''genicam''), (''serial'', PStr ''A1''),
        (''network_id'', PStr ''net0''), (''assigned_address'', PStr ''0.0.0.10'')])]),
     (''known_sensors'', PDict []), (''sync_groups'', PDict []),
     (''port_modes'', PDict [(''net0'', PStr mode)]), (''history'', PList [])]"

definition port_view :: managed_net where
  "port_view = \<lparr>mn_interface = ''eth0'', mn_mode = ''switched'', mn_approved = True,
     mn_auto_enroll = False, mn_host = \<lparr>if_ip = 1, if_plen = 24\<rparr>, mn_start = 10, mn_end = 12,
     mn_max_devices = 3, mn_switched_max = 3\<rparr>"

definition port_entry :: pydict where
  "port_entry = dict_of (dget (machine_networks port_machine) ''net0'' PNone)"

lemma port_facts:
  "map_of (machine_networks port_machine) ''net0'' = Some (PDict port_entry)"
  "view_network port_entry = Some port_view"
  "sound_net port_view"
  "used_addresses (port_inventory mode) ''net0'' = Inr [IPv4 10]"
  "port_mode port_machine (port_inventory mode) ''net0'' = Inr mode"
  by (code_simp, code_simp, code_simp, code_simp)
     (simp add: port_mode_def managed_network_def port_machine_def machine_networks_def port_inventory_def
       port_network_def inv_section_def)

lemma port_allocates: "\<exists>al. allocate port_machine (port_inventory mode) ''net0'' '''' = Inr al"
  by (rule allocate_total [OF port_facts(1-3) _ port_facts(4,5)]) (simp_all add: port_view_def)

subsection \<open>Properties\<close>



text \<open>C7: \<open>allocate\<close> never fails for want of an address: on an approved port with capacity left it
  returns one (the pool is at least as large as the capacity).\<close>

theorem allocate_succeeds:
  assumes "valid_networks (machine_networks machine)"
    and "map_of (machine_networks machine) nid = Some v" and "view_network (dict_of v) = Some n"
    and "mn_approved n" and "used_addresses ivt nid = Inr used" and "port_mode machine ivt nid = Inr mode"
    and "int (card (set used)) < (if mode = ''direct'' then mn_max_devices n else mn_switched_max n)"
  shows "\<exists>al. allocate machine ivt nid '''' = Inr al"
  using assms(1,2)
proof (rule network_entry)
  fix w n' assume "v = PDict w" "view_network w = Some n'" "sound_net n'"
  with assms show ?thesis by (auto intro: allocate_total)
qed


theorem allocate_succeeds_witness:
  "\<exists>al. allocate port_machine (port_inventory ''switched'') ''net0'' '''' = Inr al"
  by (rule allocate_succeeds [OF port_networks_valid port_facts(1) _ _ port_facts(4,5), of port_view])
     (simp_all add: port_facts(2), simp_all add: port_view_def)

text \<open>A port that the machine configures as switched and that is set to direct at runtime keeps
  the capacity of its whole pool (\<^verbatim>\<open>max_devices\<close> defaults to the pool size), so a second
  camera still gets an address on it.
\<close>

theorem direct_port_admits_second_camera:
  "port_mode port_machine (port_inventory ''direct'') ''net0'' = Inr ''direct''
   \<and> length (assigned_to ''net0'' (port_inventory ''direct'')) = 1
   \<and> (\<exists>al. allocate port_machine (port_inventory ''direct'') ''net0'' '''' = Inr al)"
proof (intro conjI)
  show "length (assigned_to ''net0'' (port_inventory ''direct'')) = 1" by code_simp
qed (rule port_facts(5), rule port_allocates)

end
