(* ===== verification/Registry_Ops.thy ===== *)
theory Registry_Ops
  imports Allocation
begin

section \<open>What the operations do\<close>

text \<open>
  The effect of the registry's operations as a client sees it after the save: which sensors
  are enrolled, what the catalogue and the groups say, and that a device keeps its
  identifier. The first part is the frame of the validation: what of a document it keeps.
\<close>

subsection \<open>What validation keeps\<close>

lemma map_items_lookup:
  assumes "map_items f s d = Inr d'" and "map_of d k = Some v"
  obtains s1 w s2 where "f s1 k v = Inr (w, s2)" "map_of d' k = Some w"
  using assms
proof (induction d arbitrary: s d' thesis)
  case (Cons p d)
  obtain k0 v0 where p: "p = (k0, v0)" by (cases p)
  from Cons.prems(2) p obtain w s' d'' where *: "f s k0 v0 = Inr (w, s')" "map_items f s' d = Inr d''"
      "d' = (k0, w) # d''" by (auto simp: bindR_eq_Inr)
  show ?case
  proof (cases "k0 = k")
    case True
    with * p Cons.prems show ?thesis by (intro Cons.prems(1) [of s w s']) auto
  next
    case False
    with p Cons.prems(3) have "map_of d k = Some v" by simp
    from Cons.IH [OF _ *(2) this] obtain s1 w1 s2 where "f s1 k v = Inr (w1, s2)" "map_of d'' k = Some w1"
      by blast
    with False * show ?thesis by (intro Cons.prems(1)) auto
  qed
qed simp

lemma map_items_lookup_back:
  assumes "map_items f s d = Inr d'" and "map_of d' k = Some w"
  obtains v s1 s2 where "map_of d k = Some v" "f s1 k v = Inr (w, s2)"
proof -
  have "k \<in> set (dkeys d)"
    using map_items_keys [OF assms(1)] map_of_SomeD [OF assms(2)] by (metis imageI fst_conv list.set_map)
  then obtain v where v: "map_of d k = Some v"
    by (metis map_of_eq_None_iff not_None_eq list.set_map)
  from assms(1) v obtain s1 w' s2 where "f s1 k v = Inr (w', s2)" "map_of d' k = Some w'"
    by (rule map_items_lookup)
  with assms(2) v that show thesis by auto
qed

text \<open>A loop whose body returns each value as it is returns the dictionary as it is.\<close>

lemma map_items_fixed:
  assumes "map_items f s d = Inr d'"
    and "\<And>s k v w s'. (k, v) \<in> set d \<Longrightarrow> f s k v = Inr (w, s') \<Longrightarrow> w = v"
  shows "d' = d"
  using assms
proof (induction d arbitrary: s d')
  case (Cons p d)
  obtain k v where p: "p = (k, v)" by (cases p)
  from Cons.prems(1) p obtain w s' d'' where *: "f s k v = Inr (w, s')" "map_items f s' d = Inr d''"
      "d' = (k, w) # d''" by (auto simp: bindR_eq_Inr)
  have "d'' = d"
    by (rule Cons.IH [OF *(2)]) (rule Cons.prems(2), simp_all)
  moreover have "w = v" by (rule Cons.prems(2) [OF _ *(1)]) (simp add: p)
  ultimately show ?case using * p by simp
qed simp

lemma sort_Nil_iff: "sort xs = [] \<longleftrightarrow> xs = []"
  by (metis length_0_conv length_sort)

lemma list_all2_in: "list_all2 P xs ys \<Longrightarrow> x \<in> set xs \<Longrightarrow> \<exists>y \<in> set ys. P x y"
  by (induction rule: list_all2_induct) auto

text \<open>
  A document of the current schema whose sections are mappings: the state in which every
  operation hands the inventory to the save.
\<close>

lemma validate_sections:
  assumes "validate_inventory now d machine = Inr r" and "map_of d ''schema_version'' = Some (PInt 3)"
  shows "key \<notin> {''sensors'', ''known_sensors'', ''sync_groups''} \<Longrightarrow> map_of d key \<noteq> None \<Longrightarrow> map_of r key = map_of d key"
    and "map_items (validate_sensor (machine_networks machine)) ([], []) (inv_sensors d) = Inr (inv_sensors r)"
    and "map_items (validate_known (dkeys (inv_sensors d))) [] (inv_known d) = Inr (inv_known r)"
    and "map_items (group_loop machine (dkeys (inv_sensors d))) () (inv_groups d) = Inr (inv_groups r)"
proof -
  from assms(2) have mig: "migrate_inventory now d = Inr d" by (rule migrate_current)
  with assms(1) obtain sensors known groups where acc: "accepts machine (inventory_sections d) sensors known groups"
    and r: "r = with_sections sensors known groups (inventory_sections d)"
    unfolding validate_inventory_Inr by auto
  have look: "dget (inventory_sections d) k PNone = PDict (inv_section d k)"
    if "k \<in> {''sensors'', ''known_sensors'', ''sync_groups''}" "is_dict (dget (inventory_sections d) k PNone)" for k
    using that by (cases "map_of d k")
      (auto simp: inventory_sections_def inv_section_def dget_def map_of_setdefaults map_of_dset is_dict_iff split: option.splits)
  have dicts: "is_dict (dget (inventory_sections d) k PNone)" if "k \<in> {''sensors'', ''known_sensors'', ''sync_groups''}" for k
    using acc that by (auto simp: accepts_def)
  have sec: "inv_sensors r = sensors" "inv_known r = known" "inv_groups r = groups"
    by (simp_all add: r inv_section_def)
  have S: "map_items (validate_sensor (machine_networks machine)) ([], []) (inv_sensors d) = Inr sensors"
    using acc look [OF _ dicts, of "''sensors''"] by (simp add: accepts_def)
  show "map_items (validate_sensor (machine_networks machine)) ([], []) (inv_sensors d) = Inr (inv_sensors r)"
    using S sec by simp
  have keys: "dkeys sensors = dkeys (inv_sensors d)" by (rule map_items_keys [OF S])
  show "map_items (validate_known (dkeys (inv_sensors d))) [] (inv_known d) = Inr (inv_known r)"
    using acc look [OF _ dicts, of "''known_sensors''"] sec keys by (simp add: accepts_def)
  show "map_items (group_loop machine (dkeys (inv_sensors d))) () (inv_groups d) = Inr (inv_groups r)"
    using acc look [OF _ dicts, of "''sync_groups''"] sec keys by (simp add: accepts_def)
  show "map_of r key = map_of d key"
    if "key \<notin> {''sensors'', ''known_sensors'', ''sync_groups''}" "map_of d key \<noteq> None"
  proof -
    have "map_of r key = map_of (inventory_sections d) key"
      unfolding r by (rule with_sections_lookup) (use that in auto)
    also have "\<dots> = map_of d key"
    proof -
      from that(2) obtain v where v: "map_of d key = Some v" by blast
      have "dset ''schema_version'' (PInt 3) d = d" by (rule dset_triv [OF assms(2)])
      with v show ?thesis by (simp add: inventory_sections_def)
    qed
    finally show ?thesis .
  qed
qed

text \<open>A record that is already validated stays as it is.\<close>

lemma validate_sensor_output:
  "validate_sensor networks seen sid v = Inr (w, seen') \<Longrightarrow> valid_sensor networks' sid (dict_of v) \<Longrightarrow> w = v"
proof -
  assume step: "validate_sensor networks seen sid v = Inr (w, seen')"
    and valid: "valid_sensor networks' sid (dict_of v)"
  from step obtain s where v: "v = PDict s"
    and w: "w = PDict (dset ''hardware_key'' (PStr (hardware_key s)) (filled_sensor sid s))"
    unfolding validate_sensor_Inr by blast
  have "filled_sensor sid s = s"
  proof (rule setdefaults_triv)
    fix k assume "k \<in> set (dkeys (sensor_defaults sid (field s ''provider'')))"
    then have "k \<in> set (dkeys (sensor_defaults '''' ''''))" by (metis dkeys_sensor_defaults)
    then have "dhas s k"
      using valid unfolding valid_sensor_def v dict_of.simps list_all_iff by blast
    then show "map_of s k \<noteq> None" by (simp add: dhas_def)
  qed
  moreover have "dset ''hardware_key'' (PStr (hardware_key s)) s = s"
    using valid by (intro dset_triv) (simp add: valid_sensor_def v)
  ultimately show "w = v" by (simp add: v w)
qed

lemma validate_sensor_keeps:
  assumes "validate_sensor networks seen sid (PDict s) = Inr (w, seen')"
    and "map_of s k = Some x" and "k \<noteq> ''hardware_key''"
  shows "map_of (dict_of w) k = Some x"
  using assms by (auto simp: validate_sensor_Inr)

lemma transact_Inr:
  assumes "transact env body r = (Inr x, r')"
  obtains ivt where "body (rg_inventory r) = (Inr x, ivt)"
    "validate_inventory (re_now env) ivt (rg_machine r) = Inr (rg_inventory r')"
  using assms
proof (cases rule: transact_cases)
  case saved
  from save_Inr(1) [OF saved(3)] saved that show thesis by simp
qed simp_all

lemma sensor_unchanged:
  assumes "validate_inventory now d machine = Inr r" and "map_of d ''schema_version'' = Some (PInt 3)"
    and "map_of (inv_sensors d) sid = Some v" and "valid_sensor networks sid (dict_of v)"
  shows "map_of (inv_sensors r) sid = Some v"
proof -
  from validate_sections(2) [OF assms(1,2)] assms(3)
  obtain s1 w s2 where "validate_sensor (machine_networks machine) s1 sid v = Inr (w, s2)"
      "map_of (inv_sensors r) sid = Some w" by (rule map_items_lookup)
  with validate_sensor_output [OF _ assms(4)] show ?thesis by blast
qed

lemma sensors_keys:
  assumes "validate_inventory now d machine = Inr r" and "map_of d ''schema_version'' = Some (PInt 3)"
  shows "dhas (inv_sensors r) sid \<longleftrightarrow> dhas (inv_sensors d) sid"
  using map_items_keys [OF validate_sections(2) [OF assms]] by (metis dhas_iff)

lemma known_keys:
  assumes "validate_inventory now d machine = Inr r" and "map_of d ''schema_version'' = Some (PInt 3)"
  shows "dhas (inv_known r) sid \<longleftrightarrow> dhas (inv_known d) sid"
  using map_items_keys [OF validate_sections(3) [OF assms]] by (metis dhas_iff)

lemma sensor_kept:
  assumes "validate_inventory now d machine = Inr r" and "map_of d ''schema_version'' = Some (PInt 3)"
    and "map_of (inv_sensors d) sid = Some (PDict s)" and "map_of s k = Some x" and "k \<noteq> ''hardware_key''"
  shows "map_of (sensor_record r sid) k = Some x"
proof -
  from validate_sections(2) [OF assms(1,2)] assms(3)
  obtain s1 w s2 where "validate_sensor (machine_networks machine) s1 sid (PDict s) = Inr (w, s2)"
      "map_of (inv_sensors r) sid = Some w" by (rule map_items_lookup)
  with validate_sensor_keeps [OF _ assms(4,5)] show ?thesis by (simp add: sensor_record_def)
qed

lemma validate_known_state:
  assumes "validate_known enrolled seen sid (PDict s) = Inr (PDict t, seen')"
    and "sid \<notin> set enrolled" and "map_of s ''catalog_state'' = Some x"
  shows "map_of t ''catalog_state'' = Some x"
proof -
  from assms(1) have "finish_known sid (complete_known enrolled sid (field s ''provider'')
      (setdefaults (known_defaults_head (field s ''provider'')) s)) = Inr t"
    unfolding validate_known_Inr by (elim exE conjE) simp
  from finish_known_frame [OF this, of "''catalog_state''"] assms(2,3) show ?thesis
    by (simp add: complete_known_computed)
qed

lemma known_kept:
  assumes "validate_inventory now d machine = Inr r" and "map_of d ''schema_version'' = Some (PInt 3)"
    and "map_of (inv_known d) sid = Some (PDict s)" and "map_of s k = Some x"
    and "k \<notin> {''hardware_key'', ''changes'', ''sighting_count''}"
    and "k = ''catalog_state'' \<Longrightarrow> \<not> dhas (inv_sensors d) sid"
  shows "map_of (known_record r sid) k = Some x"
proof -
  from validate_sections(3) [OF assms(1,2)] assms(3)
  obtain s1 w s2 where w: "validate_known (dkeys (inv_sensors d)) s1 sid (PDict s) = Inr (w, s2)"
      "map_of (inv_known r) sid = Some w" by (rule map_items_lookup)
  from w(1) obtain t where t: "w = PDict t" unfolding validate_known_Inr by blast
  have "map_of t k = Some x"
  proof (cases "k = ''catalog_state''")
    case True
    have out: "sid \<notin> set (dkeys (inv_sensors d))"
      using assms(6) [OF True] by (simp only: dhas_iff not_False_eq_True)
    show ?thesis
      unfolding True
      by (rule validate_known_state [OF w(1) [unfolded t] out]) (use assms(4) True in simp)
  next
    case False
    show ?thesis
      by (rule validate_known_frame [OF w(1) [unfolded t] assms(4)]) (use assms(5) False in simp)
  qed
  with w(2) t show ?thesis by (simp add: known_record_def)
qed

lemma valid_sensor_entry:
  assumes "valid_inventory machine ivt" and "map_of (inv_sensors ivt) sid = Some v"
  shows "v = PDict (sensor_record ivt sid)" and "valid_sensor (machine_networks machine) sid (dict_of v)"
proof -
  from map_of_SomeD [OF assms(2)] assms(1)
  have "is_dict v \<and> valid_sensor (machine_networks machine) sid (dict_of v)"
    unfolding valid_inventory_def by (elim conjE) (drule (1) bspec, simp)
  with assms(2) show "v = PDict (sensor_record ivt sid)" "valid_sensor (machine_networks machine) sid (dict_of v)"
    by (auto simp: sensor_record_def is_dict_iff)
qed

lemma sensors_fixed:
  assumes "validate_inventory now d machine = Inr r" and "map_of d ''schema_version'' = Some (PInt 3)"
    and "valid_inventory machine' ivt" and "set (inv_sensors d) \<subseteq> set (inv_sensors ivt)"
  shows "inv_sensors r = inv_sensors d"
proof -
  have "w = v" if "(k, v) \<in> set (inv_sensors d)"
      "validate_sensor (machine_networks machine) s k v = Inr (w, s')" for k v s w s'
  proof -
    from that(1) assms(4) have "(k, v) \<in> set (inv_sensors ivt)" by blast
    with assms(3) have "valid_sensor (machine_networks machine') k (dict_of v)"
      unfolding valid_inventory_def by (elim conjE) (drule (1) bspec, simp)
    with that(2) show ?thesis by (rule validate_sensor_output)
  qed
  then show ?thesis by (rule map_items_fixed [OF validate_sections(2) [OF assms(1,2)]])
qed

lemma append_history_version [simp]:
  "map_of (append_history now op sid details ivt) ''schema_version'' = map_of ivt ''schema_version''"
  "map_of (put_known sid k ivt) ''schema_version'' = map_of ivt ''schema_version''"
  "map_of (put_sensor sid s ivt) ''schema_version'' = map_of ivt ''schema_version''"
  "map_of (drop_sensor sid ivt) ''schema_version'' = map_of ivt ''schema_version''"
  "map_of (put_section ''sync_groups'' g ivt) ''schema_version'' = map_of ivt ''schema_version''"
  by (simp_all add: put_known_def put_sensor_def drop_sensor_def)

lemma inv_append_history [simp]:
  "known_record (append_history now op sid' details ivt) sid = known_record ivt sid"
  "sensor_record (append_history now op sid' details ivt) sid = sensor_record ivt sid"
  by (simp_all add: known_record_def sensor_record_def)

subsection \<open>Archiving\<close>

lemma forget_body_Inr:
  assumes "forget_body now sid ivt = (Inr u, ivt')"
  obtains ivt2 where "dhas (inv_sensors ivt) sid" "memberships sid (inv_groups ivt) = Inr []"
    "ensure_known now sid (sensor_record ivt sid) (drop_sensor sid ivt) = Inr ivt2"
    "ivt' = append_history now ''archive'' sid
       [(''network_id'', dget (sensor_record ivt sid) ''network_id'' (PStr '''')),
        (''assigned_address'', dget (sensor_record ivt sid) ''assigned_address'' (PStr ''''))]
       (put_known sid (archived_known now (sensor_record ivt sid) (known_record ivt2 sid)) ivt2)"
  using assms by (auto simp: forget_body_def Let_def split: if_splits sum.splits intro: that)

lemma forget_effect:
  assumes "valid_inventory (rg_machine r) (rg_inventory r)" and "forget env sid r = (Inr u, r')"
  shows "dhas (inv_sensors (rg_inventory r)) sid"
    and "memberships sid (inv_groups (rg_inventory r)) = Inr []"
    and "inv_sensors (rg_inventory r') = dpop sid (inv_sensors (rg_inventory r))"
    and "map_of (known_record (rg_inventory r') sid) ''catalog_state'' = Some (PStr ''archived'')"
    and "map_of (known_record (rg_inventory r') sid) ''last_configuration''
      = Some (PDict (sensor_record (rg_inventory r) sid))"
proof -
  let ?ivt = "rg_inventory r"
  from assms(2) obtain d where body: "forget_body (re_now env) sid ?ivt = (Inr u, d)"
    and val: "validate_inventory (re_now env) d (rg_machine r) = Inr (rg_inventory r')"
    unfolding forget_def by (rule transact_Inr)
  from body obtain ivt2 where b: "dhas (inv_sensors ?ivt) sid" "memberships sid (inv_groups ?ivt) = Inr []"
    "ensure_known (re_now env) sid (sensor_record ?ivt sid) (drop_sensor sid ?ivt) = Inr ivt2"
    "d = append_history (re_now env) ''archive'' sid
       [(''network_id'', dget (sensor_record ?ivt sid) ''network_id'' (PStr '''')),
        (''assigned_address'', dget (sensor_record ?ivt sid) ''assigned_address'' (PStr ''''))]
       (put_known sid (archived_known (re_now env) (sensor_record ?ivt sid) (known_record ivt2 sid)) ivt2)"
    by (rule forget_body_Inr)
  note sec = ensure_known_sections [OF b(3)]
  have version: "map_of d ''schema_version'' = Some (PInt 3)"
    using valid_inventory_version [OF assms(1)] sec(2) [of "''schema_version''"] by (simp add: b(4))
  have sens: "inv_sensors d = dpop sid (inv_sensors ?ivt)"
    using sec(1) [of "''sensors''"] by (simp add: b(4))
  show "dhas (inv_sensors ?ivt) sid" "memberships sid (inv_groups ?ivt) = Inr []" by (rule b)+
  have gone: "\<not> dhas (inv_sensors d) sid" by (simp add: sens dhas_def map_of_dpop)
  have kn: "map_of (inv_known d) sid
      = Some (PDict (archived_known (re_now env) (sensor_record ?ivt sid) (known_record ivt2 sid)))"
    by (simp add: b(4))
  show "map_of (known_record (rg_inventory r') sid) ''catalog_state'' = Some (PStr ''archived'')"
    by (rule known_kept [OF val version kn]) (simp_all add: archived_known_def gone)
  show "map_of (known_record (rg_inventory r') sid) ''last_configuration'' = Some (PDict (sensor_record ?ivt sid))"
    by (rule known_kept [OF val version kn]) (simp_all add: archived_known_def)
  have "inv_sensors (rg_inventory r') = inv_sensors d"
    by (rule sensors_fixed [OF val version assms(1)]) (auto simp: sens set_dpop)
  with sens show "inv_sensors (rg_inventory r') = dpop sid (inv_sensors ?ivt)" by simp
qed

lemma memberships_none:
  assumes "memberships sid groups = Inr []" and "(gid, PDict g) \<in> set groups"
    and "map_of g ''members'' = Some (PList ms)"
  shows "PStr sid \<notin> set ms"
proof -
  from assms(1) obtain flags where f: "mapR (\<lambda>(gid, g). bindR (py_index g ''members'') (\<lambda>ms.
        bindR (py_in sid ms) (\<lambda>b. Inr (gid, b)))) groups = Inr flags" "filter snd flags = []"
    by (auto simp: memberships_def bindR_eq_Inr sort_Nil_iff)
  then have "list_all2 (\<lambda>(gid, g) y. bindR (py_index g ''members'') (\<lambda>ms.
        bindR (py_in sid ms) (\<lambda>b. Inr (gid, b))) = Inr y) groups flags"
    by (simp add: mapR_Inr_iff case_prod_unfold)
  from list_all2_in [OF this assms(2)] obtain y where "y \<in> set flags"
    "bindR (py_in sid (PList ms)) (\<lambda>b. Inr (gid, b)) = Inr y" using assms(3) by auto
  with f(2) show ?thesis by (auto simp: filter_empty_conv)
qed

subsection \<open>Port modes\<close>

lemma put_section_version [simp]:
  "key \<noteq> ''schema_version'' \<Longrightarrow> map_of (put_section key d ivt) ''schema_version'' = map_of ivt ''schema_version''"
  by simp

lemma set_port_mode_effect:
  assumes "valid_inventory (rg_machine r) (rg_inventory r)" and "set_port_mode env nid mode r = (Inr u, r')"
  shows "port_mode (rg_machine r) (rg_inventory r') nid = Inr mode \<or>
      (\<exists>e. port_mode (rg_machine r) (rg_inventory r') nid = Inl e)"
    and "mode = ''direct'' \<Longrightarrow> length (assigned_to nid (rg_inventory r')) \<le> 1"
    and "inv_sensors (rg_inventory r') = inv_sensors (rg_inventory r)"
proof -
  let ?ivt = "rg_inventory r"
  from assms(2) obtain d where body: "set_port_mode_body (re_now env) (rg_machine r) nid mode ?ivt = (Inr u, d)"
    and val: "validate_inventory (re_now env) d (rg_machine r) = Inr (rg_inventory r')"
    unfolding set_port_mode_def by (rule transact_Inr)
  from body have d: "d = append_history (re_now env) ''port_mode'' nid [(''mode'', PStr mode)]
        (put_section ''port_modes'' (dset nid (PStr mode) (inv_port_modes ?ivt)) ?ivt)"
    and one: "mode = ''direct'' \<Longrightarrow> length (assigned_to nid ?ivt) \<le> 1"
    by (auto simp: set_port_mode_body_def split: if_splits)
  have version: "map_of d ''schema_version'' = Some (PInt 3)"
    using valid_inventory_version [OF assms(1)] by (simp add: d)
  have ds: "inv_sensors d = inv_sensors ?ivt" by (simp add: d)
  have same: "inv_sensors (rg_inventory r') = inv_sensors d"
    by (rule sensors_fixed [OF val version assms(1)]) (simp add: ds)
  with ds show eq: "inv_sensors (rg_inventory r') = inv_sensors ?ivt" by simp
  show "mode = ''direct'' \<Longrightarrow> length (assigned_to nid (rg_inventory r')) \<le> 1"
    using one by (simp add: assigned_to_def eq)
  have "map_of (rg_inventory r') ''port_modes'' = map_of d ''port_modes''"
    by (rule validate_sections(1) [OF val version]) (simp_all add: d)
  then have "inv_port_modes (rg_inventory r') = dset nid (PStr mode) (inv_port_modes ?ivt)"
    by (simp add: inv_section_def d)
  then show "port_mode (rg_machine r) (rg_inventory r') nid = Inr mode \<or>
      (\<exists>e. port_mode (rg_machine r) (rg_inventory r') nid = Inl e)"
    by (auto simp: port_mode_def managed_network_def dget_dset bindR_def split: sum.splits)
qed

lemma port_mode_total:
  assumes "valid_networks (machine_networks machine)" and "dhas (machine_networks machine) nid"
  shows "\<exists>mode. port_mode machine ivt nid = Inr mode"
proof -
  from assms(2) obtain v where v: "map_of (machine_networks machine) nid = Some v" by (auto simp: dhas_def)
  with assms(1) obtain w n where w: "v = PDict w" "view_network w = Some n" "sound_net n" by (rule network_entry)
  from w(2) have "mn_mode n = py_str (dget w ''mode'' (PStr ''''))" by (rule view_network_keys)
  with w(3) have "map_of w ''mode'' \<noteq> None"
    by (cases "map_of w ''mode''") (simp_all add: sound_net_def valid_network_modes_def)
  then show ?thesis by (auto simp: port_mode_def managed_network_def v w)
qed

lemma set_port_mode_known: "set_port_mode env nid mode r = (Inr u, r') \<Longrightarrow> dhas (machine_networks (rg_machine r)) nid"
  by (auto simp: set_port_mode_def set_port_mode_body_def elim!: transact_Inr split: if_splits)

subsection \<open>Replacement\<close>

lemma replace_body_Inr:
  assumes "replace_body now sid obs ivt = (Inr rid, d)"
  obtains identity ivt2 groups ivt5 nid where
    "dhas (inv_sensors ivt) sid" "new_sensor_id obs = Inr rid" "\<not> dhas (inv_sensors ivt) rid"
    "sensor_from_observation obs (sensor_record ivt sid) = Inr identity"
    "ensure_known now rid obs (drop_sensor sid ivt) = Inr ivt2"
    "replace_in_groups sid rid (inv_groups ivt2) = Inr groups"
    "ensure_known now sid (sensor_record ivt sid) (put_section ''sync_groups'' groups
       (put_sensor rid (dupdate identity (sensor_record ivt sid))
         (put_known rid (enrolled_known (known_record ivt2 rid)) ivt2))) = Inr ivt5"
    "d = append_history now ''replace'' rid [(''source_sensor_id'', PStr sid), (''network_id'', nid)]
       (put_known sid (retired_known now rid (sensor_record ivt sid) (known_record ivt5 sid)) ivt5)"
proof -
  from assms obtain identity ivt2 groups ivt5 nid where *: "dhas (inv_sensors ivt) sid" "new_sensor_id obs = Inr rid" "\<not> dhas (inv_sensors ivt) rid"
    "sensor_from_observation obs (sensor_record ivt sid) = Inr identity"
    "ensure_known now rid obs (drop_sensor sid ivt) = Inr ivt2"
    "replace_in_groups sid rid (inv_groups (put_sensor rid (dupdate identity (sensor_record ivt sid))
         (put_known rid (enrolled_known (known_record ivt2 rid)) ivt2))) = Inr groups"
    "ensure_known now sid (sensor_record ivt sid) (put_section ''sync_groups'' groups
       (put_sensor rid (dupdate identity (sensor_record ivt sid))
         (put_known rid (enrolled_known (known_record ivt2 rid)) ivt2))) = Inr ivt5"
    "d = append_history now ''replace'' rid [(''source_sensor_id'', PStr sid), (''network_id'', nid)]
       (put_known sid (retired_known now rid (sensor_record ivt sid) (known_record ivt5 sid)) ivt5)"
    by (auto simp: replace_body_def Let_def split: if_splits sum.splits)
  then show thesis by (intro that) simp_all
qed

lemma sensor_from_observation_keys:
  "sensor_from_observation obs source = Inr identity \<Longrightarrow>
   dkeys identity = [''provider'', ''kind'', ''vendor'', ''model'', ''serial'', ''mac_address'',
     ''capabilities'', ''hardware_key'']"
  by (auto simp: sensor_from_observation_def bindR_eq_Inr)

lemma dupdate_other:
  assumes "distinct (dkeys kvs)" and "k \<notin> set (dkeys kvs)"
  shows "map_of (dupdate kvs d) k = map_of d k"
proof -
  from assms(2) have "map_of kvs k = None" by (simp add: map_of_eq_None_iff)
  then show ?thesis by (simp add: map_of_dupdate [OF assms(1)])
qed

definition swapped_group :: "string \<Rightarrow> string \<Rightarrow> pydict \<Rightarrow> pydict \<Rightarrow> bool" where
  "swapped_group old new g g' \<longleftrightarrow>
     (\<exists>v ms. map_of g ''members'' = Some v \<and> py_list v = Inr ms
        \<and> map_of g' ''members'' = Some (PList (map (swap_member old new) ms)))"

lemma replace_in_group_swapped: "replace_in_group old new g = Inr g' \<Longrightarrow> swapped_group old new g g'"
  by (auto simp: replace_in_group_def swapped_group_def Let_def bindR_eq_Inr or_raise_eq_Inr)

lemma replace_effect:
  assumes "valid_inventory (rg_machine r) (rg_inventory r)" and "replace_sensor env sid obs r = (Inr rid, r')"
  shows "new_sensor_id obs = Inr rid \<and> dhas (inv_sensors (rg_inventory r)) sid \<and> \<not> dhas (inv_sensors (rg_inventory r)) rid"
    and "dhas (inv_sensors (rg_inventory r')) s \<longleftrightarrow> s = rid \<or> s \<noteq> sid \<and> dhas (inv_sensors (rg_inventory r)) s"
    and "k \<in> {''network_id'', ''assigned_address'', ''display_name'', ''location_label'', ''pose'', ''enabled''} \<Longrightarrow>
      map_of (sensor_record (rg_inventory r) sid) k = Some x \<Longrightarrow>
      map_of (sensor_record (rg_inventory r') rid) k = Some x"
    and "map_of (known_record (rg_inventory r') sid) ''catalog_state'' = Some (PStr ''retired'')"
    and "map_of (known_record (rg_inventory r') sid) ''replaced_by'' = Some (PStr rid)"
    and "map_of (inv_groups (rg_inventory r)) gid = Some (PDict g) \<Longrightarrow>
      \<exists>g'. map_of (inv_groups (rg_inventory r')) gid = Some (PDict g') \<and> swapped_group sid rid g g'"
proof -
  let ?ivt = "rg_inventory r"
  let ?source = "sensor_record ?ivt sid"
  from assms(2) obtain d where body: "replace_body (re_now env) sid obs ?ivt = (Inr rid, d)"
    and val: "validate_inventory (re_now env) d (rg_machine r) = Inr (rg_inventory r')"
    unfolding replace_sensor_def by (rule transact_Inr)
  from body obtain identity ivt2 groups ivt5 nid where b: "dhas (inv_sensors ?ivt) sid"
    "new_sensor_id obs = Inr rid" "\<not> dhas (inv_sensors ?ivt) rid"
    "sensor_from_observation obs ?source = Inr identity"
    "ensure_known (re_now env) rid obs (drop_sensor sid ?ivt) = Inr ivt2"
    "replace_in_groups sid rid (inv_groups ivt2) = Inr groups"
    "ensure_known (re_now env) sid ?source (put_section ''sync_groups'' groups
       (put_sensor rid (dupdate identity ?source)
         (put_known rid (enrolled_known (known_record ivt2 rid)) ivt2))) = Inr ivt5"
    "d = append_history (re_now env) ''replace'' rid [(''source_sensor_id'', PStr sid), (''network_id'', nid)]
       (put_known sid (retired_known (re_now env) rid ?source (known_record ivt5 sid)) ivt5)"
    by (rule replace_body_Inr)
  note s2 = ensure_known_sections [OF b(5)] and s5 = ensure_known_sections [OF b(7)]
  have ne: "sid \<noteq> rid" using b(1,3) by auto
  show "new_sensor_id obs = Inr rid \<and> dhas (inv_sensors ?ivt) sid \<and> \<not> dhas (inv_sensors ?ivt) rid"
    using b(1-3) by simp
  have version: "map_of d ''schema_version'' = Some (PInt 3)"
    using valid_inventory_version [OF assms(1)] s2(2) [of "''schema_version''"] s5(2) [of "''schema_version''"]
    by (simp add: b(8))
  have sens: "inv_sensors d = dset rid (PDict (dupdate identity ?source)) (dpop sid (inv_sensors ?ivt))"
    using s2(1) [of "''sensors''"] s5(1) [of "''sensors''"] by (simp add: b(8))
  have grp: "inv_groups d = groups" using s5(1) [of "''sync_groups''"] by (simp add: b(8))
  have has: "dhas (inv_sensors d) s \<longleftrightarrow> s = rid \<or> s \<noteq> sid \<and> dhas (inv_sensors ?ivt) s" for s
    by (simp add: sens dhas_def map_of_dset map_of_dpop)
  show "dhas (inv_sensors (rg_inventory r')) s \<longleftrightarrow> s = rid \<or> s \<noteq> sid \<and> dhas (inv_sensors ?ivt) s"
    unfolding sensors_keys [OF val version] by (rule has)
  show "map_of (sensor_record (rg_inventory r') rid) k = Some x"
    if k: "k \<in> {''network_id'', ''assigned_address'', ''display_name'', ''location_label'', ''pose'', ''enabled''}"
      and x: "map_of ?source k = Some x"
  proof (rule sensor_kept [OF val version])
    show "map_of (inv_sensors d) rid = Some (PDict (dupdate identity ?source))" by (simp add: sens)
    have "map_of (dupdate identity ?source) k = map_of ?source k"
      by (rule dupdate_other) (use k in \<open>auto simp: sensor_from_observation_keys [OF b(4)] simp del: list.set_map\<close>)
    with x show "map_of (dupdate identity ?source) k = Some x" by simp
    show "k \<noteq> ''hardware_key''" using k by auto
  qed
  have kn: "map_of (inv_known d) sid = Some (PDict (retired_known (re_now env) rid ?source (known_record ivt5 sid)))"
    by (simp add: b(8))
  have gone: "\<not> dhas (inv_sensors d) sid" using has [of sid] ne by simp
  show "map_of (known_record (rg_inventory r') sid) ''catalog_state'' = Some (PStr ''retired'')"
    by (rule known_kept [OF val version kn]) (simp_all add: retired_known_def gone)
  show "map_of (known_record (rg_inventory r') sid) ''replaced_by'' = Some (PStr rid)"
    by (rule known_kept [OF val version kn]) (simp_all add: retired_known_def)
  show "\<exists>g'. map_of (inv_groups (rg_inventory r')) gid = Some (PDict g') \<and> swapped_group sid rid g g'"
    if g: "map_of (inv_groups ?ivt) gid = Some (PDict g)"
  proof -
    have "inv_groups ivt2 = inv_groups ?ivt" using s2(1) [of "''sync_groups''"] by simp
    with b(6) g obtain g1 where g1: "map_of groups gid = Some (PDict g1)" "swapped_group sid rid g g1"
      unfolding replace_in_groups_def
      by (elim map_items_lookup [of _ _ _ _ gid "PDict g"])
         (auto simp: bindR_eq_Inr dest: replace_in_group_swapped)
    have gd: "map_of (inv_groups d) gid = Some (PDict g1)" by (simp add: grp g1(1))
    from validate_sections(4) [OF val version] gd obtain u w u' where
      w: "group_loop (rg_machine r) (dkeys (inv_sensors d)) u gid (PDict g1) = Inr (w, u')"
        "map_of (inv_groups (rg_inventory r')) gid = Some w" by (rule map_items_lookup)
    then have "w = PDict (filled_group (rg_machine r) g1)"
      by (auto simp: bindR_eq_Inr validate_group_PDict filled_group_def)
    with w(2) g1(2) show ?thesis
      by (intro exI [of _ "filled_group (rg_machine r) g1"])
         (simp add: swapped_group_def filled_group_lookup(1))
  qed
qed

subsection \<open>Properties\<close>

text \<open>C9: Archiving a sensor succeeds only for an enrolled sensor that no group lists; afterwards
  exactly that sensor is no longer enrolled, every other record is untouched, and the catalogue
  marks it archived and keeps its configuration.\<close>

theorem forget_archives:
  assumes "valid_inventory (rg_machine r) (rg_inventory r)" and "forget env sid r = (Inr u, r')"
  shows "dhas (inv_sensors (rg_inventory r)) sid
    \<and> memberships sid (inv_groups (rg_inventory r)) = Inr []
    \<and> inv_sensors (rg_inventory r') = dpop sid (inv_sensors (rg_inventory r))
    \<and> map_of (known_record (rg_inventory r') sid) ''catalog_state'' = Some (PStr ''archived'')
    \<and> map_of (known_record (rg_inventory r') sid) ''last_configuration''
        = Some (PDict (sensor_record (rg_inventory r) sid))"
  using forget_effect [OF assms] by blast

theorem forget_archives_witness:
  "inv_sensors (rg_inventory (snd (forget demo_env ''cam'' demo_registry))) = []"
proof -
  have "fst (forget demo_env ''cam'' demo_registry) = Inr ()" by code_simp
  then have run: "forget demo_env ''cam'' demo_registry = (Inr (), snd (forget demo_env ''cam'' demo_registry))"
    by (cases "forget demo_env ''cam'' demo_registry") simp
  from forget_archives [OF _ run] demo_inventory_valid
  have "inv_sensors (rg_inventory (snd (forget demo_env ''cam'' demo_registry))) = dpop ''cam'' (inv_sensors demo_inventory)"
    by (simp add: demo_registry_def)
  also have "\<dots> = []" by code_simp
  finally show ?thesis .
qed

text \<open>C10: Replacing a sensor moves its place to the new device: the new identifier is enrolled with
  the old network, address, name, location, pose and enabled flag, takes the old one's place in
  every group, and the old sensor is retired in favour of it; no other sensor is enrolled or
  removed.\<close>

theorem replace_takes_over:
  assumes "valid_inventory (rg_machine r) (rg_inventory r)" and "replace_sensor env sid obs r = (Inr rid, r')"
  shows "new_sensor_id obs = Inr rid \<and> dhas (inv_sensors (rg_inventory r)) sid
      \<and> \<not> dhas (inv_sensors (rg_inventory r)) rid
    \<and> (\<forall>s. dhas (inv_sensors (rg_inventory r')) s
         \<longleftrightarrow> s = rid \<or> s \<noteq> sid \<and> dhas (inv_sensors (rg_inventory r)) s)
    \<and> (\<forall>k \<in> {''network_id'', ''assigned_address'', ''display_name'', ''location_label'', ''pose'', ''enabled''}.
         \<forall>x. map_of (sensor_record (rg_inventory r) sid) k = Some x \<longrightarrow>
           map_of (sensor_record (rg_inventory r') rid) k = Some x)
    \<and> map_of (known_record (rg_inventory r') sid) ''catalog_state'' = Some (PStr ''retired'')
    \<and> map_of (known_record (rg_inventory r') sid) ''replaced_by'' = Some (PStr rid)
    \<and> (\<forall>gid g. map_of (inv_groups (rg_inventory r)) gid = Some (PDict g) \<longrightarrow>
         (\<exists>g'. map_of (inv_groups (rg_inventory r')) gid = Some (PDict g') \<and> swapped_group sid rid g g'))"
  using replace_effect [OF assms] by blast

definition spare_observation :: pydict where
  "spare_observation =
     [(''provider'', PStr ''genicam''), (''vendor'', PStr ''Basler''), (''serial'', PStr ''B2''),
      (''mac_address'', PStr ''''), (''capabilities'', PList [])]"

theorem replace_takes_over_witness:
  "map_of (known_record (rg_inventory (snd (replace_sensor demo_env ''cam'' spare_observation demo_registry))) ''cam'')
     ''replaced_by'' = Some (PStr ''camera_basler_b2'')"
proof -
  let ?run = "replace_sensor demo_env ''cam'' spare_observation demo_registry"
  have "fst ?run = Inr ''camera_basler_b2''" by code_simp
  then have "?run = (Inr ''camera_basler_b2'', snd ?run)" by (cases ?run) simp
  from replace_takes_over [OF _ this] demo_inventory_valid show ?thesis
    by (simp add: demo_registry_def)
qed

text \<open>Setting a port's mode takes effect, changes no enrolled sensor, and is refused for direct
  mode unless at most one sensor is assigned to the port.\<close>

theorem set_port_mode_applies:
  assumes "valid_networks (machine_networks (rg_machine r))"
    and "valid_inventory (rg_machine r) (rg_inventory r)" and "set_port_mode env nid mode r = (Inr u, r')"
  shows "port_mode (rg_machine r) (rg_inventory r') nid = Inr mode
    \<and> (mode = ''direct'' \<longrightarrow> length (assigned_to nid (rg_inventory r')) \<le> 1)
    \<and> inv_sensors (rg_inventory r') = inv_sensors (rg_inventory r)"
  using set_port_mode_effect [OF assms(2,3)]
    port_mode_total [OF assms(1) set_port_mode_known [OF assms(3)], of "rg_inventory r'"]
  by auto

definition port_registry :: "pydict registry" where
  "port_registry = \<lparr>rg_machine = port_machine, rg_inventory = empty_inventory, rg_disk = empty_disk\<rparr>"

theorem set_port_mode_applies_witness:
  "port_mode port_machine (rg_inventory (snd (set_port_mode demo_env ''net0'' ''direct'' port_registry))) ''net0''
     = Inr ''direct''"
proof -
  let ?run = "set_port_mode demo_env ''net0'' ''direct'' port_registry"
  have "fst ?run = Inr ()" by code_simp
  then have run: "?run = (Inr (), snd ?run)" by (cases ?run) simp
  have "validate_inventory ''t'' empty_inventory port_machine = Inr empty_inventory" by code_simp
  then have "valid_inventory port_machine empty_inventory" by (rule validate_inventory_valid)
  with set_port_mode_applies [OF _ _ run] port_networks_valid show ?thesis
    by (simp add: port_registry_def)
qed

end
