(* ===== verification/Identity_Stability.thy ===== *)
theory Identity_Stability
  imports Registry_Ops
begin

section \<open>A device keeps its identifier\<close>

text \<open>
  \<^verbatim>\<open>record_observation\<close> and \<^verbatim>\<open>sensor_id_for_observation\<close> together: recording what was
  seen does not change which sensor the same device is taken for, although the record is
  overwritten with the observed fields; and a device with a MAC address is recognised by it
  whatever provider and vendor name it is reported under.
\<close>

subsection \<open>The first match after an update\<close>

lemma find_SomeD: "List.find P d = Some x \<Longrightarrow> x \<in> set d \<and> P x"
  by (induction d) (auto split: if_splits)

lemma find_dset:
  assumes "distinct (dkeys d)" and "List.find P d = Some (k, v)" and "P (k, w)"
  shows "List.find P (dset k w d) = Some (k, w)"
  using assms
proof (induction d)
  case (Cons p d)
  then show ?case
    by (cases p) (auto simp: dset_def split: if_splits dest!: find_SomeD)
qed simp

lemma find_dset_None:
  "List.find P d = None \<Longrightarrow> P (k, w) \<Longrightarrow> List.find P (dset k w d) = Some (k, w)"
  by (induction d) (auto simp: dset_def split: if_splits)

lemma find_dset_still_None:
  "List.find P d = None \<Longrightarrow> \<not> P (k, w) \<Longrightarrow> List.find P (dset k w d) = None"
  by (induction d) (auto simp: dset_def split: if_splits)

subsection \<open>The observed fields\<close>

lemma py_eq_PStr: "py_eq x (PStr s) \<longleftrightarrow> x = PStr s"
  by (cases x) (auto split: option.splits)

definition observed_value :: "pydict \<Rightarrow> string \<Rightarrow> pyval" where
  "observed_value obs key = dget obs key (if key = ''capabilities'' then PList [] else PStr '''')"

definition overwrites :: "pydict \<Rightarrow> pydict \<Rightarrow> string \<Rightarrow> bool" where
  "overwrites obs known key \<longleftrightarrow>
     observed_value obs key \<notin> {PStr '''', PList []} \<and> \<not> py_eq (dget known key PNone) (observed_value obs key)"

lemma apply_identity_fold:
  assumes "distinct ks"
  shows "map_of (fst (foldl (\<lambda>(known, changed) key.
        let value = observed_value obs key in
        if value \<notin> {PStr '''', PList []} \<and> \<not> py_eq (dget known key PNone) value
        then (dset key value known, dset key (change_entry (dget known key PNone) value) changed)
        else (known, changed)) (known, changed) ks)) k
    = (if k \<in> set ks \<and> overwrites obs known k then Some (observed_value obs k) else map_of known k)"
  using assms
proof (induction ks arbitrary: known changed)
  case (Cons key ks)
  let ?v = "observed_value obs key"
  have keep: "overwrites obs (dset key ?v known) k = overwrites obs known k" if "k \<noteq> key"
    using that by (simp add: overwrites_def dget_dset)
  show ?case
  proof (cases "overwrites obs known key")
    case True
    then have "?v \<notin> {PStr '''', PList []} \<and> \<not> py_eq (dget known key PNone) ?v"
      unfolding overwrites_def .
    with Cons.IH [of "dset key ?v known"] Cons.prems True keep show ?thesis
      by (cases "k = key") (simp_all add: Let_def)
  next
    case False
    then have "\<not> (?v \<notin> {PStr '''', PList []} \<and> \<not> py_eq (dget known key PNone) ?v)"
      unfolding overwrites_def .
    with Cons.IH [of known] Cons.prems False show ?thesis
      by (cases "k = key") (simp_all only: foldl_Cons Let_def split if_False set_simps distinct.simps
        insert_iff simp_thms)
  qed
qed simp

lemma apply_identity_lookup:
  "map_of (fst (apply_identity obs known)) k
   = (if k \<in> set observed_fields \<and> overwrites obs known k then Some (observed_value obs k) else map_of known k)"
  unfolding apply_identity_def observed_value_def [symmetric]
  by (rule apply_identity_fold) (simp add: observed_fields_def)

lemma observe_known_lookup:
  assumes "k \<in> {''mac_address'', ''vendor'', ''provider'', ''serial''}"
  shows "map_of (fst (observe_known now enrolled obs latest touch known)) k
    = map_of (fst (apply_identity obs known)) k"
proof -
  from assms have "k \<noteq> ''last_provider'' \<and> k \<noteq> ''latest_observation'' \<and> k \<noteq> ''hardware_key'' \<and> k \<noteq> ''catalog_state''
      \<and> k \<noteq> ''changes'' \<and> k \<noteq> ''last_seen_at''" by auto
  then show ?thesis
    by (simp add: observe_known_def append_change_def case_prod_beta Let_def)
qed

text \<open>An observation as it comes from a ROS message: these fields are strings.\<close>

definition string_observation :: "pydict \<Rightarrow> bool" where
  "string_observation obs \<longleftrightarrow>
     list_all (\<lambda>k. is_str (dget obs k PNone)) [''provider'', ''vendor'', ''serial'', ''mac_address'']"

lemma string_observation_lookup:
  "string_observation obs \<Longrightarrow> k \<in> {''provider'', ''vendor'', ''serial'', ''mac_address''} \<Longrightarrow>
   \<exists>s. map_of obs k = Some (PStr s)"
  by (cases "map_of obs k") (auto simp: string_observation_def is_str_iff)

lemma observe_known_identity:
  assumes "string_observation obs"
    and k'_def: "\<And>known. k' known = fst (observe_known now enrolled obs latest touch known)"
  shows "known_mac obs \<noteq> '''' \<Longrightarrow> known_mac (k' known) = known_mac obs"
    and "known_vendor_serial known = known_vendor_serial obs \<Longrightarrow>
      known_vendor_serial (k' known) = known_vendor_serial obs"
proof -
  obtain m where m: "map_of obs ''mac_address'' = Some (PStr m)"
    using string_observation_lookup [OF assms(1)] by blast
  obtain v where v: "map_of obs ''vendor'' = Some (PStr v)"
    using string_observation_lookup [OF assms(1)] by blast
  have mac: "map_of (k' known) ''mac_address'' = Some (PStr m)" if "m \<noteq> ''''"
  proof (cases "overwrites obs known ''mac_address''")
    case True
    then show ?thesis by (simp add: k'_def observe_known_lookup apply_identity_lookup observed_fields_def
        observed_value_def m)
  next
    case False
    with that have "dget known ''mac_address'' PNone = PStr m"
      by (auto simp: overwrites_def observed_value_def m py_eq_PStr)
    then have "map_of known ''mac_address'' = Some (PStr m)" by (cases "map_of known ''mac_address''") auto
    with False show ?thesis by (simp add: k'_def observe_known_lookup apply_identity_lookup)
  qed
  show "known_mac (k' known) = known_mac obs" if "known_mac obs \<noteq> ''''"
  proof -
    from that have "m \<noteq> ''''" by (auto simp: known_mac_def m)
    with mac show ?thesis by (simp add: known_mac_def m)
  qed
  have ser: "map_of (k' known) ''serial'' = map_of known ''serial''"
    by (simp add: k'_def observe_known_lookup apply_identity_lookup observed_fields_def)
  have pro: "map_of (k' known) ''provider'' = map_of known ''provider''"
    by (simp add: k'_def observe_known_lookup apply_identity_lookup observed_fields_def)
  have ven: "map_of (k' known) ''vendor'' = Some (PStr v) \<or> map_of (k' known) ''vendor'' = map_of known ''vendor''"
    by (simp add: k'_def observe_known_lookup apply_identity_lookup observed_fields_def observed_value_def v)
  show "known_vendor_serial (k' known) = known_vendor_serial obs"
    if "known_vendor_serial known = known_vendor_serial obs"
    using ven
  proof
    assume "map_of (k' known) ''vendor'' = Some (PStr v)"
    with that ser show ?thesis by (simp add: known_vendor_serial_def vendor_or_provider_def v dget_def)
  next
    assume "map_of (k' known) ''vendor'' = map_of known ''vendor''"
    with that ser pro show ?thesis by (simp add: known_vendor_serial_def vendor_or_provider_def dget_def)
  qed
qed


subsection \<open>Matching after the record is written\<close>

text \<open>
  One list of known sensors, the matched record overwritten by one that still has the
  observation's MAC (or, without a MAC, its vendor and serial).
\<close>

lemma match_known_dset:
  assumes "distinct (dkeys known)"
    and "known_mac obs \<noteq> '''' \<Longrightarrow> known_mac k = known_mac obs"
    and "known_mac obs = '''' \<Longrightarrow> known_vendor_serial k = known_vendor_serial obs"
    and "match_known obs known = Some sid \<or> match_known obs known = None"
  shows "match_known obs (dset sid (PDict k) known) = Some sid"
proof (cases "known_mac obs = ''''")
  case False
  let ?P = "\<lambda>(sid, k). known_mac (dict_of k) = known_mac obs"
  have P: "?P (sid, PDict k)" using assms(2) [OF False] by simp
  have "List.find ?P (dset sid (PDict k) known) = Some (sid, PDict k)"
  proof (cases "List.find ?P known")
    case None
    then show ?thesis by (rule find_dset_None) (rule P)
  next
    case (Some p)
    then obtain v where "p = (sid, v)"
      using assms(4) False by (cases p) (auto simp: match_known_def)
    with Some have "List.find ?P known = Some (sid, v)" by simp
    with assms(1) show ?thesis by (rule find_dset) (rule P)
  qed
  with False show ?thesis by (simp add: match_known_def)
next
  case True
  let ?P = "\<lambda>(sid, k). known_vendor_serial (dict_of k) = known_vendor_serial obs"
  have P: "?P (sid, PDict k)" using assms(3) [OF True] by simp
  have "List.find ?P (dset sid (PDict k) known) = Some (sid, PDict k)"
  proof (cases "List.find ?P known")
    case None
    then show ?thesis by (rule find_dset_None) (rule P)
  next
    case (Some p)
    then obtain v where "p = (sid, v)"
      using assms(4) True by (cases p) (auto simp: match_known_def)
    with Some have "List.find ?P known = Some (sid, v)" by simp
    with assms(1) show ?thesis by (rule find_dset) (rule P)
  qed
  with True show ?thesis by (simp add: match_known_def)
qed

lemma match_known_still_None:
  assumes "match_known obs known = None" and "known_mac obs = ''''"
    and "known_vendor_serial k \<noteq> known_vendor_serial obs"
  shows "match_known obs (dset sid (PDict k) known) = None"
  using assms by (auto simp: match_known_def intro!: find_dset_still_None split: option.splits)

lemma match_known_mac:
  assumes "known_mac obs' = known_mac obs" and "known_mac obs \<noteq> ''''"
    and "List.find (\<lambda>(sid, k). known_mac (dict_of k) = known_mac obs) known = Some (sid, k)"
  shows "match_known obs' known = Some sid"
  using assms by (simp add: match_known_def)

lemma copy_same:
  "map_of obs key = Some y \<Longrightarrow> map_of known key = Some y \<Longrightarrow>
   map_of (foldl (\<lambda>k key. if dget obs key PNone \<in> {PNone, PStr '''', PList []} then k
      else dset key (dget obs key PNone) k) known ks) key = Some y"
proof (induction ks arbitrary: known)
  case (Cons a ks)
  have "map_of (dset a (dget obs a PNone) known) key = Some y"
    using Cons.prems by (cases "a = key") simp_all
  with Cons show ?case by simp
qed simp

lemma new_known_identity:
  assumes "string_observation obs" and "known_from_sensor obs st now = Inr k0"
  shows "known_mac (refresh_known obs (dset ''last_configuration'' x k0)) = known_mac obs"
    and "known_vendor_serial (refresh_known obs (dset ''last_configuration'' x k0)) = known_vendor_serial obs"
proof -
  obtain p where p: "map_of obs ''provider'' = Some (PStr p)"
    using string_observation_lookup [OF assms(1), of "''provider''"] by blast
  obtain v where v: "map_of obs ''vendor'' = Some (PStr v)"
    using string_observation_lookup [OF assms(1), of "''vendor''"] by blast
  obtain s where s: "map_of obs ''serial'' = Some (PStr s)"
    using string_observation_lookup [OF assms(1), of "''serial''"] by blast
  obtain m where m: "map_of obs ''mac_address'' = Some (PStr m)"
    using string_observation_lookup [OF assms(1), of "''mac_address''"] by blast
  note o = p v s m
  let ?k = "dset ''last_configuration'' x k0"
  from assms(2) have "map_of k0 ''vendor'' = Some (vendor_or_provider obs)"
      "map_of k0 ''serial'' = Some (dget obs ''serial'' (PStr ''''))"
      "map_of k0 ''mac_address'' = Some (dget obs ''mac_address'' (PStr ''''))"
    by (auto simp: known_from_sensor_def bindR_eq_Inr)
  with o have k0: "map_of k0 ''vendor'' = Some (PStr v)" "map_of k0 ''serial'' = Some (PStr s)"
      "map_of k0 ''mac_address'' = Some (PStr m)"
    by (simp_all add: vendor_or_provider_def)
  have copy: "map_of (copy_identity obs ?k) key = Some y"
    if "map_of obs key = Some y" "map_of ?k key = Some y" for key y
    unfolding copy_identity_def using that by (rule copy_same)
  have kk: "map_of ?k ''vendor'' = Some (PStr v)" "map_of ?k ''serial'' = Some (PStr s)"
      "map_of ?k ''mac_address'' = Some (PStr m)" using k0 by simp_all
  have r: "map_of (refresh_known obs ?k) key = map_of (copy_identity obs ?k) key"
    if "key \<in> {''vendor'', ''serial'', ''mac_address''}" for key
    using that by (auto simp: refresh_known_def Let_def)
  have "map_of (refresh_known obs ?k) ''vendor'' = Some (PStr v)"
    "map_of (refresh_known obs ?k) ''serial'' = Some (PStr s)"
    "map_of (refresh_known obs ?k) ''mac_address'' = Some (PStr m)"
    using copy [OF o(2) kk(1)] copy [OF o(3) kk(2)] copy [OF o(4) kk(3)] r by simp_all
  with o show "known_mac (refresh_known obs ?k) = known_mac obs"
    and "known_vendor_serial (refresh_known obs ?k) = known_vendor_serial obs"
    by (simp_all add: known_mac_def known_vendor_serial_def vendor_or_provider_def)
qed

subsection \<open>Recording an observation\<close>

text \<open>
  What \<open>record_observation\<close> leaves: the catalogue with one record written. Either the
  record was there (\<open>old\<close>), or it is new and describes the observed device.
\<close>

lemma record_observation_known:
  assumes "record_observation now obs nid managed new_session checkpoint ivt = (Inr changed, ivt')"
    and "sensor_id_for_observation ivt obs = Inr sid" and "string_observation obs"
  obtains base latest touch enrolled where
    "inv_known ivt' = dset sid (PDict (fst (observe_known now enrolled obs latest touch base))) (inv_known ivt)"
    "dhas (inv_known ivt) sid \<Longrightarrow> known_vendor_serial base = known_vendor_serial (known_record ivt sid)"
    "\<not> dhas (inv_known ivt) sid \<Longrightarrow> known_vendor_serial base = known_vendor_serial obs"
proof -
  note result = that
  show thesis
proof (cases "dhas (inv_known ivt) sid")
  case True
  let ?old = "known_record ivt sid"
  have base: thesis if "known_vendor_serial k = known_vendor_serial ?old"
    "inv_known ivt' = dset sid (PDict (fst (observe_known now (dhas (inv_sensors ivt) sid) obs
       (latest_connection obs nid managed) (new_session \<or> checkpoint) k))) (inv_known ivt)" for k
    using True by (intro result [OF that(2)]) (simp_all add: that(1))
  show thesis
  proof (cases new_session)
    case ns: True
    from assms(1,2) True ns obtain k where k: "count_sighting ?old = Inr k"
      by (cases "count_sighting ?old") (auto simp: record_observation_def)
    with assms(1,2) True ns have k2: "inv_known ivt' = dset sid (PDict (fst (observe_known now
        (dhas (inv_sensors ivt) sid) obs (latest_connection obs nid managed) (new_session \<or> checkpoint) k)))
        (inv_known ivt)"
      by (auto simp: record_observation_def Let_def split: prod.splits)
    from k have "known_vendor_serial k = known_vendor_serial ?old"
      by (auto simp: count_sighting_def bindR_eq_Inr known_vendor_serial_def vendor_or_provider_def dget_dset)
    from this k2 show thesis by (rule base)
  next
    case False
    with assms(1,2) True show thesis
      by (intro base [of ?old]) (auto simp: record_observation_def Let_def split: prod.splits)
  qed
next
  case False
  with assms(1,2) obtain ivt1 where e: "ensure_known now sid obs ivt = Inr ivt1"
    by (cases "ensure_known now sid obs ivt") (auto simp: record_observation_def)
  from False have none: "map_of (inv_known ivt) sid = None" by (simp add: dhas_def)
  with e obtain k0 where k0: "known_from_sensor obs ''observed'' now = Inr k0"
    "ivt1 = put_known sid (refresh_known obs (dset ''last_configuration'' PNone k0)) ivt"
    by (auto simp: ensure_known_def bindR_eq_Inr)
  let ?k = "dset ''sighting_count'' (PInt 1) (dset ''first_seen_at'' (PStr now) (known_record ivt1 sid))"
  have "inv_known ivt' = dset sid (PDict (fst (observe_known now (dhas (inv_sensors ivt) sid) obs
       (latest_connection obs nid managed) True ?k))) (inv_known ivt1)"
    using assms(1,2) False e k0(2) by (auto simp: record_observation_def Let_def split: prod.splits)
  also have "inv_known ivt1 = dset sid (PDict (refresh_known obs (dset ''last_configuration'' PNone k0))) (inv_known ivt)"
    by (simp add: k0(2))
  finally have "inv_known ivt' = dset sid (PDict (fst (observe_known now (dhas (inv_sensors ivt) sid) obs
       (latest_connection obs nid managed) True ?k))) (inv_known ivt)"
    by (simp add: dset_dset)
  moreover have "known_vendor_serial ?k = known_vendor_serial obs"
    using new_known_identity(2) [OF assms(3) k0(1), of PNone]
    by (simp add: known_vendor_serial_def vendor_or_provider_def dget_dset k0(2))
  ultimately show thesis using False by (intro result [of "dhas (inv_sensors ivt) sid"
      "latest_connection obs nid managed" True ?k]) simp_all
qed
qed

lemma matched_record:
  assumes "match_known obs known = Some sid" and "known_mac obs = ''''" and "distinct (dkeys known)"
  shows "known_vendor_serial (dict_of (dget known sid (PDict []))) = known_vendor_serial obs"
proof -
  from assms(1,2) obtain k where "List.find (\<lambda>(sid, k). known_vendor_serial (dict_of k) = known_vendor_serial obs)
      known = Some (sid, k)"
    by (auto simp: match_known_def)
  then have "(sid, k) \<in> set known" "known_vendor_serial (dict_of k) = known_vendor_serial obs"
    by (auto dest: find_SomeD)
  with assms(3) show ?thesis by simp
qed

lemma identity_kept:
  assumes "record_observation now obs nid managed new_session checkpoint ivt = (Inr changed, ivt')"
    and "sensor_id_for_observation ivt obs = Inr sid"
    and "string_observation obs" and "distinct (dkeys (inv_known ivt))"
  shows "sensor_id_for_observation ivt' obs = Inr sid"
    and "known_mac obs \<noteq> '''' \<Longrightarrow> known_mac obs' = known_mac obs \<Longrightarrow>
      sensor_id_for_observation ivt' obs' = Inr sid"
proof -
  from assms(1-3) obtain base latest touch enrolled where
    k: "inv_known ivt' = dset sid (PDict (fst (observe_known now enrolled obs latest touch base))) (inv_known ivt)"
    and old: "dhas (inv_known ivt) sid \<longrightarrow> known_vendor_serial base = known_vendor_serial (known_record ivt sid)"
    and new: "\<not> dhas (inv_known ivt) sid \<longrightarrow> known_vendor_serial base = known_vendor_serial obs"
    by (rule record_observation_known) blast
  let ?k = "fst (observe_known now enrolled obs latest touch base)"
  have mac: "known_mac obs \<noteq> '''' \<Longrightarrow> known_mac ?k = known_mac obs"
    by (rule observe_known_identity(1) [OF assms(3)]) auto
  have vs: "known_vendor_serial base = known_vendor_serial obs \<Longrightarrow> known_vendor_serial ?k = known_vendor_serial obs"
    by (rule observe_known_identity(2) [OF assms(3)]) auto
  have m: "match_known obs (inv_known ivt) = Some sid \<or> match_known obs (inv_known ivt) = None"
    using assms(2) by (auto simp: sensor_id_for_observation_def split: option.splits)
  show same: "sensor_id_for_observation ivt' obs = Inr sid"
  proof (cases "known_mac obs = '''' \<longrightarrow> known_vendor_serial ?k = known_vendor_serial obs")
    case True
    have "match_known obs (inv_known ivt') = Some sid"
      unfolding k by (rule match_known_dset [OF assms(4) mac _ m]) (use True in auto)
    then show ?thesis by (simp add: sensor_id_for_observation_def)
  next
    case False
    then have "known_vendor_serial base \<noteq> known_vendor_serial obs" using vs by blast
    with new old have there: "dhas (inv_known ivt) sid"
        "known_vendor_serial (known_record ivt sid) \<noteq> known_vendor_serial obs" by auto
    with m False matched_record [OF _ _ assms(4), of obs sid]
    have none: "match_known obs (inv_known ivt) = None" by (auto simp: known_record_def)
    have "match_known obs (inv_known ivt') = None"
      unfolding k by (rule match_known_still_None [OF none]) (use False in auto)
    moreover have "dhas (inv_known ivt') x \<longleftrightarrow> dhas (inv_known ivt) x" for x
      using there(1) by (auto simp: k dhas_dset)
    moreover have "length (inv_known ivt') = length (inv_known ivt)"
      unfolding k using there(1) by (simp add: length_dset)
    ultimately show ?thesis
      using assms(2) none by (simp only: sensor_id_for_observation_def option.case)
  qed
  show "sensor_id_for_observation ivt' obs' = Inr sid"
    if "known_mac obs \<noteq> ''''" "known_mac obs' = known_mac obs"
  proof -
    have "match_known obs (inv_known ivt') = Some sid"
      unfolding k by (rule match_known_dset [OF assms(4) mac _ m]) (use that in auto)
    moreover have "(sid, PDict ?k) \<in> set (inv_known ivt')"
      unfolding k by (rule map_of_SomeD) simp
    then have "List.find (\<lambda>(sid, k). known_mac (dict_of k) = known_mac obs) (inv_known ivt') \<noteq> None"
      using mac [OF that(1)] unfolding find_None_iff by force
    ultimately have "match_known obs' (inv_known ivt') = Some sid"
      using that by (auto simp: match_known_def split: option.splits)
    then show ?thesis by (simp add: sensor_id_for_observation_def)
  qed
qed

subsection \<open>Properties\<close>

text \<open>C8: After an observation has been recorded, the same observation, and any observation with
  the same MAC address whatever provider, vendor, model and serial it reports, is matched to
  the same sensor identifier.\<close>

theorem observed_device_keeps_its_id:
  assumes "record_observation now obs nid managed new_session checkpoint ivt = (Inr changed, ivt')"
    and "sensor_id_for_observation ivt obs = Inr sid"
    and "string_observation obs" and "distinct (dkeys (inv_known ivt))"
  shows "sensor_id_for_observation ivt' obs = Inr sid
    \<and> (\<forall>obs'. known_mac obs \<noteq> '''' \<longrightarrow> known_mac obs' = known_mac obs \<longrightarrow>
         sensor_id_for_observation ivt' obs' = Inr sid)"
  using identity_kept [OF assms] by blast

definition demo_observation :: pydict where
  "demo_observation =
     [(''provider'', PStr ''genicam''), (''kind'', PStr ''camera''), (''vendor'', PStr ''Basler''),
      (''model'', PStr ''a2''), (''serial'', PStr ''A1''), (''mac_address'', PStr ''00:11:22:33:44:55''),
      (''capabilities'', PList [])]"

theorem observed_device_keeps_its_id_witness:
  "sensor_id_for_observation (snd (record_observation ''t'' demo_observation ''net0'' True True False demo_inventory))
     demo_observation = Inr ''camera_basler_a1''"
proof -
  let ?run = "record_observation ''t'' demo_observation ''net0'' True True False demo_inventory"
  have "fst ?run = Inr True" by code_simp
  then have "?run = (Inr True, snd ?run)" by (cases ?run) simp
  moreover have "sensor_id_for_observation demo_inventory demo_observation = Inr ''camera_basler_a1''"
    by code_simp
  moreover have "string_observation demo_observation" "distinct (dkeys (inv_known demo_inventory))"
    by code_simp+
  ultimately show ?thesis using observed_device_keeps_its_id by blast
qed

text \<open>The catalogue can take in two devices that the identity rules keep apart but that the
  validation refuses together: the inventory is valid, a camera of another vendor with the
  same serial number is seen, and from then on no save is accepted.
\<close>

theorem observation_blocks_saving:
  "valid_inventory demo_machine demo_inventory
   \<and> fst (record_observation ''t'' demo_observation ''net0'' True True False demo_inventory) = Inr True
   \<and> validate_inventory ''t''
       (snd (record_observation ''t'' demo_observation ''net0'' True True False demo_inventory)) demo_machine
     = Inl (RegistryError ''known sensor camera_basler_a1 has an empty or duplicate identity'')"
proof (intro conjI)
  show "fst (record_observation ''t'' demo_observation ''net0'' True True False demo_inventory) = Inr True"
    by code_simp
  show "validate_inventory ''t''
       (snd (record_observation ''t'' demo_observation ''net0'' True True False demo_inventory)) demo_machine
     = Inl (RegistryError ''known sensor camera_basler_a1 has an empty or duplicate identity'')"
    by code_simp
qed (rule demo_inventory_valid)

end
