(* ===== verification/Camera_Profiles.thy ===== *)
theory Camera_Profiles
  imports Store "HOL-Library.Sublist"
begin

section \<open>Camera profiles\<close>

text \<open>
  \<^verbatim>\<open>camera_profiles.py\<close>: normalising a profile document, loading the administrator's
  profiles and the managed ones, saving the managed ones, and resolving the settings of a
  camera from defaults, profile and overrides.

  Parameters: the YAML loader and dumper, the directory listing and the failures of the
  file system.
\<close>

definition profile_error :: "string \<Rightarrow> py_exn" where
  "profile_error msg = CameraProfileError msg"

definition portable_setting_names :: "string list" where
  "portable_setting_names =
     [''pixel_format'', ''width'', ''height'', ''offset_x'', ''offset_y'',
      ''binning_horizontal'', ''binning_vertical'', ''decimation_horizontal'',
      ''decimation_vertical'', ''reverse_x'', ''reverse_y'', ''exposure_auto'',
      ''exposure_us'', ''exposure_auto_limit_auto'', ''exposure_auto_upper_us'',
      ''gain_auto'', ''gain_db'', ''gain_auto_upper_db'', ''auto_brightness_target'',
      ''balance_white_auto'', ''gamma'', ''black_level'', ''metering_rate_hz'',
      ''capture_png_compression'', ''frame_rate_hz'', ''packet_size'',
      ''packet_delay_ns'', ''trigger_overlap'', ''transfer_control_mode'',
      ''preview_width'', ''preview_format'', ''png_compression'', ''jpeg_quality'']"

subsection \<open>Merging settings\<close>

text \<open>\<open>_merge_settings\<close>: nested mappings are merged, anything else is overwritten.\<close>

function merge_settings :: "pydict \<Rightarrow> pydict \<Rightarrow> pydict" where
  "merge_settings target [] = target"
| "merge_settings target ((key, value) # rest) =
     merge_settings
       (dset key
         (case value of
            PDict inner \<Rightarrow>
              (case map_of target key of
                 Some (PDict old) \<Rightarrow> PDict (merge_settings old inner)
               | _ \<Rightarrow> value)
          | _ \<Rightarrow> value) target) rest"
  by pat_completeness auto

termination
  by (relation "measure (\<lambda>(target, values). size_list (size_prod (\<lambda>_. 0) size) values)") auto

subsection \<open>Normalisation\<close>

definition strip_str :: "pyval \<Rightarrow> string" where
  "strip_str v = strip (py_str v)"

definition unsupported_settings :: "pydict \<Rightarrow> string list" where
  "unsupported_settings settings =
     sort (remdups (filter (\<lambda>k. k \<notin> set portable_setting_names) (dkeys settings)))"

text \<open>Scope and compatibility of a profile, once its name and settings are known.\<close>

definition profile_compatibility ::
  "int \<Rightarrow> string \<Rightarrow> string \<Rightarrow> pydict \<Rightarrow> pydict \<Rightarrow> (string \<times> string) result" where
  "profile_compatibility version name scope settings compatibility =
     (let vendor = strip_str (dget compatibility ''vendor'' (PStr ''''));
          model = strip_str (dget compatibility ''model'' (PStr '''')) in
      if scope = ''portable'' then
        (if unsupported_settings settings \<noteq> [] then
           Inl (profile_error (''portable camera profile '' @ name @ '' contains non-portable settings: ''
             @ join '', '' (unsupported_settings settings)))
         else Inr ('''', ''''))
      else if version = 2 \<and> (vendor = '''' \<or> model = '''') then
        Inl (profile_error (''model camera profile '' @ name
          @ '' requires compatibility.vendor and compatibility.model''))
      else Inr (vendor, model))"

definition normalize_camera_profile :: "pyval \<Rightarrow> string \<Rightarrow> string \<Rightarrow> pydict result" where
  "normalize_camera_profile v fallback_name source =
     (case v of
        PDict value \<Rightarrow>
          (case py_int (dget value ''schema_version'' (PInt 1)) of
             Inl TypeErr \<Rightarrow> Inl (profile_error ''camera profile schema_version must be an integer'')
           | Inl ValueErr \<Rightarrow> Inl (profile_error ''camera profile schema_version must be an integer'')
           | Inl e \<Rightarrow> Inl e
           | Inr version \<Rightarrow>
             (if version \<noteq> 1 \<and> version \<noteq> 2 then
                Inl (profile_error ''camera profile has unsupported schema_version'')
              else
                (let name = strip_str (dget value ''name'' (PStr fallback_name)) in
                 if \<not> ros_safe name then
                   Inl (profile_error ''camera profile name must match [a-z][a-z0-9_]*'')
                 else if \<not> is_dict (dget value ''settings'' (PDict [])) then
                   Inl (profile_error (''camera profile '' @ name @ '' settings must be a mapping''))
                 else
                   (let settings = dict_of (dget value ''settings'' (PDict []));
                        scope = lower (py_str (dget value ''scope''
                          (PStr (if version = 2 then ''portable'' else ''model''))));
                        compatibility = (let c = dget value ''compatibility'' (PDict []) in
                                  if truthy c then c else PDict []) in
                    if scope \<noteq> ''portable'' \<and> scope \<noteq> ''model'' then
                      Inl (profile_error (''camera profile '' @ name @ '' scope must be portable or model''))
                    else if \<not> is_dict compatibility then
                      Inl (profile_error (''camera profile '' @ name @ '' compatibility must be a mapping''))
                    else
                      bindR (profile_compatibility version name scope settings (dict_of compatibility))
                        (\<lambda>(vendor, model).
                      Inr
                       [(''schema_version'', PInt 2),
                        (''name'', PStr name),
                        (''description'', PStr (py_str (dget value ''description'' (PStr '''')))),
                        (''scope'', PStr scope),
                        (''compatibility'', PDict [(''vendor'', PStr vendor), (''model'', PStr model)]),
                        (''settings'', PDict settings),
                        (''source'', PStr source),
                        (''source_path'', PStr (py_str (dget value ''source_path'' (PStr ''''))))])))))
      | _ \<Rightarrow> Inl (profile_error ''camera profile must be a mapping''))"

subsection \<open>Loading\<close>

text \<open>\<open>yaml.safe_load(path.read_text()) or {}\<close>, with I/O and YAML errors wrapped.\<close>

definition read_profile :: "('f \<Rightarrow> pyval result) \<Rightarrow> string \<Rightarrow> 'f \<Rightarrow> pyval result" where
  "read_profile load what content =
     (case load content of
        Inl OSErr \<Rightarrow> Inl (profile_error what)
      | Inl YAMLErr \<Rightarrow> Inl (profile_error what)
      | Inl e \<Rightarrow> Inl e
      | Inr v \<Rightarrow> Inr (if truthy v then v else PDict []))"

definition profile_name :: "pydict \<Rightarrow> string" where
  "profile_name p = py_str (dget p ''name'' PNone)"

type_synonym profiles = "pydict dict"

definition add_profile :: "pydict \<Rightarrow> profiles \<Rightarrow> profiles result" where
  "add_profile p profiles =
     (if dhas profiles (profile_name p)
      then Inl (profile_error (''duplicate camera profile '' @ profile_name p))
      else Inr (dset (profile_name p) p profiles))"

text \<open>The files of the directory, as (path, stem, content), already sorted by path.\<close>

fun load_admin ::
  "('f \<Rightarrow> pyval result) \<Rightarrow> (string \<times> string \<times> 'f) list \<Rightarrow> profiles \<Rightarrow> profiles result" where
  "load_admin load [] profiles = Inr profiles"
| "load_admin load ((path, stem, content) # files) profiles =
     bindR (read_profile load (''cannot load camera profile '' @ path) content) (\<lambda>value.
     bindR (normalize_camera_profile value stem ''admin'') (\<lambda>p.
     bindR (add_profile (dset ''source_path'' (PStr path) p) profiles) (load_admin load files)))"

fun load_values :: "pydict \<Rightarrow> profiles \<Rightarrow> profiles result" where
  "load_values [] profiles = Inr profiles"
| "load_values ((key, value) # values) profiles =
     bindR (normalize_camera_profile value key ''managed'') (\<lambda>p.
     if profile_name p \<noteq> key then
       Inl (profile_error (''managed camera profile key '' @ key @ '' does not match name '' @ profile_name p))
     else bindR (add_profile p profiles) (load_values values))"

definition load_managed :: "('f \<Rightarrow> pyval result) \<Rightarrow> 'f \<Rightarrow> profiles \<Rightarrow> profiles result" where
  "load_managed load content profiles =
     bindR (read_profile load ''cannot load managed camera profiles'' content) (\<lambda>document.
     case document of
       PDict d \<Rightarrow>
         (case dget d ''profiles'' (PDict []) of
            PDict values \<Rightarrow> load_values values profiles
          | _ \<Rightarrow> Inl (profile_error ''managed camera profiles must contain a profiles mapping''))
     | _ \<Rightarrow> Inl (profile_error ''managed camera profiles document must be a mapping''))"

datatype 'f directory = No_directory | Not_a_directory | Directory "(string \<times> string \<times> 'f) list"

definition load_camera_profiles ::
  "('f \<Rightarrow> pyval result) \<Rightarrow> 'f directory \<Rightarrow> 'f option \<Rightarrow> profiles result" where
  "load_camera_profiles load dir managed =
     (case dir of
        Not_a_directory \<Rightarrow> Inl (profile_error ''camera profile path is not a directory'')
      | _ \<Rightarrow>
          bindR (load_admin load (case dir of Directory fs \<Rightarrow> sort_key fst fs | _ \<Rightarrow> []) []) (\<lambda>profiles.
          case managed of
            None \<Rightarrow> Inr profiles
          | Some content \<Rightarrow> load_managed load content profiles))"

subsection \<open>Saving\<close>

definition is_managed :: "pydict \<Rightarrow> bool" where
  "is_managed p \<longleftrightarrow> dget p ''source'' PNone = PStr ''managed''"

fun managed_values :: "profiles \<Rightarrow> pydict result" where
  "managed_values [] = Inr []"
| "managed_values ((name, p) # rest) =
     (if \<not> is_managed p then managed_values rest
      else
        bindR (normalize_camera_profile (PDict p) name ''managed'') (\<lambda>n.
        bindR (managed_values rest) (\<lambda>values.
        Inr ((name, PDict (dpop ''source_path'' (dpop ''source'' n))) # values))))"

definition managed_document :: "pydict \<Rightarrow> pydict" where
  "managed_document values = [(''schema_version'', PInt 1), (''profiles'', PDict values)]"

text \<open>
  The directory is created and the profiles are normalised before the \<^verbatim>\<open>try\<close>; only an
  \<^verbatim>\<open>OSError\<close> is wrapped. There is no clean-up of the temporary file.
\<close>

definition save_managed_camera_profiles ::
  "'f fs_env \<Rightarrow> (pydict \<Rightarrow> 'f) \<Rightarrow> profiles \<Rightarrow> ('f disk, unit) op" where
  "save_managed_camera_profiles fs dump profiles d =
     (case fe_fault fs Make_dir of
        Some e \<Rightarrow> (Inl e, d)
      | None \<Rightarrow>
          (case managed_values (sort_key fst profiles) of
             Inl e \<Rightarrow> (Inl e, d)
           | Inr values \<Rightarrow>
               (case run_io fs (dump (managed_document values)) [Make_temp, Write_temp, Replace_file] d of
                  (Inl OSErr, d') \<Rightarrow> (Inl (profile_error ''cannot save managed camera profiles''), d')
                | (r, d') \<Rightarrow> (r, d'))))"

subsection \<open>Use\<close>

definition casefold :: "string \<Rightarrow> string" where
  "casefold s = concat (map (\<lambda>c. if code c = 223 then ''ss'' else [lower_char c]) s)"

definition camera_profile_compatible :: "pydict \<Rightarrow> pydict \<Rightarrow> bool" where
  "camera_profile_compatible profile sensor \<longleftrightarrow>
     dget profile ''scope'' PNone = PStr ''portable''
     \<or> (let compatibility = dict_of (dget profile ''compatibility'' (PDict [])) in
        casefold (py_str (dget compatibility ''vendor'' (PStr ''''))) = casefold (py_str (dget sensor ''vendor'' (PStr '''')))
        \<and> casefold (py_str (dget compatibility ''model'' (PStr ''''))) = casefold (py_str (dget sensor ''model'' (PStr ''''))))"

definition resolve_camera_settings ::
  "pydict \<Rightarrow> profiles \<Rightarrow> string \<Rightarrow> pyval \<Rightarrow> pydict result" where
  "resolve_camera_settings defaults profiles name overrides =
     (case overrides of
        PDict o' \<Rightarrow>
          bindR (if name = '''' then Inr defaults
             else case map_of profiles name of
               None \<Rightarrow> Inl (profile_error (''unknown camera profile '' @ name))
             | Some p \<Rightarrow>
                 bindR (py_index (PDict p) ''settings'') (\<lambda>settings.
                 bindR (py_items settings) (\<lambda>values. Inr (merge_settings defaults values))))
            (\<lambda>result. Inr (merge_settings result o'))
      | _ \<Rightarrow> Inl (profile_error ''camera settings overrides must be a mapping''))"

subsection \<open>Merging, key by key\<close>

definition merge_value :: "pyval option \<Rightarrow> pyval \<Rightarrow> pyval" where
  "merge_value old value =
     (case (value, old) of
        (PDict inner, Some (PDict d)) \<Rightarrow> PDict (merge_settings d inner)
      | _ \<Rightarrow> value)"

lemma merge_settings_Cons [simp]:
  "merge_settings target ((key, value) # rest)
   = merge_settings (dset key (merge_value (map_of target key) value) target) rest"
proof -
  have "(case value of
            PDict inner \<Rightarrow>
              (case map_of target key of
                 Some (PDict old) \<Rightarrow> PDict (merge_settings old inner)
               | _ \<Rightarrow> value)
          | _ \<Rightarrow> value) = merge_value (map_of target key) value"
    by (cases "value"; cases "map_of target key") (auto simp: merge_value_def split: pyval.splits)
  then show ?thesis by (subst merge_settings.simps) simp
qed

declare merge_settings.simps(2) [simp del]

lemma merge_settings_lookup:
  "distinct (dkeys vs) \<Longrightarrow>
   map_of (merge_settings target vs) k
     = (case map_of vs k of None \<Rightarrow> map_of target k | Some v \<Rightarrow> Some (merge_value (map_of target k) v))"
proof (induction vs arbitrary: target)
  case (Cons p vs)
  obtain key v where p: "p = (key, v)" by (cases p)
  from Cons.prems p have "map_of vs key = None" by (simp add: map_of_eq_None_iff)
  with Cons p show ?case by (auto simp: map_of_dset split: option.splits)
qed simp

text \<open>Merging what is already there changes nothing.\<close>

lemma merge_settings_absorb:
  "(\<And>k v. (k, v) \<in> set vs \<Longrightarrow> \<exists>w. map_of target k = Some w \<and> merge_value (Some w) v = w) \<Longrightarrow>
   merge_settings target vs = target"
proof (induction vs)
  case (Cons p vs)
  obtain key v where p: "p = (key, v)" by (cases p)
  from Cons.prems [of key v] p obtain w where "map_of target key = Some w" "merge_value (Some w) v = w" by auto
  then have "dset key (merge_value (map_of target key) v) target = target" by (simp add: dset_triv)
  with Cons p show ?case by simp
qed simp

text \<open>Values whose mappings have distinct keys at every level, as YAML and JSON give them.\<close>

fun neat :: "pyval \<Rightarrow> bool" where
  "neat (PDict d) = (distinct (dkeys d) \<and> (\<forall>p \<in> set d. neat (snd p)))"
| "neat _ = True"

lemma merge_value_same: "neat v \<Longrightarrow> merge_value (Some v) v = v"
proof (induction v rule: neat.induct)
  case (1 d)
  have "merge_settings d d = d"
  proof (rule merge_settings_absorb)
    fix k v assume kv: "(k, v) \<in> set d"
    with 1 have "map_of d k = Some v" "merge_value (Some v) v = v" by fastforce+
    then show "\<exists>w. map_of d k = Some w \<and> merge_value (Some w) v = w" by blast
  qed
  then show ?case by (simp add: merge_value_def)
qed (simp_all add: merge_value_def)

lemma merge_value_idem: "neat v \<Longrightarrow> merge_value (Some (merge_value old v)) v = merge_value old v"
proof (induction v arbitrary: old rule: neat.induct)
  case (1 d)
  show ?case
  proof (cases "\<exists>o'. old = Some (PDict o')")
    case True
    then obtain o' where old: "old = Some (PDict o')" by blast
    have "merge_settings (merge_settings o' d) d = merge_settings o' d"
    proof (rule merge_settings_absorb)
      fix k v assume kv: "(k, v) \<in> set d"
      with 1 have "map_of d k = Some v" and idem: "merge_value (Some (merge_value x v)) v = merge_value x v" for x
        by fastforce+
      with 1 have "map_of (merge_settings o' d) k = Some (merge_value (map_of o' k) v)"
        by (simp add: merge_settings_lookup)
      with idem show "\<exists>w. map_of (merge_settings o' d) k = Some w \<and> merge_value (Some w) v = w" by blast
    qed
    then show ?thesis by (simp add: merge_value_def old)
  next
    case False
    then have "merge_value old (PDict d) = PDict d" by (auto simp: merge_value_def split: option.splits pyval.splits)
    with merge_value_same [OF 1(2)] show ?thesis by simp
  qed
qed (simp_all add: merge_value_def)

lemma merge_settings_idem:
  assumes "neat (PDict values)"
  shows "merge_settings (merge_settings target values) values = merge_settings target values"
proof (rule merge_settings_absorb)
  fix k v assume kv: "(k, v) \<in> set values"
  with assms have v: "map_of values k = Some v" "neat v" by fastforce+
  with assms have "map_of (merge_settings target values) k = Some (merge_value (map_of target k) v)"
    by (simp add: merge_settings_lookup)
  with merge_value_idem [OF v(2)]
  show "\<exists>w. map_of (merge_settings target values) k = Some w \<and> merge_value (Some w) v = w" by blast
qed

subsection \<open>Normal profiles\<close>

lemma dropWhile_hd: "xs = [] \<or> \<not> P (hd xs) \<Longrightarrow> dropWhile P xs = xs"
  by (cases xs) auto

lemma strip_where_fixed: "xs = [] \<or> \<not> P (hd xs) \<and> \<not> P (last xs) \<Longrightarrow> strip_where P xs = xs"
  by (auto simp: strip_where_def dropWhile_hd hd_rev)

lemma strip_where_ends: "strip_where P xs = [] \<or> \<not> P (hd (strip_where P xs)) \<and> \<not> P (last (strip_where P xs))"
proof (cases "strip_where P xs = []")
  case False
  let ?t = "dropWhile P xs"
  have d: "dropWhile P (rev ?t) \<noteq> []" using False by (simp add: strip_where_def)
  then have last: "\<not> P (last (strip_where P xs))"
    using hd_dropWhile [OF d] by (simp add: strip_where_def last_rev)
  have "?t \<noteq> []" using d by (metis dropWhile.simps(1) rev.simps(1))
  then have "\<not> P (hd ?t)" by (rule hd_dropWhile)
  moreover have "prefix (strip_where P xs) ?t"
    using suffix_dropWhile [of P "rev ?t"] by (simp add: strip_where_def suffix_to_prefix)
  then have "hd (strip_where P xs) = hd ?t"
    using False by (auto simp: prefix_def)
  ultimately show ?thesis using last by simp
qed simp

lemma strip_idem [simp]: "strip (strip s) = strip s"
  unfolding strip_def by (rule strip_where_fixed) (rule strip_where_ends)

lemma strip_Nil [simp]: "strip [] = []"
  by (simp add: strip_def strip_where_def)

lemma id_char_not_space: "is_id_char c \<Longrightarrow> \<not> is_space c"
  by (auto simp: is_id_char_def is_alnum_lower_def is_lower_def is_digit_def is_space_def code_def)

lemma strip_ros_safe: "ros_safe s \<Longrightarrow> strip s = s"
  unfolding strip_def
  by (rule strip_where_fixed)
     (auto simp: ros_safe_def list_all_iff intro: id_char_not_space [of "hd s"] dest: id_char_not_space)

text \<open>A profile as normalisation leaves it, and when it passes again.\<close>

definition normal_profile :: "string \<Rightarrow> string \<Rightarrow> string \<Rightarrow> string \<Rightarrow> string \<Rightarrow> pydict \<Rightarrow> string \<Rightarrow> string \<Rightarrow> pydict" where
  "normal_profile name description scope vendor model settings source path =
     [(''schema_version'', PInt 2), (''name'', PStr name), (''description'', PStr description),
      (''scope'', PStr scope), (''compatibility'', PDict [(''vendor'', PStr vendor), (''model'', PStr model)]),
      (''settings'', PDict settings), (''source'', PStr source), (''source_path'', PStr path)]"

definition complete_profile :: "pydict \<Rightarrow> bool" where
  "complete_profile p \<longleftrightarrow>
     dget p ''scope'' PNone = PStr ''portable''
     \<or> (let c = dict_of (dget p ''compatibility'' PNone) in
        dget c ''vendor'' PNone \<noteq> PStr '''' \<and> dget c ''model'' PNone \<noteq> PStr '''')"

lemma normalize_Inr:
  assumes "normalize_camera_profile v fallback source = Inr p"
  obtains name description scope vendor model settings path where
    "p = normal_profile name description scope vendor model settings source path"
    "ros_safe name" "scope = ''portable'' \<or> scope = ''model''"
    "strip vendor = vendor" "strip model = model"
    "scope = ''portable'' \<Longrightarrow> unsupported_settings settings = [] \<and> vendor = '''' \<and> model = ''''"
proof -
  from assms obtain "value" where v: "v = PDict value"
    by (auto simp: normalize_camera_profile_def split: pyval.splits)
  obtain version where version: "py_int (dget value ''schema_version'' (PInt 1)) = Inr version"
  proof (cases "py_int (dget value ''schema_version'' (PInt 1))")
    case (Inl e)
    with assms show ?thesis by (cases e) (simp_all add: normalize_camera_profile_def v)
  qed (rule that)
  define scope where "scope = lower (py_str (dget value ''scope'' (PStr (if version = 2 then ''portable'' else ''model''))))"
  define settings where "settings = dget value ''settings'' (PDict [])"
  define name where "name = strip_str (dget value ''name'' (PStr fallback))"
  define c where "c = (if truthy (dget value ''compatibility'' (PDict [])) then dget value ''compatibility'' (PDict []) else PDict [])"
  define descr where "descr = py_str (dget value ''description'' (PStr ''''))"
  define path where "path = py_str (dget value ''source_path'' (PStr ''''))"
  note folds = name_def [symmetric] settings_def [symmetric] scope_def [symmetric] descr_def [symmetric] path_def [symmetric]
  from assms [unfolded normalize_camera_profile_def v pyval.case version sum.case Let_def, folded c_def, unfolded folds]
  obtain vendor model where
    safe: "ros_safe name" and sc: "scope = ''portable'' \<or> scope = ''model''"
    and pc: "profile_compatibility version name scope (dict_of settings) (dict_of c) = Inr (vendor, model)"
    and p: "p = normal_profile name descr scope vendor model (dict_of settings) source path"
    by (auto simp: bindR_eq_Inr normal_profile_def split: if_splits)
  from pc have "strip vendor = vendor" "strip model = model"
    "scope = ''portable'' \<longrightarrow> unsupported_settings (dict_of settings) = [] \<and> vendor = '''' \<and> model = ''''"
    by (auto simp: profile_compatibility_def Let_def strip_str_def split: if_splits)
  with safe sc show thesis by (intro that [OF p]) auto
qed

lemma lower_scopes: "lower ''portable'' = ''portable''" "lower ''model'' = ''model''"
  by code_simp+

definition field_path :: "pydict \<Rightarrow> string" where
  "field_path d = py_str (dget d ''source_path'' (PStr ''''))"

lemma normalize_normal:
  assumes "ros_safe name" and "scope = ''portable'' \<or> scope = ''model''"
    and "strip vendor = vendor" and "strip model = model"
    and "scope = ''portable'' \<Longrightarrow> unsupported_settings settings = [] \<and> vendor = '''' \<and> model = ''''"
    and "scope = ''model'' \<Longrightarrow> vendor \<noteq> '''' \<and> model \<noteq> ''''"
    and "map_of d ''schema_version'' = Some (PInt 2)" and "map_of d ''name'' = Some (PStr name)"
    and "map_of d ''description'' = Some (PStr description)" and "map_of d ''scope'' = Some (PStr scope)"
    and "map_of d ''compatibility'' = Some (PDict [(''vendor'', PStr vendor), (''model'', PStr model)])"
    and "map_of d ''settings'' = Some (PDict settings)"
  shows "normalize_camera_profile (PDict d) fallback source
    = Inr (normal_profile name description scope vendor model settings source (field_path d))"
  using assms(2)
  by (elim disjE) (use assms(1,3-) in \<open>simp_all add: normalize_camera_profile_def Let_def strip_str_def strip_ros_safe lower_scopes
    profile_compatibility_def normal_profile_def field_path_def\<close>)

lemma normal_profile_lookup [simp]:
  "map_of (normal_profile n ds sc ve mo st so pa) ''schema_version'' = Some (PInt 2)"
  "map_of (normal_profile n ds sc ve mo st so pa) ''name'' = Some (PStr n)"
  "map_of (normal_profile n ds sc ve mo st so pa) ''description'' = Some (PStr ds)"
  "map_of (normal_profile n ds sc ve mo st so pa) ''scope'' = Some (PStr sc)"
  "map_of (normal_profile n ds sc ve mo st so pa) ''compatibility'' = Some (PDict [(''vendor'', PStr ve), (''model'', PStr mo)])"
  "map_of (normal_profile n ds sc ve mo st so pa) ''settings'' = Some (PDict st)"
  "map_of (normal_profile n ds sc ve mo st so pa) ''source'' = Some (PStr so)"
  "map_of (normal_profile n ds sc ve mo st so pa) ''source_path'' = Some (PStr pa)"
  by (simp_all add: normal_profile_def)

lemma complete_normal:
  "complete_profile (normal_profile n ds sc ve mo st so pa) \<longleftrightarrow> sc = ''portable'' \<or> ve \<noteq> '''' \<and> mo \<noteq> ''''"
  by (simp add: complete_profile_def Let_def)

text \<open>
  A complete profile passes again, from any document that has its fields, with the new
  source and the document's path.
\<close>

lemma normalize_again:
  assumes "normalize_camera_profile v fallback source = Inr p" and "complete_profile p"
    and "\<And>k. k \<notin> {''source'', ''source_path''} \<Longrightarrow> map_of d k = map_of p k"
  shows "normalize_camera_profile (PDict d) fallback' source'
    = Inr (dset ''source_path'' (PStr (field_path d)) (dset ''source'' (PStr source') p))"
proof -
  from assms(1) obtain name description scope vendor model settings path where
    p: "p = normal_profile name description scope vendor model settings source path"
    and n: "ros_safe name" "scope = ''portable'' \<or> scope = ''model''" "strip vendor = vendor" "strip model = model"
      "scope = ''portable'' \<Longrightarrow> unsupported_settings settings = [] \<and> vendor = '''' \<and> model = ''''"
    by (rule normalize_Inr) blast
  from assms(2) have c: "scope = ''model'' \<Longrightarrow> vendor \<noteq> '''' \<and> model \<noteq> ''''"
    by (auto simp: p complete_normal)
  have "normalize_camera_profile (PDict d) fallback' source'
      = Inr (normal_profile name description scope vendor model settings source' (field_path d))"
    by (rule normalize_normal) (use n c assms(3) in \<open>simp_all add: p\<close>)
  also have "normal_profile name description scope vendor model settings source' (field_path d)
      = dset ''source_path'' (PStr (field_path d)) (dset ''source'' (PStr source') p)"
    by (simp add: p normal_profile_def dset_def)
  finally show ?thesis .
qed

lemma normal_profile_name:
  assumes "normalize_camera_profile v fallback source = Inr p"
  shows "ros_safe (profile_name p)" and "map_of p ''source'' = Some (PStr source)"
    and "map_of p ''name'' = Some (PStr (profile_name p))"
  using assms by (rule normalize_Inr, simp add: profile_name_def)+

subsection \<open>What is loaded\<close>

definition sound_profiles :: "profiles \<Rightarrow> bool" where
  "sound_profiles ps \<longleftrightarrow>
     distinct (dkeys ps)
     \<and> (\<forall>(k, p) \<in> set ps. profile_name p = k \<and> ros_safe k
          \<and> map_of p ''source'' \<in> {Some (PStr ''admin''), Some (PStr ''managed'')})"

lemma dset_fresh: "\<not> dhas d k \<Longrightarrow> dset k v d = d @ [(k, v)]"
  by (induction d) (auto simp: dset_def dhas_def split: if_splits)

lemma add_profile_Inr:
  "add_profile p profiles = Inr ps \<longleftrightarrow> \<not> dhas profiles (profile_name p) \<and> ps = profiles @ [(profile_name p, p)]"
  by (auto simp: add_profile_def dset_fresh)

lemma sound_profiles_snoc:
  "sound_profiles ps \<Longrightarrow> \<not> dhas ps (profile_name p) \<Longrightarrow> ros_safe (profile_name p) \<Longrightarrow>
   map_of p ''source'' \<in> {Some (PStr ''admin''), Some (PStr ''managed'')} \<Longrightarrow>
   sound_profiles (ps @ [(profile_name p, p)])"
  by (auto simp: sound_profiles_def dhas_iff)

lemma load_admin_sound:
  "load_admin load files ps = Inr ps' \<Longrightarrow> sound_profiles ps \<Longrightarrow>
   sound_profiles ps' \<and> (\<exists>new. ps' = ps @ new \<and> (\<forall>(k, p) \<in> set new. map_of p ''source'' = Some (PStr ''admin'')))"
proof (induction load files ps arbitrary: ps' rule: load_admin.induct)
  case (2 load path stem content files ps)
  from 2(2) obtain v p where v: "read_profile load (''cannot load camera profile '' @ path) content = Inr v"
    and p: "normalize_camera_profile v stem ''admin'' = Inr p"
    and fresh: "\<not> dhas ps (profile_name (dset ''source_path'' (PStr path) p))"
    and rest: "load_admin load files (ps @ [(profile_name (dset ''source_path'' (PStr path) p), dset ''source_path'' (PStr path) p)]) = Inr ps'"
    by (auto simp: bindR_eq_Inr add_profile_Inr)
  let ?p = "dset ''source_path'' (PStr path) p"
  have q1: "profile_name ?p = profile_name p" by (simp add: profile_name_def dget_dset)
  have q2: "map_of ?p ''source'' = Some (PStr ''admin'')" using normal_profile_name(2) [OF p] by simp
  note q = q1 q2
  have s: "sound_profiles (ps @ [(profile_name ?p, ?p)])"
    by (rule sound_profiles_snoc) (use 2(3) fresh q normal_profile_name(1) [OF p] in simp_all)
  from 2(1) [OF v p _ rest s] fresh q show ?case by (auto simp: add_profile_Inr)
qed simp

lemma load_values_sound:
  "load_values vs ps = Inr ps' \<Longrightarrow> sound_profiles ps \<Longrightarrow>
   sound_profiles ps' \<and> (\<exists>new. ps' = ps @ new \<and> (\<forall>(k, p) \<in> set new. map_of p ''source'' = Some (PStr ''managed'')))"
proof (induction vs ps arbitrary: ps' rule: load_values.induct)
  case (2 key v vs ps)
  from 2(2) obtain p where p: "normalize_camera_profile v key ''managed'' = Inr p" and k: "profile_name p = key"
    and fresh: "\<not> dhas ps (profile_name p)" and rest: "load_values vs (ps @ [(profile_name p, p)]) = Inr ps'"
    by (auto simp: bindR_eq_Inr add_profile_Inr split: if_splits)
  note q = normal_profile_name [OF p]
  have s: "sound_profiles (ps @ [(profile_name p, p)])"
    by (rule sound_profiles_snoc) (use 2(3) fresh q in simp_all)
  from 2(1) [OF p _ _ rest s] fresh k q show ?case by (auto simp: add_profile_Inr)
qed simp

subsection \<open>Saving and loading again\<close>

definition settled :: "string \<Rightarrow> pydict \<Rightarrow> bool" where
  "settled k p \<longleftrightarrow>
     (\<exists>v. normalize_camera_profile v k ''managed'' = Inr p) \<and> profile_name p = k
     \<and> complete_profile p \<and> map_of p ''source_path'' = Some (PStr '''')"

lemma settled_normalize:
  assumes "settled k p" and "\<And>k. k \<notin> {''source'', ''source_path''} \<Longrightarrow> map_of d k = map_of p k"
    and "field_path d = ''''"
  shows "normalize_camera_profile (PDict d) fallback ''managed'' = Inr p"
proof -
  from assms(1) obtain v where v: "normalize_camera_profile v k ''managed'' = Inr p"
    and c: "complete_profile p" and sp: "map_of p ''source_path'' = Some (PStr '''')"
    by (auto simp: settled_def)
  from normalize_again [OF v c assms(2), of fallback "''managed''"]
  have "normalize_camera_profile (PDict d) fallback ''managed''
      = Inr (dset ''source_path'' (PStr '''') (dset ''source'' (PStr ''managed'') p))"
    by (simp add: assms(3))
  also have "dset ''source'' (PStr ''managed'') p = p"
    by (rule dset_triv) (rule normal_profile_name(2) [OF v])
  also have "dset ''source_path'' (PStr '''') p = p" by (rule dset_triv) (rule sp)
  finally show ?thesis .
qed

abbreviation stored :: "pydict \<Rightarrow> pydict" where
  "stored p \<equiv> dpop ''source_path'' (dpop ''source'' p)"

lemma managed_values_settled:
  "(\<And>k p. (k, p) \<in> set ps \<Longrightarrow> is_managed p \<Longrightarrow> settled k p) \<Longrightarrow>
   managed_values ps = Inr (map (\<lambda>(k, p). (k, PDict (stored p))) (filter (\<lambda>(k, p). is_managed p) ps))"
proof (induction ps)
  case (Cons q ps)
  obtain k p where q: "q = (k, p)" by (cases q)
  have "normalize_camera_profile (PDict p) k ''managed'' = Inr p" if "is_managed p"
  proof (rule settled_normalize)
    show "settled k p" using Cons.prems [of k p] q that by simp
    then show "field_path p = ''''" by (simp add: settled_def field_path_def)
  qed simp
  with Cons q show ?case by auto
qed simp

lemma load_values_settled:
  "(\<And>k p. (k, p) \<in> set ps \<Longrightarrow> settled k p) \<Longrightarrow> distinct (dkeys (acc @ ps)) \<Longrightarrow>
   load_values (map (\<lambda>(k, p). (k, PDict (stored p))) ps) acc = Inr (acc @ ps)"
proof (induction ps arbitrary: acc)
  case (Cons q ps)
  obtain k p where q: "q = (k, p)" by (cases q)
  have s: "settled k p" using Cons.prems(1) [of k p] q by simp
  have n: "normalize_camera_profile (PDict (stored p)) k ''managed'' = Inr p"
    by (rule settled_normalize [OF s]) (simp_all add: map_of_dpop field_path_def)
  have k: "profile_name p = k" using s by (simp add: settled_def)
  have "\<not> dhas acc k" using Cons.prems(2) q by (simp add: dhas_iff)
  moreover have "load_values (map (\<lambda>(k, p). (k, PDict (stored p))) ps) (acc @ [(k, p)]) = Inr ((acc @ [(k, p)]) @ ps)"
    by (rule Cons.IH) (use Cons.prems q in auto)
  ultimately show ?case using n k by (simp add: q add_profile_def dset_fresh)
qed simp

lemma save_then_load:
  assumes "\<And>k p. (k, p) \<in> set profiles \<Longrightarrow> is_managed p \<Longrightarrow> settled k p"
    and "distinct (dkeys profiles)" and "fe_fault fs = (\<lambda>_. None)"
    and "\<And>vs. load (dump (managed_document vs)) = Inr (PDict (managed_document vs))"
  shows "\<exists>d'. save_managed_camera_profiles fs dump profiles d = (Inr (), d')
    \<and> (\<exists>content. dk_file d' = Some content \<and>
         load_managed load content [] = Inr (filter (\<lambda>(k, p). is_managed p) (sort_key fst profiles)))"
proof -
  let ?ps = "filter (\<lambda>(k, p). is_managed p) (sort_key fst profiles)"
  let ?vs = "map (\<lambda>(k, p). (k, PDict (stored p))) ?ps"
  have vs: "managed_values (sort_key fst profiles) = Inr ?vs"
    by (rule managed_values_settled) (use assms(1) in auto)
  have keys: "distinct (dkeys (sort_key fst profiles))"
    using assms(2) by (simp add: distinct_map)
  then have "distinct (dkeys ?ps)" by (rule distinct_map_filter)
  then have "load_values ?vs [] = Inr ?ps"
    using load_values_settled [of ?ps "[]"] assms(1) by auto
  with vs assms(3,4) show ?thesis
    by (simp add: save_managed_camera_profiles_def load_managed_def read_profile_def managed_document_def)
qed

subsection \<open>Properties\<close>

lemma load_managed_values:
  assumes "load_managed load content profiles = Inr ps"
  obtains vs where "load_values vs profiles = Inr ps"
proof -
  from assms obtain document where doc: "(case document of
       PDict d \<Rightarrow>
         (case dget d ''profiles'' (PDict []) of
            PDict values \<Rightarrow> load_values values profiles
          | _ \<Rightarrow> Inl (profile_error ''managed camera profiles must contain a profiles mapping''))
     | _ \<Rightarrow> Inl (profile_error ''managed camera profiles document must be a mapping'')) = Inr ps"
    unfolding load_managed_def bindR_eq_Inr by blast
  then show thesis by (cases document) (auto split: pyval.split_asm intro: that)
qed

lemma resolve_Inr:
  assumes "resolve_camera_settings defaults ps name (PDict overrides) = Inr r"
  obtains base where "r = merge_settings base overrides" "name = '''' \<longrightarrow> base = defaults"
    "name \<noteq> '''' \<longrightarrow> (\<exists>p settings. map_of ps name = Some p \<and> map_of p ''settings'' = Some (PDict settings)
          \<and> base = merge_settings defaults settings)"
proof -
  have items: "py_items v = Inr d \<longleftrightarrow> v = PDict d" for v d by (cases v) auto
  show thesis
  proof (cases "name = ''''")
    case True
    with assms show thesis by (auto simp: resolve_camera_settings_def intro: that)
  next
    case False
    with assms that show thesis
      by (auto simp: resolve_camera_settings_def bindR_eq_Inr or_raise_eq_Inr items split: option.splits)
  qed
qed

text \<open>C11: In the resolved settings of a camera an override wins over the profile and the profile over
  the defaults, key by key: a key the overrides do not mention has the value of the profile
  merged into the defaults, a scalar override is taken as it is, and a nested mapping is
  merged into what was there. Applying the same overrides once more changes nothing.\<close>

theorem resolve_precedence:
  assumes "resolve_camera_settings defaults ps name (PDict overrides) = Inr r"
    and "neat (PDict overrides)"
    and "\<And>p. map_of ps name = Some p \<Longrightarrow> neat (PDict (dict_of (dget p ''settings'' PNone)))"
  shows "\<exists>base.
    (\<forall>k. map_of r k = (case map_of overrides k of
        None \<Rightarrow> map_of base k | Some v \<Rightarrow> Some (merge_value (map_of base k) v)))
    \<and> (name = '''' \<longrightarrow> base = defaults)
    \<and> (name \<noteq> '''' \<longrightarrow> (\<exists>p settings. map_of ps name = Some p \<and> map_of p ''settings'' = Some (PDict settings)
        \<and> (\<forall>k. map_of base k = (case map_of settings k of
             None \<Rightarrow> map_of defaults k | Some v \<Rightarrow> Some (merge_value (map_of defaults k) v)))))
    \<and> merge_settings r overrides = r"
proof -
  from assms(1) obtain base where r: "r = merge_settings base overrides" and none: "name = '''' \<longrightarrow> base = defaults"
    and some: "name \<noteq> '''' \<longrightarrow> (\<exists>p settings. map_of ps name = Some p \<and> map_of p ''settings'' = Some (PDict settings)
          \<and> base = merge_settings defaults settings)"
    by (rule resolve_Inr)
  have d: "distinct (dkeys overrides)" using assms(2) by simp
  have profile: "\<exists>p settings. map_of ps name = Some p \<and> map_of p ''settings'' = Some (PDict settings)
        \<and> (\<forall>k. map_of base k = (case map_of settings k of
             None \<Rightarrow> map_of defaults k | Some v \<Rightarrow> Some (merge_value (map_of defaults k) v)))" if ne: "name \<noteq> ''''"
  proof -
    from some ne obtain p settings where p: "map_of ps name = Some p" and st: "map_of p ''settings'' = Some (PDict settings)"
      and b: "base = merge_settings defaults settings" by blast
    from assms(3) [OF p] st have "distinct (dkeys settings)" by simp
    then show ?thesis using p st by (intro exI conjI allI) (simp_all add: b merge_settings_lookup)
  qed
  have "merge_settings r overrides = r" unfolding r by (rule merge_settings_idem [OF assms(2)])
  then show ?thesis
    using none profile by (intro exI [of _ base]) (simp add: r merge_settings_lookup [OF d])
qed

text \<open>Loading gives a profile under each name at most once, named by a ROS-safe identifier and
  marked by where it came from, and the managed file can only add profiles: every profile of
  the administrator's directory is there exactly as it was loaded.\<close>

theorem load_profiles_sound:
  assumes "load_camera_profiles load dir (Some content) = Inr ps"
  shows "sound_profiles ps \<and> (\<exists>admin new. load_camera_profiles load dir None = Inr admin \<and> ps = admin @ new
    \<and> (\<forall>(k, p) \<in> set admin. map_of p ''source'' = Some (PStr ''admin''))
    \<and> (\<forall>(k, p) \<in> set new. map_of p ''source'' = Some (PStr ''managed'')))"
proof -
  define files where "files = (case dir of Directory fs \<Rightarrow> sort_key fst fs | _ \<Rightarrow> [])"
  from assms obtain admin where a: "load_admin load files [] = Inr admin" "load_managed load content admin = Inr ps"
    and none: "load_camera_profiles load dir None = Inr admin"
    by (auto simp: load_camera_profiles_def files_def bindR_eq_Inr split: directory.splits)
  from a(2) obtain vs where v: "load_values vs admin = Inr ps" by (rule load_managed_values)
  from load_admin_sound [OF a(1)] have s: "sound_profiles admin"
    and src: "\<forall>(k, p) \<in> set admin. map_of p ''source'' = Some (PStr ''admin'')"
    by (auto simp: sound_profiles_def)
  from load_values_sound [OF v s] src none show ?thesis by blast
qed


definition demo_profile :: pydict where
  "demo_profile = normal_profile ''indoor'' '''' ''portable'' '''' '''' [(''gain_db'', PInt 3)] ''managed'' ''''"

lemma demo_profile_normal:
  "normalize_camera_profile (PDict [(''schema_version'', PInt 2), (''name'', PStr ''indoor''),
     (''settings'', PDict [(''gain_db'', PInt 3)])]) ''indoor'' ''managed'' = Inr demo_profile"
  by code_simp

lemma demo_profile_settled: "settled ''indoor'' demo_profile"
  using demo_profile_normal
  by (auto simp: settled_def demo_profile_def complete_normal profile_name_def)


theorem resolve_precedence_witness:
  "merge_settings [(''gain_db'', PInt 3), (''width'', PInt 640)] [(''width'', PInt 640)]
    = [(''gain_db'', PInt 3), (''width'', PInt 640)]"
proof -
  have "resolve_camera_settings [(''gain_db'', PInt 0)] [(''indoor'', demo_profile)] ''indoor'' (PDict [(''width'', PInt 640)])
      = Inr [(''gain_db'', PInt 3), (''width'', PInt 640)]"
    by code_simp
  from resolve_precedence [OF this] show ?thesis
    by (simp add: demo_profile_def split: if_splits)
qed

theorem load_profiles_sound_witness:
  "sound_profiles [(''indoor'', demo_profile)]"
proof -
  have "load_camera_profiles (\<lambda>d. Inr (PDict d)) No_directory (Some (managed_document [(''indoor'', PDict (stored demo_profile))]))
      = Inr [(''indoor'', demo_profile)]"
    by code_simp
  from load_profiles_sound [OF this] show ?thesis by blast
qed

definition old_profile :: pydict where
  "old_profile = normal_profile ''outdoor'' '''' ''model'' '''' '''' [] ''managed'' ''''"

text \<open>A managed profile of schema 1 without compatibility loads (its scope defaults to
  \<^verbatim>\<open>model\<close>), but the set of profiles that contains it can no longer be saved: the save
  normalises it as schema 2, which requires the compatibility it never had.
\<close>

theorem schema1_profile_blocks_saving:
  "load_camera_profiles (\<lambda>d. Inr (PDict d)) No_directory
      (Some [(''profiles'', PDict [(''outdoor'', PDict [(''settings'', PDict [])])])]) = Inr [(''outdoor'', old_profile)]
   \<and> fst (save_managed_camera_profiles \<lparr>fe_torn = [], fe_fault = (\<lambda>_. None)\<rparr> (\<lambda>d. d)
        [(''indoor'', demo_profile), (''outdoor'', old_profile)] \<lparr>dk_file = None, dk_backup = None, dk_temp = None\<rparr>)
     = Inl (CameraProfileError ''model camera profile outdoor requires compatibility.vendor and compatibility.model'')"
  by (intro conjI) (code_simp, code_simp)

end
