(* ===== verification/Port_Status.thy ===== *)
theory Port_Status
  imports Py_Value "HOL-Library.List_Lexorder"
begin

section \<open>The state of the managed ports\<close>

text \<open>
  \<^verbatim>\<open>port_status.py\<close>: the monitor reads the addresses of the interfaces (\<^verbatim>\<open>ip -j addr\<close>), the
  NetworkManager profiles (\<^verbatim>\<open>nmcli\<close>) and sysfs, and keeps a versioned table of statuses.

  Parameters: what the commands print or raise and what sysfs holds at one refresh (text
  that decodes; \<^verbatim>\<open>json.loads\<close> has been applied to the output of \<^verbatim>\<open>ip\<close>). The thread is a
  sequence of refreshes; the lock makes the update of the table atomic.
\<close>

record port_status =
  ps_present :: bool
  ps_mac :: string
  ps_link_up :: bool
  ps_addresses :: "string list"
  ps_profile :: bool
  ps_error :: string
  ps_updated :: rat

definition no_status :: port_status where
  "no_status = \<lparr>ps_present = False, ps_mac = '''', ps_link_up = False, ps_addresses = [],
     ps_profile = False, ps_error = '''', ps_updated = 0\<rparr>"

record port_config =
  pc_interface :: string
  pc_host_cidr :: string

record monitor =
  pm_networks :: "port_config dict"
  pm_fast :: rat
  pm_profile_period :: rat
  pm_version :: int
  pm_statuses :: "port_status dict"
  pm_addresses :: "string list dict"
  pm_profiles :: "bool dict"
  pm_profile_errors :: "string dict"
  pm_next_profile :: rat

text \<open>
  How a command ends: its output, a failing exit code, another failure of the subprocess
  (time-out, not found), or output that does not decode. The text is what \<open>str(error)\<close>
  gives.
\<close>

datatype probe = Printed string | Exited string | Failed string

record host =
  ho_addr :: "pyval option \<times> string"
  ho_profile :: "string \<Rightarrow> probe"
  ho_present :: "string \<Rightarrow> bool"
  ho_mac :: "string \<Rightarrow> string + string"
  ho_carrier :: "string \<Rightarrow> string + string"
  ho_crash :: string

definition new_monitor :: "pydict \<Rightarrow> rat \<Rightarrow> rat \<Rightarrow> monitor result" where
  "new_monitor networks fast profile =
     bindR (map_items (\<lambda>s nid network.
         bindR (py_index network ''interface'') (\<lambda>i.
         bindR (py_index network ''host_cidr'') (\<lambda>c.
         Inr (\<lparr>pc_interface = py_str i, pc_host_cidr = py_str c\<rparr>, s)))) () networks) (\<lambda>nets.
     (let fast_refresh = max fast (1/10) in
      Inr \<lparr>pm_networks = nets, pm_fast = fast_refresh, pm_profile_period = max profile fast_refresh,
        pm_version = 0, pm_statuses = [], pm_addresses = [], pm_profiles = [],
        pm_profile_errors = [], pm_next_profile = 0\<rparr>))"

subsection \<open>Reading the host\<close>

text \<open>
  \<open>_parse_ip_addresses\<close> on the decoded JSON; the elements without an address family are
  taken when their address contains a dot.
\<close>

definition address_text :: "pyval \<Rightarrow> string option result" where
  "address_text entry =
     bindR (py_get entry ''family'' PNone) (\<lambda>family.
     bindR (py_get entry ''local'' (PStr '''')) (\<lambda>l.
     if family = PStr ''inet'' \<or> CHR ''.'' \<in> set (py_str l) then
       bindR (py_index entry ''local'') (\<lambda>loc.
       bindR (py_index entry ''prefixlen'') (\<lambda>prefix.
       Inr (Some (py_str loc @ ''/'' @ py_str prefix))))
     else Inr None))"

definition interface_addresses :: "pyval \<Rightarrow> (string \<times> string list) result" where
  "interface_addresses interface =
     bindR (py_index interface ''ifname'') (\<lambda>name.
     bindR (py_get interface ''addr_info'' (PList [])) (\<lambda>info.
     bindR (py_list info) (\<lambda>entries.
     bindR (mapR address_text entries) (\<lambda>texts.
     Inr (py_str name, sort (remdups (map the (filter (\<lambda>t. t \<noteq> None) texts))))))))"

definition parse_ip_addresses :: "pyval \<Rightarrow> string list dict result" where
  "parse_ip_addresses v =
     bindR (py_list v) (\<lambda>interfaces.
     bindR (mapR interface_addresses interfaces) (\<lambda>pairs.
     Inr (foldl (\<lambda>d (k, a). dset k a d) [] pairs)))"

text \<open>
  The first probe: the old addresses stay when the command fails or prints something else
  (an \<open>AttributeError\<close> is not among the exceptions that are caught).
\<close>

definition refresh_addresses :: "host \<Rightarrow> monitor \<Rightarrow> (string \<times> monitor) result" where
  "refresh_addresses h m =
     (case ho_addr h of
        (None, message) \<Rightarrow> Inr (''IP status probe failed: '' @ message, m)
      | (Some v, message) \<Rightarrow>
          (case parse_ip_addresses v of
             Inr a \<Rightarrow> Inr ('''', m\<lparr>pm_addresses := a\<rparr>)
           | Inl AttrErr \<Rightarrow> Inl AttrErr
           | Inl e \<Rightarrow> Inr (''IP status probe failed: '' @ message, m)))"

text \<open>
  \<open>str.splitlines\<close>, up to empty lines: the breaks of an 8-bit string.
\<close>

definition is_line_break :: "char \<Rightarrow> bool" where
  "is_line_break c \<longleftrightarrow> code c \<in> {10, 11, 12, 13, 28, 29, 30, 133}"

definition lines_of :: "string \<Rightarrow> string list" where
  "lines_of s = split_on (CHR 0x0A) (map (\<lambda>c. if is_line_break c then CHR 0x0A else c) s)"

definition configured_addresses :: "string \<Rightarrow> string list" where
  "configured_addresses output =
     filter (\<lambda>v. v \<noteq> '''') (map strip (concat (map (split_on (CHR '','')) (lines_of output))))"

definition refresh_profile :: "host \<Rightarrow> monitor \<Rightarrow> string \<times> port_config \<Rightarrow> monitor" where
  "refresh_profile h m p =
     (case p of (nid, network) \<Rightarrow>
       (case ho_profile h nid of
          Printed output \<Rightarrow>
            m\<lparr>pm_profiles := dset nid (pc_host_cidr network \<in> set (configured_addresses output)) (pm_profiles m),
              pm_profile_errors := dpop nid (pm_profile_errors m)\<rparr>
        | Exited message \<Rightarrow>
            m\<lparr>pm_profiles := dset nid False (pm_profiles m),
              pm_profile_errors := dset nid (''NetworkManager profile probe failed: '' @ message) (pm_profile_errors m)\<rparr>
        | Failed message \<Rightarrow>
            m\<lparr>pm_profile_errors := dset nid (''NetworkManager profile probe failed: '' @ message) (pm_profile_errors m)\<rparr>))"

definition refresh_profiles :: "host \<Rightarrow> monitor \<Rightarrow> monitor" where
  "refresh_profiles h m = foldl (refresh_profile h) m (pm_networks m)"

subsection \<open>One refresh\<close>

definition port_probe :: "host \<Rightarrow> rat \<Rightarrow> string \<Rightarrow> monitor \<Rightarrow> string \<Rightarrow> port_config \<Rightarrow> port_status" where
  "port_probe h now ip_error m nid network =
     (let interface = pc_interface network;
          present = ho_present h interface;
          mac = (if present then ho_mac h interface else Inr '''');
          carrier = (if present then ho_carrier h interface else Inr '''');
          errors = filter (\<lambda>e. e \<noteq> '''') [ip_error, dget (pm_profile_errors m) nid '''']
            @ (case mac of Inl e \<Rightarrow> [''Cannot read '' @ interface @ '' MAC: '' @ e] | Inr _ \<Rightarrow> [])
            @ (case carrier of Inl e \<Rightarrow> [''Cannot read '' @ interface @ '' carrier: '' @ e] | Inr _ \<Rightarrow> [])
      in \<lparr>ps_present = present,
          ps_mac = (case mac of Inr s \<Rightarrow> lower (strip s) | Inl _ \<Rightarrow> ''''),
          ps_link_up = (case carrier of Inr s \<Rightarrow> strip s = ''1'' | Inl _ \<Rightarrow> False),
          ps_addresses = dget (pm_addresses m) interface [],
          ps_profile = dget (pm_profiles m) nid False,
          ps_error = join ''; '' errors,
          ps_updated = now\<rparr>)"

text \<open>What a change of the table is: everything but the time of the refresh.\<close>

definition observable_status :: "port_status \<Rightarrow> port_status" where
  "observable_status s = s\<lparr>ps_updated := 0\<rparr>"

definition observable :: "port_status dict \<Rightarrow> port_status dict" where
  "observable statuses = map (\<lambda>(k, s). (k, observable_status s)) statuses"

definition same_dict :: "'v dict \<Rightarrow> 'v dict \<Rightarrow> bool" where
  "same_dict a b \<longleftrightarrow> set (dkeys a) = set (dkeys b) \<and> list_all (\<lambda>k. map_of a k = map_of b k) (dkeys a)"

definition install :: "port_status dict \<Rightarrow> monitor \<Rightarrow> monitor" where
  "install statuses m =
     m\<lparr>pm_statuses := statuses,
       pm_version := pm_version m
         + (if same_dict (observable statuses) (observable (pm_statuses m)) then 0 else 1)\<rparr>"

definition refresh_once :: "host \<Rightarrow> rat \<Rightarrow> monitor \<Rightarrow> monitor result" where
  "refresh_once h now m =
     bindR (refresh_addresses h m) (\<lambda>(ip_error, m1).
     (let m2 = (if pm_next_profile m1 \<le> now
                then (refresh_profiles h m1)\<lparr>pm_next_profile := now + pm_profile_period m1\<rparr> else m1)
      in Inr (install (map (\<lambda>(nid, network). (nid, port_probe h now ip_error m2 nid network)) (pm_networks m2)) m2)))"

text \<open>
  One round of the thread. An exception no probe expects replaces every status by a
  failed one; the monitor goes on.
\<close>

definition failed_status :: "string \<Rightarrow> rat \<Rightarrow> port_status" where
  "failed_status message now =
     no_status\<lparr>ps_error := ''Port status monitor failed: '' @ message, ps_updated := now\<rparr>"

definition monitor_round :: "host \<Rightarrow> rat \<Rightarrow> monitor \<Rightarrow> monitor" where
  "monitor_round h now m =
     (case refresh_once h now m of
        Inr m' \<Rightarrow> m'
      | Inl e \<Rightarrow> install (map (\<lambda>(nid, network). (nid, failed_status (ho_crash h) now)) (pm_networks m)) m)"

definition monitor_snapshot :: "monitor \<Rightarrow> int \<times> port_status dict" where
  "monitor_snapshot m = (pm_version m, pm_statuses m)"

subsection \<open>Refreshes change the table and its version together\<close>

lemma install_frame [simp]:
  "pm_networks (install st m) = pm_networks m" "pm_statuses (install st m) = st"
  by (simp_all add: install_def)

lemma refresh_profile_frame [simp]:
  "pm_networks (refresh_profile h m p) = pm_networks m"
  "pm_statuses (refresh_profile h m p) = pm_statuses m"
  "pm_version (refresh_profile h m p) = pm_version m"
  "pm_addresses (refresh_profile h m p) = pm_addresses m"
  by (simp_all add: refresh_profile_def split: prod.split probe.split)

lemma refresh_profiles_fold [simp]:
  "pm_networks (foldl (refresh_profile h) m ps) = pm_networks m"
  "pm_statuses (foldl (refresh_profile h) m ps) = pm_statuses m"
  "pm_version (foldl (refresh_profile h) m ps) = pm_version m"
  "pm_addresses (foldl (refresh_profile h) m ps) = pm_addresses m"
  by (induction ps arbitrary: m) simp_all

lemma refresh_addresses_frame:
  assumes "refresh_addresses h m = Inr (e, m')"
  shows "pm_networks m' = pm_networks m \<and> pm_statuses m' = pm_statuses m \<and> pm_version m' = pm_version m
    \<and> pm_profiles m' = pm_profiles m \<and> pm_next_profile m' = pm_next_profile m"
  using assms by (auto simp: refresh_addresses_def split: prod.splits option.splits sum.splits py_exn.splits)

text \<open>Every round installs one status for each configured port, on a state that agrees with the old one.\<close>

lemma round_installs:
  "\<exists>m1 f. monitor_round h now m = install (map (\<lambda>(nid, network). (nid, f nid network)) (pm_networks m)) m1
    \<and> pm_networks m1 = pm_networks m \<and> pm_statuses m1 = pm_statuses m \<and> pm_version m1 = pm_version m"
proof (cases "refresh_once h now m")
  case (Inl e)
  then show ?thesis by (auto simp: monitor_round_def intro!: exI [of _ m] exI [of _ "\<lambda>_ _. failed_status (ho_crash h) now"])
next
  case (Inr m')
  then obtain ip m1 where a: "refresh_addresses h m = Inr (ip, m1)"
    unfolding refresh_once_def bindR_eq_Inr by (auto split: prod.splits)
  let ?m2 = "if pm_next_profile m1 \<le> now
    then (refresh_profiles h m1)\<lparr>pm_next_profile := now + pm_profile_period m1\<rparr> else m1"
  have m2: "pm_networks ?m2 = pm_networks m \<and> pm_statuses ?m2 = pm_statuses m \<and> pm_version ?m2 = pm_version m"
    using refresh_addresses_frame [OF a] by (simp add: refresh_profiles_def)
  have "monitor_round h now m
      = install (map (\<lambda>(nid, network). (nid, port_probe h now ip ?m2 nid network)) (pm_networks ?m2)) ?m2"
    unfolding monitor_round_def refresh_once_def a by (simp add: bindR_def Let_def)
  with m2 show ?thesis
    by (intro exI [of _ ?m2] exI [of _ "port_probe h now ip ?m2"]) simp
qed

lemma round_keys: "dkeys (pm_statuses (monitor_round h now m)) = dkeys (pm_networks m)"
  and round_networks: "pm_networks (monitor_round h now m) = pm_networks m"
proof -
  obtain m1 f where "monitor_round h now m = install (map (\<lambda>(nid, network). (nid, f nid network)) (pm_networks m)) m1"
    "pm_networks m1 = pm_networks m" using round_installs by blast
  then show "dkeys (pm_statuses (monitor_round h now m)) = dkeys (pm_networks m)"
    "pm_networks (monitor_round h now m) = pm_networks m"
    by (simp_all add: comp_def case_prod_beta)
qed

text \<open>Equality of tables as Python compares dictionaries.\<close>

definition same_ports :: "port_status dict \<Rightarrow> port_status dict \<Rightarrow> bool" where
  "same_ports a b \<longleftrightarrow> same_dict (observable a) (observable b)"

lemma same_dict_iff: "same_dict a b \<longleftrightarrow> map_of a = map_of b"
proof
  assume same: "same_dict a b"
  show "map_of a = map_of b"
  proof
    fix k
    show "map_of a k = map_of b k"
    proof (cases "k \<in> set (dkeys a)")
      case True
      with same show ?thesis unfolding same_dict_def list_all_iff by (elim conjE) (rule bspec)
    next
      case False
      with same have "k \<notin> set (dkeys b)" by (simp add: same_dict_def)
      with False show ?thesis by (simp add: map_of_eq_None_iff [THEN iffD2])
    qed
  qed
next
  assume eq: "map_of a = map_of b"
  then have "set (dkeys a) = set (dkeys b)" by (metis dom_map_of_conv_image_fst set_map)
  with eq show "same_dict a b" by (simp add: same_dict_def list_all_iff)
qed

lemma same_ports_refl [simp]: "same_ports a a"
  and same_ports_trans: "same_ports a b \<Longrightarrow> same_ports b c \<Longrightarrow> same_ports a c"
  and same_ports_sym: "same_ports a b \<Longrightarrow> same_ports b a"
  by (simp_all add: same_ports_def same_dict_iff)

lemma round_version:
  "pm_version (monitor_round h now m) = pm_version m
     + (if same_ports (pm_statuses (monitor_round h now m)) (pm_statuses m) then 0 else 1)"
proof -
  obtain m1 f where r: "monitor_round h now m = install (map (\<lambda>(nid, network). (nid, f nid network)) (pm_networks m)) m1"
    and "pm_statuses m1 = pm_statuses m" "pm_version m1 = pm_version m" using round_installs by blast
  then show ?thesis unfolding r by (simp add: install_def same_ports_def)
qed

fun monitor_run :: "(host \<times> rat) list \<Rightarrow> monitor \<Rightarrow> monitor" where
  "monitor_run [] m = m"
| "monitor_run ((h, now) # rounds) m = monitor_run rounds (monitor_round h now m)"

lemma run_version_mono: "pm_version m \<le> pm_version (monitor_run rounds m)"
proof (induction rounds m rule: monitor_run.induct)
  case (2 h now rounds m)
  then show ?case using round_version [of h now m] by (simp split: if_splits)
qed simp

lemma run_keys: "rounds = [] \<or> dkeys (pm_statuses (monitor_run rounds m)) = dkeys (pm_networks m)"
proof (induction rounds m rule: monitor_run.induct)
  case (2 h now rounds m)
  then show ?case by (cases rounds) (auto simp: round_keys round_networks)
qed simp

lemma run_unchanged:
  "pm_version (monitor_run rounds m) = pm_version m \<Longrightarrow>
   same_ports (pm_statuses (monitor_run rounds m)) (pm_statuses m)"
proof (induction rounds m rule: monitor_run.induct)
  case (2 h now rounds m)
  let ?m = "monitor_round h now m"
  have "pm_version ?m \<le> pm_version (monitor_run rounds ?m)" by (rule run_version_mono)
  with 2(2) round_version [of h now m] have same: "same_ports (pm_statuses ?m) (pm_statuses m)"
    and "pm_version ?m = pm_version m" by (auto split: if_splits)
  with 2 have "same_ports (pm_statuses (monitor_run rounds ?m)) (pm_statuses ?m)" by simp
  with same show ?case by (auto intro: same_ports_trans)
qed simp

text \<open>The fold over the configured ports touches each of them once.\<close>

lemma refresh_profile_lookup:
  "map_of (pm_profiles (refresh_profile h m (k, network))) nid =
     (if nid = k then (case ho_profile h k of
        Printed output \<Rightarrow> Some (pc_host_cidr network \<in> set (configured_addresses output))
      | Exited message \<Rightarrow> Some False
      | Failed message \<Rightarrow> map_of (pm_profiles m) nid)
      else map_of (pm_profiles m) nid)"
  "dhas (pm_profile_errors (refresh_profile h m (k, network))) nid =
     (if nid = k then (\<forall>output. ho_profile h k \<noteq> Printed output) else dhas (pm_profile_errors m) nid)"
  by (cases "ho_profile h k"; simp add: refresh_profile_def dhas_def map_of_dset map_of_dpop)+

lemma profile_fold_other:
  "nid \<notin> set (dkeys nets) \<Longrightarrow>
   map_of (pm_profiles (foldl (refresh_profile h) m nets)) nid = map_of (pm_profiles m) nid
   \<and> dhas (pm_profile_errors (foldl (refresh_profile h) m nets)) nid = dhas (pm_profile_errors m) nid"
proof (induction nets arbitrary: m)
  case (Cons p nets)
  then show ?case by (cases p) (simp add: refresh_profile_lookup)
qed simp

lemma profile_fold:
  "distinct (dkeys nets) \<Longrightarrow> map_of nets nid = Some network \<Longrightarrow>
   map_of (pm_profiles (foldl (refresh_profile h) m nets)) nid = (case ho_profile h nid of
        Printed output \<Rightarrow> Some (pc_host_cidr network \<in> set (configured_addresses output))
      | Exited message \<Rightarrow> Some False
      | Failed message \<Rightarrow> map_of (pm_profiles m) nid)
   \<and> dhas (pm_profile_errors (foldl (refresh_profile h) m nets)) nid = (\<forall>output. ho_profile h nid \<noteq> Printed output)"
proof (induction nets arbitrary: m)
  case (Cons p nets)
  obtain k n where p: "p = (k, n)" by (cases p)
  show ?case
  proof (cases "k = nid")
    case True
    with Cons.prems p have "nid \<notin> set (dkeys nets)" "n = network" by auto
    with True p profile_fold_other [of nid nets h "refresh_profile h m p"] show ?thesis
      by (simp add: refresh_profile_lookup)
  next
    case False
    with Cons.IH [of "refresh_profile h m p"] Cons.prems p show ?thesis
      by (cases "ho_profile h nid") (simp_all add: refresh_profile_lookup)
  qed
qed simp

subsection \<open>Properties\<close>

text \<open>The version of the port table tells a reader whether it changed: over any number of
  refreshes, whatever the commands print and whichever of them fail, an unchanged version means
  an unchanged table (up to the time of the refresh), and after at least one refresh the table
  has exactly the configured ports.\<close>

theorem port_version_tracks_changes:
  assumes "pm_version (monitor_run rounds m) = pm_version m"
  shows "same_ports (pm_statuses (monitor_run rounds m)) (pm_statuses m)
    \<and> (rounds = [] \<or> dkeys (pm_statuses (monitor_run rounds m)) = dkeys (pm_networks m))"
  using run_unchanged [OF assms] run_keys [of rounds m] by blast

definition quiet_host :: host where
  "quiet_host = \<lparr>ho_addr = (Some (PList []), ''''), ho_profile = (\<lambda>_. Printed ''10.0.0.1/24''),
     ho_present = (\<lambda>_. True), ho_mac = (\<lambda>_. Inr ''AA''), ho_carrier = (\<lambda>_. Inr ''1''), ho_crash = ''''\<rparr>"

definition demo_monitor :: monitor where
  "demo_monitor = \<lparr>pm_networks = [(''net0'', \<lparr>pc_interface = ''eth1'', pc_host_cidr = ''10.0.0.1/24''\<rparr>)],
     pm_fast = 2, pm_profile_period = 30, pm_version = 0, pm_statuses = [], pm_addresses = [],
     pm_profiles = [], pm_profile_errors = [], pm_next_profile = 0\<rparr>"

theorem port_version_tracks_changes_witness:
  "pm_version (monitor_round quiet_host 1 demo_monitor) = 1
   \<and> same_ports (pm_statuses (monitor_run [(quiet_host, 3), (quiet_host, 5)] (monitor_round quiet_host 1 demo_monitor)))
       (pm_statuses (monitor_round quiet_host 1 demo_monitor))"
proof
  let ?m = "monitor_round quiet_host 1 demo_monitor"
  show v: "pm_version ?m = 1" by code_simp
  have "pm_version (monitor_run [(quiet_host, 3), (quiet_host, 5)] ?m) = 1" by code_simp
  with v have "pm_version (monitor_run [(quiet_host, 3), (quiet_host, 5)] ?m) = pm_version ?m" by simp
  from port_version_tracks_changes [OF this]
  show "same_ports (pm_statuses (monitor_run [(quiet_host, 3), (quiet_host, 5)] ?m)) (pm_statuses ?m)" by blast
qed

text \<open>The configured flag of a port follows its NetworkManager profile: a probe that prints the
  profile sets it by whether the host address is among the profile's addresses and clears the
  error, a missing profile clears the flag, and a probe that fails otherwise (a time-out) keeps
  the last known value; the other ports are not affected.\<close>

theorem profile_flag_follows_probe:
  assumes "distinct (dkeys (pm_networks m))" and "map_of (pm_networks m) nid = Some network"
  shows "map_of (pm_profiles (refresh_profiles h m)) nid = (case ho_profile h nid of
        Printed output \<Rightarrow> Some (pc_host_cidr network \<in> set (configured_addresses output))
      | Exited message \<Rightarrow> Some False
      | Failed message \<Rightarrow> map_of (pm_profiles m) nid)
    \<and> dhas (pm_profile_errors (refresh_profiles h m)) nid = (\<forall>output. ho_profile h nid \<noteq> Printed output)
    \<and> (\<forall>other. other \<notin> set (dkeys (pm_networks m)) \<longrightarrow>
         map_of (pm_profiles (refresh_profiles h m)) other = map_of (pm_profiles m) other)"
  using profile_fold [OF assms, of h m] profile_fold_other [of _ "pm_networks m" h m]
  by (simp add: refresh_profiles_def)

theorem profile_flag_follows_probe_witness:
  "map_of (pm_profiles (refresh_profiles quiet_host demo_monitor)) ''net0'' = Some True"
proof -
  have cfg: "map_of (pm_networks demo_monitor) ''net0'' = Some \<lparr>pc_interface = ''eth1'', pc_host_cidr = ''10.0.0.1/24''\<rparr>"
    and d: "distinct (dkeys (pm_networks demo_monitor))"
    by (simp_all add: demo_monitor_def)
  have "''10.0.0.1/24'' \<in> set (configured_addresses ''10.0.0.1/24'')" by code_simp
  then show ?thesis using profile_flag_follows_probe [OF d cfg, of quiet_host] by (simp add: quiet_host_def)
qed

end
