(* ===== verification/Manager_State.thy ===== *)
theory Manager_State
  imports Registry_Safety Camera_Profiles Port_Status
begin

section \<open>The state of the inventory manager\<close>

text \<open>
  The attributes of the node \<^verbatim>\<open>InventoryManager\<close> (\<^verbatim>\<open>manager_node.py\<close>) that its callbacks
  read and write, with the messages it keeps from the providers. Times are exact rational
  seconds of the monotonic clock; a callback reads the clock once.

  Every callback is a value of type \<open>('f manager, 'a) op\<close>. The ROS middleware is not
  modelled: what a callback publishes is a value it computes.
\<close>

subsection \<open>Messages\<close>

record pose =
  po_position :: "pyfloat \<times> pyfloat \<times> pyfloat"
  po_orientation :: "pyfloat \<times> pyfloat \<times> pyfloat \<times> pyfloat"

definition zero_pose :: pose where
  "zero_pose = \<lparr>po_position = (Dec 0 0, Dec 0 0, Dec 0 0), po_orientation = (Dec 0 0, Dec 0 0, Dec 0 0, Dec 1 0)\<rparr>"

record sensor_msg =
  sm_id :: string
  sm_provider :: string
  sm_kind :: string
  sm_vendor :: string
  sm_model :: string
  sm_serial :: string
  sm_mac :: string
  sm_enrolled :: bool
  sm_enabled :: bool
  sm_online :: bool
  sm_lifecycle :: string
  sm_display_name :: string
  sm_location :: string
  sm_parent_frame :: "string option"
  sm_calibration_url :: string
  sm_topic_base :: string
  sm_network :: string
  sm_assigned_address :: string
  sm_current_address :: string
  sm_interface :: string
  sm_groups :: "string list"
  sm_sync_group :: string
  sm_mode :: string
  sm_capture_ready :: bool
  sm_capabilities :: "string list"
  sm_last_error :: string
  sm_managed :: bool
  sm_pending_action :: string
  sm_detail :: string
  sm_applied_settings :: string
  sm_pose :: pose
  sm_stream_health :: string
  sm_stream_counters :: "int list"

definition blank_sensor :: sensor_msg where
  "blank_sensor = \<lparr>sm_id = '''', sm_provider = '''', sm_kind = '''', sm_vendor = '''', sm_model = '''',
     sm_serial = '''', sm_mac = '''', sm_enrolled = False, sm_enabled = False, sm_online = False,
     sm_lifecycle = '''', sm_display_name = '''', sm_location = '''', sm_parent_frame = None,
     sm_calibration_url = '''', sm_topic_base = '''', sm_network = '''', sm_assigned_address = '''',
     sm_current_address = '''',
     sm_interface = '''', sm_groups = [], sm_sync_group = '''', sm_mode = '''', sm_capture_ready = False,
     sm_capabilities = [], sm_last_error = '''', sm_managed = False, sm_pending_action = '''',
     sm_detail = '''', sm_applied_settings = '''', sm_pose = zero_pose, sm_stream_health = '''',
     sm_stream_counters = [0, 0, 0, 0, 0, 0]\<rparr>"

record group_msg =
  gm_id :: string
  gm_provider :: string
  gm_members :: "string list"
  gm_missing_policy :: string
  gm_trigger_source :: string
  gm_mode :: string
  gm_preview_rate :: pyfloat
  gm_interval :: int
  gm_cadence_configured :: bool
  gm_cadence_ready :: bool
  gm_ready :: bool
  gm_online :: "string list"
  gm_missing :: "string list"
  gm_preferred_master :: string

subsection \<open>Capture sessions\<close>

record session =
  ss_id :: string
  ss_owner :: string
  ss_kind :: string
  ss_targets :: "string list"
  ss_groups :: "string list"
  ss_sensors :: "string list"
  ss_interval :: int
  ss_exclusive :: bool
  ss_status :: string
  ss_message :: string
  ss_expires :: rat

record pending =
  pe_profile :: string
  pe_settings :: pydict

subsection \<open>The node\<close>

record 'f manager =
  mg_registry :: "'f registry"
  mg_profiles :: profiles
  mg_profile_file :: "'f disk"
  mg_backend :: string
  mg_default_mode :: string
  mg_generation :: int
  mg_observations :: "(pydict \<times> rat) dict"
  mg_checkpoints :: "rat dict"
  mg_runtime :: "sensor_msg dict"
  mg_provider_groups :: "group_msg dict"
  mg_sensor_modes :: "string dict"
  mg_group_modes :: "string dict"
  mg_group_intervals :: "int dict"
  mg_sessions :: "session dict"
  mg_session_generation :: int
  mg_pending :: "pending dict"
  mg_applying :: "string set"
  mg_session_ttl :: rat
  mg_observation_timeout :: rat
  mg_catalog_dirty :: bool
  mg_port_version :: int
  mg_providers :: "string list"
  mg_inflight :: "string set"
  mg_inflight_networks :: "string dict"
  mg_retry_after :: "rat dict"
  mg_enrolling :: "string set"
  mg_enrolling_networks :: "string set"
  mg_placing :: "string set"

text \<open>What a callback takes from its surroundings.\<close>

record 'f mg_env =
  me_reg :: "'f reg_env"
  me_now :: rat
  me_uuid :: string
  me_ports :: "int \<times> port_status dict"
  me_profile_dir :: "'f directory"

abbreviation mg_machine :: "'f manager \<Rightarrow> pydict" where
  "mg_machine m \<equiv> rg_machine (mg_registry m)"

abbreviation mg_inventory :: "'f manager \<Rightarrow> pydict" where
  "mg_inventory m \<equiv> rg_inventory (mg_registry m)"

definition bump :: "'f manager \<Rightarrow> 'f manager" where
  "bump m = m\<lparr>mg_generation := mg_generation m + 1\<rparr>"

text \<open>A registry operation as a step of the node.\<close>

definition on_registry :: "('f registry, 'a) op \<Rightarrow> ('f manager, 'a) op" where
  "on_registry f m = (case f (mg_registry m) of (r, reg) \<Rightarrow> (r, m\<lparr>mg_registry := reg\<rparr>))"

definition group_record :: "pydict \<Rightarrow> string \<Rightarrow> pydict" where
  "group_record ivt gid = dict_of (dget (inv_groups ivt) gid (PDict []))"

subsection \<open>A concrete node\<close>

text \<open>One enrolled camera and one group with it; the witnesses start here.\<close>

definition demo_group :: pydict where
  "demo_group =
     [(''provider'', PStr ''genicam''), (''members'', PList [PStr ''cam'']), (''missing_policy'', PStr ''strict''),
      (''trigger_source'', PStr ''Action0''), (''preview_rate_hz'', PFloat (Dec 2 0)),
      (''preferred_master_id'', PStr '''')]"

definition demo_manager :: "pydict manager" where
  "demo_manager = \<lparr>mg_registry = demo_registry\<lparr>rg_inventory :=
       dset ''sync_groups'' (PDict [(''g'', PDict demo_group)]) demo_inventory\<rparr>,
     mg_profiles = [], mg_profile_file = empty_disk, mg_backend = ''genicam'', mg_default_mode = ''idle'',
     mg_generation = 1, mg_observations = [], mg_checkpoints = [], mg_runtime = [], mg_provider_groups = [],
     mg_sensor_modes = [], mg_group_modes = [], mg_group_intervals = [], mg_sessions = [],
     mg_session_generation = 1, mg_pending = [], mg_applying = {}, mg_session_ttl = 30,
     mg_observation_timeout = 6, mg_catalog_dirty = False, mg_port_version = 0, mg_providers = [''genicam''],
     mg_inflight = {}, mg_inflight_networks = [], mg_retry_after = [], mg_enrolling = {},
     mg_enrolling_networks = {}, mg_placing = {}\<rparr>"

definition demo_mg_env :: "rat \<Rightarrow> string \<Rightarrow> pydict mg_env" where
  "demo_mg_env now uuid = \<lparr>me_reg = demo_env, me_now = now, me_uuid = uuid, me_ports = (0, []),
     me_profile_dir = No_directory\<rparr>"

end
