(* ===== verification/Capture_Sessions.thy ===== *)
theory Capture_Sessions
  imports Manager_State
begin

section \<open>Capture sessions\<close>

text \<open>
  The lease table of \<^verbatim>\<open>manager_node.py\<close>: creating, renewing, using, dropping and expiring
  capture sessions, and the two questions other callbacks ask of it (is a camera in use,
  which sessions want a group). Each operation runs under the node's lock.
\<close>

subsection \<open>Operations\<close>

definition session_targets :: "pydict \<Rightarrow> string \<Rightarrow> string list \<Rightarrow> (string list \<times> string list) result" where
  "session_targets ivt kind targets =
     (if kind \<noteq> ''group'' \<and> kind \<noteq> ''sensor'' then Inl (RegistryError ''target_kind must be group or sensor'')
      else if targets = [] \<or> \<not> distinct targets then
        Inl (RegistryError ''target_ids must contain unique targets'')
      else if kind = ''group'' then
        (case filter (\<lambda>t. \<not> dhas (inv_groups ivt) t) targets of
           missing # _ \<Rightarrow> Inl (RegistryError (''unknown synchronization group '' @ missing))
         | [] \<Rightarrow> Inr (targets, sort (remdups (concat (map (\<lambda>g. group_members (group_record ivt g)) targets)))))
      else
        (case filter (\<lambda>t. \<not> dhas (inv_sensors ivt) t) targets of
           missing # _ \<Rightarrow> Inl (RegistryError (''unknown enrolled sensor '' @ missing))
         | [] \<Rightarrow> Inr ([], sort targets)))"

definition overlap :: "string list \<Rightarrow> string list \<Rightarrow> string list" where
  "overlap xs ys = filter (\<lambda>x. x \<in> set ys) xs"

definition conflicts :: "string list \<Rightarrow> bool \<Rightarrow> session \<Rightarrow> bool" where
  "conflicts sensors exclusive s \<longleftrightarrow> overlap sensors (ss_sensors s) \<noteq> [] \<and> (exclusive \<or> ss_exclusive s)"

definition interval_ok :: "int \<Rightarrow> bool" where
  "interval_ok i \<longleftrightarrow> i = 0 \<or> 100 \<le> i \<and> i \<le> 86400000"

definition new_session ::
  "'f mg_env \<Rightarrow> rat \<Rightarrow> string \<Rightarrow> string \<Rightarrow> string list \<Rightarrow> string list \<Rightarrow> string list \<Rightarrow> int \<Rightarrow> bool \<Rightarrow> session" where
  "new_session env ttl owner kind targets groups sensors interval exclusive =
     \<lparr>ss_id = ''session_'' @ me_uuid env, ss_owner = (if owner = '''' then ''anonymous'' else owner),
      ss_kind = kind, ss_targets = targets, ss_groups = groups, ss_sensors = sensors,
      ss_interval = interval, ss_exclusive = exclusive, ss_status = ''active'',
      ss_message = ''capture session active'', ss_expires = me_now env + ttl\<rparr>"

definition create_capture_session ::
  "'f mg_env \<Rightarrow> string \<Rightarrow> string \<Rightarrow> string list \<Rightarrow> int \<Rightarrow> bool \<Rightarrow> ('f manager, session) op" where
  "create_capture_session env owner kind targets interval exclusive m =
     (if \<not> interval_ok interval then
        (Inl (RegistryError ''requested_interval_ms must be zero or 100..86400000''), m)
      else case session_targets (mg_inventory m) kind targets of
        Inl e \<Rightarrow> (Inl e, m)
      | Inr (groups, sensors) \<Rightarrow>
          (case List.find (\<lambda>(k, s). conflicts sensors exclusive s) (mg_sessions m) of
             Some (k, s) \<Rightarrow>
               (Inl (RegistryError (''cameras are busy in session '' @ ss_id s @ '' owned by ''
                  @ ss_owner s @ '': '' @ join '', '' (overlap sensors (ss_sensors s)))), m)
           | None \<Rightarrow>
               (let s = new_session env (mg_session_ttl m) owner kind targets groups sensors interval exclusive
                in (Inr s, bump (m\<lparr>mg_sessions := dset (ss_id s) s (mg_sessions m),
                      mg_session_generation := mg_session_generation m + 1\<rparr>)))))"

definition drop_capture_session :: "string \<Rightarrow> 'f manager \<Rightarrow> bool \<times> 'f manager" where
  "drop_capture_session sid m =
     (if dhas (mg_sessions m) sid
      then (True, bump (m\<lparr>mg_sessions := dpop sid (mg_sessions m),
              mg_session_generation := mg_session_generation m + 1\<rparr>))
      else (False, m))"

definition renew_capture_session :: "'f mg_env \<Rightarrow> string \<Rightarrow> 'f manager \<Rightarrow> session option \<times> 'f manager" where
  "renew_capture_session env sid m =
     (case map_of (mg_sessions m) sid of
        None \<Rightarrow> (None, m)
      | Some s \<Rightarrow>
          (let s' = s\<lparr>ss_expires := me_now env + mg_session_ttl m\<rparr>
           in (Some s', m\<lparr>mg_sessions := dset sid s' (mg_sessions m),
                mg_session_generation := mg_session_generation m + 1\<rparr>)))"

definition expired_sessions :: "rat \<Rightarrow> session dict \<Rightarrow> string list" where
  "expired_sessions now sessions = map fst (filter (\<lambda>(k, s). ss_expires s \<le> now) sessions)"

definition expire_capture_sessions :: "'f mg_env \<Rightarrow> 'f manager \<Rightarrow> string list \<times> 'f manager" where
  "expire_capture_sessions env m =
     (let expired = expired_sessions (me_now env) (mg_sessions m)
      in (expired, foldl (\<lambda>m sid. snd (drop_capture_session sid m)) m expired))"

text \<open>Using a session extends it; an expired session that has not been dropped yet still counts.\<close>

definition capture_session_for_target ::
  "'f mg_env \<Rightarrow> string \<Rightarrow> string \<Rightarrow> string \<Rightarrow> ('f manager, session) op" where
  "capture_session_for_target env sid kind target m =
     (case map_of (mg_sessions m) sid of
        None \<Rightarrow> (Inl (RegistryError ''unknown or expired capture session''), m)
      | Some s \<Rightarrow>
          if kind = ''group'' \<and> target \<notin> set (ss_groups s) then
            (Inl (RegistryError ''capture session does not own this group''), m)
          else if kind = ''sensor'' \<and> (ss_kind s \<noteq> ''sensor'' \<or> target \<notin> set (ss_targets s)) then
            (Inl (RegistryError ''capture session does not own this sensor''), m)
          else
            (let s' = s\<lparr>ss_expires := me_now env + mg_session_ttl m\<rparr>
             in (Inr s', m\<lparr>mg_sessions := dset sid s' (mg_sessions m)\<rparr>)))"

definition sessions_for_group :: "session dict \<Rightarrow> string \<Rightarrow> session list" where
  "sessions_for_group sessions gid = filter (\<lambda>s. gid \<in> set (ss_groups s)) (dvalues sessions)"

definition cameras_capture_owned :: "session dict \<Rightarrow> string list \<Rightarrow> bool" where
  "cameras_capture_owned sessions sensors \<longleftrightarrow>
     list_ex (\<lambda>s. overlap sensors (ss_sensors s) \<noteq> []) (dvalues sessions)"

text \<open>The list that is published, in the order of the identifiers.\<close>

record session_msg =
  sn_session :: session
  sn_remaining :: rat

definition capture_session_message :: "rat \<Rightarrow> session \<Rightarrow> session_msg" where
  "capture_session_message now s = \<lparr>sn_session = s, sn_remaining = max 0 (ss_expires s - now)\<rparr>"

definition published_sessions :: "rat \<Rightarrow> 'f manager \<Rightarrow> int \<times> session_msg list" where
  "published_sessions now m =
     (mg_session_generation m, map (capture_session_message now) (sort_key ss_id (dvalues (mg_sessions m))))"

subsection \<open>The table as a state machine\<close>

datatype 'f session_cmd =
    Create "'f mg_env" string string "string list" int bool
  | Renew "'f mg_env" string
  | Drop string
  | Expire "'f mg_env"
  | Use "'f mg_env" string string string

fun session_exec :: "'f session_cmd \<Rightarrow> 'f manager \<Rightarrow> 'f manager" where
  "session_exec (Create env owner kind targets interval exclusive) m =
     snd (create_capture_session env owner kind targets interval exclusive m)"
| "session_exec (Renew env sid) m = snd (renew_capture_session env sid m)"
| "session_exec (Drop sid) m = snd (drop_capture_session sid m)"
| "session_exec (Expire env) m = snd (expire_capture_sessions env m)"
| "session_exec (Use env sid kind target) m = snd (capture_session_for_target env sid kind target m)"

text \<open>\<open>uuid4\<close> gives an identifier that no live session has.\<close>

fun fresh_for :: "'f session_cmd \<Rightarrow> 'f manager \<Rightarrow> bool" where
  "fresh_for (Create env _ _ _ _ _) m \<longleftrightarrow> \<not> dhas (mg_sessions m) (''session_'' @ me_uuid env)"
| "fresh_for _ m \<longleftrightarrow> True"

inductive session_run :: "'f session_cmd list \<Rightarrow> 'f manager \<Rightarrow> 'f manager \<Rightarrow> bool" where
  run_nil: "session_run [] m m"
| run_cmd: "fresh_for c m \<Longrightarrow> session_run cs (session_exec c m) m' \<Longrightarrow> session_run (c # cs) m m'"

inductive_cases session_run_NilE [elim!]: "session_run [] m m'"
inductive_cases session_run_ConsE [elim!]: "session_run (c # cs) m m'"

lemma bump_fields [simp]:
  "mg_sessions (bump m) = mg_sessions m" "mg_session_generation (bump m) = mg_session_generation m"
  "mg_session_ttl (bump m) = mg_session_ttl m" "mg_registry (bump m) = mg_registry m"
  "mg_generation (bump m) = mg_generation m + 1"
  by (simp_all add: bump_def)

subsection \<open>Targets\<close>

text \<open>A valid request, and the cameras it means.\<close>

definition targets_ok :: "pydict \<Rightarrow> string \<Rightarrow> string list \<Rightarrow> bool" where
  "targets_ok ivt kind targets \<longleftrightarrow>
     targets \<noteq> [] \<and> distinct targets
     \<and> (kind = ''group'' \<and> (\<forall>t \<in> set targets. dhas (inv_groups ivt) t)
        \<or> kind = ''sensor'' \<and> (\<forall>t \<in> set targets. dhas (inv_sensors ivt) t))"

definition target_cameras :: "pydict \<Rightarrow> string \<Rightarrow> string list \<Rightarrow> string set" where
  "target_cameras ivt kind targets =
     (if kind = ''group'' then (\<Union>g \<in> set targets. set (group_members (group_record ivt g))) else set targets)"

lemma session_targets_cases:
  "(\<exists>groups sensors. session_targets ivt kind targets = Inr (groups, sensors)
      \<and> groups = (if kind = ''group'' then targets else [])
      \<and> set sensors = target_cameras ivt kind targets \<and> distinct sensors)
     \<and> targets_ok ivt kind targets
   \<or> (\<exists>e. session_targets ivt kind targets = Inl (RegistryError e)) \<and> \<not> targets_ok ivt kind targets"
proof (cases "kind \<noteq> ''group'' \<and> kind \<noteq> ''sensor'' \<or> targets = [] \<or> \<not> distinct targets")
  case True
  then show ?thesis by (auto simp: session_targets_def targets_ok_def)
next
  case False
  then have k: "kind = ''group'' \<or> kind = ''sensor''" and t: "targets \<noteq> []" "distinct targets" by auto
  from k show ?thesis
  proof
    assume kind: "kind = ''group''"
    show ?thesis
    proof (cases "filter (\<lambda>t. \<not> dhas (inv_groups ivt) t) targets")
      case Nil
      with kind t show ?thesis
        by (simp add: session_targets_def targets_ok_def target_cameras_def filter_empty_conv)
    next
      case (Cons missing rest)
      then have "missing \<in> set (filter (\<lambda>t. \<not> dhas (inv_groups ivt) t) targets)" by simp
      then have "\<not> (\<forall>t \<in> set targets. dhas (inv_groups ivt) t)" by auto
      with kind t Cons show ?thesis by (simp add: session_targets_def targets_ok_def)
    qed
  next
    assume kind: "kind = ''sensor''"
    show ?thesis
    proof (cases "filter (\<lambda>t. \<not> dhas (inv_sensors ivt) t) targets")
      case Nil
      with kind t show ?thesis
        by (simp add: session_targets_def targets_ok_def target_cameras_def filter_empty_conv)
    next
      case (Cons missing rest)
      then have "missing \<in> set (filter (\<lambda>t. \<not> dhas (inv_sensors ivt) t) targets)" by simp
      then have "\<not> (\<forall>t \<in> set targets. dhas (inv_sensors ivt) t)" by auto
      with kind t Cons show ?thesis by (simp add: session_targets_def targets_ok_def)
    qed
  qed
qed

lemma overlap_empty: "overlap xs ys = [] \<longleftrightarrow> set xs \<inter> set ys = {}"
  by (auto simp: overlap_def filter_empty_conv)

lemma overlap_sym: "overlap xs ys = [] \<longleftrightarrow> overlap ys xs = []"
  by (auto simp: overlap_empty)

subsection \<open>Creating a session\<close>

lemma create_cases:
  obtains (refused) e where "create_capture_session env owner kind targets interval exclusive m = (Inl (RegistryError e), m)"
    "\<not> interval_ok interval \<or> \<not> targets_ok (mg_inventory m) kind targets
     \<or> (\<exists>(k, s) \<in> set (mg_sessions m). (exclusive \<or> ss_exclusive s)
          \<and> target_cameras (mg_inventory m) kind targets \<inter> set (ss_sensors s) \<noteq> {})"
  | (created) s where
    "create_capture_session env owner kind targets interval exclusive m =
       (Inr s, bump (m\<lparr>mg_sessions := dset (ss_id s) s (mg_sessions m),
          mg_session_generation := mg_session_generation m + 1\<rparr>))"
    "ss_id s = ''session_'' @ me_uuid env" "ss_exclusive s = exclusive" "ss_interval s = interval"
    "ss_kind s = kind" "ss_targets s = targets" "ss_groups s = (if kind = ''group'' then targets else [])"
    "set (ss_sensors s) = target_cameras (mg_inventory m) kind targets"
    "ss_expires s = me_now env + mg_session_ttl m"
    "interval_ok interval" "targets_ok (mg_inventory m) kind targets"
    "\<forall>(k, t) \<in> set (mg_sessions m). \<not> conflicts (ss_sensors s) exclusive t"
proof (cases "interval_ok interval")
  case False
  then show thesis by (intro refused) (auto simp: create_capture_session_def)
next
  case iv: True
  show thesis
  proof (cases "targets_ok (mg_inventory m) kind targets")
    case False
    then obtain e where "session_targets (mg_inventory m) kind targets = Inl (RegistryError e)"
      using session_targets_cases [of "mg_inventory m" kind targets] by blast
    with iv False show thesis by (intro refused) (auto simp: create_capture_session_def)
  next
    case ok: True
    then obtain groups sensors where t: "session_targets (mg_inventory m) kind targets = Inr (groups, sensors)"
      and g: "groups = (if kind = ''group'' then targets else [])"
      and cams: "set sensors = target_cameras (mg_inventory m) kind targets"
      using session_targets_cases [of "mg_inventory m" kind targets] by blast
    show thesis
    proof (cases "List.find (\<lambda>(k, s). conflicts sensors exclusive s) (mg_sessions m)")
      case None
      then have free: "\<forall>(k, t) \<in> set (mg_sessions m). \<not> conflicts sensors exclusive t"
        by (auto simp: find_None_iff)
      show thesis
        by (rule created [of "new_session env (mg_session_ttl m) owner kind targets groups sensors interval exclusive"])
          (use iv t None ok g cams free in \<open>simp_all add: create_capture_session_def Let_def new_session_def\<close>)
    next
      case (Some p)
      obtain k s where p: "p = (k, s)" by (cases p)
      from Some p have "(k, s) \<in> set (mg_sessions m)" and c: "conflicts sensors exclusive s"
        by (auto simp: find_Some_iff in_set_conv_nth)
      then have "\<exists>(k, s) \<in> set (mg_sessions m). (exclusive \<or> ss_exclusive s)
          \<and> target_cameras (mg_inventory m) kind targets \<inter> set (ss_sensors s) \<noteq> {}"
        using cams by (auto simp: conflicts_def overlap_empty)
      with iv t Some p show thesis by (intro refused) (auto simp: create_capture_session_def)
    qed
  qed
qed

subsection \<open>Dropping, renewing and expiring\<close>

lemma drop_cases:
  "drop_capture_session sid m =
     (dhas (mg_sessions m) sid, if dhas (mg_sessions m) sid
      then bump (m\<lparr>mg_sessions := dpop sid (mg_sessions m), mg_session_generation := mg_session_generation m + 1\<rparr>)
      else m)"
  by (simp add: drop_capture_session_def)

lemma drop_sessions: "mg_sessions (snd (drop_capture_session sid m)) = dpop sid (mg_sessions m)"
  by (auto simp: drop_cases dhas_def dpop_def delete_id map_of_eq_None_iff)

lemma dpop_filter: "dpop k d = filter (\<lambda>(k', v). k' \<noteq> k) d"
  by (induction d) (auto simp: dpop_def)

lemma drop_fold:
  "mg_sessions (foldl (\<lambda>m sid. snd (drop_capture_session sid m)) m sids)
     = filter (\<lambda>(k, s). k \<notin> set sids) (mg_sessions m)"
  by (induction sids arbitrary: m)
     (auto simp: drop_sessions dpop_filter filter_filter case_prod_beta intro!: filter_cong)

lemma expired_iff: "k \<in> set (expired_sessions now d) \<longleftrightarrow> (\<exists>s. (k, s) \<in> set d \<and> ss_expires s \<le> now)"
  by (force simp: expired_sessions_def)

lemma expire_sessions:
  assumes "distinct (dkeys (mg_sessions m))"
  shows "mg_sessions (snd (expire_capture_sessions env m))
    = filter (\<lambda>(k, s). me_now env < ss_expires s) (mg_sessions m)"
proof -
  have keep: "k \<notin> set (expired_sessions (me_now env) (mg_sessions m)) \<longleftrightarrow> me_now env < ss_expires s"
    if ks: "(k, s) \<in> set (mg_sessions m)" for k s
  proof -
    have "t = s" if "(k, t) \<in> set (mg_sessions m)" for t
      using eq_key_imp_eq_value [OF assms that ks] .
    with ks show ?thesis unfolding expired_iff by (metis not_le)
  qed
  have "filter (\<lambda>(k, s). k \<notin> set (expired_sessions (me_now env) (mg_sessions m))) (mg_sessions m)
      = filter (\<lambda>(k, s). me_now env < ss_expires s) (mg_sessions m)"
  proof (rule filter_cong)
    fix p assume "p \<in> set (mg_sessions m)"
    then show "(case p of (k, s) \<Rightarrow> k \<notin> set (expired_sessions (me_now env) (mg_sessions m)))
        = (case p of (k, s) \<Rightarrow> me_now env < ss_expires s)"
      using keep [of "fst p" "snd p"] by (simp add: case_prod_beta)
  qed simp
  then show ?thesis by (simp add: expire_capture_sessions_def Let_def drop_fold)
qed

subsection \<open>The invariant\<close>

text \<open>
  Identifiers are unique and name their own record, and two sessions share a camera only
  when neither of them is exclusive.
\<close>

definition compatible :: "session \<Rightarrow> session \<Rightarrow> bool" where
  "compatible s t \<longleftrightarrow> (ss_exclusive s \<or> ss_exclusive t \<longrightarrow> set (ss_sensors s) \<inter> set (ss_sensors t) = {})"

definition sessions_inv :: "session dict \<Rightarrow> bool" where
  "sessions_inv d \<longleftrightarrow>
     distinct (dkeys d)
     \<and> (\<forall>k s. map_of d k = Some s \<longrightarrow> ss_id s = k \<and> interval_ok (ss_interval s))
     \<and> (\<forall>k s l t. map_of d k = Some s \<longrightarrow> map_of d l = Some t \<longrightarrow> k \<noteq> l \<longrightarrow> compatible s t)"

lemma map_of_filter_Some:
  "distinct (dkeys d) \<Longrightarrow> map_of (filter P d) k = Some s \<longleftrightarrow> map_of d k = Some s \<and> P (k, s)"
  by (simp add: distinct_map_filter)

lemma sessions_inv_filter: "sessions_inv d \<Longrightarrow> sessions_inv (filter P d)"
proof -
  assume d: "sessions_inv d"
  then have "map_of (filter P d) k = Some s \<Longrightarrow> map_of d k = Some s" for k s
    by (simp add: sessions_inv_def map_of_filter_Some)
  with d show ?thesis unfolding sessions_inv_def by (intro conjI allI impI) (blast intro: distinct_map_filter)+
qed

lemma compatible_sym: "compatible s t \<longleftrightarrow> compatible t s"
  by (auto simp: compatible_def)

lemma not_conflicts_compatible:
  "\<not> conflicts (ss_sensors s) (ss_exclusive s) t \<Longrightarrow> compatible s t"
  by (auto simp: conflicts_def compatible_def overlap_empty)

text \<open>Adding a session that is compatible with all others, or replacing one by such a session.\<close>

lemma sessions_inv_set:
  assumes "sessions_inv d" and "ss_id s = k" and "interval_ok (ss_interval s)"
    and "\<And>l t. l \<noteq> k \<Longrightarrow> map_of d l = Some t \<Longrightarrow> compatible s t"
  shows "sessions_inv (dset k s d)"
  using assms unfolding sessions_inv_def
  by (simp add: distinct_dset map_of_dset compatible_sym [of _ s])

lemma sessions_inv_extend:
  assumes "sessions_inv d" and "map_of d sid = Some s"
  shows "sessions_inv (dset sid (s\<lparr>ss_expires := t\<rparr>) d)"
proof (rule sessions_inv_set [OF assms(1)])
  fix l u assume "l \<noteq> sid" "map_of d l = Some u"
  with assms have "compatible s u" by (auto simp: sessions_inv_def)
  then show "compatible (s\<lparr>ss_expires := t\<rparr>) u" by (simp add: compatible_def)
qed (use assms in \<open>auto simp: sessions_inv_def\<close>)

lemma exec_inv:
  assumes "sessions_inv (mg_sessions m)"
  shows "sessions_inv (mg_sessions (session_exec c m))"
proof (cases c)
  case (Create env owner kind targets interval exclusive)
  show ?thesis
  proof (cases rule: create_cases [of env owner kind targets interval exclusive m, case_names refused created])
    case (refused e)
    with assms Create show ?thesis by simp
  next
    case (created s)
    have "sessions_inv (dset (ss_id s) s (mg_sessions m))"
    proof (rule sessions_inv_set [OF assms])
      fix l t assume "map_of (mg_sessions m) l = Some t"
      then have "(l, t) \<in> set (mg_sessions m)" by (rule map_of_SomeD)
      with created show "compatible s t" by (intro not_conflicts_compatible) auto
    qed (use created in simp_all)
    with created Create show ?thesis by simp
  qed
next
  case (Renew env sid)
  with assms show ?thesis
    by (auto simp: renew_capture_session_def Let_def intro: sessions_inv_extend split: option.split)
next
  case (Drop sid)
  with assms show ?thesis by (simp add: drop_sessions dpop_filter sessions_inv_filter)
next
  case (Expire env)
  moreover have "distinct (dkeys (mg_sessions m))" using assms by (simp add: sessions_inv_def)
  ultimately show ?thesis using assms by (simp add: expire_sessions sessions_inv_filter)
next
  case (Use env sid kind target)
  with assms show ?thesis
    by (auto simp: capture_session_for_target_def Let_def intro: sessions_inv_extend split: option.split)
qed

lemma run_inv: "session_run cs m m' \<Longrightarrow> sessions_inv (mg_sessions m) \<Longrightarrow> sessions_inv (mg_sessions m')"
  by (induction rule: session_run.induct) (simp_all add: exec_inv)

subsection \<open>Leases\<close>

fun cmd_time :: "'f session_cmd \<Rightarrow> rat option" where
  "cmd_time (Create env _ _ _ _ _) = Some (me_now env)"
| "cmd_time (Renew env _) = Some (me_now env)"
| "cmd_time (Drop _) = None"
| "cmd_time (Expire env) = Some (me_now env)"
| "cmd_time (Use env _ _ _) = Some (me_now env)"

definition in_window :: "rat \<Rightarrow> rat \<Rightarrow> 'f session_cmd \<Rightarrow> bool" where
  "in_window start stop c \<longleftrightarrow> (case cmd_time c of None \<Rightarrow> True | Some t \<Rightarrow> start \<le> t \<and> t < stop)"

lemma drop_fold_ttl: "mg_session_ttl (foldl (\<lambda>m sid. snd (drop_capture_session sid m)) m sids) = mg_session_ttl m"
  by (induction sids arbitrary: m) (simp_all add: drop_cases)

lemma exec_ttl: "mg_session_ttl (session_exec c m) = mg_session_ttl m"
proof (cases c)
  case (Create env owner kind targets interval exclusive)
  then show ?thesis
    by (cases rule: create_cases [of env owner kind targets interval exclusive m, case_names refused created]) simp_all
next
  case (Drop sid)
  then show ?thesis by (simp add: drop_cases)
qed (simp_all add: renew_capture_session_def expire_capture_sessions_def capture_session_for_target_def
  Let_def drop_fold_ttl split: option.split)

text \<open>The same session, with a lease that lasts at least until \<open>t\<close>.\<close>

definition held :: "string \<Rightarrow> session \<Rightarrow> rat \<Rightarrow> session dict \<Rightarrow> bool" where
  "held sid s t d \<longleftrightarrow> (\<exists>e. map_of d sid = Some (s\<lparr>ss_expires := e\<rparr>) \<and> t \<le> e)"

lemma held_set_other: "k \<noteq> sid \<Longrightarrow> held sid s t (dset k u d) = held sid s t d"
  by (simp add: held_def map_of_dset)

lemma held_extend: "held sid s t d \<Longrightarrow> t \<le> e \<Longrightarrow> map_of d k = Some u \<Longrightarrow> held sid s t (dset k (u\<lparr>ss_expires := e\<rparr>) d)"
  by (cases "k = sid") (auto simp: held_def map_of_dset)

lemma held_exec:
  assumes h: "held sid s (start + mg_session_ttl m) (mg_sessions m)" and inv: "sessions_inv (mg_sessions m)"
    and c: "in_window start (start + mg_session_ttl m) c" "c \<noteq> Drop sid" "fresh_for c m"
  shows "held sid s (start + mg_session_ttl m) (mg_sessions (session_exec c m))"
proof (cases c)
  case (Create env owner kind targets interval exclusive)
  then show ?thesis
  proof (cases rule: create_cases [of env owner kind targets interval exclusive m, case_names refused created])
    case (created u)
    have "''session_'' @ me_uuid env \<noteq> sid" using h c(3) Create by (auto simp: held_def dhas_def)
    with created Create h show ?thesis by (simp add: held_set_other)
  qed (use h in simp)
next
  case (Renew env k)
  with h c(1) show ?thesis
    by (auto simp: renew_capture_session_def Let_def in_window_def intro: held_extend split: option.split)
next
  case (Drop k)
  with h c(2) show ?thesis by (auto simp: drop_sessions held_def map_of_dpop)
next
  case (Expire env)
  have "distinct (dkeys (mg_sessions m))" using inv by (simp add: sessions_inv_def)
  with h c(1) Expire show ?thesis
    by (auto simp: expire_sessions held_def map_of_filter_Some in_window_def)
next
  case (Use env k kind target)
  with h c(1) show ?thesis
    by (auto simp: capture_session_for_target_def Let_def in_window_def intro: held_extend split: option.split)
qed

lemma held_run:
  assumes "session_run cs m m'" and "held sid s (start + mg_session_ttl m) (mg_sessions m)"
    and "sessions_inv (mg_sessions m)" and "\<forall>c \<in> set cs. in_window start (start + mg_session_ttl m) c \<and> c \<noteq> Drop sid"
  shows "held sid s (start + mg_session_ttl m) (mg_sessions m')"
  using assms
proof (induction rule: session_run.induct)
  case (run_cmd c m cs m')
  from run_cmd.prems run_cmd.hyps(1)
  have "held sid s (start + mg_session_ttl m) (mg_sessions (session_exec c m))" by (intro held_exec) auto
  with run_cmd.IH run_cmd.prems show ?case by (simp add: exec_ttl exec_inv)
qed

subsection \<open>Properties\<close>

text \<open>C14: A session is granted exactly when the interval is allowed, every target exists and is named
  once, and no live session that is exclusive, or any live session if this one is to be
  exclusive, holds one of its cameras; then it covers exactly the cameras of its targets and
  the rest of the table is unchanged. A refusal changes nothing.\<close>

theorem session_granted_iff_free:
  "(\<exists>s. fst (create_capture_session env owner kind targets interval exclusive m) = Inr s)
     = (interval_ok interval \<and> targets_ok (mg_inventory m) kind targets
        \<and> \<not> (\<exists>(k, s) \<in> set (mg_sessions m). (exclusive \<or> ss_exclusive s)
             \<and> target_cameras (mg_inventory m) kind targets \<inter> set (ss_sensors s) \<noteq> {}))
   \<and> (case create_capture_session env owner kind targets interval exclusive m of
        (Inl e, m') \<Rightarrow> m' = m
      | (Inr s, m') \<Rightarrow>
          set (ss_sensors s) = target_cameras (mg_inventory m) kind targets
          \<and> ss_exclusive s = exclusive \<and> ss_expires s = me_now env + mg_session_ttl m
          \<and> map_of (mg_sessions m') = (map_of (mg_sessions m))(''session_'' @ me_uuid env \<mapsto> s)
          \<and> mg_session_generation m' = mg_session_generation m + 1)"
proof (cases rule: create_cases [of env owner kind targets interval exclusive m, case_names refused created])
  case (refused e)
  then show ?thesis by auto
next
  case (created s)
  have "\<not> (\<exists>(k, t) \<in> set (mg_sessions m). (exclusive \<or> ss_exclusive t)
             \<and> target_cameras (mg_inventory m) kind targets \<inter> set (ss_sensors t) \<noteq> {})"
    using created(8,12) by (auto simp: conflicts_def overlap_empty)
  with created show ?thesis by (auto simp: map_of_dset)
qed

text \<open>A session that was just granted or renewed is not lost before its time to live has passed:
  as long as every callback reads the clock within that time, other requests, renewals, uses
  and expiry runs leave it in the table with its owner, targets and cameras; only its own
  release removes it.\<close>

theorem lease_is_held:
  assumes "session_run cs m m'" and "sessions_inv (mg_sessions m)"
    and "map_of (mg_sessions m) sid = Some s" and "ss_expires s = start + mg_session_ttl m"
    and "\<forall>c \<in> set cs. in_window start (start + mg_session_ttl m) c \<and> c \<noteq> Drop sid"
  shows "\<exists>e. map_of (mg_sessions m') sid = Some (s\<lparr>ss_expires := e\<rparr>) \<and> start + mg_session_ttl m \<le> e"
proof -
  have "held sid s (start + mg_session_ttl m) (mg_sessions m)"
    unfolding held_def using assms(3,4) by (intro exI [of _ "ss_expires s"]) simp
  from held_run [OF assms(1) this assms(2,5)] show ?thesis by (simp add: held_def)
qed

text \<open>An expiry run removes exactly the sessions whose time has come, leaves the others as they
  are and in their order, and reports what it removed.\<close>

theorem expiry_removes_exactly_expired:
  assumes "distinct (dkeys (mg_sessions m))"
  shows "mg_sessions (snd (expire_capture_sessions env m)) = filter (\<lambda>(k, s). me_now env < ss_expires s) (mg_sessions m)
    \<and> set (fst (expire_capture_sessions env m)) = {k. \<exists>s. map_of (mg_sessions m) k = Some s \<and> ss_expires s \<le> me_now env}"
  using assms expire_sessions [OF assms, of env] expired_iff [of _ "me_now env" "mg_sessions m"]
  by (auto simp: expire_capture_sessions_def Let_def)

subsection \<open>Concrete runs\<close>

abbreviation demo_create :: "rat \<Rightarrow> string \<Rightarrow> pydict session_cmd" where
  "demo_create now uuid \<equiv> Create (demo_mg_env now uuid) ''me'' ''sensor'' [''cam''] 0 False"

definition shared_manager :: "pydict manager" where
  "shared_manager = session_exec (demo_create 2 ''b'') (session_exec (demo_create 1 ''a'') demo_manager)"

lemma shared_run: "session_run [demo_create 1 ''a'', demo_create 2 ''b''] demo_manager shared_manager"
  unfolding shared_manager_def
proof (intro run_cmd run_nil)
  show "fresh_for (demo_create 1 ''a'') demo_manager" by code_simp
  show "fresh_for (demo_create 2 ''b'') (session_exec (demo_create 1 ''a'') demo_manager)" by code_simp
qed

definition demo_session :: "rat \<Rightarrow> string \<Rightarrow> session" where
  "demo_session expires sid = \<lparr>ss_id = sid, ss_owner = ''me'', ss_kind = ''sensor'', ss_targets = [''cam''],
     ss_groups = [], ss_sensors = [''cam''], ss_interval = 0, ss_exclusive = False, ss_status = ''active'',
     ss_message = ''capture session active'', ss_expires = expires\<rparr>"

lemma shared_sessions:
  "mg_sessions shared_manager
     = [(''session_a'', demo_session 31 ''session_a''), (''session_b'', demo_session 32 ''session_b'')]"
  by code_simp

theorem lease_is_held_witness:
  "\<exists>e. map_of (mg_sessions (session_exec (Expire (demo_mg_env 30 '''')) shared_manager)) ''session_a''
      = Some ((demo_session 31 ''session_a'')\<lparr>ss_expires := e\<rparr>) \<and> 31 \<le> e"
proof -
  have ttl: "mg_session_ttl shared_manager = 30" by code_simp
  have run: "session_run [Expire (demo_mg_env 30 '''')] shared_manager (session_exec (Expire (demo_mg_env 30 '''')) shared_manager)"
    by (intro run_cmd run_nil) simp
  have "mg_sessions demo_manager = []" by (simp add: demo_manager_def)
  then have inv: "sessions_inv (mg_sessions shared_manager)"
    by (intro run_inv [OF shared_run]) (simp add: sessions_inv_def)
  have "map_of (mg_sessions shared_manager) ''session_a'' = Some (demo_session 31 ''session_a'')"
    by (simp add: shared_sessions)
  from lease_is_held [OF run inv this, of 1] show ?thesis
    by (simp add: ttl demo_session_def in_window_def demo_mg_env_def)
qed

theorem expiry_removes_exactly_expired_witness:
  "dkeys (mg_sessions (snd (expire_capture_sessions (demo_mg_env 31 '''') shared_manager))) = [''session_b'']"
proof -
  have "distinct (dkeys (mg_sessions shared_manager))" by (simp add: shared_sessions)
  from expiry_removes_exactly_expired [OF this, of "demo_mg_env 31 ''''"] show ?thesis
    by (simp add: shared_sessions demo_session_def demo_mg_env_def)
qed

end
