(* ===== verification/Json.thy ===== *)
theory Json
  imports Py_Value "HOL-Library.List_Lexorder"
begin

section \<open>JSON texts\<close>

text \<open>
  What the manager and the gateway use of the standard module \<^verbatim>\<open>json\<close>: \<open>dumps\<close> with
  \<open>separators=(",", ":")\<close> and \<open>sort_keys=True\<close>, and \<open>loads\<close>. Strings are
  sequences of 8-bit characters, so an escape of a larger code point is refused.
\<close>

subsection \<open>\<open>json.dumps\<close>\<close>

definition json_char :: "char \<Rightarrow> string" where
  "json_char c =
     (if code c = 34 then [chr 92, chr 34]
      else if code c = 92 then [chr 92, chr 92]
      else if code c = 10 then [chr 92, CHR ''n'']
      else if code c = 13 then [chr 92, CHR ''r'']
      else if code c = 9 then [chr 92, CHR ''t'']
      else if code c = 8 then [chr 92, CHR ''b'']
      else if code c = 12 then [chr 92, CHR ''f'']
      else if code c < 32 \<or> 127 \<le> code c
        then [chr 92, CHR ''u'', CHR ''0'', CHR ''0'', hex_digit (code c div 16), hex_digit (code c mod 16)]
      else [c])"

definition json_quote :: "string \<Rightarrow> string" where
  "json_quote s = [chr 34] @ concat (map json_char s) @ [chr 34]"

definition json_float :: "pyfloat \<Rightarrow> string" where
  "json_float x = (case x of FInf \<Rightarrow> ''Infinity'' | FNegInf \<Rightarrow> ''-Infinity'' | FNaN \<Rightarrow> ''NaN'' | _ \<Rightarrow> float_repr x)"

fun json_dumps :: "pyval \<Rightarrow> string" where
  "json_dumps PNone = ''null''"
| "json_dumps (PBool b) = (if b then ''true'' else ''false'')"
| "json_dumps (PInt i) = show_int i"
| "json_dumps (PFloat x) = json_float x"
| "json_dumps (PStr s) = json_quote s"
| "json_dumps (PList xs) = ''['' @ join '','' (map json_dumps xs) @ '']''"
| "json_dumps (PDict d) =
     ''{'' @ join '','' (map (\<lambda>(k, t). json_quote k @ '':'' @ t)
       (sort_key fst (map (\<lambda>(k, v). (k, json_dumps v)) d))) @ ''}''"

subsection \<open>\<open>json.loads\<close>\<close>

definition json_space :: "char \<Rightarrow> bool" where
  "json_space c \<longleftrightarrow> code c \<in> {32, 9, 10, 13}"

definition skip_space :: "string \<Rightarrow> string" where
  "skip_space s = dropWhile json_space s"

definition json_hex :: "char \<Rightarrow> nat option" where
  "json_hex c =
     (if is_digit c then Some (code c - 48)
      else if code c \<in> {65..70} then Some (code c - 55)
      else if code c \<in> {97..102} then Some (code c - 87) else None)"

definition json_escape :: "char \<Rightarrow> char option" where
  "json_escape c =
     (if code c \<in> {34, 47, 92} then Some c
      else if c = CHR ''n'' then Some (chr 10)
      else if c = CHR ''r'' then Some (chr 13)
      else if c = CHR ''t'' then Some (chr 9)
      else if c = CHR ''b'' then Some (chr 8)
      else if c = CHR ''f'' then Some (chr 12) else None)"

definition json_unicode :: "char \<Rightarrow> char \<Rightarrow> char \<Rightarrow> char \<Rightarrow> char option" where
  "json_unicode a b c d =
     (case (json_hex a, json_hex b, json_hex c, json_hex d) of
        (Some 0, Some 0, Some h, Some l) \<Rightarrow> Some (chr (16 * h + l))
      | _ \<Rightarrow> None)"

text \<open>The rest of a string after its opening quote.\<close>

fun json_string :: "string \<Rightarrow> (string \<times> string) option" where
  "json_string [] = None"
| "json_string (c # s) =
     (if code c = 34 then Some ([], s)
      else if code c = 92 then
        (case s of
           [] \<Rightarrow> None
         | e # t \<Rightarrow>
             if e = CHR ''u'' then
               (case t of
                  a # b # x # d # r \<Rightarrow>
                    (case json_unicode a b x d of
                       None \<Rightarrow> None
                     | Some u \<Rightarrow> (case json_string r of None \<Rightarrow> None | Some (w, rest) \<Rightarrow> Some (u # w, rest)))
                | _ \<Rightarrow> None)
             else
               (case json_escape e of
                  None \<Rightarrow> None
                | Some u \<Rightarrow> (case json_string t of None \<Rightarrow> None | Some (w, rest) \<Rightarrow> Some (u # w, rest))))
      else if code c < 32 then None
      else (case json_string s of None \<Rightarrow> None | Some (w, rest) \<Rightarrow> Some (c # w, rest)))"

definition json_integer :: "string \<Rightarrow> (string \<times> string) option" where
  "json_integer s =
     (case s of
        [] \<Rightarrow> None
      | c # r \<Rightarrow>
          if c = CHR ''0'' then Some ([c], r)
          else if is_digit c then Some (takeWhile is_digit s, dropWhile is_digit s) else None)"

definition json_fraction :: "string \<Rightarrow> string \<times> string" where
  "json_fraction s =
     (case s of
        c # r \<Rightarrow>
          if c = CHR ''.'' \<and> takeWhile is_digit r \<noteq> []
          then (c # takeWhile is_digit r, dropWhile is_digit r) else ([], s)
      | [] \<Rightarrow> ([], s))"

definition json_exponent :: "string \<Rightarrow> string \<times> string" where
  "json_exponent s =
     (case s of
        c # r \<Rightarrow>
          if c = CHR ''e'' \<or> c = CHR ''E'' then
            (let (sg, ds) = (case r of x # y \<Rightarrow> if x = CHR ''+'' \<or> x = CHR ''-'' then ([x], y) else ([], r) | [] \<Rightarrow> ([], r))
             in if takeWhile is_digit ds \<noteq> []
                then (c # sg @ takeWhile is_digit ds, dropWhile is_digit ds) else ([], s))
          else ([], s)
      | [] \<Rightarrow> ([], s))"

definition json_number :: "string \<Rightarrow> (pyval \<times> string) option" where
  "json_number s0 =
     (let (sg, s1) = (case s0 of c # r \<Rightarrow> if c = CHR ''-'' then ([c], r) else ([], s0) | [] \<Rightarrow> ([], s0)) in
      case json_integer s1 of
        None \<Rightarrow> None
      | Some (i, s2) \<Rightarrow>
          (let (f, s3) = json_fraction s2; (e, s4) = json_exponent s3 in
           if f = [] \<and> e = [] then map_option (\<lambda>n. (PInt n, s4)) (parse_int (sg @ i))
           else map_option (\<lambda>x. (PFloat x, s4)) (parse_float (sg @ i @ f @ e))))"

text \<open>Words that are not numbers.\<close>

definition json_words :: "(string \<times> pyval) list" where
  "json_words = [(''null'', PNone), (''true'', PBool True), (''false'', PBool False), (''NaN'', PFloat FNaN),
     (''Infinity'', PFloat FInf), (''-Infinity'', PFloat FNegInf)]"

definition json_word :: "string \<Rightarrow> (pyval \<times> string) option" where
  "json_word s = map_option (\<lambda>(w, v). (v, drop (length w) s)) (List.find (\<lambda>(w, v). take (length w) s = w) json_words)"

text \<open>
  The depth of the recursion is bounded by the number of characters: every level of
  nesting consumes at least one.
\<close>

fun json_value :: "nat \<Rightarrow> string \<Rightarrow> (pyval \<times> string) option"
  and json_items :: "nat \<Rightarrow> string \<Rightarrow> (pyval list \<times> string) option"
  and json_members :: "nat \<Rightarrow> string \<Rightarrow> ((string \<times> pyval) list \<times> string) option" where
  "json_value 0 s = None"
| "json_value (Suc n) s =
     (case json_word s of
        Some r \<Rightarrow> Some r
      | None \<Rightarrow>
          (case s of
             [] \<Rightarrow> None
           | c # r \<Rightarrow>
               if code c = 34 then map_option (\<lambda>(w, rest). (PStr w, rest)) (json_string r)
               else if c = CHR ''['' then
                 (case skip_space r of
                    [] \<Rightarrow> None
                  | x # y \<Rightarrow>
                      if x = CHR '']'' then Some (PList [], y)
                      else map_option (\<lambda>(vs, rest). (PList vs, rest)) (json_items n (x # y)))
               else if c = CHR ''{'' then
                 (case skip_space r of
                    [] \<Rightarrow> None
                  | x # y \<Rightarrow>
                      if x = CHR ''}'' then Some (PDict [], y)
                      else map_option (\<lambda>(ms, rest). (PDict (foldl (\<lambda>d (k, v). dset k v d) [] ms), rest))
                             (json_members n (x # y)))
               else json_number s))"
| "json_items 0 s = None"
| "json_items (Suc n) s =
     (case json_value n s of
        None \<Rightarrow> None
      | Some (v, r) \<Rightarrow>
          (case skip_space r of
             [] \<Rightarrow> None
           | x # y \<Rightarrow>
               if x = CHR '']'' then Some ([v], y)
               else if x = CHR '','' then map_option (\<lambda>(vs, rest). (v # vs, rest)) (json_items n (skip_space y))
               else None))"
| "json_members 0 s = None"
| "json_members (Suc n) s =
     (case s of
        [] \<Rightarrow> None
      | q # t \<Rightarrow>
          if code q \<noteq> 34 then None
          else (case json_string t of
             None \<Rightarrow> None
           | Some (k, r) \<Rightarrow>
               (case skip_space r of
                  [] \<Rightarrow> None
                | c # r1 \<Rightarrow>
                    if c \<noteq> CHR '':'' then None
                    else (case json_value n (skip_space r1) of
                       None \<Rightarrow> None
                     | Some (v, r2) \<Rightarrow>
                         (case skip_space r2 of
                            [] \<Rightarrow> None
                          | x # y \<Rightarrow>
                              if x = CHR ''}'' then Some ([(k, v)], y)
                              else if x = CHR '','' then
                                map_option (\<lambda>(ms, rest). ((k, v) # ms, rest)) (json_members n (skip_space y))
                              else None)))))"

definition json_loads :: "string \<Rightarrow> pyval result" where
  "json_loads s =
     (case json_value (Suc (length s)) (skip_space s) of
        Some (v, rest) \<Rightarrow> if skip_space rest = [] then Inr v else Inl JSONErr
      | None \<Rightarrow> Inl JSONErr)"

end
