(* ===== verification/Manager_Modes.thy ===== *)
theory Manager_Modes
  imports Capture_Sessions Json
begin

section \<open>Operating modes, groups and provider assignments\<close>

text \<open>
  How \<^verbatim>\<open>manager_node.py\<close> decides what each camera has to do: the mode of a camera from
  the capture sessions, its groups and the requested modes; the message of a group from
  what the providers report; and the assignments that are sent to the providers.
\<close>

subsection \<open>Groups and modes\<close>

definition groups_for_sensor :: "pydict \<Rightarrow> string \<Rightarrow> string list" where
  "groups_for_sensor ivt sid =
     sort (map fst (filter (\<lambda>(gid, g). sid \<in> set (group_members (dict_of g))) (inv_groups ivt)))"

definition group_for_sensor :: "pydict \<Rightarrow> string \<Rightarrow> string" where
  "group_for_sensor ivt sid = (case groups_for_sensor ivt sid of [] \<Rightarrow> '''' | g # _ \<Rightarrow> g)"

definition requested_group_mode :: "'f manager \<Rightarrow> string \<Rightarrow> string" where
  "requested_group_mode m gid =
     (if sessions_for_group (mg_sessions m) gid \<noteq> [] then ''capture''
      else dget (mg_group_modes m) gid (mg_default_mode m))"

definition requested_group_interval :: "'f manager \<Rightarrow> string \<Rightarrow> int" where
  "requested_group_interval m gid =
     (let intervals = filter (\<lambda>i. 0 < i) (map ss_interval (sessions_for_group (mg_sessions m) gid))
      in if intervals \<noteq> [] then Min (set intervals) else dget (mg_group_intervals m) gid 0)"

definition directly_owned :: "session dict \<Rightarrow> string \<Rightarrow> bool" where
  "directly_owned sessions sid \<longleftrightarrow>
     list_ex (\<lambda>s. ss_kind s = ''sensor'' \<and> sid \<in> set (ss_sensors s)) (dvalues sessions)"

definition mode_for_sensor :: "'f manager \<Rightarrow> string \<Rightarrow> string" where
  "mode_for_sensor m sid =
     (let groups = groups_for_sensor (mg_inventory m) sid in
      if groups = [] then
        (if directly_owned (mg_sessions m) sid then ''capture''
         else dget (mg_sensor_modes m) sid (mg_default_mode m))
      else
        (let modes = map (requested_group_mode m) groups in
         if ''capture'' \<in> set modes then ''capture''
         else if directly_owned (mg_sessions m) sid then ''capture''
         else if ''preview'' \<in> set modes then ''preview''
         else ''idle''))"

subsection \<open>Providers\<close>

definition runtime_provider :: "'f manager \<Rightarrow> pydict \<Rightarrow> string result" where
  "runtime_provider m record =
     (if dget record ''kind'' (PStr ''camera'') = PStr ''camera'' then Inr (mg_backend m)
      else bindR (py_index (PDict record) ''provider'') (\<lambda>p. Inr (py_str p)))"

definition runtime_group_provider :: "'f manager \<Rightarrow> pydict \<Rightarrow> string result" where
  "runtime_group_provider m g =
     (if group_members g = [] then bindR (py_index (PDict g) ''provider'') (\<lambda>p. Inr (py_str p))
      else
        bindR (mapR (\<lambda>member. bindR (or_raise (map_of (inv_sensors (mg_inventory m)) member) (KeyErr member))
                 (\<lambda>s. runtime_provider m (dict_of s))) (group_members g)) (\<lambda>providers.
        case remdups providers of
          [p] \<Rightarrow> Inr p
        | _ \<Rightarrow> Inl (RegistryError ''synchronization group has mixed runtime providers'')))"

text \<open>\<open>_provider_group_is_current\<close>, \<open>_runtime_sensor_is_ready\<close>.\<close>

definition provider_group_is_current ::
  "group_msg option \<Rightarrow> string list \<Rightarrow> string \<Rightarrow> int \<Rightarrow> bool" where
  "provider_group_is_current message members mode interval \<longleftrightarrow>
     (case message of
        None \<Rightarrow> False
      | Some g \<Rightarrow>
          (mode = ''idle'' \<or> gm_mode g = mode)
          \<and> (interval = 0 \<or> 0 < gm_interval g \<and> gm_interval g \<le> interval)
          \<and> set (gm_members g) = set members)"

definition runtime_sensor_is_ready :: "sensor_msg option \<Rightarrow> string \<Rightarrow> bool" where
  "runtime_sensor_is_ready message mode \<longleftrightarrow>
     (case message of
        None \<Rightarrow> False
      | Some s \<Rightarrow> sm_online s \<and> sm_mode s = mode \<and> (mode \<noteq> ''capture'' \<or> sm_capture_ready s))"

subsection \<open>The message of a group\<close>

definition pending_group ::
  "string \<Rightarrow> string \<Rightarrow> string list \<Rightarrow> string \<Rightarrow> string \<Rightarrow> pyfloat \<Rightarrow> int \<Rightarrow> string list \<Rightarrow> group_msg" where
  "pending_group gid provider members policy mode rate interval online =
     (let missing = filter (\<lambda>x. x \<notin> set online) members; cadence = (interval = 0) in
      \<lparr>gm_id = gid, gm_provider = provider, gm_members = members, gm_missing_policy = policy,
       gm_trigger_source = ''Action0'', gm_mode = mode, gm_preview_rate = rate, gm_interval = interval,
       gm_cadence_configured = cadence, gm_cadence_ready = cadence,
       gm_ready = (cadence \<and> (mode = ''idle'' \<or> missing = [] \<or> policy = ''degraded'')),
       gm_online = online, gm_missing = missing, gm_preferred_master = ''''\<rparr>)"

definition sync_group_message :: "'f manager \<Rightarrow> string \<Rightarrow> pydict \<Rightarrow> group_msg result" where
  "sync_group_message m gid record =
     (let mode = requested_group_mode m gid; interval = requested_group_interval m gid;
          members = group_members record in
      bindR (runtime_group_provider m record) (\<lambda>provider.
      bindR (py_index (PDict record) ''missing_policy'') (\<lambda>policy.
      bindR (py_index (PDict record) ''preview_rate_hz'') (\<lambda>r.
      bindR (py_float r) (\<lambda>rate.
      Inr (if provider_group_is_current (map_of (mg_provider_groups m) gid) members mode interval
           then (the (map_of (mg_provider_groups m) gid))
             \<lparr>gm_id := gid, gm_provider := provider, gm_members := members,
              gm_missing_policy := py_str policy, gm_trigger_source := ''Action0'', gm_mode := mode,
              gm_preview_rate := rate, gm_interval := interval\<rparr>
           else pending_group gid provider members (py_str policy) mode rate interval
             (filter (\<lambda>x. runtime_sensor_is_ready (map_of (mg_runtime m) x) mode) members)))))))"

subsection \<open>Assignments\<close>

record assignment =
  as_sensor :: string
  as_provider :: string
  as_kind :: string
  as_serial :: string
  as_mac :: string
  as_enabled :: bool
  as_frame :: string
  as_calibration :: string
  as_network :: string
  as_address :: string
  as_reserved :: bool
  as_mode :: string
  as_groups :: "string list"
  as_policies :: "string list"
  as_sync_group :: string
  as_missing_policy :: string
  as_trigger_source :: string
  as_preview_rate :: pyfloat
  as_interval :: int
  as_settings :: string

text \<open>The groups of each member, in the order of the group identifiers.\<close>

definition groups_for_member :: "pydict \<Rightarrow> string \<Rightarrow> (string \<times> pydict) list" where
  "groups_for_member ivt sid =
     concat (map (\<lambda>(gid, g). map (\<lambda>_. (gid, dict_of g)) (filter (\<lambda>x. x = sid) (group_members (dict_of g))))
       (sort_key fst (inv_groups ivt)))"

definition assignment_mode :: "'f manager \<Rightarrow> string \<Rightarrow> (string \<times> pydict) list \<Rightarrow> string" where
  "assignment_mode m sid member_groups =
     (let modes = map (requested_group_mode m \<circ> fst) member_groups in
      if ''capture'' \<in> set modes then ''capture''
      else if directly_owned (mg_sessions m) sid then ''capture''
      else if ''preview'' \<in> set modes then ''preview''
      else if member_groups \<noteq> [] then ''idle''
      else dget (mg_sensor_modes m) sid (mg_default_mode m))"

definition capture_reserved :: "session dict \<Rightarrow> string \<Rightarrow> bool" where
  "capture_reserved sessions sid \<longleftrightarrow> list_ex (\<lambda>s. sid \<in> set (ss_sensors s)) (dvalues sessions)"

definition assigned_groups :: "'f manager \<Rightarrow> string \<Rightarrow> (string \<times> pydict) list \<Rightarrow> (string \<times> pydict) list" where
  "assigned_groups m mode member_groups =
     (if mode = ''capture''
      then filter (\<lambda>(gid, g). requested_group_mode m gid = ''capture'') member_groups
      else member_groups)"

definition group_policy :: "pydict \<Rightarrow> string" where
  "group_policy g = py_str (dget g ''missing_policy'' (PStr ''strict''))"

definition joint_policy :: "(string \<times> pydict) list \<Rightarrow> string" where
  "joint_policy groups =
     (if list_ex (\<lambda>(gid, g). group_policy g = ''strict'') groups then ''strict''
      else if groups \<noteq> [] then ''degraded'' else '''')"

definition assignment_interval :: "'f manager \<Rightarrow> string \<Rightarrow> string list \<Rightarrow> int" where
  "assignment_interval m mode gids =
     (let intervals = map (requested_group_interval m)
        (filter (\<lambda>gid. requested_group_mode m gid = ''capture'' \<and> 0 < requested_group_interval m gid) gids)
      in if mode = ''capture'' \<and> intervals \<noteq> [] then Min (set intervals) else 0)"

text \<open>\<open>max\<close> of a list of floats, as Python computes it.\<close>

fun max_float :: "pyfloat \<Rightarrow> pyfloat list \<Rightarrow> pyfloat" where
  "max_float x [] = x"
| "max_float x (y # ys) = max_float (if flt_lt x y then y else x) ys"

definition machine_default :: "'f manager \<Rightarrow> string \<Rightarrow> pyval result" where
  "machine_default m key =
     bindR (py_index (PDict (mg_machine m)) ''defaults'') (\<lambda>d. py_index d key)"

definition assignment_rate :: "'f manager \<Rightarrow> (string \<times> pydict) list \<Rightarrow> pyfloat result" where
  "assignment_rate m member_groups =
     bindR (machine_default m ''preview_rate_hz'') (\<lambda>default.
     bindR (py_float default) (\<lambda>default_rate.
     bindR (mapR (\<lambda>(gid, g). py_float (dget g ''preview_rate_hz'' default)) member_groups) (\<lambda>rates.
     Inr (case rates of [] \<Rightarrow> default_rate | r # rs \<Rightarrow> max_float r rs))))"

text \<open>The settings a camera gets: machine defaults, then its profile, then its overrides.\<close>

definition rename_exposure :: "pydict \<Rightarrow> pydict" where
  "rename_exposure d =
     (case map_of d ''exposure_time_us'' of
        None \<Rightarrow> d
      | Some v \<Rightarrow> dset ''exposure_us'' v (dpop ''exposure_time_us'' d))"

definition copy_key :: "pydict \<Rightarrow> string \<Rightarrow> pydict \<Rightarrow> pydict" where
  "copy_key source key d = (case map_of source key of None \<Rightarrow> d | Some v \<Rightarrow> dset key v d)"

definition portable_defaults :: "pydict \<Rightarrow> pydict \<Rightarrow> pydict" where
  "portable_defaults provider_config defaults =
     fold (copy_key defaults) [''preview_width'', ''preview_format'', ''png_compression'', ''jpeg_quality'']
       (copy_key provider_config ''capture_png_compression''
         (rename_exposure (dict_of (dget provider_config ''imaging'' (PDict [])))))"

definition effective_known :: "'f manager \<Rightarrow> string \<Rightarrow> pydict" where
  "effective_known m sid =
     (let known = dict_of (dget (inv_known (mg_inventory m)) sid (PDict [])) in
      case map_of (mg_pending m) sid of
        None \<Rightarrow> known
      | Some p \<Rightarrow> dset ''provider_settings'' (PDict (pe_settings p))
          (dset ''camera_profile'' (PStr (pe_profile p)) known))"

definition effective_settings :: "'f manager \<Rightarrow> string \<Rightarrow> string \<Rightarrow> pydict \<Rightarrow> pydict result" where
  "effective_settings m provider sid sensor =
     (let known = effective_known m sid;
          provider_config = dict_of (dget (dict_of (dget (mg_machine m) ''providers'' (PDict []))) provider (PDict []));
          defaults = dict_of (dget (mg_machine m) ''defaults'' (PDict []));
          profile = py_str (dget known ''camera_profile'' (PStr '''')) in
      bindR (resolve_camera_settings (portable_defaults provider_config defaults) (mg_profiles m) profile
          (PDict (dict_of (dget known ''provider_settings'' (PDict []))))) (\<lambda>settings.
      (let s1 = dset ''camera_profile'' (PStr profile) settings in
       Inr (if provider = ''genicam'' \<and> dget sensor ''kind'' PNone = PStr ''camera''
            then dset ''trigger_source'' (PStr ''Action0'') s1 else s1))))"

definition approved_network :: "'f manager \<Rightarrow> pydict \<Rightarrow> bool" where
  "approved_network m sensor \<longleftrightarrow>
     (case map_of (machine_networks (mg_machine m)) (py_str (dget sensor ''network_id'' (PStr ''''))) of
        None \<Rightarrow> False
      | Some network \<Rightarrow> truthy network \<and> truthy (dget (dict_of network) ''approved'' PNone))"

definition assignment_for :: "'f manager \<Rightarrow> string \<Rightarrow> pydict \<Rightarrow> assignment result" where
  "assignment_for m sid sensor =
     (let ivt = mg_inventory m; member_groups = groups_for_member ivt sid;
          mode = assignment_mode m sid member_groups;
          assigned = assigned_groups m mode member_groups; gids = map fst assigned in
      bindR (runtime_provider m sensor) (\<lambda>provider.
      bindR (py_index (PDict sensor) ''serial'') (\<lambda>serial.
      bindR (assignment_rate m member_groups) (\<lambda>rate.
      bindR (effective_settings m provider sid sensor) (\<lambda>settings.
      Inr \<lparr>as_sensor = sid, as_provider = provider, as_kind = py_str (dget sensor ''kind'' (PStr ''camera'')),
        as_serial = py_str serial, as_mac = field sensor ''mac_address'',
        as_enabled = truthy (dget sensor ''enabled'' (PBool True)), as_frame = sid @ ''_optical_frame'',
        as_calibration = field sensor ''calibration_url'', as_network = field sensor ''network_id'',
        as_address = field sensor ''assigned_address'', as_reserved = capture_reserved (mg_sessions m) sid,
        as_mode = mode, as_groups = gids, as_policies = map (group_policy \<circ> snd) assigned,
        as_sync_group = (case gids of [] \<Rightarrow> '''' | g # _ \<Rightarrow> g), as_missing_policy = joint_policy assigned,
        as_trigger_source = (if assigned = [] then '''' else ''Action0''), as_preview_rate = rate,
        as_interval = assignment_interval m mode gids, as_settings = json_dumps (PDict settings)\<rparr>)))))"

text \<open>What each provider is sent.\<close>

definition assignments :: "'f manager \<Rightarrow> assignment list result" where
  "assignments m =
     mapR (\<lambda>(sid, s). assignment_for m sid (dict_of s))
       (filter (\<lambda>(sid, s). approved_network m (dict_of s)) (inv_sensors (mg_inventory m)))"

definition published_assignments :: "'f manager \<Rightarrow> (string \<times> assignment list) list result" where
  "published_assignments m =
     bindR (assignments m) (\<lambda>all.
     Inr (map (\<lambda>p. (p, filter (\<lambda>a. as_provider a = p) all)) (mg_providers m)))"

subsection \<open>The two readings of a camera's mode agree\<close>

lemma groups_for_sensor_iff:
  "gid \<in> set (groups_for_sensor ivt sid)
     \<longleftrightarrow> (\<exists>g. (gid, g) \<in> set (inv_groups ivt) \<and> sid \<in> set (group_members (dict_of g)))"
  by (force simp: groups_for_sensor_def)

lemma groups_for_member_iff:
  "gid \<in> fst ` set (groups_for_member ivt sid) \<longleftrightarrow> gid \<in> set (groups_for_sensor ivt sid)"
  unfolding groups_for_sensor_iff by (force simp: groups_for_member_def)

lemma groups_for_member_set: "set (map fst (groups_for_member ivt sid)) = set (groups_for_sensor ivt sid)"
  using groups_for_member_iff [of _ ivt sid] by auto

lemma groups_for_member_Nil: "groups_for_member ivt sid = [] \<longleftrightarrow> groups_for_sensor ivt sid = []"
proof -
  have "map fst (groups_for_member ivt sid) = [] \<longleftrightarrow> groups_for_sensor ivt sid = []"
    using groups_for_member_set [of ivt sid] by (metis set_empty)
  then show ?thesis by simp
qed

lemma assignment_mode_agrees:
  "assignment_mode m sid (groups_for_member (mg_inventory m) sid) = mode_for_sensor m sid"
proof -
  let ?gm = "groups_for_member (mg_inventory m) sid" and ?gs = "groups_for_sensor (mg_inventory m) sid"
  have modes: "set (map (requested_group_mode m \<circ> fst) ?gm) = set (map (requested_group_mode m) ?gs)"
    using groups_for_member_set [of "mg_inventory m" sid] by (metis image_set map_map)
  show ?thesis
  proof (cases "?gs = []")
    case True
    then have "?gm = []" by (simp add: groups_for_member_Nil)
    with True show ?thesis by (simp add: assignment_mode_def mode_for_sensor_def)
  next
    case False
    then have "?gm \<noteq> []" by (simp add: groups_for_member_Nil)
    with False modes show ?thesis unfolding assignment_mode_def mode_for_sensor_def Let_def by auto
  qed
qed

lemma assignment_for_Inr:
  assumes "assignment_for m sid sensor = Inr a"
  defines "mode \<equiv> mode_for_sensor m sid"
  defines "assigned \<equiv> assigned_groups m mode (groups_for_member (mg_inventory m) sid)"
  shows "as_sensor a = sid" "as_mode a = mode" "as_reserved a = capture_reserved (mg_sessions m) sid"
    "as_groups a = map fst assigned" "as_interval a = assignment_interval m mode (map fst assigned)"
    "as_missing_policy a = joint_policy assigned" "runtime_provider m sensor = Inr (as_provider a)"
  using assms(1) unfolding assignment_for_def Let_def assignment_mode_agrees
  by (auto simp: bindR_eq_Inr mode_def assigned_def)

subsection \<open>Sessions decide\<close>

lemma sessions_for_group_member:
  "s \<in> set (dvalues sessions) \<Longrightarrow> gid \<in> set (ss_groups s) \<Longrightarrow> s \<in> set (sessions_for_group sessions gid)"
  by (simp add: sessions_for_group_def)

lemma requested_capture:
  "s \<in> set (dvalues (mg_sessions m)) \<Longrightarrow> gid \<in> set (ss_groups s) \<Longrightarrow> requested_group_mode m gid = ''capture''"
  using sessions_for_group_member [of s "mg_sessions m" gid] by (auto simp: requested_group_mode_def)

lemma list_nonempty: "x \<in> set xs \<Longrightarrow> xs \<noteq> []"
  by auto

lemma Min_member: "xs \<noteq> [] \<Longrightarrow> Min (set xs) \<in> set xs"
  by (intro Min_in) simp_all

lemma requested_interval_le:
  assumes "s \<in> set (dvalues (mg_sessions m))" and "gid \<in> set (ss_groups s)" and "0 < ss_interval s"
  shows "0 < requested_group_interval m gid \<and> requested_group_interval m gid \<le> ss_interval s"
proof -
  let ?is = "filter (\<lambda>i. 0 < i) (map ss_interval (sessions_for_group (mg_sessions m) gid))"
  have s: "ss_interval s \<in> set ?is" using sessions_for_group_member [OF assms(1,2)] assms(3) by simp
  then have ne: "?is \<noteq> []" by (rule list_nonempty)
  then have "Min (set ?is) \<in> set ?is" by (rule Min_member)
  with s ne show ?thesis by (auto simp: requested_group_interval_def Let_def)
qed

lemma session_mode:
  assumes "s \<in> set (dvalues (mg_sessions m))" and "sid \<in> set (ss_sensors s)"
    and "ss_kind s = ''sensor'' \<or> (\<exists>g \<in> set (ss_groups s). g \<in> set (groups_for_sensor (mg_inventory m) sid))"
  shows "mode_for_sensor m sid = ''capture''"
  using assms(3)
proof
  assume "ss_kind s = ''sensor''"
  with assms(1,2) have "directly_owned (mg_sessions m) sid" by (auto simp: directly_owned_def list_ex_iff)
  then show ?thesis by (simp add: mode_for_sensor_def Let_def)
next
  assume "\<exists>g \<in> set (ss_groups s). g \<in> set (groups_for_sensor (mg_inventory m) sid)"
  then obtain g where g: "g \<in> set (ss_groups s)" "g \<in> set (groups_for_sensor (mg_inventory m) sid)" by blast
  have "requested_group_mode m g = ''capture''" by (rule requested_capture [OF assms(1) g(1)])
  with g(2) have "''capture'' \<in> set (map (requested_group_mode m) (groups_for_sensor (mg_inventory m) sid))"
    by force
  moreover have "groups_for_sensor (mg_inventory m) sid \<noteq> []" using g(2) by auto
  ultimately show ?thesis unfolding mode_for_sensor_def Let_def by (simp only: if_False if_True)
qed

subsection \<open>Properties\<close>

text \<open>C15: The mode in a camera's assignment, computed group by group for the provider, is always the
  mode that the published sensor state shows, and while the camera captures only groups that
  asked for capture are passed on to the provider.\<close>

theorem assigned_mode_is_published_mode:
  assumes "assignment_for m sid sensor = Inr a"
  shows "as_mode a = mode_for_sensor m sid
    \<and> (as_mode a = ''capture'' \<longrightarrow> (\<forall>g \<in> set (as_groups a). requested_group_mode m g = ''capture''))
    \<and> (as_mode a \<noteq> ''capture'' \<longrightarrow> set (as_groups a) = set (groups_for_sensor (mg_inventory m) sid))"
  using groups_for_member_set [of "mg_inventory m" sid]
  by (auto simp: assignment_for_Inr [OF assms] assigned_groups_def)

text \<open>A camera that a capture session holds is assigned capture mode and marked as reserved,
  together with the groups the session names it through, and its capture interval is positive
  and at most what the session asked for.\<close>

theorem session_cameras_capture:
  assumes "assignment_for m sid sensor = Inr a"
    and "map_of (mg_sessions m) k = Some s" and "sid \<in> set (ss_sensors s)"
    and "ss_kind s = ''sensor'' \<or> (\<exists>g \<in> set (ss_groups s). g \<in> set (groups_for_sensor (mg_inventory m) sid))"
  shows "as_mode a = ''capture'' \<and> as_reserved a
    \<and> (\<forall>g \<in> set (ss_groups s). g \<in> set (groups_for_sensor (mg_inventory m) sid) \<longrightarrow>
         g \<in> set (as_groups a)
         \<and> (0 < ss_interval s \<longrightarrow> 0 < as_interval a \<and> as_interval a \<le> ss_interval s))"
proof -
  note a = assignment_for_Inr [OF assms(1)]
  have s: "s \<in> set (dvalues (mg_sessions m))" using assms(2) by (force dest: map_of_SomeD)
  have mode: "mode_for_sensor m sid = ''capture''" by (rule session_mode [OF s assms(3,4)])
  have reserved: "as_reserved a" using s assms(3) by (auto simp: a(3) capture_reserved_def list_ex_iff)
  have groups: "g \<in> set (as_groups a) \<and> (0 < ss_interval s \<longrightarrow> 0 < as_interval a \<and> as_interval a \<le> ss_interval s)"
    if g: "g \<in> set (ss_groups s)" "g \<in> set (groups_for_sensor (mg_inventory m) sid)" for g
  proof
    have cap: "requested_group_mode m g = ''capture''" by (rule requested_capture [OF s g(1)])
    have "g \<in> set (map fst (groups_for_member (mg_inventory m) sid))" using g(2) groups_for_member_set by simp
    with cap show mem: "g \<in> set (as_groups a)" by (auto simp: a(4) mode assigned_groups_def)
    show "0 < ss_interval s \<longrightarrow> 0 < as_interval a \<and> as_interval a \<le> ss_interval s"
    proof
      assume "0 < ss_interval s"
      note i = requested_interval_le [OF s g(1) this]
      let ?is = "map (requested_group_interval m)
        (filter (\<lambda>gid. requested_group_mode m gid = ''capture'' \<and> 0 < requested_group_interval m gid) (as_groups a))"
      have positive_member: "\<forall>i \<in> set ?is. 0 < i" by auto
      have in_is: "requested_group_interval m g \<in> set ?is" using mem cap i by auto
      then have ne: "?is \<noteq> []" by (rule list_nonempty)
      then have "Min (set ?is) \<in> set ?is" by (rule Min_member)
      then have "0 < Min (set ?is)" using positive_member by blast
      moreover have "Min (set ?is) \<le> requested_group_interval m g" by (rule Min_le) (use in_is in auto)
      moreover have "as_interval a = Min (set ?is)"
        using ne unfolding a(5) a(4) [symmetric] unfolding assignment_interval_def mode Let_def
        by (simp only: simp_thms if_True)
      ultimately show "0 < as_interval a \<and> as_interval a \<le> ss_interval s" using i by linarith
    qed
  qed
  with mode reserved show ?thesis by (simp add: a(2))
qed

lemma assignments_Inr:
  assumes "assignments m = Inr all"
  shows "list_all2 (\<lambda>(sid, s) a. assignment_for m sid (dict_of s) = Inr a)
    (filter (\<lambda>(sid, s). approved_network m (dict_of s)) (inv_sensors (mg_inventory m))) all"
  using assms unfolding assignments_def mapR_Inr_iff by (elim list_all2_mono) (auto split: prod.splits)

lemma assignments_sensors: "assignments m = Inr all \<Longrightarrow>
   map as_sensor all = map fst (filter (\<lambda>(sid, s). approved_network m (dict_of s)) (inv_sensors (mg_inventory m)))"
  by (drule assignments_Inr, induction rule: list_all2_induct) (auto simp: assignment_for_Inr(1))

text \<open>C16: Every enrolled camera on an approved network is sent to exactly one provider, its runtime
  provider, exactly once; no other camera is sent to anyone.\<close>

theorem each_camera_assigned_once:
  assumes "published_assignments m = Inr ps" and "distinct (dkeys (inv_sensors (mg_inventory m)))"
    and "distinct (mg_providers m)"
  shows "map fst ps = mg_providers m
    \<and> distinct (map as_sensor (concat (map snd ps)))
    \<and> (\<forall>(p, as) \<in> set ps. \<forall>a \<in> set as. as_provider a = p
         \<and> (\<exists>s. (as_sensor a, s) \<in> set (inv_sensors (mg_inventory m)) \<and> approved_network m (dict_of s)
              \<and> runtime_provider m (dict_of s) = Inr p))
    \<and> (\<forall>(sid, s) \<in> set (inv_sensors (mg_inventory m)). \<forall>p \<in> set (mg_providers m).
         approved_network m (dict_of s) \<longrightarrow> runtime_provider m (dict_of s) = Inr p \<longrightarrow>
         (\<exists>as a. (p, as) \<in> set ps \<and> a \<in> set as \<and> as_sensor a = sid))"
proof -
  from assms(1) obtain all where all: "assignments m = Inr all"
    and ps: "ps = map (\<lambda>p. (p, filter (\<lambda>a. as_provider a = p) all)) (mg_providers m)"
    by (auto simp: published_assignments_def bindR_eq_Inr)
  let ?ss = "filter (\<lambda>(sid, s). approved_network m (dict_of s)) (inv_sensors (mg_inventory m))"
  note l2 = assignments_Inr [OF all]
  have from_sensor: "\<exists>s. (as_sensor a, s) \<in> set (inv_sensors (mg_inventory m)) \<and> approved_network m (dict_of s)
      \<and> runtime_provider m (dict_of s) = Inr (as_provider a)" if "a \<in> set all" for a
  proof -
    from that obtain i where i: "i < length all" "all ! i = a" by (auto simp: in_set_conv_nth)
    obtain sid s where q: "?ss ! i = (sid, s)" by (cases "?ss ! i")
    have len: "i < length ?ss" using l2 i(1) by (simp add: list_all2_lengthD)
    have af: "assignment_for m sid (dict_of s) = Inr a"
      using list_all2_nthD [OF l2 len] i(2) q by simp
    have "(sid, s) \<in> set ?ss" using nth_mem [OF len] q by simp
    with assignment_for_Inr(1,7) [OF af] show ?thesis by auto
  qed
  have covered: "\<exists>a \<in> set all. as_sensor a = sid \<and> as_provider a = p"
    if "(sid, s) \<in> set ?ss" "runtime_provider m (dict_of s) = Inr p" for sid s p
  proof -
    from that(1) obtain i where i: "i < length ?ss" "?ss ! i = (sid, s)" by (metis in_set_conv_nth)
    have af: "assignment_for m sid (dict_of s) = Inr (all ! i)" using list_all2_nthD [OF l2 i(1)] i(2) by simp
    have "all ! i \<in> set all" using l2 i(1) by (simp add: list_all2_lengthD)
    with assignment_for_Inr(1,7) [OF af] that(2) show ?thesis by auto
  qed
  have "distinct (map as_sensor all)"
    unfolding assignments_sensors [OF all] using assms(2) by (rule distinct_map_filter)
  then have "distinct (map as_sensor (concat (map (\<lambda>p. filter (\<lambda>a. as_provider a = p) all) provs)))"
    if "distinct provs" for provs
    using that by (induction provs) (auto simp: distinct_map_filter distinct_map inj_on_def)
  from this [OF assms(3)] have once: "distinct (map as_sensor (concat (map snd ps)))" by (simp add: ps comp_def)
  have "map fst ps = mg_providers m" by (simp add: ps comp_def)
  moreover have "\<forall>(p, as) \<in> set ps. \<forall>a \<in> set as. as_provider a = p
         \<and> (\<exists>s. (as_sensor a, s) \<in> set (inv_sensors (mg_inventory m)) \<and> approved_network m (dict_of s)
              \<and> runtime_provider m (dict_of s) = Inr p)"
    using from_sensor by (auto simp: ps)
  moreover have "\<exists>as a. (p, as) \<in> set ps \<and> a \<in> set as \<and> as_sensor a = sid"
    if "(sid, s) \<in> set (inv_sensors (mg_inventory m))" "p \<in> set (mg_providers m)"
      "approved_network m (dict_of s)" "runtime_provider m (dict_of s) = Inr p" for sid s p
  proof -
    from that have "(sid, s) \<in> set ?ss" by simp
    from covered [OF this that(4)] obtain a where "a \<in> set all" "as_sensor a = sid" "as_provider a = p" by blast
    with that(2) show ?thesis unfolding ps by force
  qed
  ultimately show ?thesis using once by blast
qed

subsection \<open>A group's message\<close>

text \<open>The published state of a group is the manager's: its members, policy, mode and interval are
  the ones the manager decided, whatever a provider last reported; and when the provider's
  report is stale (other members, another mode, or too slow an interval), the group is ready
  only without a requested interval and, unless it is idle or tolerates missing members, with
  every member itself ready in the requested mode.\<close>

theorem group_message_is_managed:
  assumes "sync_group_message m gid record = Inr g"
  shows "gm_id g = gid \<and> gm_members g = group_members record
    \<and> gm_mode g = requested_group_mode m gid \<and> gm_interval g = requested_group_interval m gid
    \<and> (\<not> provider_group_is_current (map_of (mg_provider_groups m) gid) (group_members record)
           (requested_group_mode m gid) (requested_group_interval m gid) \<longrightarrow>
       gm_ready g \<longrightarrow>
         requested_group_interval m gid = 0
         \<and> (requested_group_mode m gid = ''idle'' \<or> gm_missing_policy g = ''degraded''
            \<or> (\<forall>x \<in> set (group_members record).
                 runtime_sensor_is_ready (map_of (mg_runtime m) x) (requested_group_mode m gid))))"
proof -
  define mode where "mode = requested_group_mode m gid"
  define interval where "interval = requested_group_interval m gid"
  define current where "current = provider_group_is_current (map_of (mg_provider_groups m) gid) (group_members record) mode interval"
  from assms obtain provider policy rate where g: "g = (if current
      then (the (map_of (mg_provider_groups m) gid))
             \<lparr>gm_id := gid, gm_provider := provider, gm_members := group_members record,
              gm_missing_policy := policy, gm_trigger_source := ''Action0'', gm_mode := mode,
              gm_preview_rate := rate, gm_interval := interval\<rparr>
      else pending_group gid provider (group_members record) policy mode rate interval
             (filter (\<lambda>x. runtime_sensor_is_ready (map_of (mg_runtime m) x) mode) (group_members record)))"
    unfolding sync_group_message_def Let_def bindR_eq_Inr mode_def interval_def current_def by blast
  show ?thesis
    unfolding mode_def [symmetric] interval_def [symmetric] current_def [symmetric]
    by (cases current) (auto simp: g pending_group_def Let_def filter_empty_conv)
qed

subsection \<open>Concrete states\<close>

definition capturing_manager :: "pydict manager" where
  "capturing_manager = snd (create_capture_session (demo_mg_env 0 ''a'') ''me'' ''group'' [''g''] 500 False
     (demo_manager\<lparr>mg_registry := (mg_registry demo_manager)\<lparr>rg_machine :=
       [(''managed_networks'', PDict [('''', PDict [(''approved'', PBool True)])]),
        (''defaults'', PDict [(''preview_rate_hz'', PFloat (Dec 2 0))]), (''providers'', PDict [])]\<rparr>\<rparr>))"

definition capturing_assignment :: assignment where
  "capturing_assignment = \<lparr>as_sensor = ''cam'', as_provider = ''genicam'', as_kind = ''camera'', as_serial = ''A1'',
     as_mac = '''', as_enabled = True, as_frame = ''cam_optical_frame'', as_calibration = '''', as_network = '''',
     as_address = '''', as_reserved = True, as_mode = ''capture'', as_groups = [''g''], as_policies = [''strict''],
     as_sync_group = ''g'', as_missing_policy = ''strict'', as_trigger_source = ''Action0'',
     as_preview_rate = Dec 2 0, as_interval = 500,
     as_settings = json_dumps (PDict [(''camera_profile'', PStr ''''), (''trigger_source'', PStr ''Action0'')])\<rparr>"

lemma capturing_publishes: "published_assignments capturing_manager = Inr [(''genicam'', [capturing_assignment])]"
  by code_simp

lemma capturing_assigned: "assignment_for capturing_manager ''cam'' demo_sensor = Inr capturing_assignment"
  by code_simp

theorem assigned_mode_is_published_mode_witness: "mode_for_sensor capturing_manager ''cam'' = ''capture''"
  using assigned_mode_is_published_mode [OF capturing_assigned] by (simp add: capturing_assignment_def)

theorem session_cameras_capture_witness: "0 < as_interval capturing_assignment \<and> as_interval capturing_assignment \<le> 500"
proof -
  obtain s where s: "map_of (mg_sessions capturing_manager) ''session_a'' = Some s"
    and sid: "''cam'' \<in> set (ss_sensors s)" and g: "ss_groups s = [''g'']" and i: "ss_interval s = 500"
  proof
    show "map_of (mg_sessions capturing_manager) ''session_a'' = Some (snd (hd (mg_sessions capturing_manager)))"
      by code_simp
    show "''cam'' \<in> set (ss_sensors (snd (hd (mg_sessions capturing_manager))))" by code_simp
    show "ss_groups (snd (hd (mg_sessions capturing_manager))) = [''g'']" by code_simp
    show "ss_interval (snd (hd (mg_sessions capturing_manager))) = 500" by code_simp
  qed
  have "''g'' \<in> set (groups_for_sensor (mg_inventory capturing_manager) ''cam'')" by code_simp
  with session_cameras_capture [OF capturing_assigned s sid] g i show ?thesis by simp
qed

theorem each_camera_assigned_once_witness:
  "distinct (map as_sensor (concat (map snd [(''genicam'', [capturing_assignment])])))"
proof -
  have "distinct (dkeys (inv_sensors (mg_inventory capturing_manager)))" "distinct (mg_providers capturing_manager)"
    by (code_simp, code_simp)
  from each_camera_assigned_once [OF capturing_publishes this] show ?thesis by blast
qed

theorem group_message_is_managed_witness:
  "\<exists>g. sync_group_message capturing_manager ''g'' demo_group = Inr g \<and> gm_interval g = 500"
proof -
  have "\<exists>g. sync_group_message capturing_manager ''g'' demo_group = Inr g"
  proof
    show "sync_group_message capturing_manager ''g'' demo_group
      = Inr (pending_group ''g'' ''genicam'' [''cam''] ''strict'' ''capture'' (Dec 2 0) 500 [])" by code_simp
  qed
  then obtain g where g: "sync_group_message capturing_manager ''g'' demo_group = Inr g" by blast
  moreover have "requested_group_interval capturing_manager ''g'' = 500" by code_simp
  ultimately show ?thesis using group_message_is_managed [OF g] by auto
qed

end
