(* ===== verification/Manager_Messages.thy ===== *)
theory Manager_Messages
  imports Manager_Modes
begin

section \<open>What the manager publishes\<close>

text \<open>
  The messages \<^verbatim>\<open>manager_node.py\<close> computes from its state: where an observed camera is
  connected, the state of enrolled and unknown cameras, of known sensors and of the ports,
  and the whole of \<open>_publish_state\<close>. Time stamps are left out.
\<close>

subsection \<open>Poses\<close>

definition coordinate :: "pyval \<Rightarrow> string \<Rightarrow> pyfloat \<Rightarrow> pyfloat result" where
  "coordinate v k origin = bindR (py_get v k (PFloat origin)) py_float"

definition dict_to_pose :: "pyval \<Rightarrow> pose result" where
  "dict_to_pose v =
     (if \<not> truthy v then Inr zero_pose
      else
         bindR (py_get v ''position'' (PDict [])) (\<lambda>position.
         bindR (py_get v ''orientation'' (PDict [])) (\<lambda>orientation.
         bindR (coordinate position ''x'' (Dec 0 0)) (\<lambda>x.
         bindR (coordinate position ''y'' (Dec 0 0)) (\<lambda>y.
         bindR (coordinate position ''z'' (Dec 0 0)) (\<lambda>z.
         bindR (coordinate orientation ''x'' (Dec 0 0)) (\<lambda>ox.
         bindR (coordinate orientation ''y'' (Dec 0 0)) (\<lambda>oy.
         bindR (coordinate orientation ''z'' (Dec 0 0)) (\<lambda>oz.
         bindR (coordinate orientation ''w'' (Dec 1 0)) (\<lambda>ow.
         Inr \<lparr>po_position = (x, y, z), po_orientation = (ox, oy, oz, ow)\<rparr>))))))))))"

definition pose_to_dict :: "pose \<Rightarrow> string \<Rightarrow> pyval" where
  "pose_to_dict p parent =
     (case (po_position p, po_orientation p) of
        ((x, y, z), (ox, oy, oz, ow)) \<Rightarrow>
          PDict [(''parent_frame'', PStr parent),
            (''position'', PDict [(''x'', PFloat x), (''y'', PFloat y), (''z'', PFloat z)]),
            (''orientation'', PDict [(''x'', PFloat ox), (''y'', PFloat oy), (''z'', PFloat oz), (''w'', PFloat ow)])])"

text \<open>A pose survives being stored in the inventory and published again.\<close>

lemma pose_roundtrip_eq: "dict_to_pose (pose_to_dict p parent) = Inr p"
  by (cases p) (auto simp: pose_to_dict_def dict_to_pose_def coordinate_def dget_def)

subsection \<open>Where a camera is connected\<close>

definition network_contains :: "ipaddr \<Rightarrow> pyval \<Rightarrow> bool" where
  "network_contains a network =
     (case ip_interface (py_str (dget (dict_of network) ''host_cidr'' PNone)) of
        Inr (Some host) \<Rightarrow> addr_in_net a host
      | _ \<Rightarrow> False)"

definition configured_network_for_observation :: "pydict \<Rightarrow> pydict \<Rightarrow> string" where
  "configured_network_for_observation machine observation =
     (case List.find (\<lambda>(nid, n). dget (dict_of n) ''interface'' PNone = PStr (field observation ''interface_name''))
             (machine_networks machine) of
        Some (nid, n) \<Rightarrow> nid
      | None \<Rightarrow>
          (case ip_address (field observation ''current_address'') of
             Inl e \<Rightarrow> ''''
           | Inr a \<Rightarrow>
               (case List.find (\<lambda>(nid, n). network_contains a n) (machine_networks machine) of
                  Some (nid, n) \<Rightarrow> nid
                | None \<Rightarrow> '''')))"

definition network_record :: "pydict \<Rightarrow> string \<Rightarrow> pydict" where
  "network_record machine nid = dict_of (dget (machine_networks machine) nid (PDict []))"

definition is_approved :: "pydict \<Rightarrow> bool" where
  "is_approved network \<longleftrightarrow> truthy (dget network ''approved'' (PBool False))"

definition network_for_observation :: "pydict \<Rightarrow> pydict \<Rightarrow> string" where
  "network_for_observation machine observation =
     (let nid = configured_network_for_observation machine observation in
      if nid = '''' then '''' else if is_approved (network_record machine nid) then nid else '''')"

subsection \<open>Enrolled cameras\<close>

definition sensor_base :: "'f manager \<Rightarrow> string \<Rightarrow> pydict \<Rightarrow> sensor_msg result" where
  "sensor_base m sid record =
     (let groups = groups_for_sensor (mg_inventory m) sid; pose = dget record ''pose'' PNone in
      bindR (runtime_provider m record) (\<lambda>provider.
      bindR (py_index (PDict record) ''provider'') (\<lambda>vendor.
      bindR (py_index (PDict record) ''serial'') (\<lambda>serial.
      bindR (dict_to_pose pose) (\<lambda>p.
      Inr (blank_sensor
        \<lparr>sm_id := sid, sm_provider := provider, sm_kind := py_str (dget record ''kind'' (PStr ''camera'')),
         sm_vendor := py_str (dget record ''vendor'' vendor), sm_model := field record ''model'',
         sm_serial := py_str serial, sm_mac := field record ''mac_address'', sm_enrolled := True,
         sm_enabled := truthy (dget record ''enabled'' (PBool True)),
         sm_display_name := py_str (dget record ''display_name'' (PStr sid)),
         sm_location := py_str (dget record ''location_label'' (PStr ''unknown'')),
         sm_parent_frame := (if pose = PNone then None
            else Some (if truthy pose then field (dict_of pose) ''parent_frame'' else '''')),
         sm_pose := p, sm_calibration_url := field record ''calibration_url'',
         sm_topic_base := ''/vixel/sensors/'' @ sid, sm_network := field record ''network_id'',
         sm_assigned_address := field record ''assigned_address'',
         sm_capabilities := strings_of (list_of (dget record ''capabilities'' (PList []))),
         sm_managed := is_approved (network_record (mg_machine m) (field record ''network_id'')),
         sm_groups := groups, sm_sync_group := (case groups of [] \<Rightarrow> '''' | g # _ \<Rightarrow> g),
         sm_mode := mode_for_sensor m sid\<rparr>))))))"

definition with_runtime :: "sensor_msg option \<Rightarrow> sensor_msg \<Rightarrow> sensor_msg" where
  "with_runtime runtime msg =
     (case runtime of
        None \<Rightarrow> msg\<lparr>sm_online := False, sm_lifecycle := (if sm_enabled msg then ''offline'' else ''disabled'')\<rparr>
      | Some r \<Rightarrow> msg
          \<lparr>sm_online := sm_online r, sm_lifecycle := sm_lifecycle r, sm_capabilities := sm_capabilities r,
           sm_current_address := sm_current_address r, sm_interface := sm_interface r,
           sm_last_error := sm_last_error r, sm_detail := sm_detail r,
           sm_applied_settings := sm_applied_settings r, sm_capture_ready := sm_capture_ready r,
           sm_stream_health := sm_stream_health r, sm_stream_counters := sm_stream_counters r,
           sm_model := (if sm_model r \<noteq> '''' then sm_model r else sm_model msg),
           sm_mac := (if sm_mac r \<noteq> '''' then sm_mac r else sm_mac msg)\<rparr>)"

definition offline_as :: "string \<Rightarrow> string \<Rightarrow> string \<Rightarrow> sensor_msg \<Rightarrow> sensor_msg" where
  "offline_as lifecycle action detail msg =
     msg\<lparr>sm_online := False, sm_lifecycle := lifecycle, sm_pending_action := action, sm_detail := detail\<rparr>"

definition with_observation :: "pydict \<Rightarrow> pydict option \<Rightarrow> sensor_msg \<Rightarrow> sensor_msg" where
  "with_observation machine observed msg =
     (case observed of
        None \<Rightarrow> msg
      | Some observation \<Rightarrow>
          (let configured = configured_network_for_observation machine observation;
               approved_at = network_for_observation machine observation;
               seen = msg\<lparr>sm_current_address := field observation ''current_address'',
                          sm_interface := field observation ''interface_name''\<rparr> in
           if configured \<noteq> '''' \<and> \<not> is_approved (network_record machine configured) then
             offline_as ''unapproved'' ''external''
               (''Camera is visible on unapproved network '' @ configured) seen
           else if approved_at \<noteq> '''' \<and> approved_at \<noteq> sm_network msg then
             offline_as ''placement_conflict'' ''move''
               (''Camera is connected through '' @ approved_at @ ''; assigned to '' @ sm_network msg) seen
           else seen))"

definition with_network :: "pydict \<Rightarrow> sensor_msg \<Rightarrow> sensor_msg" where
  "with_network network msg =
     (if network \<noteq> [] \<and> \<not> is_approved network then
        offline_as ''unapproved'' ''external'' (''Assigned network '' @ sm_network msg @ '' is not approved'') msg
      else msg)"

definition sensor_message :: "'f manager \<Rightarrow> string \<Rightarrow> pydict \<Rightarrow> sensor_msg result" where
  "sensor_message m sid record =
     bindR (sensor_base m sid record) (\<lambda>msg.
     Inr (with_network (network_record (mg_machine m) (sm_network msg))
       (with_observation (mg_machine m) (map_option fst (map_of (mg_observations m) sid))
         (with_runtime (map_of (mg_runtime m) sid) msg))))"

subsection \<open>Unknown cameras\<close>

definition catalog_state :: "pydict \<Rightarrow> string \<Rightarrow> pyval" where
  "catalog_state ivt sid = dget (dict_of (dget (inv_known ivt) sid (PDict []))) ''catalog_state'' PNone"

definition with_action :: "string \<Rightarrow> string \<Rightarrow> sensor_msg \<Rightarrow> sensor_msg" where
  "with_action action detail msg = msg\<lparr>sm_pending_action := action, sm_detail := detail\<rparr>"

text \<open>On an approved port: \<open>assigned\<close> are the cameras that are enrolled on it.\<close>

definition place_unknown :: "string \<Rightarrow> string list \<Rightarrow> bool \<Rightarrow> bool \<Rightarrow> sensor_msg \<Rightarrow> sensor_msg" where
  "place_unknown mode assigned archived inflight msg =
     (if mode = ''direct'' \<and> assigned \<noteq> [] then
        with_action ''replace'' (''Replacement candidate for '' @ hd assigned) msg
      else if archived then with_action ''archived'' ''Archived sensor; explicit re-enrollment required'' msg
      else if inflight then with_action ''auto_enrolling'' ''Assigning address and saving sensor'' msg
      else msg)"

definition classify_unknown :: "'f manager \<Rightarrow> string \<Rightarrow> string \<Rightarrow> sensor_msg \<Rightarrow> sensor_msg result" where
  "classify_unknown m cid nid msg =
     (if \<not> sm_managed msg then Inr (with_action ''external'' ''Discovered outside an approved sensor interface'' msg)
      else if catalog_state (mg_inventory m) cid = PStr ''retired'' then
        Inr (with_action ''retired'' ''Previously replaced sensor; manual review required'' msg)
      else
        bindR (port_mode (mg_machine m) (mg_inventory m) nid) (\<lambda>mode.
        Inr (place_unknown mode (dkeys (assigned_to nid (mg_inventory m)))
          (catalog_state (mg_inventory m) cid = PStr ''archived'') (cid \<in> mg_inflight m) msg)))"

definition unknown_message :: "'f manager \<Rightarrow> string \<Rightarrow> pydict \<Rightarrow> sensor_msg result" where
  "unknown_message m cid observation =
     (let nid = configured_network_for_observation (mg_machine m) observation in
      bindR (py_index (PDict observation) ''provider'') (\<lambda>provider.
      bindR (py_index (PDict observation) ''serial'') (\<lambda>serial.
      classify_unknown m cid nid (blank_sensor
        \<lparr>sm_id := cid, sm_provider := py_str provider, sm_kind := py_str (dget observation ''kind'' (PStr ''camera'')),
         sm_vendor := py_str (dget observation ''vendor'' provider), sm_model := field observation ''model'',
         sm_serial := py_str serial, sm_mac := field observation ''mac_address'', sm_online := True,
         sm_lifecycle := ''discovered'', sm_display_name := cid, sm_location := ''unknown'',
         sm_current_address := field observation ''current_address'',
         sm_interface := field observation ''interface_name'',
         sm_capabilities := strings_of (list_of (dget observation ''capabilities'' (PList []))),
         sm_mode := ''idle'', sm_network := nid,
         sm_managed := is_approved (network_record (mg_machine m) nid)\<rparr>))))"

subsection \<open>Known sensors\<close>

record known_msg =
  km_id :: string
  km_provider :: string
  km_kind :: string
  km_vendor :: string
  km_model :: string
  km_serial :: string
  km_mac :: string
  km_capabilities :: "string list"
  km_state :: string
  km_enrolled :: bool
  km_online :: bool
  km_managed :: bool
  km_first_seen :: string
  km_last_seen :: string
  km_sightings :: int
  km_transport :: string
  km_interface :: string
  km_address :: string
  km_network :: string
  km_notes :: string
  km_profile :: string
  km_settings :: string
  km_last_configuration :: string
  km_changes :: string
  km_replaced_by :: string

definition seen_connection :: "pydict \<Rightarrow> pydict \<Rightarrow> pydict" where
  "seen_connection machine observation =
     (let nid = configured_network_for_observation machine observation in
      [(''transport'', PStr (field observation ''transport'')),
       (''interface_name'', PStr (field observation ''interface_name'')),
       (''current_address'', PStr (field observation ''current_address'')),
       (''network_id'', PStr nid), (''managed'', PBool (is_approved (network_record machine nid)))])"

definition enrolled_connection :: "pydict \<Rightarrow> pydict \<Rightarrow> pydict" where
  "enrolled_connection machine enrollment =
     (let nid = field enrollment ''network_id''; network = network_record machine nid in
      [(''transport'', PStr ''''), (''interface_name'', PStr (field network ''interface'')),
       (''current_address'', PStr (field enrollment ''assigned_address'')),
       (''network_id'', PStr nid), (''managed'', PBool (is_approved network))])"

definition known_sensor_message :: "'f manager \<Rightarrow> string \<Rightarrow> pydict \<Rightarrow> known_msg result" where
  "known_sensor_message m sid record =
     (let ivt = mg_inventory m; machine = mg_machine m; enrolled = dhas (inv_sensors ivt) sid;
          observation = map_option fst (map_of (mg_observations m) sid);
          stored = dict_of (dget record ''latest_observation'' (PDict []));
          latest = (case observation of
              Some obs \<Rightarrow> seen_connection machine obs
            | None \<Rightarrow> if enrolled \<and> stored = [] then enrolled_connection machine (sensor_record ivt sid) else stored);
          provider = field record ''provider'' in
      bindR (py_int (dget record ''sighting_count'' (PInt 0))) (\<lambda>sightings.
      Inr \<lparr>km_id = sid, km_provider = provider, km_kind = py_str (dget record ''kind'' (PStr ''camera'')),
        km_vendor = py_str (dget record ''vendor'' (PStr provider)), km_model = field record ''model'',
        km_serial = field record ''serial'', km_mac = field record ''mac_address'',
        km_capabilities = strings_of (list_of (dget record ''capabilities'' (PList []))),
        km_state = (if enrolled then ''enrolled'' else py_str (dget record ''catalog_state'' (PStr ''observed''))),
        km_enrolled = enrolled,
        km_online = (observation \<noteq> None \<or> (case map_of (mg_runtime m) sid of None \<Rightarrow> False | Some r \<Rightarrow> sm_online r)),
        km_managed = truthy (dget latest ''managed'' (PBool False)),
        km_first_seen = field record ''first_seen_at'', km_last_seen = field record ''last_seen_at'',
        km_sightings = sightings, km_transport = field latest ''transport'',
        km_interface = field latest ''interface_name'', km_address = field latest ''current_address'',
        km_network = field latest ''network_id'', km_notes = field record ''notes'',
        km_profile = field record ''camera_profile'',
        km_settings = json_dumps (dget record ''provider_settings'' (PDict [])),
        km_last_configuration = json_dumps (dget record ''last_configuration'' PNone),
        km_changes = json_dumps (dget record ''changes'' (PList [])),
        km_replaced_by = field record ''replaced_by''\<rparr>))"

subsection \<open>Ports\<close>

record port_msg =
  pt_network :: string
  pt_interface :: string
  pt_mac :: string
  pt_mode :: string
  pt_approved :: bool
  pt_auto_enroll :: bool
  pt_cidr :: string
  pt_capacity :: int
  pt_enrolled :: "string list"
  pt_discovered :: "string list"
  pt_link_up :: bool
  pt_configured :: bool
  pt_lifecycle :: string
  pt_error :: string

definition port_state :: "string \<Rightarrow> string \<Rightarrow> port_msg \<Rightarrow> port_msg" where
  "port_state lifecycle error msg = msg\<lparr>pt_lifecycle := lifecycle, pt_error := error\<rparr>"

definition classify_port :: "port_status option \<Rightarrow> port_msg \<Rightarrow> port_msg" where
  "classify_port status msg =
     (case status of
        None \<Rightarrow> port_state ''probing'' ''Waiting for host port status'' msg
      | Some s \<Rightarrow>
          if \<not> ps_present s then port_state ''missing'' ''Interface is not present'' msg
          else if pt_mac msg \<noteq> '''' \<and> ps_mac s \<noteq> '''' \<and> ps_mac s \<noteq> lower (pt_mac msg) then
            port_state ''wrong_hardware'' (''Expected MAC '' @ pt_mac msg @ ''; found '' @ ps_mac s) msg
          else
            (let probed = msg\<lparr>pt_link_up := ps_link_up s,
                   pt_configured := (pt_cidr msg \<in> set (ps_addresses s) \<or> ps_profile s)\<rparr> in
             if \<not> pt_configured probed then
               port_state ''unconfigured'' (''Run vixel-network-setup apply''
                 @ (if ps_error s \<noteq> '''' then ''; '' @ ps_error s else '''')) probed
             else if pt_mode probed = ''direct'' \<and> 1 < length (pt_discovered probed) then
               port_state ''conflict'' ''Multiple cameras detected on a direct port; enable switched mode'' probed
             else if pt_link_up probed then port_state ''ready'' (ps_error s) probed
             else port_state ''link_down'' (ps_error s) probed))"

definition managed_port_message :: "'f manager \<Rightarrow> port_status dict \<Rightarrow> string \<Rightarrow> pydict \<Rightarrow> port_msg result" where
  "managed_port_message m statuses nid network =
     (let machine = mg_machine m; ivt = mg_inventory m in
      bindR (py_index (PDict network) ''interface'') (\<lambda>interface.
      bindR (port_mode machine ivt nid) (\<lambda>mode.
      bindR (py_index (PDict network) ''host_cidr'') (\<lambda>cidr.
      bindR (port_capacity machine ivt nid) (\<lambda>capacity.
      Inr (classify_port (map_of statuses nid)
        \<lparr>pt_network = nid, pt_interface = py_str interface, pt_mac = field network ''interface_mac'',
         pt_mode = mode, pt_approved = is_approved network,
         pt_auto_enroll = truthy (dget network ''auto_enroll'' (PBool False)), pt_cidr = py_str cidr,
         pt_capacity = capacity, pt_enrolled = sort (dkeys (assigned_to nid ivt)),
         pt_discovered = sort (map fst (filter (\<lambda>(cid, obs, t).
           configured_network_for_observation machine obs = nid) (mg_observations m))),
         pt_link_up = False, pt_configured = False, pt_lifecycle = '''', pt_error = ''''\<rparr>))))))"

subsection \<open>Publishing everything\<close>

record published =
  pb_generation :: int
  pb_sensors :: "sensor_msg list"
  pb_known :: "known_msg list"
  pb_groups :: "group_msg list"
  pb_ports :: "port_msg list"
  pb_sessions :: "int \<times> session_msg list"
  pb_transforms :: "(string \<times> string \<times> pose) list"
  pb_assignments :: "(string \<times> assignment list) list"

definition refresh_ports :: "int \<Rightarrow> 'f manager \<Rightarrow> 'f manager" where
  "refresh_ports version m =
     (if version \<noteq> mg_port_version m then bump (m\<lparr>mg_port_version := version\<rparr>) else m)"

definition prune_observations :: "rat \<Rightarrow> 'f manager \<Rightarrow> 'f manager" where
  "prune_observations now m =
     m\<lparr>mg_observations := filter (\<lambda>(cid, obs, t). now - t \<le> mg_observation_timeout m) (mg_observations m)\<rparr>"

definition static_transforms :: "sensor_msg list \<Rightarrow> (string \<times> string \<times> pose) list" where
  "static_transforms msgs =
     map (\<lambda>s. (the (sm_parent_frame s), sm_id s @ ''_optical_frame'', sm_pose s))
       (filter (\<lambda>s. sm_enrolled s \<and> sm_parent_frame s \<noteq> None \<and> sm_parent_frame s \<noteq> Some '''') msgs)"

text \<open>The sensor array: the enrolled cameras, then the observed ones that are not enrolled.\<close>

definition sensor_array :: "'f manager \<Rightarrow> sensor_msg list result" where
  "sensor_array m =
     (let sensors = inv_sensors (mg_inventory m) in
      bindR (mapR (\<lambda>(sid, s). sensor_message m sid (dict_of s)) (sort_key fst sensors)) (\<lambda>enrolled.
      bindR (mapR (\<lambda>(cid, obs, t). unknown_message m cid obs)
          (filter (\<lambda>(cid, obs, t). \<not> dhas sensors cid) (sort_key fst (mg_observations m)))) (\<lambda>unknown.
      Inr (enrolled @ unknown))))"

definition collect :: "'f mg_env \<Rightarrow> 'f manager \<Rightarrow> published result" where
  "collect env m =
     (let ivt = mg_inventory m in
      bindR (sensor_array m) (\<lambda>sensors.
      bindR (mapR (\<lambda>(sid, k). known_sensor_message m sid (dict_of k)) (sort_key fst (inv_known ivt))) (\<lambda>known.
      bindR (mapR (\<lambda>(gid, g). sync_group_message m gid (dict_of g)) (sort_key fst (inv_groups ivt))) (\<lambda>groups.
      bindR (mapR (\<lambda>(nid, n). managed_port_message m (snd (me_ports env)) nid (dict_of n))
          (sort_key fst (machine_networks (mg_machine m)))) (\<lambda>ports.
      bindR (published_assignments m) (\<lambda>assigned.
      Inr \<lparr>pb_generation = mg_generation m, pb_sensors = sensors, pb_known = known, pb_groups = groups,
        pb_ports = ports, pb_sessions = published_sessions (me_now env) m,
        pb_transforms = static_transforms sensors, pb_assignments = assigned\<rparr>))))))"

definition publish_state :: "'f mg_env \<Rightarrow> ('f manager, published) op" where
  "publish_state env m =
     (let m1 = prune_observations (me_now env) (refresh_ports (fst (me_ports env)) m)
      in (collect env m1, m1))"

end
