(* ===== verification/Publish_Safety.thy ===== *)
theory Publish_Safety
  imports Manager_Messages Registry_Ops "HOL-Library.Multiset"
begin

section \<open>The published state\<close>

text \<open>
  What a reader of the published messages may rely on: which cameras are listed, when one is
  shown online, when a port is ready, and that publishing does not fail on valid data.
\<close>

subsection \<open>Cameras\<close>

lemma offline_as_fields [simp]:
  "sm_online (offline_as l a d msg) = False" "sm_network (offline_as l a d msg) = sm_network msg"
  "sm_id (offline_as l a d msg) = sm_id msg" "sm_lifecycle (offline_as l a d msg) = l"
  "sm_pending_action (offline_as l a d msg) = a"
  by (simp_all add: offline_as_def)

lemma with_runtime_fields [simp]:
  "sm_network (with_runtime r msg) = sm_network msg" "sm_id (with_runtime r msg) = sm_id msg"
  "sm_online (with_runtime r msg) = (case r of None \<Rightarrow> False | Some s \<Rightarrow> sm_online s)"
  by (simp_all add: with_runtime_def split: option.split)

lemma with_observation_fields [simp]:
  "sm_network (with_observation machine obs msg) = sm_network msg"
  "sm_id (with_observation machine obs msg) = sm_id msg"
  by (simp_all add: with_observation_def Let_def split: option.split)

lemma with_observation_online:
  "sm_online (with_observation machine (Some obs) msg) \<Longrightarrow>
   sm_online msg \<and> (configured_network_for_observation machine obs = ''''
     \<or> configured_network_for_observation machine obs = sm_network msg
       \<and> is_approved (network_record machine (sm_network msg)))"
  by (auto simp: with_observation_def Let_def network_for_observation_def split: if_splits)

lemma with_network_online: "sm_online (with_network n msg) \<Longrightarrow> sm_online msg \<and> (n = [] \<or> is_approved n)"
  by (auto simp: with_network_def split: if_splits)

lemma with_network_fields [simp]:
  "sm_network (with_network n msg) = sm_network msg" "sm_id (with_network n msg) = sm_id msg"
  by (simp_all add: with_network_def)

lemma sensor_base_Inr:
  assumes "sensor_base m sid record = Inr msg"
  shows "sm_id msg = sid \<and> sm_network msg = field record ''network_id'' \<and> sm_mode msg = mode_for_sensor m sid
    \<and> sm_enrolled msg"
  using assms unfolding sensor_base_def Let_def bindR_eq_Inr by auto


subsection \<open>The list of cameras\<close>

lemma sensor_message_id: "sensor_message m sid record = Inr msg \<Longrightarrow> sm_id msg = sid"
  using sensor_base_Inr by (fastforce simp: sensor_message_def bindR_eq_Inr)

lemma with_action_id [simp]: "sm_id (with_action a d msg) = sm_id msg"
  by (simp add: with_action_def)

lemma classify_unknown_id: "classify_unknown m cid nid msg = Inr msg' \<Longrightarrow> sm_id msg' = sm_id msg"
  by (auto simp: classify_unknown_def place_unknown_def bindR_eq_Inr split: if_splits)

lemma unknown_message_id: "unknown_message m cid obs = Inr msg \<Longrightarrow> sm_id msg = cid"
  by (auto simp: unknown_message_def Let_def bindR_eq_Inr dest: classify_unknown_id)

lemma mapR_ids:
  assumes "mapR f xs = Inr ys" and "\<And>x y. f x = Inr y \<Longrightarrow> sm_id y = g x"
  shows "map sm_id ys = map g xs"
  using assms(1) unfolding mapR_Inr_iff by (induction rule: list_all2_induct) (auto simp: assms(2))

lemma filter_fst: "map fst (filter (\<lambda>(k, obs, t). P k) xs) = filter P (map fst xs)"
  by (induction xs) auto

lemma sort_fst: "map fst (sort_key fst xs) = sort (map fst xs)"
  by (rule properties_for_sort [symmetric]) simp_all

lemma sensor_array_ids:
  assumes "sensor_array m = Inr msgs"
  shows "map sm_id msgs = sort (dkeys (inv_sensors (mg_inventory m)))
    @ filter (\<lambda>cid. \<not> dhas (inv_sensors (mg_inventory m)) cid) (sort (dkeys (mg_observations m)))"
proof -
  let ?sensors = "inv_sensors (mg_inventory m)"
  from assms obtain en un where
    en: "mapR (\<lambda>(sid, s). sensor_message m sid (dict_of s)) (sort_key fst ?sensors) = Inr en"
    and un: "mapR (\<lambda>(cid, obs, t). unknown_message m cid obs)
          (filter (\<lambda>(cid, obs, t). \<not> dhas ?sensors cid) (sort_key fst (mg_observations m))) = Inr un"
    and msgs: "msgs = en @ un"
    unfolding sensor_array_def Let_def bindR_eq_Inr by blast
  have "map sm_id en = map fst (sort_key fst ?sensors)"
    by (rule mapR_ids [OF en]) (auto simp: sensor_message_id split: prod.splits)
  moreover have "map sm_id un = map fst (filter (\<lambda>(cid, obs, t). \<not> dhas ?sensors cid) (sort_key fst (mg_observations m)))"
    by (rule mapR_ids [OF un]) (auto simp: unknown_message_id split: prod.splits)
  ultimately show ?thesis by (simp add: msgs sort_fst filter_fst)
qed

lemma collect_Inr:
  assumes "collect env m = Inr p"
  shows "sensor_array m = Inr (pb_sensors p)" "published_assignments m = Inr (pb_assignments p)"
    "pb_sessions p = published_sessions (me_now env) m" "pb_generation p = mg_generation m"
    "mapR (\<lambda>(nid, n). managed_port_message m (snd (me_ports env)) nid (dict_of n))
      (sort_key fst (machine_networks (mg_machine m))) = Inr (pb_ports p)"
  using assms unfolding collect_def Let_def bindR_eq_Inr by auto

lemma refresh_ports_fields [simp]:
  "mg_registry (refresh_ports v m) = mg_registry m" "mg_observations (refresh_ports v m) = mg_observations m"
  "mg_observation_timeout (refresh_ports v m) = mg_observation_timeout m"
  "mg_sessions (refresh_ports v m) = mg_sessions m" "mg_profiles (refresh_ports v m) = mg_profiles m"
  by (simp_all add: refresh_ports_def bump_def)

text \<open>Publishing lists every enrolled camera once, in the order of the identifiers, followed by
  exactly the cameras that are not enrolled and were observed within the observation timeout;
  older observations are forgotten, nothing else of the inventory or the sessions changes, and
  the generation rises exactly when the port table has a new version.\<close>

theorem published_cameras:
  assumes "publish_state env m = (Inr p, m')"
  shows "map sm_id (pb_sensors p) = sort (dkeys (inv_sensors (mg_inventory m)))
      @ filter (\<lambda>cid. \<not> dhas (inv_sensors (mg_inventory m)) cid)
          (sort (map fst (filter (\<lambda>(cid, obs, t). me_now env - t \<le> mg_observation_timeout m) (mg_observations m))))
    \<and> mg_observations m' = filter (\<lambda>(cid, obs, t). me_now env - t \<le> mg_observation_timeout m) (mg_observations m)
    \<and> mg_registry m' = mg_registry m \<and> mg_sessions m' = mg_sessions m
    \<and> mg_generation m' = mg_generation m + (if fst (me_ports env) = mg_port_version m then 0 else 1)
    \<and> pb_generation p = mg_generation m'"
proof -
  let ?m = "prune_observations (me_now env) (refresh_ports (fst (me_ports env)) m)"
  from assms have m': "m' = ?m" and c: "collect env ?m = Inr p" by (auto simp: publish_state_def Let_def)
  have "sensor_array ?m = Inr (pb_sensors p)" by (rule collect_Inr(1) [OF c])
  from sensor_array_ids [OF this] collect_Inr(4) [OF c] show ?thesis
    by (simp add: m' prune_observations_def) (simp add: refresh_ports_def)
qed

subsection \<open>Ports\<close>

text \<open>A port is ready exactly when its interface is present, is the configured hardware as far as
  both addresses are known, carries the host address or its NetworkManager profile does, has a
  link, and, in direct mode, shows at most one camera; a port of the wrong hardware is never
  configured or ready.\<close>

theorem port_ready_iff:
  assumes "managed_port_message m statuses nid network = Inr msg"
  shows "(pt_lifecycle msg = ''ready'') =
    (\<exists>s. map_of statuses nid = Some s \<and> ps_present s
       \<and> (field network ''interface_mac'' = '''' \<or> ps_mac s = ''''
          \<or> ps_mac s = lower (field network ''interface_mac''))
       \<and> (pt_cidr msg \<in> set (ps_addresses s) \<or> ps_profile s) \<and> ps_link_up s
       \<and> \<not> (port_mode (mg_machine m) (mg_inventory m) nid = Inr ''direct'' \<and> 1 < length (pt_discovered msg)))"
proof -
  from assms obtain base where msg: "msg = classify_port (map_of statuses nid) base"
    and mac: "pt_mac base = field network ''interface_mac''"
    and mode: "port_mode (mg_machine m) (mg_inventory m) nid = Inr (pt_mode base)"
    and blank: "pt_lifecycle base = ''''"
    unfolding managed_port_message_def Let_def bindR_eq_Inr by fastforce
  show ?thesis
    unfolding msg mode mac [symmetric]
    by (cases "map_of statuses nid") (simp_all add: classify_port_def port_state_def Let_def)
qed

subsection \<open>Publishing does not fail\<close>

lemma mapR_total: "(\<And>x. x \<in> set xs \<Longrightarrow> \<exists>y. f x = Inr y) \<Longrightarrow> \<exists>ys. mapR f xs = Inr ys"
proof (induction xs)
  case (Cons x xs)
  then obtain y ys where "f x = Inr y" "mapR f xs = Inr ys" by fastforce
  then show ?case by simp
qed simp

lemma field_present: "field s k \<noteq> '''' \<Longrightarrow> \<exists>v. map_of s k = Some v"
  by (cases "map_of s k") (simp_all add: field_def dget_def)

text \<open>
  The data a node works on: validated documents, cameras only, poses with numeric
  coordinates, selected profiles that exist, and observations as the providers send them.
\<close>

definition profile_usable :: "'f manager \<Rightarrow> string \<Rightarrow> bool" where
  "profile_usable m name \<longleftrightarrow>
     name = '''' \<or> (\<exists>p settings. map_of (mg_profiles m) name = Some p \<and> map_of p ''settings'' = Some (PDict settings))"

definition publishable :: "'f manager \<Rightarrow> bool" where
  "publishable m \<longleftrightarrow>
     valid_machine (mg_machine m) \<and> valid_inventory (mg_machine m) (mg_inventory m)
     \<and> (\<forall>(sid, s) \<in> set (inv_sensors (mg_inventory m)).
          dget (dict_of s) ''kind'' (PStr ''camera'') = PStr ''camera''
          \<and> (\<exists>p. dict_to_pose (dget (dict_of s) ''pose'' PNone) = Inr p)
          \<and> profile_usable m (py_str (dget (effective_known m sid) ''camera_profile'' (PStr ''''))))
     \<and> (\<forall>(cid, obs, t) \<in> set (mg_observations m). dhas obs ''provider'' \<and> dhas obs ''serial'')"

lemma publishable_sensor:
  assumes "publishable m" and "(sid, s) \<in> set (inv_sensors (mg_inventory m))"
  obtains provider serial p where
    "map_of (dict_of s) ''provider'' = Some provider" "map_of (dict_of s) ''serial'' = Some serial"
    "dict_to_pose (dget (dict_of s) ''pose'' PNone) = Inr p" "runtime_provider m (dict_of s) = Inr (mg_backend m)"
    "profile_usable m (py_str (dget (effective_known m sid) ''camera_profile'' (PStr '''')))"
proof -
  from assms have "valid_sensor (machine_networks (mg_machine m)) sid (dict_of s)"
    unfolding publishable_def valid_inventory_def by blast
  then have "field (dict_of s) ''provider'' \<noteq> ''''" "field (dict_of s) ''serial'' \<noteq> ''''"
    by (auto simp: valid_sensor_def)
  then obtain provider serial where k: "map_of (dict_of s) ''provider'' = Some provider" "map_of (dict_of s) ''serial'' = Some serial"
    using field_present by blast
  from assms obtain p where p: "dget (dict_of s) ''kind'' (PStr ''camera'') = PStr ''camera''"
    "dict_to_pose (dget (dict_of s) ''pose'' PNone) = Inr p"
    "profile_usable m (py_str (dget (effective_known m sid) ''camera_profile'' (PStr '''')))"
    unfolding publishable_def by fast
  then have "runtime_provider m (dict_of s) = Inr (mg_backend m)" by (simp add: runtime_provider_def)
  with k p show thesis by (intro that) auto
qed

lemma sensor_message_total:
  "publishable m \<Longrightarrow> (sid, s) \<in> set (inv_sensors (mg_inventory m)) \<Longrightarrow> \<exists>msg. sensor_message m sid (dict_of s) = Inr msg"
  by (erule publishable_sensor) (auto simp: sensor_message_def sensor_base_def Let_def)

lemma approved_network_exists: "is_approved (network_record machine nid) \<Longrightarrow> dhas (machine_networks machine) nid"
  by (cases "map_of (machine_networks machine) nid") (auto simp: is_approved_def network_record_def dhas_def dget_def)

lemma publishable_networks: "publishable m \<Longrightarrow> valid_networks (machine_networks (mg_machine m))"
  by (simp add: publishable_def valid_machine_def)

lemma unknown_message_total:
  assumes "publishable m" and "(cid, obs, t) \<in> set (mg_observations m)"
  shows "\<exists>msg. unknown_message m cid obs = Inr msg"
proof -
  from assms have "dhas obs ''provider''" "dhas obs ''serial''" unfolding publishable_def by blast+
  then obtain provider serial where k: "map_of obs ''provider'' = Some provider" "map_of obs ''serial'' = Some serial"
    by (auto simp: dhas_def)
  have classify: "\<exists>msg'. classify_unknown m cid nid msg = Inr msg'"
    if "sm_managed msg \<Longrightarrow> dhas (machine_networks (mg_machine m)) nid" for nid msg
  proof (cases "sm_managed msg \<and> catalog_state (mg_inventory m) cid \<noteq> PStr ''retired''")
    case True
    with that port_mode_total [OF publishable_networks [OF assms(1)]] obtain mode
      where "port_mode (mg_machine m) (mg_inventory m) nid = Inr mode" by blast
    then show ?thesis by (auto simp: classify_unknown_def)
  qed (auto simp: classify_unknown_def)
  show ?thesis
    by (simp add: unknown_message_def Let_def k) (rule classify, simp add: approved_network_exists)
qed

lemma known_message_total:
  assumes "publishable m" and "(sid, k) \<in> set (inv_known (mg_inventory m))"
  shows "\<exists>msg. known_sensor_message m sid (dict_of k) = Inr msg"
proof -
  from assms have "valid_known (dkeys (inv_sensors (mg_inventory m))) sid (dict_of k)"
    unfolding publishable_def valid_inventory_def by blast
  then obtain i where "map_of (dict_of k) ''sighting_count'' = Some (PInt i)"
    by (auto simp: valid_known_def split: option.splits pyval.splits)
  then show ?thesis by (simp add: known_sensor_message_def Let_def)
qed

lemma publishable_group:
  assumes "publishable m" and "(gid, g) \<in> set (inv_groups (mg_inventory m))"
  obtains policy r rate where "map_of (dict_of g) ''missing_policy'' = Some policy"
    "map_of (dict_of g) ''preview_rate_hz'' = Some r" "py_float r = Inr rate"
    "runtime_group_provider m (dict_of g) = Inr (mg_backend m)"
proof -
  from assms have vg: "valid_group (dkeys (inv_sensors (mg_inventory m))) gid (dict_of g)"
    unfolding publishable_def valid_inventory_def by blast
  then have "field (dict_of g) ''missing_policy'' \<noteq> ''''" by (auto simp: valid_group_def valid_missing_policies_def)
  then obtain policy where policy: "map_of (dict_of g) ''missing_policy'' = Some policy" using field_present by blast
  from vg obtain rate where "py_float (dget (dict_of g) ''preview_rate_hz'' PNone) = Inr rate"
    by (auto simp: valid_group_def split: sum.splits)
  then obtain r where rate: "map_of (dict_of g) ''preview_rate_hz'' = Some r" "py_float r = Inr rate"
    by (cases "map_of (dict_of g) ''preview_rate_hz''") (simp_all add: dget_def)
  let ?f = "\<lambda>member. bindR (or_raise (map_of (inv_sensors (mg_inventory m)) member) (KeyErr member))
                 (\<lambda>s. runtime_provider m (dict_of s))"
  have each: "?f member = Inr (mg_backend m)" if "member \<in> set (group_members (dict_of g))" for member
  proof -
    from that vg have "member \<in> set (dkeys (inv_sensors (mg_inventory m)))" by (auto simp: valid_group_def)
    then obtain s where s: "map_of (inv_sensors (mg_inventory m)) member = Some s"
      by (metis dhas_def dhas_iff not_None_eq)
    from publishable_sensor [OF assms(1) map_of_SomeD [OF s]] s show ?thesis by simp
  qed
  have all: "mapR ?f xs = Inr (map (\<lambda>_. mg_backend m) xs)" if "set xs \<subseteq> set (group_members (dict_of g))" for xs
    using that by (induction xs) (simp_all add: each)
  have ne: "group_members (dict_of g) \<noteq> []" using vg by (simp add: valid_group_def)
  have "remdups (map (\<lambda>_. p) xs) = [p]" if "xs \<noteq> []" for p :: string and xs :: "string list"
    using that
  proof (induction xs)
    case (Cons x xs)
    then show ?case by (cases xs) auto
  qed simp
  with ne all [of "group_members (dict_of g)"] have "runtime_group_provider m (dict_of g) = Inr (mg_backend m)"
    by (simp add: runtime_group_provider_def)
  with policy rate show thesis by (rule that)
qed

lemma group_message_total:
  "publishable m \<Longrightarrow> (gid, g) \<in> set (inv_groups (mg_inventory m)) \<Longrightarrow> \<exists>msg. sync_group_message m gid (dict_of g) = Inr msg"
  by (erule (1) publishable_group) (simp add: sync_group_message_def Let_def)

lemma port_message_total:
  assumes "publishable m" and "(nid, n) \<in> set (machine_networks (mg_machine m))"
  shows "\<exists>msg. managed_port_message m statuses nid (dict_of n) = Inr msg"
proof -
  note nets = publishable_networks [OF assms(1)]
  have "dhas (machine_networks (mg_machine m)) nid" using assms(2) by (force simp: dhas_iff)
  then obtain mode v where mode: "port_mode (mg_machine m) (mg_inventory m) nid = Inr mode"
    and v: "map_of (machine_networks (mg_machine m)) nid = Some v"
    using port_mode_total [OF nets] by (fastforce simp: dhas_def)
  from network_entry [OF nets v] obtain w mn where "v = PDict w" "view_network w = Some mn" by blast
  from port_capacity_view [OF _ this(2) mode] v this(1)
  have cap: "\<exists>c. port_capacity (mg_machine m) (mg_inventory m) nid = Inr c" by simp
  from nets assms(2) obtain w' mn' where n: "n = PDict w'" "view_network w' = Some mn'" "sound_net mn'"
    unfolding valid_networks_def network_views_def by (fastforce simp: is_dict_iff)
  from n(2) obtain cidr where cidr: "map_of w' ''host_cidr'' = Some cidr" by (rule view_network_keys)
  have "network_interface w' \<noteq> ''''" using n(2,3) by (auto simp: view_network_def sound_net_def split: option.splits sum.splits)
  then obtain i where "map_of w' ''interface'' = Some i"
    by (cases "map_of w' ''interface''") (simp_all add: network_interface_def dget_def)
  with mode cap cidr n(1) show ?thesis by (auto simp: managed_port_message_def Let_def)
qed

lemma machine_default_total:
  assumes "publishable m"
  obtains v rate where "machine_default m ''preview_rate_hz'' = Inr v" "py_float v = Inr rate"
proof -
  from assms have vm: "valid_machine (mg_machine m)" by (simp add: publishable_def)
  then have "is_dict (dget (mg_machine m) ''defaults'' PNone)" by (simp add: valid_machine_def)
  then obtain d where d: "map_of (mg_machine m) ''defaults'' = Some (PDict d)"
    by (cases "map_of (mg_machine m) ''defaults''") (auto simp: dget_def is_dict_iff)
  from vm obtain rate where "py_float (dget (machine_section (mg_machine m) ''defaults'') ''preview_rate_hz'' PNone) = Inr rate"
    by (auto simp: valid_machine_def split: sum.splits)
  then have "py_float (dget d ''preview_rate_hz'' PNone) = Inr rate" using d by (simp add: machine_section_def dget_def)
  then obtain v where "map_of d ''preview_rate_hz'' = Some v" "py_float v = Inr rate"
    by (cases "map_of d ''preview_rate_hz''") (simp_all add: dget_def)
  with d show thesis by (intro that [of v rate]) (simp_all add: machine_default_def)
qed

lemma groups_for_member_in:
  "(gid, g) \<in> set (groups_for_member ivt sid) \<Longrightarrow> \<exists>v. (gid, v) \<in> set (inv_groups ivt) \<and> g = dict_of v"
  by (auto simp: groups_for_member_def)

lemma assignment_rate_total:
  assumes "publishable m"
  shows "\<exists>r. assignment_rate m (groups_for_member (mg_inventory m) sid) = Inr r"
proof -
  from machine_default_total [OF assms] obtain v rate where
    v: "machine_default m ''preview_rate_hz'' = Inr v" "py_float v = Inr rate" by blast
  have "\<exists>rates. mapR (\<lambda>(gid, g). py_float (dget g ''preview_rate_hz'' v)) (groups_for_member (mg_inventory m) sid) = Inr rates"
  proof (rule mapR_total, clarify)
    fix gid g assume "(gid, g) \<in> set (groups_for_member (mg_inventory m) sid)"
    then obtain w where w: "(gid, w) \<in> set (inv_groups (mg_inventory m))" "g = dict_of w"
      using groups_for_member_in by blast
    from assms w(1) obtain r x where "map_of (dict_of w) ''preview_rate_hz'' = Some r" "py_float r = Inr x"
      by (rule publishable_group)
    with w(2) show "\<exists>y. py_float (dget g ''preview_rate_hz'' v) = Inr y" by (simp add: dget_def)
  qed
  with v show ?thesis by (auto simp: assignment_rate_def)
qed

lemma effective_settings_total:
  assumes "profile_usable m (py_str (dget (effective_known m sid) ''camera_profile'' (PStr '''')))"
  shows "\<exists>r. effective_settings m provider sid sensor = Inr r"
proof -
  have "\<exists>r. resolve_camera_settings d (mg_profiles m) (py_str (dget (effective_known m sid) ''camera_profile'' (PStr ''''))) (PDict o') = Inr r"
    for d o' using assms by (auto simp: profile_usable_def resolve_camera_settings_def)
  then show ?thesis unfolding effective_settings_def Let_def by (metis bindR_Inr)
qed

lemma assignment_total:
  assumes "publishable m" and "(sid, s) \<in> set (inv_sensors (mg_inventory m))"
  shows "\<exists>a. assignment_for m sid (dict_of s) = Inr a"
proof -
  from assms obtain serial where s: "map_of (dict_of s) ''serial'' = Some serial"
    "runtime_provider m (dict_of s) = Inr (mg_backend m)"
    "profile_usable m (py_str (dget (effective_known m sid) ''camera_profile'' (PStr '''')))"
    by (rule publishable_sensor)
  from assignment_rate_total [OF assms(1)] obtain rate where
    r: "assignment_rate m (groups_for_member (mg_inventory m) sid) = Inr rate" by blast
  from effective_settings_total [OF s(3)] obtain st where
    e: "effective_settings m (mg_backend m) sid (dict_of s) = Inr st" by blast
  show ?thesis unfolding assignment_for_def Let_def by (simp add: s(1,2) r e)
qed

lemma publishable_pruned: "publishable m \<Longrightarrow> publishable (prune_observations now (refresh_ports v m))"
  by (auto simp: publishable_def prune_observations_def profile_usable_def effective_known_def refresh_ports_def bump_def)

lemma collect_total:
  assumes "publishable m"
  shows "\<exists>p. collect env m = Inr p"
proof -
  have "\<exists>a. sensor_array m = Inr a"
  proof -
    obtain en where "mapR (\<lambda>(sid, s). sensor_message m sid (dict_of s)) (sort_key fst (inv_sensors (mg_inventory m))) = Inr en"
      using mapR_total [of "sort_key fst (inv_sensors (mg_inventory m))" "\<lambda>(sid, s). sensor_message m sid (dict_of s)"]
        sensor_message_total [OF assms] by fastforce
    moreover obtain un where "mapR (\<lambda>(cid, obs, t). unknown_message m cid obs)
          (filter (\<lambda>(cid, obs, t). \<not> dhas (inv_sensors (mg_inventory m)) cid) (sort_key fst (mg_observations m))) = Inr un"
      using mapR_total [of "filter (\<lambda>(cid, obs, t). \<not> dhas (inv_sensors (mg_inventory m)) cid) (sort_key fst (mg_observations m))"
          "\<lambda>(cid, obs, t). unknown_message m cid obs"]
        unknown_message_total [OF assms] by fastforce
    ultimately show ?thesis by (simp add: sensor_array_def)
  qed
  moreover have "\<exists>a. mapR (\<lambda>(sid, k). known_sensor_message m sid (dict_of k)) (sort_key fst (inv_known (mg_inventory m))) = Inr a"
    using known_message_total [OF assms] by (intro mapR_total) fastforce
  moreover have "\<exists>a. mapR (\<lambda>(gid, g). sync_group_message m gid (dict_of g)) (sort_key fst (inv_groups (mg_inventory m))) = Inr a"
    using group_message_total [OF assms] by (intro mapR_total) fastforce
  moreover have "\<exists>a. mapR (\<lambda>(nid, n). managed_port_message m (snd (me_ports env)) nid (dict_of n))
      (sort_key fst (machine_networks (mg_machine m))) = Inr a"
    using port_message_total [OF assms] by (intro mapR_total) fastforce
  moreover have "\<exists>a. published_assignments m = Inr a"
  proof -
    have "\<exists>a. assignments m = Inr a"
      unfolding assignments_def using assignment_total [OF assms] by (intro mapR_total) fastforce
    then show ?thesis by (auto simp: published_assignments_def)
  qed
  ultimately show ?thesis by (auto simp: collect_def Let_def)
qed


subsection \<open>A concrete node\<close>

text \<open>
  The validated machine with one approved port, the enrolled camera, online at its provider,
  and another camera that was seen on the port.
\<close>

definition live_machine :: pydict where
  "live_machine = (case validate_machine port_doc of Inr m \<Rightarrow> m | Inl _ \<Rightarrow> [])"

definition live_manager :: "pydict manager" where
  "live_manager = demo_manager
     \<lparr>mg_registry := \<lparr>rg_machine = live_machine, rg_inventory = demo_inventory, rg_disk = empty_disk\<rparr>,
      mg_runtime := [(''cam'', blank_sensor\<lparr>sm_id := ''cam'', sm_online := True\<rparr>)],
      mg_observations := [(''camera_basler_b2'', spare_observation, 1)]\<rparr>"

lemma live_machine_validated: "validate_machine port_doc = Inr live_machine"
proof -
  have "\<not> isl (validate_machine port_doc)" by code_simp
  then show ?thesis by (cases "validate_machine port_doc") (simp_all add: live_machine_def)
qed

lemma live_inventory_valid: "valid_inventory live_machine demo_inventory"
proof -
  have "validate_inventory ''t'' demo_raw live_machine = Inr demo_inventory" by code_simp
  then show ?thesis by (rule validate_inventory_valid)
qed

lemma live_publishable: "publishable live_manager"
proof -
  have "valid_machine live_machine" by (rule validate_machine_valid [OF live_machine_validated])
  moreover have "inv_sensors demo_inventory = [(''cam'', PDict demo_sensor)]" by code_simp
  moreover have "dget demo_sensor ''kind'' (PStr ''camera'') = PStr ''camera''" by code_simp
  moreover have "dict_to_pose (dget demo_sensor ''pose'' PNone) = Inr zero_pose" by code_simp
  moreover have "dget (effective_known live_manager ''cam'') ''camera_profile'' (PStr '''') = PStr ''''" by code_simp
  moreover have "dhas spare_observation ''provider''" "dhas spare_observation ''serial''" by code_simp+
  ultimately show ?thesis
    using live_inventory_valid
    by (simp add: publishable_def live_manager_def profile_usable_def)
qed


theorem published_cameras_witness:
  "\<exists>p m'. publish_state (demo_mg_env 2 '''') live_manager = (Inr p, m')
    \<and> map sm_id (pb_sensors p) = [''cam'', ''camera_basler_b2'']"
proof -
  have "\<exists>p m'. publish_state (demo_mg_env 2 '''') live_manager = (Inr p, m')"
    using collect_total [OF publishable_pruned [OF live_publishable]] by (simp add: publish_state_def Let_def)
  then obtain p m' where p: "publish_state (demo_mg_env 2 '''') live_manager = (Inr p, m')" by blast
  have "sort (dkeys (inv_sensors (mg_inventory live_manager)))
      @ filter (\<lambda>cid. \<not> dhas (inv_sensors (mg_inventory live_manager)) cid)
          (sort (map fst (filter (\<lambda>(cid, obs, t). me_now (demo_mg_env 2 '''' :: pydict mg_env) - t \<le> mg_observation_timeout live_manager)
            (mg_observations live_manager)))) = [''cam'', ''camera_basler_b2'']"
    by code_simp
  with published_cameras [OF p] p show ?thesis by auto
qed


theorem port_ready_iff_witness:
  "\<exists>msg. managed_port_message live_manager [] ''net0'' port_entry = Inr msg \<and> pt_lifecycle msg \<noteq> ''ready''"
proof -
  have "\<not> isl (managed_port_message live_manager ([] :: port_status dict) ''net0'' port_entry)" by code_simp
  then obtain msg where msg: "managed_port_message live_manager ([] :: port_status dict) ''net0'' port_entry = Inr msg"
    by (cases "managed_port_message live_manager ([] :: port_status dict) ''net0'' port_entry") auto
  from port_ready_iff [OF msg] msg show ?thesis by auto
qed

end
