(* ===== verification/Manager_Services.thy ===== *)
theory Manager_Services
  imports Publish_Safety
begin

section \<open>The services of the manager\<close>

text \<open>
  The ROS services of \<^verbatim>\<open>manager_node.py\<close> that edit the inventory, the modes, the groups and
  the sessions, and the callbacks that take the providers' reports. A service returns a
  response; an exception it does not catch is passed on with the state as it is then. A
  service is one atomic step, publishing included.
\<close>

subsection \<open>Responses\<close>

record 'a response =
  rs_success :: bool
  rs_message :: string
  rs_payload :: "'a option"

definition accepted :: "string \<Rightarrow> 'a option \<Rightarrow> 'a response" where
  "accepted message payload = \<lparr>rs_success = True, rs_message = message, rs_payload = payload\<rparr>"

definition refused :: "string \<Rightarrow> 'a response" where
  "refused message = \<lparr>rs_success = False, rs_message = message, rs_payload = None\<rparr>"

definition refused_with :: "'a \<Rightarrow> string \<Rightarrow> 'a response" where
  "refused_with payload message = \<lparr>rs_success = False, rs_message = message, rs_payload = Some payload\<rparr>"

text \<open>\<open>except ... as error: response.success = False; response.message = str(error)\<close>.\<close>

definition handled :: "(py_exn \<Rightarrow> string option) \<Rightarrow> ('s, 'a response) op \<Rightarrow> ('s, 'a response) op" where
  "handled caught body s =
     (case body s of
        (Inl e, s') \<Rightarrow> (case caught e of Some message \<Rightarrow> (Inr (refused message), s') | None \<Rightarrow> (Inl e, s'))
      | (Inr r, s') \<Rightarrow> (Inr r, s'))"

fun registry_text :: "py_exn \<Rightarrow> string option" where
  "registry_text (RegistryError message) = Some message"
| "registry_text _ = None"

fun profile_text :: "py_exn \<Rightarrow> string option" where
  "profile_text (CameraProfileError message) = Some message"
| "profile_text _ = None"

fun settings_text :: "py_exn \<Rightarrow> string option" where
  "settings_text (RegistryError message) = Some message"
| "settings_text (CameraProfileError message) = Some message"
| "settings_text JSONErr = Some ''invalid JSON''"
| "settings_text _ = None"

definition require :: "bool \<Rightarrow> string \<Rightarrow> ('s, unit) op" where
  "require ok message = (if ok then returnS () else raiseS (RegistryError message))"

definition publishing :: "'f mg_env \<Rightarrow> ('f manager, unit) op" where
  "publishing env m = (case publish_state env m of (r, m') \<Rightarrow> (bindR r (\<lambda>_. Inr ()), m'))"

definition owned :: "'f manager \<Rightarrow> string list \<Rightarrow> bool" where
  "owned m sensors \<longleftrightarrow> cameras_capture_owned (mg_sessions m) sensors"

definition is_online :: "'f manager \<Rightarrow> string \<Rightarrow> bool" where
  "is_online m sid \<longleftrightarrow> (case map_of (mg_runtime m) sid of None \<Rightarrow> False | Some r \<Rightarrow> sm_online r)"

text \<open>The message of an enrolled camera, and of a known sensor, for a response.\<close>

definition sensor_reply :: "string \<Rightarrow> ('f manager, sensor_msg) op" where
  "sensor_reply sid m =
     (bindR (or_raise (map_of (inv_sensors (mg_inventory m)) sid) (KeyErr sid)) (\<lambda>s. sensor_message m sid (dict_of s)), m)"

definition known_reply :: "string \<Rightarrow> ('f manager, known_msg) op" where
  "known_reply sid m =
     (bindR (or_raise (map_of (inv_known (mg_inventory m)) sid) (KeyErr sid)) (\<lambda>k. known_sensor_message m sid (dict_of k)), m)"

definition group_reply :: "string \<Rightarrow> ('f manager, group_msg) op" where
  "group_reply gid m =
     (bindR (or_raise (map_of (inv_groups (mg_inventory m)) gid) (KeyErr gid)) (\<lambda>g. sync_group_message m gid (dict_of g)), m)"

definition port_reply :: "'f mg_env \<Rightarrow> string \<Rightarrow> ('f manager, port_msg) op" where
  "port_reply env nid m =
     (bindR (or_raise (map_of (machine_networks (mg_machine m)) nid) (KeyErr nid))
        (\<lambda>n. managed_port_message m (snd (me_ports env)) nid (dict_of n)), m)"

subsection \<open>Cameras\<close>

definition update_metadata ::
  "'f mg_env \<Rightarrow> string \<Rightarrow> string \<Rightarrow> string \<Rightarrow> (pose \<times> string) option \<Rightarrow> string \<Rightarrow> bool
     \<Rightarrow> ('f manager, sensor_msg response) op" where
  "update_metadata env sid display_name location pose url enabled = handled registry_text (\<lambda>m.
     bindS (require (\<not> owned m [sid]) ''cannot edit camera metadata while it is in use'') (\<lambda>_.
     bindS (on_registry (update_sensor (me_reg env) sid
       [(''display_name'', PStr display_name), (''location_label'', PStr location),
        (''pose'', case pose of None \<Rightarrow> PNone | Some (p, parent) \<Rightarrow> pose_to_dict p parent),
        (''calibration_url'', PStr url), (''enabled'', PBool enabled)])) (\<lambda>_.
     bindS (modifyS bump) (\<lambda>_.
     bindS (sensor_reply sid) (\<lambda>msg.
     bindS (publishing env) (\<lambda>_.
     returnS (accepted ''Sensor metadata updated'' (Some msg))))))) m)"

definition forget_sensor :: "'f mg_env \<Rightarrow> string \<Rightarrow> bool \<Rightarrow> ('f manager, unit response) op" where
  "forget_sensor env sid force = handled registry_text (\<lambda>m.
     bindS (require (groups_for_sensor (mg_inventory m) sid = [])
       (''remove sensor from synchronization groups before archiving: ''
         @ join '', '' (groups_for_sensor (mg_inventory m) sid))) (\<lambda>_.
     bindS (require (\<not> owned m [sid]) ''cannot archive a camera while it is in use'') (\<lambda>_.
     bindS (require (\<not> (is_online m sid \<and> \<not> force)) ''sensor is online; set force=true to stop and archive it'') (\<lambda>_.
     bindS (on_registry (forget (me_reg env) sid)) (\<lambda>_.
     bindS (modifyS (\<lambda>m. bump (m\<lparr>mg_sensor_modes := dpop sid (mg_sensor_modes m)\<rparr>))) (\<lambda>_.
     bindS (publishing env) (\<lambda>_.
     returnS (accepted ''Sensor unenrolled and archived; hardware IP was left unchanged'' None))))))) m)"

definition set_port_mode_service :: "'f mg_env \<Rightarrow> string \<Rightarrow> string \<Rightarrow> ('f manager, port_msg response) op" where
  "set_port_mode_service env nid mode = handled registry_text (
     bindS (on_registry (set_port_mode (me_reg env) nid mode)) (\<lambda>_.
     bindS (modifyS bump) (\<lambda>_.
     bindS (port_reply env nid) (\<lambda>msg.
     bindS (publishing env) (\<lambda>_.
     returnS (accepted (nid @ '' is now '' @ mode) (Some msg)))))))"

subsection \<open>Known sensors\<close>

text \<open>The length of a request text in UTF-8.\<close>

definition request_settings :: "string \<Rightarrow> pydict result" where
  "request_settings text =
     (if 64 * 1024 < utf8_length text then Inl (RegistryError ''provider_settings exceeds 64 KiB'')
      else bindR (json_loads (if text = '''' then ''{}'' else text)) (\<lambda>v.
        case v of PDict d \<Rightarrow> Inr d | _ \<Rightarrow> Inl (RegistryError ''provider_settings must be a JSON object'')))"

definition compatibility_of :: "pydict \<Rightarrow> pydict" where
  "compatibility_of p = dict_of (dget p ''compatibility'' (PDict []))"

definition legacy_wildcard :: "pydict \<Rightarrow> bool" where
  "legacy_wildcard p \<longleftrightarrow>
     dget p ''scope'' PNone = PStr ''model''
     \<and> \<not> truthy (dget (compatibility_of p) ''vendor'' PNone) \<and> \<not> truthy (dget (compatibility_of p) ''model'' PNone)"

definition validate_profile_for_sensor :: "profiles \<Rightarrow> string \<Rightarrow> pydict \<Rightarrow> unit result" where
  "validate_profile_for_sensor profiles name sensor =
     (if name = '''' then Inr ()
      else case map_of profiles name of
        None \<Rightarrow> Inl (CameraProfileError (''unknown camera profile '' @ name))
      | Some p \<Rightarrow>
          if \<not> legacy_wildcard p \<and> \<not> camera_profile_compatible p sensor then
            Inl (CameraProfileError (''camera profile '' @ name @ '' is for ''
              @ py_str (dget (compatibility_of p) ''vendor'' PNone) @ '' ''
              @ py_str (dget (compatibility_of p) ''model'' PNone) @ '', not ''
              @ py_str (dget sensor ''vendor'' PNone) @ '' '' @ py_str (dget sensor ''model'' PNone)))
          else Inr ())"

definition update_known_service ::
  "'f mg_env \<Rightarrow> string \<Rightarrow> string \<Rightarrow> string \<Rightarrow> string \<Rightarrow> ('f manager, known_msg response) op" where
  "update_known_service env sid notes profile text = handled settings_text (\<lambda>m.
     bindS (liftS (request_settings text)) (\<lambda>settings.
     bindS (liftS (or_raise (map_of (inv_known (mg_inventory m)) sid) (unknown_sensor sid))) (\<lambda>k.
     (let known = dict_of k;
          changed = (profile \<noteq> field known ''camera_profile''
            \<or> \<not> py_eq (PDict settings) (dget known ''provider_settings'' (PDict []))) in
      bindS (liftS (validate_profile_for_sensor (mg_profiles m) profile known)) (\<lambda>_.
      bindS (require (\<not> (changed \<and> is_online m sid))
        ''use apply_camera_settings for an online camera so changes are verified and rolled back on failure'') (\<lambda>_.
      bindS (on_registry (update_known_sensor (me_reg env) sid
        [(''notes'', PStr notes), (''camera_profile'', PStr profile), (''provider_settings'', PDict settings)])) (\<lambda>_.
      bindS (modifyS (\<lambda>m. bump (m\<lparr>mg_catalog_dirty := False\<rparr>))) (\<lambda>_.
      bindS (known_reply sid) (\<lambda>msg.
      bindS (publishing env) (\<lambda>_.
      returnS (accepted ''Known sensor updated'' (Some msg))))))))))) m)"

definition purge_known_service :: "'f mg_env \<Rightarrow> string \<Rightarrow> ('f manager, unit response) op" where
  "purge_known_service env sid = handled registry_text (
     bindS (on_registry (purge_known_sensor (me_reg env) sid)) (\<lambda>_.
     bindS (modifyS (\<lambda>m. bump (m\<lparr>mg_catalog_dirty := False, mg_checkpoints := dpop sid (mg_checkpoints m)\<rparr>))) (\<lambda>_.
     bindS (publishing env) (\<lambda>_.
     returnS (accepted ''Known sensor permanently deleted'' None)))))"

subsection \<open>Modes, groups and sessions\<close>

definition set_group_mode :: "string \<Rightarrow> string \<Rightarrow> ('f manager, unit) op" where
  "set_group_mode gid mode m =
     bindS (require (dhas (inv_groups (mg_inventory m)) gid) (''unknown sync group '' @ gid)) (\<lambda>_.
     bindS (require (\<not> owned m (group_members (group_record (mg_inventory m) gid)))
       ''cannot change mode while cameras are capture-session owned'') (\<lambda>_.
     modifyS (\<lambda>m. m\<lparr>mg_group_modes := dset gid mode (mg_group_modes m),
       mg_group_intervals := dset gid 0 (mg_group_intervals m)\<rparr>))) m"

definition set_sensor_mode :: "string \<Rightarrow> string \<Rightarrow> ('f manager, unit) op" where
  "set_sensor_mode sid mode m =
     bindS (require (dhas (inv_sensors (mg_inventory m)) sid) (''unknown sensor '' @ sid)) (\<lambda>_.
     bindS (require (\<not> owned m [sid]) ''cannot change mode while the camera is capture-session owned'') (\<lambda>_.
     bindS (require (groups_for_sensor (mg_inventory m) sid = [])
       ''set the mode on one of the sensor's capture groups'') (\<lambda>_.
     bindS (require (mode \<noteq> ''capture'') ''capture mode requires a synchronization group'') (\<lambda>_.
     modifyS (\<lambda>m. m\<lparr>mg_sensor_modes := dset sid mode (mg_sensor_modes m)\<rparr>))))) m"

definition set_mode :: "'f mg_env \<Rightarrow> string \<Rightarrow> string \<Rightarrow> string \<Rightarrow> ('f manager, unit response) op" where
  "set_mode env mode kind target = handled registry_text (
     bindS (require (mode \<in> set valid_operating_modes) ''mode must be idle, preview, or capture'') (\<lambda>_.
     bindS (if kind = ''group'' then set_group_mode target mode
            else if kind = ''sensor'' then set_sensor_mode target mode
            else raiseS (RegistryError ''target_kind must be sensor or group'')) (\<lambda>_.
     bindS (modifyS bump) (\<lambda>_.
     bindS (publishing env) (\<lambda>_.
     returnS (accepted (''Requested '' @ mode @ '' mode'') None))))))"

definition upsert_group_service ::
  "'f mg_env \<Rightarrow> string \<Rightarrow> string \<Rightarrow> string list \<Rightarrow> string \<Rightarrow> pyfloat \<Rightarrow> ('f manager, group_msg response) op" where
  "upsert_group_service env gid provider members policy rate = handled registry_text (\<lambda>m.
     bindS (require (\<not> owned m (members @ group_members (group_record (mg_inventory m) gid)))
       ''cannot edit a group while its cameras are in use'') (\<lambda>_.
     bindS (on_registry (upsert_group (me_reg env) gid provider members policy rate)) (\<lambda>_.
     bindS (modifyS (\<lambda>m. bump (m\<lparr>mg_group_modes := setdefault gid (mg_default_mode m) (mg_group_modes m),
       mg_group_intervals := setdefault gid 0 (mg_group_intervals m)\<rparr>))) (\<lambda>_.
     bindS (group_reply gid) (\<lambda>msg.
     bindS (publishing env) (\<lambda>_.
     returnS (accepted ''Synchronization group saved'' (Some msg))))))) m)"

definition delete_group_service :: "'f mg_env \<Rightarrow> string \<Rightarrow> ('f manager, unit response) op" where
  "delete_group_service env gid = handled registry_text (\<lambda>m.
     bindS (require (\<not> owned m (group_members (group_record (mg_inventory m) gid)))
       ''cannot delete a group while its cameras are in use'') (\<lambda>_.
     bindS (on_registry (delete_group (me_reg env) gid)) (\<lambda>_.
     bindS (modifyS (\<lambda>m. bump (m\<lparr>mg_group_modes := dpop gid (mg_group_modes m),
       mg_group_intervals := dpop gid (mg_group_intervals m)\<rparr>))) (\<lambda>_.
     bindS (publishing env) (\<lambda>_.
     returnS (accepted ''Synchronization group deleted'' None))))) m)"

definition acquire_service ::
  "'f mg_env \<Rightarrow> string \<Rightarrow> string \<Rightarrow> string list \<Rightarrow> int \<Rightarrow> bool \<Rightarrow> ('f manager, session_msg response) op" where
  "acquire_service env owner kind targets interval exclusive = handled registry_text (
     bindS (create_capture_session env owner kind targets interval exclusive) (\<lambda>s.
     bindS (publishing env) (\<lambda>_.
     returnS (accepted ''Capture session acquired'' (Some (capture_session_message (me_now env) s))))))"

definition renew_service :: "'f mg_env \<Rightarrow> string \<Rightarrow> ('f manager, session_msg response) op" where
  "renew_service env sid m =
     (case renew_capture_session env sid m of
        (None, m') \<Rightarrow> (Inr (refused ''unknown or expired capture session''), m')
      | (Some s, m') \<Rightarrow>
          (Inr (accepted ''Capture session renewed'' (Some (capture_session_message (me_now env) s))), m'))"

definition release_service :: "'f mg_env \<Rightarrow> string \<Rightarrow> ('f manager, unit response) op" where
  "release_service env sid m =
     (case drop_capture_session sid m of
        (False, m') \<Rightarrow> (Inr (refused ''unknown capture session''), m')
      | (True, m') \<Rightarrow> bindS (publishing env) (\<lambda>_. returnS (accepted ''Capture session released'' None)) m')"

definition expire_callback :: "'f mg_env \<Rightarrow> ('f manager, unit) op" where
  "expire_callback env m =
     (case expire_capture_sessions env m of
        (expired, m') \<Rightarrow> if expired = [] then (Inr (), m') else publishing env m')"

definition prepare_capture_groups ::
  "'f mg_env \<Rightarrow> string \<Rightarrow> string list \<Rightarrow> int \<Rightarrow> ('f manager, string response) op" where
  "prepare_capture_groups env owner gids interval = handled registry_text (
     bindS (require (interval_ok interval) ''interval_ms must be zero or between 100 and 86400000'') (\<lambda>_.
     bindS (create_capture_session env (or_else owner ''capture-operation'') ''group'' gids interval False) (\<lambda>s.
     bindS (publishing env) (\<lambda>_.
     returnS (accepted (''Preparing '' @ show_nat (length gids) @ '' group(s) for '' @ show_int interval @ '' ms capture'')
       (Some (ss_id s)))))))"

subsection \<open>Reports from the providers\<close>

record observed =
  ob_candidate :: string
  ob_kind :: string
  ob_vendor :: string
  ob_model :: string
  ob_serial :: string
  ob_mac :: string
  ob_transport :: string
  ob_interface :: string
  ob_address :: string
  ob_capabilities :: "string list"

definition observation_record :: "string \<Rightarrow> observed \<Rightarrow> pydict" where
  "observation_record provider o' =
     [(''provider'', PStr provider), (''candidate_id'', PStr (ob_candidate o')), (''kind'', PStr (ob_kind o')),
      (''vendor'', PStr (ob_vendor o')), (''model'', PStr (ob_model o')), (''serial'', PStr (ob_serial o')),
      (''mac_address'', PStr (ob_mac o')), (''transport'', PStr (ob_transport o')),
      (''interface_name'', PStr (ob_interface o')), (''current_address'', PStr (ob_address o')),
      (''capabilities'', PList (map PStr (ob_capabilities o')))]"

definition observe_one :: "'f mg_env \<Rightarrow> string \<Rightarrow> observed \<Rightarrow> ('f manager, unit) op" where
  "observe_one env provider o' m =
     (let obs0 = observation_record provider o' in
      bindS (liftS (sensor_id_for_observation (mg_inventory m) obs0)) (\<lambda>cid m.
      (let obs = dset ''candidate_id'' (PStr cid) obs0; new_session = \<not> dhas (mg_observations m) cid;
           checkpoint = (60 \<le> me_now env - dget (mg_checkpoints m) cid 0);
           nid = configured_network_for_observation (mg_machine m) obs in
       bindS (modifyS (\<lambda>m. m\<lparr>mg_observations := dset cid (obs, me_now env) (mg_observations m)\<rparr>)) (\<lambda>_.
       bindS (on_registry (observe (me_reg env) obs nid
           (is_approved (network_record (mg_machine m) nid)) new_session checkpoint)) (\<lambda>changed.
       if changed then modifyS (\<lambda>m. m\<lparr>mg_catalog_dirty := True,
         mg_checkpoints := dset cid (me_now env) (mg_checkpoints m)\<rparr>)
       else returnS ())) m)) m)"

fun observe_all :: "'f mg_env \<Rightarrow> string \<Rightarrow> observed list \<Rightarrow> ('f manager, unit) op" where
  "observe_all env provider [] = modifyS bump"
| "observe_all env provider (o' # os) = bindS (observe_one env provider o') (\<lambda>_. observe_all env provider os)"

text \<open>\<open>_flush_catalog\<close>: a failing save is logged and tried again later.\<close>

definition flush_catalog :: "'f mg_env \<Rightarrow> ('f manager, unit) op" where
  "flush_catalog env m =
     (if \<not> mg_catalog_dirty m then (Inr (), m)
      else case on_registry (save (me_reg env)) m of
        (Inr _, m') \<Rightarrow> (Inr (), m'\<lparr>mg_catalog_dirty := False\<rparr>)
      | (Inl (RegistryError e), m') \<Rightarrow> (Inr (), m')
      | (Inl OSErr, m') \<Rightarrow> (Inr (), m')
      | (Inl e, m') \<Rightarrow> (Inl e, m'))"

definition provider_status :: "string \<Rightarrow> sensor_msg list \<Rightarrow> ('f manager, unit) op" where
  "provider_status provider messages m =
     (case mapR (\<lambda>(sid, s). bindR (runtime_provider m (dict_of s)) (\<lambda>p. Inr (sid, p = provider)))
             (inv_sensors (mg_inventory m)) of
        Inl e \<Rightarrow> (Inl e, m)
      | Inr flags \<Rightarrow>
          (let ids = map fst (filter snd flags);
               kept = filter (\<lambda>(sid, r). sid \<notin> set ids) (mg_runtime m)
           in (Inr (), bump (m\<lparr>mg_runtime := foldl (\<lambda>d s. dset (sm_id s) s d) kept messages\<rparr>))))"

definition provider_group_status :: "string \<Rightarrow> group_msg list \<Rightarrow> ('f manager, unit) op" where
  "provider_group_status provider messages m =
     (case mapR (\<lambda>(gid, g). bindR (runtime_group_provider m (dict_of g)) (\<lambda>p. Inr (gid, p = provider)))
             (inv_groups (mg_inventory m)) of
        Inl e \<Rightarrow> (Inl e, m)
      | Inr flags \<Rightarrow>
          (let ids = map fst (filter snd flags);
               kept = filter (\<lambda>(gid, r). gid \<notin> set ids) (mg_provider_groups m)
           in (Inr (), bump (m\<lparr>mg_provider_groups := foldl (\<lambda>d g. dset (gm_id g) g d) kept messages\<rparr>))))"

end
