(* ===== verification/Polling.thy ===== *)
theory Polling
  imports Prelude
begin

section \<open>Polling loops\<close>

text \<open>
  A loop that looks at its surroundings until a look decides: \<open>look n\<close> is what the \<open>n\<close>-th look
  finds, None that it has to look again. Such a loop may run forever; None is that it does not
  return.
\<close>

partial_function (option) poll_until :: "(nat \<Rightarrow> 'a option) \<Rightarrow> nat \<Rightarrow> 'a option" where
  "poll_until look n = (case look n of None \<Rightarrow> poll_until look (Suc n) | Some r \<Rightarrow> Some r)"

lemma poll_until_Some: "look n = Some r \<Longrightarrow> poll_until look n = Some r"
  and poll_until_None: "look n = None \<Longrightarrow> poll_until look n = poll_until look (Suc n)"
  by (subst poll_until.simps, simp)+

lemma poll_until_skip: "\<forall>k < n. look k = None \<Longrightarrow> poll_until look 0 = poll_until look n"
  by (induction n) (simp_all add: poll_until_None)

text \<open>The loop returns as soon as a look decides, with what the first such look finds.\<close>

lemma poll_until_first:
  assumes "look N \<noteq> None"
  shows "\<exists>n \<le> N. look n \<noteq> None \<and> (\<forall>k < n. look k = None) \<and> poll_until look 0 = look n"
proof -
  define n where "n = (LEAST n. look n \<noteq> None)"
  from assms have "look n \<noteq> None" "n \<le> N" unfolding n_def by (rule LeastI, rule Least_le)
  moreover from this(1) obtain r where "look n = Some r" by blast
  moreover have before: "\<forall>k < n. look k = None" unfolding n_def by (auto dest: not_less_Least)
  ultimately show ?thesis
    using poll_until_skip [OF before] poll_until_Some [of look n r] by auto
qed

text \<open>
  The interface of a loop with a deadline: a look at or past the deadline decides. Then the loop
  ends as soon as the clock has passed the deadline, and all looks before its last one were in
  time.
\<close>

locale timed_polling =
  fixes clock :: "nat \<Rightarrow> rat" and deadline :: rat and look :: "nat \<Rightarrow> 'a option"
  assumes late_look: "deadline \<le> clock n \<Longrightarrow> look n \<noteq> None"
begin

lemma ends:
  assumes "deadline \<le> clock N"
  shows "\<exists>n \<le> N. look n \<noteq> None \<and> (\<forall>k < n. look k = None) \<and> poll_until look 0 = look n"
  using late_look [OF assms] by (rule poll_until_first)

lemma undecided_in_time: "look n = None \<Longrightarrow> clock n < deadline"
  using late_look [of n] by force

end

text \<open>What the loop returns was found by a look.\<close>

lemma poll_until_found:
  assumes "poll_until look n = Some r"
  shows "\<exists>k \<ge> n. look k = Some r \<and> (\<forall>i. n \<le> i \<longrightarrow> i < k \<longrightarrow> look i = None)"
proof (rule poll_until.raw_induct [where P = "\<lambda>look n r. \<exists>k \<ge> n. look k = Some r \<and> (\<forall>i. n \<le> i \<longrightarrow> i < k \<longrightarrow> look i = None)",
      OF _ assms])
  fix poll and look :: "nat \<Rightarrow> 'a option" and n r
  assume IH: "\<And>look n (r :: 'a). poll look n = Some r \<Longrightarrow> \<exists>k \<ge> n. look k = Some r \<and> (\<forall>i. n \<le> i \<longrightarrow> i < k \<longrightarrow> look i = None)"
    and step: "(case look n of None \<Rightarrow> poll look (Suc n) | Some r \<Rightarrow> Some r) = Some r"
  show "\<exists>k \<ge> n. look k = Some r \<and> (\<forall>i. n \<le> i \<longrightarrow> i < k \<longrightarrow> look i = None)"
  proof (cases "look n")
    case None
    with step IH [of look "Suc n" r] obtain k
      where k: "Suc n \<le> k" "look k = Some r" "\<And>i. Suc n \<le> i \<Longrightarrow> i < k \<Longrightarrow> look i = None" by auto
    have "look i = None" if "n \<le> i" "i < k" for i
      using that None k(3) by (cases "i = n") auto
    with k show ?thesis by (intro exI [of _ k]) simp
  next
    case (Some x)
    with step show ?thesis by (intro exI [of _ n]) auto
  qed
qed

end
