(* ===== verification/Manager_Settings.thy ===== *)
theory Manager_Settings
  imports Manager_Services Polling
begin

section \<open>Camera profiles and camera settings as services\<close>

text \<open>
  The services of \<^verbatim>\<open>manager_node.py\<close> on the profile catalogue, and
  \<open>_apply_camera_settings\<close>, which waits for the camera: its two locked sections are
  separate steps (\<open>apply_begin\<close>, \<open>apply_finish\<close>), the polls between them are
  \<open>apply_poll\<close>, and any other callback may run in between.
\<close>

subsection \<open>The profile catalogue\<close>

definition selected_profiles :: "'f manager \<Rightarrow> string list" where
  "selected_profiles m =
     map (\<lambda>(sid, k). field (dict_of k) ''camera_profile'')
       (filter (\<lambda>(sid, k). truthy (dget (dict_of k) ''camera_profile'' PNone)) (inv_known (mg_inventory m)))"

definition profile_users :: "'f manager \<Rightarrow> string \<Rightarrow> string list" where
  "profile_users m name =
     sort (map fst (filter (\<lambda>(sid, k). dget (dict_of k) ''camera_profile'' PNone = PStr name) (inv_known (mg_inventory m))))"

definition missing_profiles :: "'f manager \<Rightarrow> profiles \<Rightarrow> string list" where
  "missing_profiles m loaded = sort (remdups (filter (\<lambda>p. \<not> dhas loaded p) (selected_profiles m)))"

definition require_profile :: "bool \<Rightarrow> string \<Rightarrow> ('s, unit) op" where
  "require_profile ok message = (if ok then returnS () else raiseS (CameraProfileError message))"

definition load_profiles :: "'f mg_env \<Rightarrow> 'f manager \<Rightarrow> profiles result" where
  "load_profiles env m = load_camera_profiles (re_load (me_reg env)) (me_profile_dir env) (dk_file (mg_profile_file m))"

definition reload_body :: "'f mg_env \<Rightarrow> ('f manager, string list response) op" where
  "reload_body env = handled profile_text (\<lambda>m.
     bindS (liftS (load_profiles env m)) (\<lambda>loaded.
     bindS (require_profile (missing_profiles m loaded = [])
       (''selected camera profiles are missing: '' @ join '', '' (missing_profiles m loaded))) (\<lambda>_.
     bindS (modifyS (\<lambda>m. bump (m\<lparr>mg_profiles := loaded\<rparr>))) (\<lambda>_.
     bindS (publishing env) (\<lambda>_.
     returnS (accepted (''loaded '' @ show_nat (length loaded) @ '' camera profile(s)'') (Some (sort (dkeys loaded)))))))) m)"

text \<open>A refusal lists the names of the profiles in use.\<close>

definition reload_profiles :: "'f mg_env \<Rightarrow> ('f manager, string list response) op" where
  "reload_profiles env = bindS (reload_body env) (\<lambda>r m.
     (Inr (if rs_success r then r else refused_with (sort (dkeys (mg_profiles m))) (rs_message r)), m))"

definition camera_profiles_json :: "profiles \<Rightarrow> string" where
  "camera_profiles_json profiles = json_dumps (PList (map (\<lambda>(name, p). PDict p) (sort_key fst profiles)))"

definition get_camera_profiles :: "('f manager, string response) op" where
  "get_camera_profiles m =
     (Inr (accepted (show_nat (length (mg_profiles m)) @ '' camera profile(s)'')
        (Some (camera_profiles_json (mg_profiles m)))), m)"

definition owned_by_admin :: "pydict \<Rightarrow> bool" where
  "owned_by_admin p \<longleftrightarrow> dget p ''source'' PNone = PStr ''admin''"

definition read_only :: "string \<Rightarrow> string" where
  "read_only name = ''camera profile '' @ name @ '' is administrator-owned and read-only''"

text \<open>Saving first, then replacing the catalogue in memory.\<close>

definition save_profiles :: "'f mg_env \<Rightarrow> profiles \<Rightarrow> ('f manager, unit) op" where
  "save_profiles env updated m =
     (case save_managed_camera_profiles (re_fs (me_reg env)) (re_dump (me_reg env)) updated (mg_profile_file m) of
        (Inl e, d) \<Rightarrow> (Inl e, m\<lparr>mg_profile_file := d\<rparr>)
      | (Inr _, d) \<Rightarrow> (Inr (), bump (m\<lparr>mg_profile_file := d, mg_profiles := updated\<rparr>)))"

fun profile_json_text :: "py_exn \<Rightarrow> string option" where
  "profile_json_text (CameraProfileError message) = Some message"
| "profile_json_text JSONErr = Some ''invalid JSON''"
| "profile_json_text _ = None"

definition upsert_body :: "'f mg_env \<Rightarrow> string \<Rightarrow> bool \<Rightarrow> ('f manager, string response) op" where
  "upsert_body env text overwrite = handled profile_json_text (
     bindS (liftS (json_loads (if text = '''' then ''{}'' else text))) (\<lambda>v.
     bindS (liftS (normalize_camera_profile v '''' ''managed'')) (\<lambda>p m.
     (let name = profile_name p; current = map_of (mg_profiles m) name in
      bindS (require_profile (\<not> (current \<noteq> None \<and> owned_by_admin (the current))) (read_only name)) (\<lambda>_.
      bindS (require_profile (current = None \<or> overwrite) (''camera profile '' @ name @ '' already exists'')) (\<lambda>_.
      bindS (require_profile (current = None \<or> profile_users m name = [])
        (''camera profile '' @ name @ '' cannot be replaced while selected by: '' @ join '', '' (profile_users m name))) (\<lambda>_.
      bindS (save_profiles env (dset name p (mg_profiles m))) (\<lambda>_.
      bindS (publishing env) (\<lambda>_.
      returnS (accepted (''camera profile '' @ name @ '' saved'') (Some (json_dumps (PDict p))))))))) m))))"

definition upsert_profile :: "'f mg_env \<Rightarrow> string \<Rightarrow> bool \<Rightarrow> ('f manager, string response) op" where
  "upsert_profile env text overwrite = bindS (upsert_body env text overwrite) (\<lambda>r.
     returnS (if rs_success r then r else refused_with ''{}'' (rs_message r)))"

definition delete_profile :: "'f mg_env \<Rightarrow> string \<Rightarrow> ('f manager, unit response) op" where
  "delete_profile env name = handled profile_text (\<lambda>m.
     bindS (liftS (or_raise (map_of (mg_profiles m) name) (CameraProfileError (''unknown camera profile '' @ name)))) (\<lambda>current.
     bindS (require_profile (\<not> owned_by_admin current) (read_only name)) (\<lambda>_.
     bindS (require_profile (profile_users m name = [])
       (''camera profile '' @ name @ '' is selected by: '' @ join '', '' (profile_users m name))) (\<lambda>_.
     bindS (save_profiles env (dpop name (mg_profiles m))) (\<lambda>_.
     bindS (publishing env) (\<lambda>_.
     returnS (accepted (''camera profile '' @ name @ '' deleted'') None)))))) m)"

subsection \<open>Applying settings\<close>

text \<open>
  How far a request is after its first section: answered, or waiting for the camera, with
  what the camera reported then. A response carries the effective settings and whether the
  previous ones were restored.
\<close>

type_synonym apply_response = "(string \<times> bool) response"

datatype apply_phase = Answered apply_response | Waiting pydict string string

definition begin_body :: "'f mg_env \<Rightarrow> string \<Rightarrow> string \<Rightarrow> string \<Rightarrow> bool \<Rightarrow> ('f manager, apply_phase) op" where
  "begin_body env sid profile text offline m0 =
     bindS (liftS (request_settings text)) (\<lambda>overrides m.
     bindS (require (dhas (inv_sensors (mg_inventory m)) sid \<and> dhas (inv_known (mg_inventory m)) sid)
       (''unknown enrolled sensor '' @ sid)) (\<lambda>_.
     bindS (require (sid \<notin> mg_applying m) (''camera settings are already being applied to '' @ sid)) (\<lambda>_.
     bindS (require (\<not> owned m [sid]) ''cannot change camera settings while it is in use'') (\<lambda>_.
     bindS (liftS (validate_profile_for_sensor (mg_profiles m) profile (sensor_record (mg_inventory m) sid))) (\<lambda>_.
     if \<not> is_online m sid then
       bindS (require offline ''camera is offline; set allow_offline=true to save for next connection'') (\<lambda>_.
       bindS (on_registry (update_known_sensor (me_reg env) sid
         [(''camera_profile'', PStr profile), (''provider_settings'', PDict overrides)])) (\<lambda>_.
       bindS (modifyS bump) (\<lambda>_.
       bindS (publishing env) (\<lambda>_.
       returnS (Answered (accepted ''camera settings saved for next connection (unverified)'' (Some (''{}'', False))))))))
     else
       bindS (modifyS (\<lambda>m. bump (m\<lparr>mg_applying := insert sid (mg_applying m),
         mg_pending := dset sid \<lparr>pe_profile = profile, pe_settings = overrides\<rparr> (mg_pending m)\<rparr>))) (\<lambda>_.
       bindS (publishing env) (\<lambda>_.
       returnS (Waiting overrides (sm_applied_settings (the (map_of (mg_runtime m) sid)))
         (sm_last_error (the (map_of (mg_runtime m) sid)))))))))) m) m0"

text \<open>The \<^verbatim>\<open>except\<close> clause: it clears the camera's pending settings, whoever set them.\<close>

definition roll_back :: "'f mg_env \<Rightarrow> string \<Rightarrow> string \<Rightarrow> ('f manager, apply_response) op" where
  "roll_back env sid message m =
     (let pending = dhas (mg_pending m) sid;
          m1 = m\<lparr>mg_pending := dpop sid (mg_pending m), mg_applying := mg_applying m - {sid}\<rparr>;
          response = refused_with (''{}'', pending) (message @ (if pending then ''; previous settings restored'' else '''')) in
      if pending then bindS (publishing env) (\<lambda>_. returnS response) (bump m1) else (Inr response, m1))"

definition rolling_back ::
  "'f mg_env \<Rightarrow> string \<Rightarrow> (apply_response \<Rightarrow> 'a) \<Rightarrow> ('f manager, 'a) op \<Rightarrow> ('f manager, 'a) op" where
  "rolling_back env sid wrap body m =
     (case body m of
        (Inl e, m') \<Rightarrow>
          (case settings_text e of
             Some message \<Rightarrow> bindS (roll_back env sid message) (\<lambda>r. returnS (wrap r)) m'
           | None \<Rightarrow> (Inl e, m'))
      | (Inr r, m') \<Rightarrow> (Inr r, m'))"

definition apply_begin :: "'f mg_env \<Rightarrow> string \<Rightarrow> string \<Rightarrow> string \<Rightarrow> bool \<Rightarrow> ('f manager, apply_phase) op" where
  "apply_begin env sid profile text offline =
     rolling_back env sid Answered (begin_body env sid profile text offline)"

datatype verdict = Effective string | Failure string | Undecided

definition settings_effective :: "string \<Rightarrow> pydict \<Rightarrow> pydict \<Rightarrow> bool" where
  "settings_effective profile overrides applied \<longleftrightarrow>
     dget applied ''camera_profile'' (PStr '''') = PStr profile
     \<and> list_all (\<lambda>(k, v). py_eq (dget applied k PNone) v) overrides"

definition reacted :: "string \<Rightarrow> string \<Rightarrow> sensor_msg \<Rightarrow> bool" where
  "reacted applied0 error0 r \<longleftrightarrow>
     sm_applied_settings r \<noteq> applied0 \<or> sm_last_error r \<noteq> error0 \<or> \<not> sm_online r"

text \<open>One look at the camera's report.\<close>

definition apply_poll :: "string \<Rightarrow> string \<Rightarrow> pydict \<Rightarrow> string \<Rightarrow> string \<Rightarrow> 'f manager \<Rightarrow> verdict result" where
  "apply_poll sid profile overrides applied0 error0 m =
     (case map_of (mg_runtime m) sid of
        None \<Rightarrow> Inr Undecided
      | Some r \<Rightarrow>
          (let failed = (if reacted applied0 error0 r \<and> sm_last_error r \<noteq> '''' then Failure (sm_last_error r) else Undecided) in
           if \<not> sm_online r then Inr failed
           else
             bindR (json_loads (if sm_applied_settings r = '''' then ''{}'' else sm_applied_settings r)) (\<lambda>v.
             bindR (py_items v) (\<lambda>applied.
             Inr (if settings_effective profile overrides applied then Effective (sm_applied_settings r) else failed)))))"

text \<open>
  After the loop: an effective report (an empty one counts as none), a failure, or neither
  before the deadline.
\<close>

definition finish_body :: "'f mg_env \<Rightarrow> string \<Rightarrow> string \<Rightarrow> pydict \<Rightarrow> verdict result \<Rightarrow> ('f manager, apply_response) op" where
  "finish_body env sid profile overrides outcome =
     bindS (liftS outcome) (\<lambda>v.
     case v of
       Effective effective \<Rightarrow>
         bindS (require (effective \<noteq> '''') ''camera did not accept settings within 25 seconds'') (\<lambda>_.
         bindS (on_registry (update_known_sensor (me_reg env) sid
           [(''camera_profile'', PStr profile), (''provider_settings'', PDict overrides)])) (\<lambda>_.
         bindS (modifyS (\<lambda>m. bump (m\<lparr>mg_pending := dpop sid (mg_pending m), mg_applying := mg_applying m - {sid}\<rparr>))) (\<lambda>_.
         bindS (publishing env) (\<lambda>_.
         returnS (accepted ''camera settings applied and saved'' (Some (effective, False)))))))
     | Failure message \<Rightarrow> raiseS (RegistryError message)
     | Undecided \<Rightarrow> raiseS (RegistryError ''camera did not accept settings within 25 seconds''))"

definition apply_finish :: "'f mg_env \<Rightarrow> string \<Rightarrow> string \<Rightarrow> pydict \<Rightarrow> verdict result \<Rightarrow> ('f manager, apply_response) op" where
  "apply_finish env sid profile overrides outcome =
     rolling_back env sid id (finish_body env sid profile overrides outcome)"

subsection \<open>Waiting for the camera\<close>

text \<open>
  The polling loop: \<open>trace n\<close> is the clock and the node at the loop's \<open>n\<close>-th look. It may run
  forever for an arbitrary clock; None is that it does not return.
\<close>

definition apply_look ::
  "(nat \<Rightarrow> rat \<times> 'f manager) \<Rightarrow> rat \<Rightarrow> string \<Rightarrow> string \<Rightarrow> pydict \<Rightarrow> string \<Rightarrow> string \<Rightarrow> nat \<Rightarrow> verdict result option" where
  "apply_look trace deadline sid profile overrides applied0 error0 n =
     (if deadline \<le> fst (trace n) then Some (Inr Undecided)
      else case apply_poll sid profile overrides applied0 error0 (snd (trace n)) of
        Inr Undecided \<Rightarrow> None
      | outcome \<Rightarrow> Some outcome)"

definition apply_wait ::
  "(nat \<Rightarrow> rat \<times> 'f manager) \<Rightarrow> rat \<Rightarrow> string \<Rightarrow> string \<Rightarrow> pydict \<Rightarrow> string \<Rightarrow> string \<Rightarrow> nat \<Rightarrow> verdict result option" where
  "apply_wait trace deadline sid profile overrides applied0 error0 =
     poll_until (apply_look trace deadline sid profile overrides applied0 error0)"

text \<open>Where the loop stops: at the first look that is past the deadline or decides.\<close>

definition wait_stops :: "(nat \<Rightarrow> rat \<times> 'f manager) \<Rightarrow> rat \<Rightarrow> (nat \<Rightarrow> verdict result) \<Rightarrow> nat \<Rightarrow> bool" where
  "wait_stops trace deadline poll n \<longleftrightarrow> deadline \<le> fst (trace n) \<or> poll n \<noteq> Inr Undecided"

lemma apply_look_None:
  "apply_look trace deadline sid profile overrides applied0 error0 n = None
    \<longleftrightarrow> \<not> wait_stops trace deadline (\<lambda>n. apply_poll sid profile overrides applied0 error0 (snd (trace n))) n"
  by (auto simp: apply_look_def wait_stops_def split: sum.split verdict.split)

lemma apply_look_Some:
  "wait_stops trace deadline (\<lambda>n. apply_poll sid profile overrides applied0 error0 (snd (trace n))) n
    \<Longrightarrow> apply_look trace deadline sid profile overrides applied0 error0 n
      = Some (if deadline \<le> fst (trace n) then Inr Undecided
              else apply_poll sid profile overrides applied0 error0 (snd (trace n)))"
  by (auto simp: apply_look_def wait_stops_def split: sum.split verdict.split)

interpretation settings_wait: timed_polling "\<lambda>n. fst (trace n)" deadline
    "apply_look trace deadline sid profile overrides applied0 error0"
  for trace :: "nat \<Rightarrow> rat \<times> 'f manager" and deadline sid profile overrides applied0 error0
  by unfold_locales (simp add: apply_look_def)

subsection \<open>Properties\<close>

text \<open>C23: The wait for a camera to apply its settings ends once the clock passes the deadline, and its
  outcome is that of the first look that decides, or undecided if none does before the
  deadline.\<close>

theorem settings_wait_ends:
  assumes "deadline \<le> fst (trace N)"
  shows "\<exists>n \<le> N. wait_stops trace deadline (\<lambda>n. apply_poll sid profile overrides applied0 error0 (snd (trace n))) n
    \<and> (\<forall>k < n. \<not> wait_stops trace deadline (\<lambda>n. apply_poll sid profile overrides applied0 error0 (snd (trace n))) k)
    \<and> apply_wait trace deadline sid profile overrides applied0 error0 0
        = Some (if deadline \<le> fst (trace n) then Inr Undecided
                else apply_poll sid profile overrides applied0 error0 (snd (trace n)))"
  using settings_wait.ends [where trace = trace, OF assms, of sid profile overrides applied0 error0]
  unfolding apply_wait_def apply_look_None not_not by (metis apply_look_Some)

text \<open>A camera that reports the settings at the third look.\<close>

definition report_trace :: "nat \<Rightarrow> rat \<times> pydict manager" where
  "report_trace n = (of_nat n, demo_manager\<lparr>mg_runtime :=
     [(''cam'', blank_sensor\<lparr>sm_online := True, sm_applied_settings :=
        if n < 2 then '''' else json_dumps (PDict [(''camera_profile'', PStr ''day'')])\<rparr>)]\<rparr>)"

theorem settings_wait_ends_witness:
  "\<exists>outcome. apply_wait report_trace 25 ''cam'' ''day'' [] '''' '''' 0 = Some outcome"
proof -
  have "25 \<le> fst (report_trace 25)" by (simp add: report_trace_def)
  then show ?thesis by (blast dest: settings_wait_ends)
qed

end
