(* ===== verification/Enrollment.thy ===== *)
theory Enrollment
  imports Manager_Services
begin

section \<open>Enrolling and placing cameras\<close>

text \<open>
  The actions \<^verbatim>\<open>EnrollSensor\<close> and \<^verbatim>\<open>ResolveSensorPlacement\<close> of \<^verbatim>\<open>manager_node.py\<close> and the
  automation that starts enrollments. An action waits for the provider to set the camera's
  address, so it is two steps: up to the provisioning request, with what the action holds
  then as a job, and from the provider's answer on; any other callback may run in between.
  Each step ends with the \<^verbatim>\<open>except\<close> and \<^verbatim>\<open>finally\<close> clauses of the action.
\<close>

text \<open>
  The clauses catch \<^verbatim>\<open>RegistryError\<close>, \<^verbatim>\<open>KeyError\<close> and \<^verbatim>\<open>ValueError\<close>; the text of a
  \<^verbatim>\<open>KeyError\<close> is its key in quotes, the texts of the library's \<^verbatim>\<open>ValueError\<close>s are not modelled.
\<close>

fun placement_text :: "py_exn \<Rightarrow> string option" where
  "placement_text (RegistryError message) = Some message"
| "placement_text (KeyErr key) = Some (CHR 0x27 # key @ [CHR 0x27])"
| "placement_text ValueErr = Some ''value error''"
| "placement_text JSONErr = Some ''value error''"
| "placement_text _ = None"

text \<open>The provider's answer to the provisioning request.\<close>

datatype provision = Provisioned | Rejected_by_provider string

definition provision_result :: "provision \<Rightarrow> unit result" where
  "provision_result outcome =
     (case outcome of
        Provisioned \<Rightarrow> Inr ()
      | Rejected_by_provider message \<Rightarrow> Inl (RegistryError message))"

text \<open>
  Whether the request can be sent: the provider needs a client, and its service has to
  answer (\<open>available\<close>).
\<close>

definition provision_client :: "'f manager \<Rightarrow> bool \<Rightarrow> pydict \<Rightarrow> unit result" where
  "provision_client m available observation =
     bindR (py_index (PDict observation) ''provider'') (\<lambda>p.
     if py_str p \<notin> set (mg_providers m) then Inl (KeyErr (py_str p))
     else if \<not> available then Inl (RegistryError (''provider '' @ py_str p @ '' is unavailable''))
     else Inr ())"

subsection \<open>Enrolling\<close>

record enroll_goal =
  eg_candidate :: string
  eg_network :: string
  eg_address :: string
  eg_name :: string
  eg_location :: string

definition enroll_goal_accepted :: "'f manager \<Rightarrow> enroll_goal \<Rightarrow> bool" where
  "enroll_goal_accepted m goal \<longleftrightarrow>
     (case map_of (mg_observations m) (eg_candidate goal) of
        None \<Rightarrow> False
      | Some (obs, t) \<Rightarrow>
          (let nid = network_for_observation (mg_machine m) obs in
           nid \<noteq> '''' \<and> or_else (eg_network goal) nid = nid))"

record enroll_job =
  ej_goal :: enroll_goal
  ej_observation :: pydict
  ej_sensor :: string
  ej_network :: string
  ej_allocation :: allocation

datatype enroll_phase = Enroll_ended "sensor_msg response" | Provisioning enroll_job

text \<open>The first locked section: the claim on the candidate.\<close>

definition claim_candidate :: "enroll_goal \<Rightarrow> ('f manager, pydict) op" where
  "claim_candidate goal m =
     (if eg_candidate goal \<in> mg_enrolling m then
        (Inl (RegistryError ''enrollment is already running for this sensor''), m)
      else
        (map_sum id fst (or_raise (map_of (mg_observations m) (eg_candidate goal)) (KeyErr (eg_candidate goal))),
         m\<lparr>mg_enrolling := insert (eg_candidate goal) (mg_enrolling m)\<rparr>))"

text \<open>The checks, and the second locked section: the claim on the network.\<close>

definition check_enrollment :: "'f manager \<Rightarrow> enroll_goal \<Rightarrow> pydict \<Rightarrow> (string \<times> string) result" where
  "check_enrollment m goal obs =
     bindR (sensor_id_for_observation (mg_inventory m) obs) (\<lambda>sid.
     if dhas (inv_sensors (mg_inventory m)) sid then Inl (already_enrolled sid)
     else
       (let observed_network = network_for_observation (mg_machine m) obs;
            nid = or_else (eg_network goal) observed_network in
        if observed_network = '''' then
          Inl (RegistryError ''sensor is not connected through an approved managed port'')
        else if nid \<noteq> observed_network then
          Inl (RegistryError (''sensor is connected through '' @ observed_network @ '', not '' @ nid))
        else Inr (sid, nid)))"

definition claim_network :: "string \<Rightarrow> ('f manager, unit) op" where
  "claim_network nid m =
     (if nid \<in> mg_enrolling_networks m then
        (Inl (RegistryError (''another enrollment is active on '' @ nid)), m)
      else (Inr (), m\<lparr>mg_enrolling_networks := insert nid (mg_enrolling_networks m)\<rparr>))"

text \<open>The \<^verbatim>\<open>finally\<close> clause.\<close>

definition release_claims :: "enroll_goal \<Rightarrow> string \<Rightarrow> 'f manager \<Rightarrow> 'f manager" where
  "release_claims goal claimed m =
     m\<lparr>mg_enrolling := mg_enrolling m - {eg_candidate goal},
       mg_enrolling_networks := mg_enrolling_networks m - (if claimed = '''' then {} else {claimed})\<rparr>"

definition end_enrollment ::
  "enroll_goal \<Rightarrow> string \<Rightarrow> sensor_msg response result \<Rightarrow> 'f manager \<Rightarrow> enroll_phase result \<times> 'f manager" where
  "end_enrollment goal claimed r m =
     ((case r of
        Inr response \<Rightarrow> Inr (Enroll_ended response)
      | Inl e \<Rightarrow> (case placement_text e of Some message \<Rightarrow> Inr (Enroll_ended (refused message)) | None \<Rightarrow> Inl e)),
      release_claims goal claimed m)"

definition enroll_begin :: "bool \<Rightarrow> enroll_goal \<Rightarrow> ('f manager, enroll_phase) op" where
  "enroll_begin available goal m0 =
     (case claim_candidate goal m0 of
        (Inl e, m1) \<Rightarrow> end_enrollment goal '''' (Inl e) m1
      | (Inr obs, m1) \<Rightarrow>
          (case check_enrollment m1 goal obs of
             Inl e \<Rightarrow> end_enrollment goal '''' (Inl e) m1
           | Inr (sid, nid) \<Rightarrow>
               (case claim_network nid m1 of
                  (Inl e, m2) \<Rightarrow> end_enrollment goal '''' (Inl e) m2
                | (Inr _, m2) \<Rightarrow>
                    (case bindR (allocate (mg_machine m2) (mg_inventory m2) nid (eg_address goal)) (\<lambda>al.
                            bindR (provision_client m2 available obs) (\<lambda>_.
                            bindR (py_index (PDict obs) ''serial'') (\<lambda>_. Inr al))) of
                       Inl e \<Rightarrow> end_enrollment goal nid (Inl e) m2
                     | Inr al \<Rightarrow>
                         (Inr (Provisioning \<lparr>ej_goal = goal, ej_observation = obs, ej_sensor = sid,
                            ej_network = nid, ej_allocation = al\<rparr>), m2)))))"

definition persist_enrollment :: "'f mg_env \<Rightarrow> enroll_job \<Rightarrow> provision \<Rightarrow> ('f manager, sensor_msg response) op" where
  "persist_enrollment env job outcome =
     bindS (liftS (provision_result outcome)) (\<lambda>_.
     bindS (on_registry (enroll (me_reg env) (ej_observation job) (ej_allocation job)
       (eg_name (ej_goal job)) (eg_location (ej_goal job)))) (\<lambda>_.
     bindS (modifyS bump) (\<lambda>_.
     bindS (publishing env) (\<lambda>_.
     bindS (sensor_reply (ej_sensor job)) (\<lambda>msg.
     returnS (accepted (''Enrolled '' @ ej_sensor job @ '' at '' @ al_address (ej_allocation job)) (Some msg)))))))"

definition enroll_finish :: "'f mg_env \<Rightarrow> enroll_job \<Rightarrow> provision \<Rightarrow> ('f manager, enroll_phase) op" where
  "enroll_finish env job outcome m =
     (case persist_enrollment env job outcome m of
        (r, m') \<Rightarrow> end_enrollment (ej_goal job) (ej_network job) r m')"

subsection \<open>Replacing and moving\<close>

record place_goal =
  pg_operation :: string
  pg_candidate :: string
  pg_source :: string
  pg_target :: string

definition place_goal_accepted :: "'f manager \<Rightarrow> place_goal \<Rightarrow> bool" where
  "place_goal_accepted m goal \<longleftrightarrow>
     (pg_operation goal = ''replace'' \<or> pg_operation goal = ''move'') \<and> dhas (mg_observations m) (pg_candidate goal)"

record place_job =
  pj_goal :: place_goal
  pj_observation :: pydict
  pj_allocation :: allocation
  pj_claimed :: "string set"

datatype place_phase = Place_ended "sensor_msg response" | Placing place_job

definition requested_ids :: "place_goal \<Rightarrow> string set" where
  "requested_ids goal = {pg_candidate goal, pg_source goal} - {''''}"

definition first_of :: "place_goal \<Rightarrow> string set \<Rightarrow> string" where
  "first_of goal ids = hd (sort (filter (\<lambda>x. x \<in> ids) (remdups [pg_candidate goal, pg_source goal])))"

text \<open>The address of the replaced camera is used again.\<close>

definition replacement_allocation :: "'f manager \<Rightarrow> place_goal \<Rightarrow> string \<Rightarrow> allocation result" where
  "replacement_allocation m goal observed_network =
     (case map_of (inv_sensors (mg_inventory m)) (pg_source goal) of
        None \<Rightarrow> Inl (unknown_enrolled (pg_source goal))
      | Some source \<Rightarrow>
          bindR (py_index source ''network_id'') (\<lambda>n.
          (let nid = py_str n in
           if observed_network \<noteq> nid then
             Inl (RegistryError (''replacement is on '' @ observed_network @ '', not the reserved port '' @ nid))
           else
             bindR (port_mode (mg_machine m) (mg_inventory m) nid) (\<lambda>mode.
             if mode \<noteq> ''direct'' then
               Inl (RegistryError ''replacement confirmation only applies to a direct port'')
             else if is_online m (pg_source goal) then
               Inl (RegistryError ''reserved sensor is still online; disconnect it first'')
             else
               bindR (py_index source ''assigned_address'') (\<lambda>address.
               bindR (or_raise (map_of (machine_networks (mg_machine m)) nid) (KeyErr nid)) (\<lambda>network.
               bindR (py_index network ''host_cidr'') (\<lambda>cidr.
               bindR (ip_interface (py_str cidr)) (\<lambda>iface.
               case iface of
                 None \<Rightarrow> Inl ValueErr
               | Some host \<Rightarrow>
                   Inr \<lparr>al_network = nid, al_address = py_str address, al_mask = show_netmask host,
                     al_gateway = py_str (dget (dict_of network) ''gateway'' (PStr ''0.0.0.0''))\<rparr>))))))))"

definition moved_sensor :: "place_goal \<Rightarrow> string" where
  "moved_sensor goal = or_else (pg_source goal) (pg_candidate goal)"

definition move_allocation :: "'f manager \<Rightarrow> place_goal \<Rightarrow> string \<Rightarrow> allocation result" where
  "move_allocation m goal observed_network =
     (case map_of (inv_sensors (mg_inventory m)) (moved_sensor goal) of
        None \<Rightarrow> Inl (unknown_enrolled (moved_sensor goal))
      | Some source \<Rightarrow>
          if pg_target goal \<noteq> observed_network then
            Inl (RegistryError (''camera is observed on '' @ observed_network @ '', not '' @ pg_target goal))
          else if dget (dict_of source) ''network_id'' PNone = PStr (pg_target goal) then
            Inl (RegistryError ''camera is already assigned to this managed port'')
          else allocate (mg_machine m) (mg_inventory m) (pg_target goal) '''')"

definition end_placement ::
  "string set \<Rightarrow> sensor_msg response result \<Rightarrow> 'f manager \<Rightarrow> place_phase result \<times> 'f manager" where
  "end_placement claimed r m =
     ((case r of
        Inr response \<Rightarrow> Inr (Place_ended response)
      | Inl e \<Rightarrow> (case placement_text e of Some message \<Rightarrow> Inr (Place_ended (refused message)) | None \<Rightarrow> Inl e)),
      m\<lparr>mg_placing := mg_placing m - claimed\<rparr>)"

definition place_begin :: "bool \<Rightarrow> place_goal \<Rightarrow> ('f manager, place_phase) op" where
  "place_begin available goal m0 =
     (let ids = requested_ids goal; busy = ids \<inter> mg_placing m0 in
      if busy \<noteq> {} then
        end_placement {} (Inl (RegistryError (''placement operation already active for '' @ first_of goal busy))) m0
      else
        (let m1 = m0\<lparr>mg_placing := mg_placing m0 \<union> ids\<rparr> in
         case map_of (mg_observations m1) (pg_candidate goal) of
           None \<Rightarrow> end_placement ids (Inl (KeyErr (pg_candidate goal))) m1
         | Some (obs, t) \<Rightarrow>
             (let nid = network_for_observation (mg_machine m1) obs in
              case (if nid = '''' then Inl (RegistryError ''sensor is not connected through an approved managed port'')
                    else if pg_operation goal = ''replace'' then replacement_allocation m1 goal nid
                    else move_allocation m1 goal nid) of
                Inl e \<Rightarrow> end_placement ids (Inl e) m1
              | Inr al \<Rightarrow>
                  (case bindR (provision_client m1 available obs) (\<lambda>_.
                        bindR (sensor_id_for_observation (mg_inventory m1) obs) (\<lambda>sid.
                        bindR (py_index (PDict obs) ''serial'') (\<lambda>_. Inr sid))) of
                     Inl e \<Rightarrow> end_placement ids (Inl e) m1
                   | Inr sid \<Rightarrow>
                       (Inr (Placing \<lparr>pj_goal = goal, pj_observation = obs, pj_allocation = al, pj_claimed = ids\<rparr>), m1)))))"

definition persist_placement :: "'f mg_env \<Rightarrow> place_job \<Rightarrow> provision \<Rightarrow> ('f manager, sensor_msg response) op" where
  "persist_placement env job outcome =
     bindS (liftS (provision_result outcome)) (\<lambda>_.
     bindS (if pg_operation (pj_goal job) = ''replace''
            then on_registry (replace_sensor (me_reg env) (pg_source (pj_goal job)) (pj_observation job))
            else bindS (on_registry (move_sensor (me_reg env) (moved_sensor (pj_goal job)) (pj_allocation job)))
                   (\<lambda>_. returnS (moved_sensor (pj_goal job)))) (\<lambda>sid.
     bindS (modifyS bump) (\<lambda>_.
     bindS (publishing env) (\<lambda>_.
     bindS (sensor_reply sid) (\<lambda>msg.
     returnS (accepted (title_from False (pg_operation (pj_goal job)) @ '' completed for '' @ sid) (Some msg)))))))"

definition place_finish :: "'f mg_env \<Rightarrow> place_job \<Rightarrow> provision \<Rightarrow> ('f manager, place_phase) op" where
  "place_finish env job outcome m =
     (case persist_placement env job outcome m of (r, m') \<Rightarrow> end_placement (pj_claimed job) r m')"

subsection \<open>Automatic enrollment\<close>

definition unavailable :: "pydict \<Rightarrow> string \<Rightarrow> bool" where
  "unavailable ivt cid \<longleftrightarrow> catalog_state ivt cid = PStr ''archived'' \<or> catalog_state ivt cid = PStr ''retired''"

text \<open>One candidate of the loop; \<open>busy\<close> are the networks an enrollment was started on.\<close>

definition eligible :: "rat \<Rightarrow> 'f manager \<Rightarrow> string set \<Rightarrow> string \<Rightarrow> pydict \<Rightarrow> string option result" where
  "eligible now m busy cid obs =
     (let machine = mg_machine m; ivt = mg_inventory m; nid = network_for_observation machine obs;
          network = network_record machine nid in
      if dhas (inv_sensors ivt) cid \<or> unavailable ivt cid \<or> cid \<in> mg_inflight m
         \<or> now < dget (mg_retry_after m) cid 0
         \<or> \<not> dhas (machine_networks machine) nid \<or> \<not> is_approved network
         \<or> \<not> truthy (dget network ''auto_enroll'' PNone) \<or> nid \<in> busy
      then Inr None
      else
        bindR (port_mode machine ivt nid) (\<lambda>mode.
        if mode = ''direct'' \<and> assigned_to nid ivt \<noteq> [] then Inr None
        else
          bindR (port_capacity machine ivt nid) (\<lambda>capacity.
          Inr (if capacity \<le> int (length (assigned_to nid ivt)) then None else Some nid))))"

definition start_auto_enroll :: "rat \<Rightarrow> bool \<Rightarrow> string \<Rightarrow> string \<Rightarrow> 'f manager \<Rightarrow> enroll_goal option \<times> 'f manager" where
  "start_auto_enroll now ready cid nid m =
     (if \<not> ready then (None, m\<lparr>mg_retry_after := dset cid (now + 2) (mg_retry_after m)\<rparr>)
      else (Some \<lparr>eg_candidate = cid, eg_network = nid, eg_address = '''', eg_name = cid, eg_location = ''unknown''\<rparr>,
            m\<lparr>mg_inflight := insert cid (mg_inflight m),
              mg_inflight_networks := dset cid nid (mg_inflight_networks m)\<rparr>))"

text \<open>
  The loop runs on copies: \<open>m0\<close> is the node when the callback started, \<open>m\<close> the node now
  (only the automation's own tables differ).
\<close>

fun reconcile_loop ::
  "rat \<Rightarrow> bool \<Rightarrow> 'f manager \<Rightarrow> string set \<Rightarrow> (string \<times> pydict \<times> rat) list \<Rightarrow> ('f manager, enroll_goal list) op" where
  "reconcile_loop now ready m0 busy [] m = (Inr [], m)"
| "reconcile_loop now ready m0 busy ((cid, obs, t) # rest) m =
     (case eligible now m0 busy cid obs of
        Inl e \<Rightarrow> (Inl e, m)
      | Inr None \<Rightarrow> reconcile_loop now ready m0 busy rest m
      | Inr (Some nid) \<Rightarrow>
          (case start_auto_enroll now ready cid nid m of
             (goal, m') \<Rightarrow>
               (case reconcile_loop now ready m0 (insert nid busy) rest m' of
                  (Inl e, m'') \<Rightarrow> (Inl e, m'')
                | (Inr goals, m'') \<Rightarrow> (Inr (case goal of None \<Rightarrow> goals | Some g \<Rightarrow> g # goals), m''))))"

definition reconcile_automation :: "'f mg_env \<Rightarrow> bool \<Rightarrow> ('f manager, enroll_goal list) op" where
  "reconcile_automation env ready m =
     reconcile_loop (me_now env) ready m (set (dvalues (mg_inflight_networks m))) (mg_observations m) m"

definition clear_inflight :: "string \<Rightarrow> 'f manager \<Rightarrow> 'f manager" where
  "clear_inflight cid m =
     m\<lparr>mg_inflight := mg_inflight m - {cid}, mg_inflight_networks := dpop cid (mg_inflight_networks m)\<rparr>"

definition auto_enroll_failed :: "'f mg_env \<Rightarrow> string \<Rightarrow> 'f manager \<Rightarrow> 'f manager" where
  "auto_enroll_failed env cid m =
     (clear_inflight cid m)\<lparr>mg_retry_after := dset cid (me_now env + 30) (mg_retry_after m)\<rparr>"

definition auto_enroll_goal_sent :: "'f mg_env \<Rightarrow> string \<Rightarrow> bool \<Rightarrow> 'f manager \<Rightarrow> 'f manager" where
  "auto_enroll_goal_sent env cid goal_accepted m = (if goal_accepted then m else auto_enroll_failed env cid m)"

definition auto_enroll_finished :: "'f mg_env \<Rightarrow> string \<Rightarrow> bool \<Rightarrow> ('f manager, unit) op" where
  "auto_enroll_finished env cid success m =
     (let m1 = (if success then m\<lparr>mg_retry_after := dpop cid (mg_retry_after m)\<rparr> else auto_enroll_failed env cid m)
      in publishing env (clear_inflight cid m1))"

end
