(* ===== verification/Capture_Requests.thy ===== *)
theory Capture_Requests
  imports Manager_Services Polling
begin

section \<open>Capture requests\<close>

text \<open>
  The service \<open>capture_group\<close>, the action \<open>trigger_group\<close> and the service
  \<open>get_camera_features\<close> of \<^verbatim>\<open>manager_node.py\<close>. A capture leases the cameras (for the caller or
  with a temporary session), waits until the target is ready, sends the request to the provider
  of the cameras and always gives a temporary session back. Its sections are separate steps
  (\<open>capture_begin\<close>, \<open>capture_poll\<close>, \<open>capture_send\<close>, \<open>capture_finish\<close>) between which any other
  callback may run; what the provider answers is a parameter.
\<close>

subsection \<open>Requests and answers\<close>

type_synonym stamp = "int \<times> int"

record capture_goal =
  cg_group :: string
  cg_request :: string
  cg_session :: string
  cg_kind :: string
  cg_target :: string
  cg_trigger_only :: bool
  cg_has_time :: bool
  cg_time :: stamp

record provider_request =
  pr_group :: string
  pr_request :: string
  pr_members :: "string list"
  pr_missing_policy :: string
  pr_preferred_master :: string
  pr_trigger_only :: bool
  pr_has_time :: bool
  pr_time :: stamp

record 't capture_answer =
  ca_success :: bool
  ca_message :: string
  ca_scheduled :: stamp
  ca_capture :: string
  ca_participating :: "string list"
  ca_missing :: "string list"
  ca_trigger_span :: int
  ca_exposure_skew :: int
  ca_in_tolerance :: bool
  ca_timings :: "'t list"

definition failed_capture :: "string \<Rightarrow> 't capture_answer" where
  "failed_capture message =
     \<lparr>ca_success = False, ca_message = message, ca_scheduled = (0, 0), ca_capture = '''', ca_participating = [],
      ca_missing = [], ca_trigger_span = 0, ca_exposure_skew = 0, ca_in_tolerance = False, ca_timings = []\<rparr>"

text \<open>A request on its way: what it captures, the session it uses, and the session it has to drop.\<close>

record capture_job =
  cj_kind :: string
  cj_target :: string
  cj_session :: string
  cj_temporary :: string

definition goal_kind :: "capture_goal \<Rightarrow> string" where
  "goal_kind goal = or_else (cg_kind goal) ''group''"

definition goal_target :: "capture_goal \<Rightarrow> string" where
  "goal_target goal = or_else (cg_target goal) (cg_group goal)"

subsection \<open>Ending a request\<close>

text \<open>\<open>except (RegistryError, TimeoutError) as error\<close>.\<close>

fun capture_text :: "py_exn \<Rightarrow> string option" where
  "capture_text (RegistryError message) = Some message"
| "capture_text TimeoutErr = Some ''''"
| "capture_text _ = None"

definition capture_caught :: "'t capture_answer result \<Rightarrow> 't capture_answer result" where
  "capture_caught outcome =
     (case outcome of
        Inl e \<Rightarrow> (case capture_text e of Some message \<Rightarrow> Inr (failed_capture message) | None \<Rightarrow> Inl e)
      | Inr answer \<Rightarrow> Inr answer)"

text \<open>The \<^verbatim>\<open>finally\<close> clause; an exception while publishing replaces the outcome.\<close>

definition close_capture :: "'f mg_env \<Rightarrow> string \<Rightarrow> ('f manager, unit) op" where
  "close_capture env temporary m =
     (if temporary = '''' then (Inr (), m) else publishing env (snd (drop_capture_session temporary m)))"

definition capture_end :: "'f mg_env \<Rightarrow> string \<Rightarrow> 't capture_answer result \<Rightarrow> ('f manager, 't capture_answer) op" where
  "capture_end env temporary outcome m =
     (case close_capture env temporary m of
        (Inl e, m') \<Rightarrow> (Inl e, m')
      | (Inr _, m') \<Rightarrow> (capture_caught outcome, m'))"

subsection \<open>Beginning a request\<close>

datatype 't capture_phase = Captured "'t capture_answer" | Preparing capture_job

definition ending ::
  "'f mg_env \<Rightarrow> string \<Rightarrow> capture_job \<Rightarrow> ('f manager, 'x) op \<Rightarrow> ('f manager, 't capture_phase) op" where
  "ending env temporary job body m =
     (case body m of
        (Inl e, m') \<Rightarrow> bindS (capture_end env temporary (Inl e)) (\<lambda>answer. returnS (Captured answer)) m'
      | (Inr _, m') \<Rightarrow> (Inr (Preparing job), m'))"

text \<open>
  The session: the caller's, or a new one for this request. Either is used at once, which checks
  that it covers the target.
\<close>

definition capture_begin ::
  "'f mg_env \<Rightarrow> string \<Rightarrow> string \<Rightarrow> string \<Rightarrow> string \<Rightarrow> ('f manager, 't capture_phase) op" where
  "capture_begin env owner kind target sid m =
     (if sid \<noteq> '''' then
        ending env '''' \<lparr>cj_kind = kind, cj_target = target, cj_session = sid, cj_temporary = ''''\<rparr>
          (capture_session_for_target env sid kind target) m
      else case create_capture_session env owner kind [target] 0 False m of
        (Inl e, m') \<Rightarrow> bindS (capture_end env '''' (Inl e)) (\<lambda>answer. returnS (Captured answer)) m'
      | (Inr s, m') \<Rightarrow>
          ending env (ss_id s) \<lparr>cj_kind = kind, cj_target = target, cj_session = ss_id s, cj_temporary = ss_id s\<rparr>
            (bindS (publishing env) (\<lambda>_. capture_session_for_target env (ss_id s) kind target)) m')"

definition capture_group_begin :: "'f mg_env \<Rightarrow> capture_goal \<Rightarrow> ('f manager, 't capture_phase) op" where
  "capture_group_begin env goal =
     capture_begin env ''temporary-capture'' (goal_kind goal) (goal_target goal) (cg_session goal)"

subsection \<open>Waiting for the target\<close>

definition target_ready :: "'f manager \<Rightarrow> string \<Rightarrow> string \<Rightarrow> bool result" where
  "target_ready m kind target =
     (if kind = ''group'' then
        (case map_of (inv_groups (mg_inventory m)) target of
           None \<Rightarrow> Inr False
         | Some g \<Rightarrow>
             if truthy g then bindR (sync_group_message m target (dict_of g)) (\<lambda>msg. Inr (gm_ready msg))
             else Inr False)
      else Inr (runtime_sensor_is_ready (map_of (mg_runtime m) target) ''capture''))"

text \<open>One look, which extends the lease.\<close>

definition capture_poll :: "'f mg_env \<Rightarrow> capture_job \<Rightarrow> ('f manager, bool) op" where
  "capture_poll env job =
     bindS (capture_session_for_target env (cj_session job) (cj_kind job) (cj_target job))
       (\<lambda>_ m. (target_ready m (cj_kind job) (cj_target job), m))"

text \<open>
  The loop: \<open>trace n\<close> is the clock and the node at its \<open>n\<close>-th look. It returns the number of the
  look that found the target ready.
\<close>

definition capture_look ::
  "(nat \<Rightarrow> 'f mg_env \<times> 'f manager) \<Rightarrow> rat \<Rightarrow> capture_job \<Rightarrow> nat \<Rightarrow> nat result option" where
  "capture_look trace deadline job n =
     (case trace n of (env, m) \<Rightarrow>
        if deadline \<le> me_now env then
          Some (Inl (RegistryError (''timed out preparing '' @ cj_kind job @ '' '' @ cj_target job)))
        else case fst (capture_poll env job m) of
          Inl e \<Rightarrow> Some (Inl e)
        | Inr ready \<Rightarrow> if ready then Some (Inr n) else None)"

definition capture_wait ::
  "(nat \<Rightarrow> 'f mg_env \<times> 'f manager) \<Rightarrow> rat \<Rightarrow> capture_job \<Rightarrow> nat result option" where
  "capture_wait trace deadline job = poll_until (capture_look trace deadline job) 0"

subsection \<open>Sending the request\<close>

text \<open>Who captures: the provider, the members and what to do when one of them is missing.\<close>

definition capture_plan :: "'f manager \<Rightarrow> string \<Rightarrow> string \<Rightarrow> (string \<times> string list \<times> string) result" where
  "capture_plan m kind target =
     (if kind = ''group'' then
        bindR (case map_of (inv_groups (mg_inventory m)) target of
            None \<Rightarrow> Inl (RegistryError (''unknown sync group '' @ target))
          | Some g \<Rightarrow> if truthy g then Inr (dict_of g) else Inl (RegistryError (''unknown sync group '' @ target))) (\<lambda>g.
        bindR (runtime_group_provider m g) (\<lambda>provider.
        bindR (py_index (PDict g) ''missing_policy'') (\<lambda>policy.
        Inr (provider, group_members g, py_str policy))))
      else if kind = ''sensor'' then
        bindR (case map_of (inv_sensors (mg_inventory m)) target of
            None \<Rightarrow> Inl (RegistryError (''unknown enrolled sensor '' @ target))
          | Some s \<Rightarrow> if truthy s then Inr (dict_of s) else Inl (RegistryError (''unknown enrolled sensor '' @ target))) (\<lambda>s.
        bindR (runtime_provider m s) (\<lambda>provider.
        Inr (provider, [target], ''strict'')))
      else Inl (RegistryError ''target_kind must be group or sensor''))"

definition provider_call :: "capture_goal \<Rightarrow> string \<Rightarrow> string list \<Rightarrow> string \<Rightarrow> provider_request" where
  "provider_call goal target members policy =
     \<lparr>pr_group = target, pr_request = cg_request goal, pr_members = members, pr_missing_policy = policy,
      pr_preferred_master = '''', pr_trigger_only = cg_trigger_only goal, pr_has_time = cg_has_time goal,
      pr_time = (if cg_has_time goal then cg_time goal else (0, 0))\<rparr>"

text \<open>\<open>answers p\<close>: the provider's service appears within three seconds.\<close>

definition capture_send ::
  "'f mg_env \<Rightarrow> (string \<Rightarrow> bool) \<Rightarrow> capture_goal \<Rightarrow> capture_job \<Rightarrow> ('f manager, string \<times> provider_request) op" where
  "capture_send env answers goal job =
     bindS (capture_session_for_target env (cj_session job) (cj_kind job) (cj_target job)) (\<lambda>_ m.
     (bindR (capture_plan m (cj_kind job) (cj_target job)) (\<lambda>(provider, members, policy).
        if provider \<notin> set (mg_providers m) then Inl (KeyErr provider)
        else if \<not> answers provider then Inl (RegistryError (''provider '' @ provider @ '' is unavailable''))
        else Inr (provider, provider_call goal (cj_target job) members policy)), m))"

text \<open>Any exception of the call becomes a \<open>RegistryError\<close> with its text.\<close>

definition provider_answer :: "string + 't capture_answer \<Rightarrow> 't capture_answer result" where
  "provider_answer reply = (case reply of Inl text \<Rightarrow> Inl (RegistryError text) | Inr answer \<Rightarrow> Inr answer)"

text \<open>
  The body from the wait to the answer: the section that sends runs on the node as it is after the
  last look. None: the wait does not end.
\<close>

definition capture_body ::
  "(nat \<Rightarrow> 'f mg_env \<times> 'f manager) \<Rightarrow> rat \<Rightarrow> (string \<Rightarrow> bool)
     \<Rightarrow> (string \<Rightarrow> provider_request \<Rightarrow> string + 't capture_answer) \<Rightarrow> capture_goal \<Rightarrow> capture_job
     \<Rightarrow> 't capture_answer result option" where
  "capture_body trace deadline answers call goal job =
     (case capture_wait trace deadline job of
        None \<Rightarrow> None
      | Some (Inl e) \<Rightarrow> Some (Inl e)
      | Some (Inr n) \<Rightarrow>
          (case trace (Suc n) of (env, m) \<Rightarrow>
             Some (bindR (fst (capture_send env answers goal job m)) (\<lambda>(provider, request).
               provider_answer (call provider request)))))"

definition capture_finish ::
  "'f mg_env \<Rightarrow> capture_job \<Rightarrow> 't capture_answer result \<Rightarrow> ('f manager, 't capture_answer) op" where
  "capture_finish env job outcome = capture_end env (cj_temporary job) outcome"

subsection \<open>Triggering a group\<close>

definition request_char :: "char \<Rightarrow> bool" where
  "request_char c \<longleftrightarrow> is_ascii_letter c \<or> is_digit c \<or> c \<in> {CHR ''.'', CHR ''_'', CHR ''-''}"

definition trigger_goal_accepted :: "string \<Rightarrow> string \<Rightarrow> bool" where
  "trigger_goal_accepted gid request \<longleftrightarrow>
     gid \<noteq> '''' \<and> (request = '''' \<or> list_all request_char request \<and> length request \<le> 128)"

definition trigger_goal :: "string \<Rightarrow> string \<Rightarrow> string \<Rightarrow> capture_goal" where
  "trigger_goal gid request sid =
     \<lparr>cg_group = gid, cg_request = request, cg_session = sid, cg_kind = ''group'', cg_target = gid,
      cg_trigger_only = True, cg_has_time = False, cg_time = (0, 0)\<rparr>"

definition trigger_group_begin :: "'f mg_env \<Rightarrow> string \<Rightarrow> string \<Rightarrow> ('f manager, 't capture_phase) op" where
  "trigger_group_begin env gid sid = capture_begin env ''temporary-trigger'' ''group'' gid sid"

text \<open>The feedback and whether the goal succeeds; a goal that does not is aborted.\<close>

definition trigger_feedback :: "'t capture_answer result \<Rightarrow> (string \<times> string \<times> nat) list" where
  "trigger_feedback outcome =
     (''arming'', ''Arming grouped camera workers'', 10) #
     (case outcome of
        Inr answer \<Rightarrow> if ca_success answer then [(''published'', ''Triggered frames published'', 100)] else []
      | Inl e \<Rightarrow> [])"

definition trigger_succeeds :: "'t capture_answer result \<Rightarrow> bool" where
  "trigger_succeeds outcome \<longleftrightarrow> (case outcome of Inr answer \<Rightarrow> ca_success answer | Inl e \<Rightarrow> False)"

subsection \<open>Camera features\<close>

text \<open>\<open>call p\<close>: what the provider answers; None for a provider whose service does not appear.\<close>

definition get_camera_features ::
  "(string \<Rightarrow> 'v response result option) \<Rightarrow> string \<Rightarrow> ('f manager, 'v response) op" where
  "get_camera_features call sid m =
     ((case map_of (inv_sensors (mg_inventory m)) sid of
         None \<Rightarrow> Inr (refused (''unknown enrolled sensor '' @ sid))
       | Some s \<Rightarrow>
           if owned m [sid] then Inr (refused ''camera features cannot be inspected while it is in use'')
           else
             bindR (runtime_provider m (dict_of s)) (\<lambda>provider.
             case (if provider \<in> set (mg_providers m) then call provider else None) of
               None \<Rightarrow> Inr (refused (''camera feature service unavailable for provider '' @ provider))
             | Some answer \<Rightarrow> answer)), m)"

subsection \<open>The sections, one by one\<close>

lemma publishing_frame [simp]:
  "mg_sessions (snd (publishing env m)) = mg_sessions m" "mg_registry (snd (publishing env m)) = mg_registry m"
  "mg_session_ttl (snd (publishing env m)) = mg_session_ttl m"
  by (simp_all add: publishing_def publish_state_def Let_def prune_observations_def refresh_ports_def)

text \<open>A session that is used covers the target; using it only extends its lease.\<close>

definition covers :: "session \<Rightarrow> string \<Rightarrow> string \<Rightarrow> bool" where
  "covers s kind target \<longleftrightarrow>
     (kind = ''group'' \<longrightarrow> target \<in> set (ss_groups s))
     \<and> (kind = ''sensor'' \<longrightarrow> ss_kind s = ''sensor'' \<and> target \<in> set (ss_targets s))"

lemma use_cases:
  obtains (refused) e where "capture_session_for_target env sid kind target m = (Inl e, m)"
  | (used) s where "map_of (mg_sessions m) sid = Some s" "covers s kind target"
    "capture_session_for_target env sid kind target m
       = (Inr (s\<lparr>ss_expires := me_now env + mg_session_ttl m\<rparr>),
          m\<lparr>mg_sessions := dset sid (s\<lparr>ss_expires := me_now env + mg_session_ttl m\<rparr>) (mg_sessions m)\<rparr>)"
proof (cases "map_of (mg_sessions m) sid")
  case None
  then show thesis by (intro refused) (simp add: capture_session_for_target_def)
next
  case (Some s)
  show thesis
  proof (cases "covers s kind target")
    case True
    with Some show thesis by (intro used) (auto simp: capture_session_for_target_def covers_def Let_def)
  next
    case False
    then have "(kind = ''group'' \<and> target \<notin> set (ss_groups s))
      \<or> (kind = ''sensor'' \<and> (ss_kind s \<noteq> ''sensor'' \<or> target \<notin> set (ss_targets s)))" by (auto simp: covers_def)
    with Some show thesis by (elim disjE) (rule refused, simp add: capture_session_for_target_def)+
  qed
qed

lemma use_covered:
  assumes "map_of (mg_sessions m) sid = Some s" and "covers s kind target"
  shows "fst (capture_session_for_target env sid kind target m) = Inr (s\<lparr>ss_expires := me_now env + mg_session_ttl m\<rparr>)"
  using assms
  by (cases rule: use_cases [of env sid kind target m])
     (auto simp: capture_session_for_target_def covers_def Let_def)

lemma snd_close_capture: "mg_sessions (snd (close_capture env temporary m))
    = (if temporary = '''' then mg_sessions m else dpop temporary (mg_sessions m))"
  by (simp add: close_capture_def drop_sessions)

lemma snd_capture_end: "snd (capture_end env temporary outcome m) = snd (close_capture env temporary m)"
  by (simp add: capture_end_def split: prod.split sum.split)

lemma capture_finish_sessions: "mg_sessions (snd (capture_finish env job outcome m))
    = (if cj_temporary job = '''' then mg_sessions m else dpop (cj_temporary job) (mg_sessions m))"
  by (simp add: capture_finish_def snd_capture_end snd_close_capture)

lemma dpop_dset_fresh: "\<not> dhas d k \<Longrightarrow> dpop k (dset k v d) = d"
  by (induction d) (auto simp: dpop_def dhas_def dset_def)

lemma snd_captured: "snd (bindS f (\<lambda>x. returnS (Captured (g x))) m) = snd (f m)"
  and captured_not_preparing: "fst (bindS f (\<lambda>x. returnS (Captured (g x))) m) \<noteq> Inr (Preparing job)"
  by (auto simp: bindS_def split: prod.splits sum.splits)

lemma ending_failed:
  assumes "body m = (Inl e, m')"
  shows "snd (ending env temporary job body m) = snd (close_capture env temporary m')"
    "fst (ending env temporary job body m) \<noteq> Inr (Preparing j)"
  using assms by (simp_all add: ending_def snd_captured snd_capture_end captured_not_preparing)

lemma ending_prepared: "body m = (Inr x, m') \<Longrightarrow> ending env temporary job body m = (Inr (Preparing job), m')"
  by (simp add: ending_def)

text \<open>What is left of the session table when a request ends at its beginning, or goes on.\<close>

definition begun_well ::
  "'f manager \<Rightarrow> string \<Rightarrow> string \<Rightarrow> string \<Rightarrow> 't capture_phase result \<Rightarrow> 'f manager \<Rightarrow> bool" where
  "begun_well m kind target sid r m' \<longleftrightarrow>
     (case r of
        Inr (Preparing job) \<Rightarrow>
          cj_kind job = kind \<and> cj_target job = target
          \<and> cj_temporary job = (if sid = '''' then cj_session job else '''')
          \<and> (sid \<noteq> '''' \<longrightarrow> cj_session job = sid)
          \<and> (\<exists>s. map_of (mg_sessions m') (cj_session job) = Some s \<and> covers s kind target)
          \<and> (\<forall>k. k \<noteq> cj_session job \<longrightarrow> map_of (mg_sessions m') k = map_of (mg_sessions m) k)
      | _ \<Rightarrow> mg_sessions m' = mg_sessions m)"

lemma begun_well_not:
  "\<forall>j. r \<noteq> Inr (Preparing j) \<Longrightarrow> begun_well m kind target sid r m' = (mg_sessions m' = mg_sessions m)"
  by (auto simp: begun_well_def split: sum.split capture_phase.split)

lemma begin_given:
  assumes "sid \<noteq> ''''"
  shows "begun_well m kind target sid (fst (capture_begin env owner kind target sid m))
    (snd (capture_begin env owner kind target sid m))"
proof (cases rule: use_cases [of env sid kind target m])
  case (refused e)
  then show ?thesis
    using assms by (simp add: capture_begin_def begun_well_not ending_failed snd_close_capture)
next
  case (used s)
  then show ?thesis
    using assms by (simp add: capture_begin_def ending_prepared begun_well_def map_of_dset covers_def)
qed

lemma begin_temporary:
  assumes "\<not> dhas (mg_sessions m) (''session_'' @ me_uuid env)"
  shows "begun_well m kind target '''' (fst (capture_begin env owner kind target '''' m))
    (snd (capture_begin env owner kind target '''' m))"
proof (cases rule: create_cases [of env owner kind "[target]" 0 False m, case_names refused created])
  case (refused e)
  then show ?thesis
    by (simp add: capture_begin_def begun_well_not captured_not_preparing snd_captured snd_capture_end snd_close_capture)
next
  case (created s)
  let ?m = "bump (m\<lparr>mg_sessions := dset (ss_id s) s (mg_sessions m), mg_session_generation := mg_session_generation m + 1\<rparr>)"
  let ?job = "\<lparr>cj_kind = kind, cj_target = target, cj_session = ss_id s, cj_temporary = ss_id s\<rparr>"
  let ?body = "bindS (publishing env) (\<lambda>_. capture_session_for_target env (ss_id s) kind target)"
  have eq: "capture_begin env owner kind target '''' m = ending env (ss_id s) ?job ?body ?m"
    by (simp add: capture_begin_def created(1))
  have id: "ss_id s \<noteq> ''''" "\<not> dhas (mg_sessions m) (ss_id s)" using created(2) assms by auto
  have cov: "covers s kind target" using created(5-7) by (simp add: covers_def)
  obtain r n where pub: "publishing env ?m = (r, n)" by fastforce
  have n: "mg_sessions n = dset (ss_id s) s (mg_sessions m)" using pub publishing_frame(1) [of env ?m] by simp
  show ?thesis
  proof (cases r)
    case (Inl e)
    with pub have body: "?body ?m = (Inl e, n)" by (simp add: bindS_def)
    show ?thesis
      using id unfolding eq
      by (simp only: begun_well_not ending_failed [of ?body, OF body] not_False_eq_True simp_thms
          snd_close_capture dpop_dset_fresh n if_False)
  next
    case (Inr u)
    let ?s = "s\<lparr>ss_expires := me_now env + mg_session_ttl n\<rparr>"
    have "map_of (mg_sessions n) (ss_id s) = Some s" by (simp add: n map_of_dset)
    then have "capture_session_for_target env (ss_id s) kind target n
        = (Inr ?s, n\<lparr>mg_sessions := dset (ss_id s) ?s (mg_sessions n)\<rparr>)"
      using cov by (cases rule: use_cases [of env "ss_id s" kind target n]) (auto dest: use_covered [of n, where env = env])
    with pub Inr have body: "?body ?m = (Inr ?s, n\<lparr>mg_sessions := dset (ss_id s) ?s (mg_sessions n)\<rparr>)"
      by (simp add: bindS_def)
    show ?thesis
      using cov unfolding eq ending_prepared [of ?body, OF body]
      by (simp add: begun_well_def map_of_dset covers_def n)
  qed
qed

lemma begun_begin:
  fixes r :: "'t capture_phase result"
  assumes "capture_begin env owner kind target sid m = (r, m')"
    and "\<not> dhas (mg_sessions m) (''session_'' @ me_uuid env)"
  shows "begun_well m kind target sid r m'"
proof -
  let ?p = "capture_begin env owner kind target sid m :: 't capture_phase result \<times> 'a manager"
  have "begun_well m kind target sid (fst ?p) (snd ?p)"
    using begin_temporary [OF assms(2)] by (cases "sid = ''''") (auto simp: begin_given)
  with assms(1) show ?thesis by simp
qed

text \<open>A provider is found only for enrolled cameras.\<close>

lemma mapR_members: "mapR f xs = Inr ys \<Longrightarrow> x \<in> set xs \<Longrightarrow> \<exists>y. f x = Inr y"
  by (induction xs arbitrary: ys) (auto simp: result_simps)

lemma group_provider_enrolled:
  "runtime_group_provider m g = Inr p \<Longrightarrow> list_all (dhas (inv_sensors (mg_inventory m))) (group_members g)"
proof (cases "group_members g = []")
  case False
  assume "runtime_group_provider m g = Inr p"
  then obtain ps where ps: "mapR (\<lambda>member. bindR (or_raise (map_of (inv_sensors (mg_inventory m)) member) (KeyErr member))
      (\<lambda>s. runtime_provider m (dict_of s))) (group_members g) = Inr ps"
    unfolding runtime_group_provider_def if_not_P [OF False] bindR_eq_Inr by blast
  show ?thesis
    unfolding list_all_iff
    by (intro ballI, drule mapR_members [OF ps]) (auto simp: bindR_eq_Inr or_raise_def dhas_def split: option.splits)
qed simp

lemma plan_enrolled:
  "capture_plan m kind target = Inr (provider, members, policy)
    \<Longrightarrow> list_all (dhas (inv_sensors (mg_inventory m))) members"
  unfolding capture_plan_def
  by (auto simp: result_simps dhas_def dest: group_provider_enrolled split: if_splits option.splits)

text \<open>Who captures does not depend on the sessions.\<close>

lemma runtime_provider_sessions: "runtime_provider (m\<lparr>mg_sessions := d\<rparr>) = runtime_provider m"
  by (rule ext) (simp add: runtime_provider_def)

lemma plan_sessions: "capture_plan (m\<lparr>mg_sessions := d\<rparr>) kind target = capture_plan m kind target"
proof -
  have reg: "mg_registry (m\<lparr>mg_sessions := d\<rparr>) = mg_registry m" by simp
  have "runtime_group_provider (m\<lparr>mg_sessions := d\<rparr>) = runtime_group_provider m"
    unfolding runtime_group_provider_def [abs_def] runtime_provider_sessions reg ..
  then show ?thesis
    unfolding capture_plan_def runtime_provider_sessions reg by simp
qed

lemma send_Inr:
  assumes "fst (capture_send env answers goal job m) = Inr (provider, request)"
  shows "\<exists>s members policy.
    map_of (mg_sessions m) (cj_session job) = Some s \<and> covers s (cj_kind job) (cj_target job)
    \<and> capture_plan m (cj_kind job) (cj_target job) = Inr (provider, members, policy)
    \<and> provider \<in> set (mg_providers m) \<and> answers provider
    \<and> request = provider_call goal (cj_target job) members policy"
proof (cases rule: use_cases [of env "cj_session job" "cj_kind job" "cj_target job" m])
  case (refused e)
  with assms show ?thesis by (simp add: capture_send_def bindS_def)
next
  case (used s)
  define n where "n = m\<lparr>mg_sessions := dset (cj_session job) (s\<lparr>ss_expires := me_now env + mg_session_ttl m\<rparr>) (mg_sessions m)\<rparr>"
  have plan: "capture_plan n kind target = capture_plan m kind target" for kind target
    unfolding n_def by (rule plan_sessions)
  from used(3) have "capture_session_for_target env (cj_session job) (cj_kind job) (cj_target job) m
      = (Inr (s\<lparr>ss_expires := me_now env + mg_session_ttl m\<rparr>), n)" by (simp add: n_def)
  with assms obtain p members policy where "capture_plan m (cj_kind job) (cj_target job) = Inr (p, members, policy)"
    "(if p \<notin> set (mg_providers n) then Inl (KeyErr p)
      else if \<not> answers p then Inl (RegistryError (''provider '' @ p @ '' is unavailable''))
      else Inr (p, provider_call goal (cj_target job) members policy)) = Inr (provider, request)"
    by (auto simp: capture_send_def bindS_def plan result_simps)
  moreover have "mg_providers n = mg_providers m" by (simp add: n_def)
  ultimately show ?thesis using used(1,2) by (auto split: if_splits)
qed

interpretation capture_waiting: timed_polling "\<lambda>n. me_now (fst (trace n))" deadline "capture_look trace deadline job"
  for trace :: "nat \<Rightarrow> 'f mg_env \<times> 'f manager" and deadline job
  by unfold_locales (simp add: capture_look_def case_prod_beta)

subsection \<open>Properties\<close>



subsection \<open>A concrete capture\<close>

text \<open>A single camera that gets ready at the second look.\<close>

abbreviation demo_job :: capture_job where
  "demo_job \<equiv> \<lparr>cj_kind = ''sensor'', cj_target = ''cam'', cj_session = ''session_a'', cj_temporary = ''session_a''\<rparr>"

definition camera_trace :: "nat \<Rightarrow> pydict mg_env \<times> pydict manager" where
  "camera_trace n = (demo_mg_env (of_nat n) '''', demo_manager
     \<lparr>mg_sessions := [(''session_a'', demo_session 31 ''session_a'')],
      mg_runtime := [(''cam'', blank_sensor\<lparr>sm_online := True, sm_mode := ''capture'', sm_capture_ready := 0 < n\<rparr>)]\<rparr>)"



end
