(* ===== verification/Manager_Runs.thy ===== *)
theory Manager_Runs
  imports Manager_Settings Enrollment Capture_Requests
begin

section \<open>Runs of the manager\<close>

text \<open>
  What every callback of \<^verbatim>\<open>manager_node.py\<close> keeps. The callbacks are built from few effects:
  an operation of the registry, an operation on the session table, the claims of the
  actions, and updates of the other attributes that never lower the generation. The locales
  state these effects as their laws; inside them every callback is shown to keep any
  reflexive and transitive relation that the effects keep. The interpretations instantiate
  the relation.
\<close>

subsection \<open>Operations that keep a relation\<close>

definition keeps :: "('s \<Rightarrow> 's \<Rightarrow> bool) \<Rightarrow> ('s, 'a) op \<Rightarrow> bool" where
  "keeps R f \<longleftrightarrow> (\<forall>s. R s (snd (f s)))"

lemma keepsI [intro?]: "(\<And>s. R s (snd (f s))) \<Longrightarrow> keeps R f"
  by (simp add: keeps_def)

lemma keepsD: "keeps R f \<Longrightarrow> R s (snd (f s))"
  by (simp add: keeps_def)

locale kept =
  fixes R :: "'s \<Rightarrow> 's \<Rightarrow> bool"
  assumes kept_refl: "R s s" and kept_trans: "R s t \<Longrightarrow> R t u \<Longrightarrow> R s u"
begin

lemma keeps_return: "keeps R (returnS x)" and keeps_raise: "keeps R (raiseS e)" and keeps_lift: "keeps R (liftS r)"
  by (simp_all add: keeps_def kept_refl)

lemma keeps_modify: "(\<And>s. R s (g s)) \<Longrightarrow> keeps R (modifyS g)"
  by (simp add: keeps_def)

lemma keeps_bind:
  assumes "keeps R f" and "\<And>x. keeps R (g x)"
  shows "keeps R (bindS f g)"
proof
  fix s
  show "R s (snd (bindS f g s))"
    using keepsD [OF assms(1), of s] keepsD [OF assms(2)]
    by (auto simp: bindS_def split: prod.splits sum.splits intro: kept_trans)
qed

text \<open>A callback that reads its state first.\<close>

lemma keeps_reading: "(\<And>s0. keeps R (f s0)) \<Longrightarrow> keeps R (\<lambda>s. f s s)"
  by (simp add: keeps_def)

lemma keeps_pure: "keeps R (\<lambda>s. (f s, s))"
  by (simp add: keeps_def kept_refl)

lemma keeps_if: "keeps R f \<Longrightarrow> keeps R g \<Longrightarrow> keeps R (if b then f else g)"
  by simp

lemma keeps_handled: "keeps R f \<Longrightarrow> keeps R (handled caught f)"
  by (auto simp: keeps_def handled_def split: prod.splits sum.splits option.splits) (metis snd_conv)+

lemma keeps_require: "keeps R (require b msg)" and keeps_require_profile: "keeps R (require_profile b msg)"
  by (simp_all add: require_def require_profile_def keeps_return keeps_raise)

lemma keeps_replies:
  fixes R' :: "'f manager \<Rightarrow> 'f manager \<Rightarrow> bool"
  assumes "\<And>m. R' m m"
  shows "keeps R' (sensor_reply sid)" "keeps R' (known_reply sid)" "keeps R' (group_reply gid)" "keeps R' (port_reply env nid)"
  using assms by (simp_all add: keeps_def sensor_reply_def known_reply_def group_reply_def port_reply_def)

lemma keeps_reads: "(\<And>s. keeps R (bindS (f s) (g s))) \<Longrightarrow> keeps R (\<lambda>s. bindS (f s) (g s) s)"
  by (simp add: keeps_def)

lemmas keeps_rules = keeps_return keeps_raise keeps_lift keeps_bind keeps_if keeps_handled keeps_require
  keeps_require_profile keeps_pure keeps_reads

end

subsection \<open>The effects of the callbacks\<close>

text \<open>An update that leaves the registry, the sessions and the claims alone.\<close>

definition same_core :: "'f manager \<Rightarrow> 'f manager \<Rightarrow> bool" where
  "same_core m m' \<longleftrightarrow>
     mg_registry m' = mg_registry m \<and> mg_sessions m' = mg_sessions m \<and> mg_generation m \<le> mg_generation m'
     \<and> mg_enrolling m' = mg_enrolling m \<and> mg_enrolling_networks m' = mg_enrolling_networks m
     \<and> mg_placing m' = mg_placing m"

lemma publish_core: "same_core m (snd (publish_state env m))"
  by (simp add: publish_state_def Let_def same_core_def prune_observations_def refresh_ports_def bump_def)

text \<open>
  The laws: the relation is kept by an update outside the core, by a step of the registry
  and by a command on the session table.
\<close>

locale service_effects = kept R for R :: "'f manager \<Rightarrow> 'f manager \<Rightarrow> bool" +
  fixes dump :: "pydict \<Rightarrow> 'f"
  assumes core_step: "same_core m m' \<Longrightarrow> R m m'"
    and registry_step: "reg_step dump (mg_registry m) r \<Longrightarrow> R m (m\<lparr>mg_registry := r\<rparr>)"
    and session_step: "fresh_for c m \<Longrightarrow> R m (session_exec c m)"
begin

lemma keeps_update: "(\<And>m. same_core m (g m)) \<Longrightarrow> keeps R (modifyS g)"
  by (rule keeps_modify) (rule core_step)

lemma keeps_publishing: "keeps R (publishing env)"
proof
  fix m :: "'f manager"
  have "snd (publishing env m) = snd (publish_state env m)"
    by (simp add: publishing_def split: prod.splits)
  then show "R m (snd (publishing env m))" using core_step [OF publish_core] by simp
qed

text \<open>Registry operations, named by the command they are.\<close>

lemma keeps_registry:
  assumes "re_dump env = dump" and "\<And>r. snd (run_cmd env cmd r) = snd (f r)"
  shows "keeps R (on_registry f)"
proof
  fix m :: "'f manager"
  obtain res r' where run: "run_cmd env cmd (mg_registry m) = (res, r')" by fastforce
  with assms(2) [of "mg_registry m"] have "snd (on_registry f m) = m\<lparr>mg_registry := r'\<rparr>"
    by (simp add: on_registry_def split: prod.splits)
  moreover from assms(1) run have "reg_step dump (mg_registry m) r'" by (rule reg_step.run)
  ultimately show "R m (snd (on_registry f m))" by (simp add: registry_step)
qed

lemma keeps_bump: "keeps R (modifyS bump)"
  by (rule keeps_update) (simp add: same_core_def bump_def)

lemma snd_discard [simp]: "snd (discard f r) = snd (f r)"
  by (simp add: discard_def split: prod.splits sum.splits)

lemma keeps_registry_ops:
  assumes "re_dump env = dump"
  shows "keeps R (on_registry (set_port_mode env nid mode))"
    "keeps R (on_registry (enroll env obs al name location))"
    "keeps R (on_registry (replace_sensor env sid obs))"
    "keeps R (on_registry (move_sensor env sid al))"
    "keeps R (on_registry (update_sensor env sid values))"
    "keeps R (on_registry (forget env sid))"
    "keeps R (on_registry (update_known_sensor env sid values))"
    "keeps R (on_registry (purge_known_sensor env sid))"
    "keeps R (on_registry (upsert_group env gid provider members policy rate))"
    "keeps R (on_registry (delete_group env gid))"
    "keeps R (on_registry (observe env obs nid managed fresh checkpoint))"
    "keeps R (on_registry (save env))"
  using assms
  by (simp_all add: keeps_registry [of env "Set_port_mode nid mode"] keeps_registry [of env "Enroll obs al name location"]
      keeps_registry [of env "Replace sid obs"] keeps_registry [of env "Move sid al"]
      keeps_registry [of env "Update sid values"] keeps_registry [of env "Forget sid"]
      keeps_registry [of env "Update_known sid values"] keeps_registry [of env "Purge sid"]
      keeps_registry [of env "Upsert_group gid provider members policy rate"]
      keeps_registry [of env "Delete_group gid"] keeps_registry [of env "Observe obs nid managed fresh checkpoint"]
      keeps_registry [of env Save])

end

subsection \<open>Every callback keeps the relation\<close>

context service_effects
begin

lemma keeps_service_replies:
  "keeps R (sensor_reply sid)" "keeps R (known_reply sid)" "keeps R (group_reply gid)" "keeps R (port_reply env nid)"
  by (rule keeps_replies, rule kept_refl)+

lemmas effect_rules = keeps_rules keeps_service_replies keeps_publishing keeps_bump keeps_registry_ops

lemma same_core_updates [simp]:
  "same_core m (bump (m\<lparr>mg_sensor_modes := a\<rparr>))" "same_core m (m\<lparr>mg_sensor_modes := a\<rparr>)"
  "same_core m (bump (m\<lparr>mg_catalog_dirty := d\<rparr>))" "same_core m (bump (m\<lparr>mg_catalog_dirty := d, mg_checkpoints := e\<rparr>))"
  "same_core m (m\<lparr>mg_group_modes := b, mg_group_intervals := c\<rparr>)"
  "same_core m (bump (m\<lparr>mg_group_modes := b, mg_group_intervals := c\<rparr>))"
  "same_core m (m\<lparr>mg_observations := f\<rparr>)" "same_core m (m\<lparr>mg_catalog_dirty := d, mg_checkpoints := e\<rparr>)"
  "same_core m (m\<lparr>mg_catalog_dirty := d\<rparr>)" "same_core m (bump (m\<lparr>mg_runtime := g\<rparr>))"
  "same_core m (bump (m\<lparr>mg_provider_groups := h\<rparr>))" "same_core m (bump (m\<lparr>mg_profiles := p\<rparr>))"
  "same_core m (m\<lparr>mg_profile_file := q\<rparr>)" "same_core m (bump (m\<lparr>mg_profile_file := q, mg_profiles := p\<rparr>))"
  "same_core m (bump (m\<lparr>mg_applying := u, mg_pending := v\<rparr>))" "same_core m (bump (m\<lparr>mg_pending := v, mg_applying := u\<rparr>))"
  "same_core m (m\<lparr>mg_pending := v, mg_applying := u\<rparr>)"
  by (simp_all add: same_core_def bump_def)

lemma keeps_services:
  assumes "re_dump (me_reg env) = dump"
  shows "keeps R (update_metadata env sid name location pose url enabled)"
    "keeps R (forget_sensor env sid force)"
    "keeps R (set_port_mode_service env nid mode)"
    "keeps R (purge_known_service env sid)"
    "keeps R (set_mode env mode kind target)"
    "keeps R (upsert_group_service env gid provider members policy rate)"
    "keeps R (delete_group_service env gid)"
  unfolding update_metadata_def forget_sensor_def set_port_mode_service_def purge_known_service_def
    set_mode_def set_group_mode_def set_sensor_mode_def upsert_group_service_def delete_group_service_def
  by (intro effect_rules keeps_update assms same_core_updates)+

lemma keeps_update_known:
  "re_dump (me_reg env) = dump \<Longrightarrow> keeps R (update_known_service env sid notes profile text)"
  unfolding update_known_service_def Let_def
  by (intro effect_rules keeps_update same_core_updates; assumption)

lemma keeps_observe:
  assumes "re_dump (me_reg env) = dump"
  shows "keeps R (observe_one env provider o')" "keeps R (observe_all env provider os)"
proof -
  show one: "keeps R (observe_one env provider o')" for o'
    unfolding observe_one_def Let_def
    by (intro effect_rules keeps_update assms same_core_updates)
  show "keeps R (observe_all env provider os)"
    by (induction os) (simp_all only: observe_all.simps keeps_bump keeps_bind one)
qed

lemma keeps_flush:
  assumes "re_dump (me_reg env) = dump"
  shows "keeps R (flush_catalog env)"
proof
  fix m :: "'f manager"
  let ?m' = "snd (on_registry (save (me_reg env)) m)"
  have "R m ?m'" "R ?m' (?m'\<lparr>mg_catalog_dirty := False\<rparr>)"
    by (rule keepsD [OF keeps_registry_ops(12) [OF assms]], rule core_step, simp)
  then show "R m (snd (flush_catalog env m))"
    by (auto simp: flush_catalog_def kept_refl intro: kept_trans split: prod.splits sum.splits py_exn.splits)
qed

lemma keeps_reports:
  "keeps R (provider_status provider messages)" "keeps R (provider_group_status provider groups)"
  by (rule keepsI, auto simp: provider_status_def provider_group_status_def Let_def
        intro: kept_refl core_step same_core_updates split: sum.splits)+

text \<open>The services on sessions, where a new session gets an identifier that is not in use.\<close>

lemma step_bind:
  assumes "R m (snd (f m))" and "\<And>x. keeps R (g x)"
  shows "R m (snd (bindS f g m))"
  using assms(1) keepsD [OF assms(2)]
  by (auto simp: bindS_def split: prod.splits sum.splits intro: kept_trans)

lemma step_handled: "R m (snd (f m)) \<Longrightarrow> R m (snd (handled caught f m))"
  by (auto simp: handled_def split: prod.splits sum.splits option.splits)

lemma step_acquire:
  assumes "\<not> dhas (mg_sessions m) (''session_'' @ me_uuid env)"
  shows "R m (snd (acquire_service env owner kind targets interval exclusive m))"
    "R m (snd (prepare_capture_groups env owner gids interval m))"
proof -
  have create: "R m (snd (create_capture_session env owner' kind' targets' interval' exclusive' m))"
    for owner' kind' targets' interval' exclusive'
    using session_step [of "Create env owner' kind' targets' interval' exclusive'" m] assms by simp
  then show "R m (snd (acquire_service env owner kind targets interval exclusive m))"
    unfolding acquire_service_def by (intro step_handled step_bind effect_rules)
  have "R m (snd (bindS (create_capture_session env (or_else owner ''capture-operation'') ''group'' gids interval False)
      (\<lambda>s. bindS (publishing env) (\<lambda>_. returnS (f s))) m))" for f :: "session \<Rightarrow> string response"
    by (intro step_bind create effect_rules)
  then show "R m (snd (prepare_capture_groups env owner gids interval m))"
    unfolding prepare_capture_groups_def require_def
    by (cases "interval_ok interval") (auto intro!: step_handled simp: kept_refl)
qed

lemma keeps_session_services:
  "keeps R (renew_service env sid)" "keeps R (release_service env sid)" "keeps R (expire_callback env)"
proof -
  note [simp] = fresh_for.simps session_exec.simps
  show "keeps R (renew_service env sid)"
  proof
    fix m :: "'f manager"
    obtain r m' where r: "renew_capture_session env sid m = (r, m')" by fastforce
    with session_step [of "Renew env sid" m] have "R m m'" by simp
    with r show "R m (snd (renew_service env sid m))"
      by (cases r) (simp_all add: renew_service_def)
  qed
  have publish: "R m (snd (bindS (publishing env) (\<lambda>_. returnS x) m'))" if "R m m'" for m m' and x :: 'x
    by (rule kept_trans [OF that]) (rule keepsD, intro effect_rules)
  show "keeps R (release_service env sid)"
  proof
    fix m :: "'f manager"
    obtain removed m' where r: "drop_capture_session sid m = (removed, m')" by fastforce
    with session_step [of "Drop sid" m] have "R m m'" by simp
    with r publish show "R m (snd (release_service env sid m))"
      by (cases removed) (simp_all add: release_service_def)
  qed
  show "keeps R (expire_callback env)"
  proof
    fix m :: "'f manager"
    obtain expired m' where r: "expire_capture_sessions env m = (expired, m')" by fastforce
    with session_step [of "Expire env" m] have "R m m'" by simp
    with r kept_trans keepsD [OF keeps_publishing] show "R m (snd (expire_callback env m))"
      by (simp add: expire_callback_def)
  qed
qed

text \<open>The sections of a capture.\<close>

lemma keeps_use: "keeps R (capture_session_for_target env sid kind target)"
  by (rule keepsI) (use session_step [of "Use env sid kind target"] in simp)

lemma keeps_close: "keeps R (close_capture env temporary)"
proof
  fix m :: "'f manager"
  have "R m (snd (drop_capture_session temporary m))" using session_step [of "Drop temporary" m] by simp
  then show "R m (snd (close_capture env temporary m))"
    using kept_trans keepsD [OF keeps_publishing] by (auto simp: close_capture_def kept_refl)
qed

lemma keeps_capture_end: "keeps R (capture_end env temporary outcome)"
  by (rule keepsI) (simp add: snd_capture_end keepsD [OF keeps_close])

lemma step_ending: "R m (snd (body m)) \<Longrightarrow> R m (snd (ending env temporary job body m))"
  using kept_trans keepsD [OF keeps_close]
  by (cases "body m"; cases "fst (body m)") (auto simp: ending_failed ending_prepared)

lemma step_capture_begin:
  assumes "\<not> dhas (mg_sessions m) (''session_'' @ me_uuid env)"
  shows "R m (snd (capture_begin env owner kind target sid m))"
proof (cases "sid = ''''")
  case True
  obtain r m' where create: "create_capture_session env owner kind [target] 0 False m = (r, m')" by fastforce
  with session_step [of "Create env owner kind [target] 0 False" m] assms have m': "R m m'" by simp
  have "keeps R (bindS (publishing env) (\<lambda>_. capture_session_for_target env (ss_id s) kind target))" for s
    by (intro effect_rules keeps_use)
  note body = step_ending [OF keepsD [OF this]]
  show ?thesis
  proof (cases r)
    case (Inl e)
    with create True show ?thesis
      by (simp add: capture_begin_def snd_captured) (rule kept_trans [OF m'], rule keepsD, rule keeps_capture_end)
  next
    case (Inr s)
    with create True show ?thesis by (simp add: capture_begin_def) (rule kept_trans [OF m'], rule body)
  qed
next
  case False
  then show ?thesis by (simp add: capture_begin_def step_ending keepsD [OF keeps_use])
qed

lemma keeps_capture:
  "keeps R (capture_poll env job)" "keeps R (capture_send env answers goal job)" "keeps R (capture_finish env job outcome)"
  unfolding capture_poll_def capture_send_def capture_finish_def
  by (intro keeps_bind keeps_use keeps_pure keeps_capture_end)+

text \<open>The services on profiles and settings.\<close>

lemma keeps_save_profiles: "keeps R (save_profiles env updated)"
  by (rule keepsI) (auto simp: save_profiles_def intro: core_step split: prod.splits sum.splits)

lemma keeps_profile_services:
  "keeps R (reload_profiles env)" "keeps R get_camera_profiles"
  "keeps R (upsert_profile env text overwrite)" "keeps R (delete_profile env name)"
  unfolding reload_profiles_def reload_body_def get_camera_profiles_def upsert_profile_def upsert_body_def
    delete_profile_def Let_def
  by (intro effect_rules keeps_save_profiles keeps_update same_core_updates)+

lemma keeps_roll_back: "keeps R (roll_back env sid message)"
proof
  fix m :: "'f manager"
  let ?m = "m\<lparr>mg_pending := dpop sid (mg_pending m), mg_applying := mg_applying m - {sid}\<rparr>"
  have R: "R m ?m" "R m (bump ?m)" by (rule core_step, simp)+
  have "R m (snd (bindS (publishing env) (\<lambda>_. returnS x) (bump ?m)))" for x :: apply_response
    by (rule kept_trans [OF R(2)]) (rule keepsD, intro effect_rules)
  with R(1) show "R m (snd (roll_back env sid message m))"
    by (simp add: roll_back_def Let_def)
qed

lemma keeps_rolling_back:
  assumes "keeps R body"
  shows "keeps R (rolling_back env sid wrap body)"
proof
  fix m :: "'f manager"
  obtain r m' where r: "body m = (r, m')" by fastforce
  with keepsD [OF assms, of m] have R: "R m m'" by simp
  have "R m (snd (bindS (roll_back env sid message) (\<lambda>r. returnS (wrap r)) m'))" for message
    by (rule kept_trans [OF R]) (rule keepsD, intro keeps_bind keeps_roll_back keeps_return)
  with r R show "R m (snd (rolling_back env sid wrap body m))"
    by (auto simp: rolling_back_def split: sum.split option.split)
qed

lemma keeps_verdict:
  "(\<And>e. keeps R (f e)) \<Longrightarrow> (\<And>e. keeps R (g e)) \<Longrightarrow> keeps R h
    \<Longrightarrow> keeps R (case v of Effective e \<Rightarrow> f e | Failure e \<Rightarrow> g e | Undecided \<Rightarrow> h)"
  by (cases v) simp_all

lemma keeps_apply:
  assumes "re_dump (me_reg env) = dump"
  shows "keeps R (apply_begin env sid profile text offline)" "keeps R (apply_finish env sid profile overrides outcome)"
proof -
  show "keeps R (apply_begin env sid profile text offline)"
    unfolding apply_begin_def begin_body_def
    by (intro keeps_rolling_back effect_rules keeps_update assms same_core_updates)
  show "keeps R (apply_finish env sid profile overrides outcome)"
    unfolding apply_finish_def finish_body_def
    by (intro keeps_rolling_back keeps_verdict effect_rules keeps_update assms same_core_updates)
qed

end

subsection \<open>The actions\<close>

text \<open>An update of the claims of the actions only.\<close>

definition claims_only :: "'f manager \<Rightarrow> 'f manager \<Rightarrow> bool" where
  "claims_only m m' \<longleftrightarrow>
     m'\<lparr>mg_enrolling := {}, mg_enrolling_networks := {}, mg_placing := {}\<rparr>
       = m\<lparr>mg_enrolling := {}, mg_enrolling_networks := {}, mg_placing := {}\<rparr>"

lemma end_enrollment_state [simp]: "snd (end_enrollment goal claimed r m) = release_claims goal claimed m"
  by (simp add: end_enrollment_def)

lemma end_placement_state [simp]: "snd (end_placement claimed r m) = m\<lparr>mg_placing := mg_placing m - claimed\<rparr>"
  by (simp add: end_placement_def)

lemma release_claims_only: "claims_only m (release_claims goal claimed m)"
  by (simp add: claims_only_def release_claims_def)

lemma enroll_begin_claims: "claims_only m (snd (enroll_begin available goal m))"
  by (simp add: enroll_begin_def claim_candidate_def claim_network_def claims_only_def release_claims_def
      split: prod.splits sum.splits if_splits)

lemma place_begin_claims: "claims_only m (snd (place_begin available goal m))"
  by (simp add: place_begin_def Let_def claims_only_def split: prod.splits sum.splits option.splits)

context service_effects
begin

lemma same_core_automation [simp]:
  "same_core m (m\<lparr>mg_retry_after := a\<rparr>)" "same_core m (m\<lparr>mg_inflight := b, mg_inflight_networks := c\<rparr>)"
  "same_core m (m\<lparr>mg_inflight := b, mg_inflight_networks := c, mg_retry_after := a\<rparr>)"
  by (simp_all add: same_core_def)

lemma step_reconcile_loop: "R m (snd (reconcile_loop now ready m0 busy os m))"
proof (induction os arbitrary: busy m)
  case Nil
  show ?case by (simp add: kept_refl)
next
  case (Cons o' os)
  obtain cid obs t where o': "o' = (cid, obs, t)" by (cases o')
  show ?case
  proof (cases "\<exists>nid. eligible now m0 busy cid obs = Inr (Some nid)")
    case False
    with Cons show ?thesis by (auto simp: o' kept_refl split: sum.split option.split)
  next
    case True
    then obtain nid where el: "eligible now m0 busy cid obs = Inr (Some nid)" by blast
    obtain goal m' where start: "start_auto_enroll now ready cid nid m = (goal, m')" by fastforce
    then have "R m m'"
      by (auto simp: start_auto_enroll_def intro: core_step split: if_splits)
    also have "R m' (snd (reconcile_loop now ready m0 (insert nid busy) os m'))" by (rule Cons)
    finally (kept_trans) show ?thesis
      by (auto simp: o' el start split: prod.split sum.split option.split)
  qed
qed

lemma keeps_automation:
  "keeps R (reconcile_automation env ready)" "R m (auto_enroll_goal_sent env cid goal_accepted m)"
  "keeps R (auto_enroll_finished env cid success)"
proof -
  show "keeps R (reconcile_automation env ready)"
    unfolding reconcile_automation_def by (rule keepsI) (rule step_reconcile_loop)
  show "R m (auto_enroll_goal_sent env cid goal_accepted m)"
    by (simp add: auto_enroll_goal_sent_def auto_enroll_failed_def clear_inflight_def kept_refl core_step)
  show "keeps R (auto_enroll_finished env cid success)"
  proof
    fix m :: "'f manager"
    define m1 where "m1 = clear_inflight cid
      (if success then m\<lparr>mg_retry_after := dpop cid (mg_retry_after m)\<rparr> else auto_enroll_failed env cid m)"
    have "R m m1"
      by (rule core_step) (simp add: m1_def same_core_def clear_inflight_def auto_enroll_failed_def)
    also have "R m1 (snd (publishing env m1))" by (rule keepsD [OF keeps_publishing])
    finally (kept_trans) show "R m (snd (auto_enroll_finished env cid success m))"
      by (simp add: auto_enroll_finished_def m1_def)
  qed
qed

end

text \<open>The claims of the actions are effects of their own.\<close>

locale manager_effects = service_effects +
  assumes claims_step: "claims_only m m' \<Longrightarrow> R m m'"
begin

lemma keeps_enroll:
  "keeps R (enroll_begin available goal)"
  "re_dump (me_reg env) = dump \<Longrightarrow> keeps R (enroll_finish env job outcome)"
proof -
  show "keeps R (enroll_begin available goal)" by (rule keepsI) (rule claims_step, rule enroll_begin_claims)
  assume dump: "re_dump (me_reg env) = dump"
  have "keeps R (persist_enrollment env job outcome)"
    unfolding persist_enrollment_def by (intro effect_rules dump)
  then show "keeps R (enroll_finish env job outcome)"
    by (auto simp: enroll_finish_def keeps_def split: prod.split)
       (metis claims_step kept_trans release_claims_only snd_conv)
qed

lemma keeps_place:
  "keeps R (place_begin available goal)"
  "re_dump (me_reg env) = dump \<Longrightarrow> keeps R (place_finish env pjob outcome)"
proof -
  show "keeps R (place_begin available goal)" by (rule keepsI) (rule claims_step, rule place_begin_claims)
  assume dump: "re_dump (me_reg env) = dump"
  have "keeps R (persist_placement env pjob outcome)"
    unfolding persist_placement_def by (intro effect_rules dump)
  moreover have "R m (m\<lparr>mg_placing := a\<rparr>)" for m a
    by (rule claims_step) (simp add: claims_only_def)
  ultimately show "keeps R (place_finish env pjob outcome)"
    by (auto simp: place_finish_def keeps_def split: prod.split) (metis kept_trans snd_conv)
qed

end

subsection \<open>Runs\<close>

text \<open>
  The callbacks of the node: its services, the reports of the providers, its timers and the
  steps of its actions. The jobs and outcomes that the later steps take are arbitrary here.
\<close>

datatype callback =
    On_update_metadata string string string "(pose \<times> string) option" string bool
  | On_forget string bool
  | On_port_mode string string
  | On_update_known string string string string
  | On_purge string
  | On_set_mode string string string
  | On_upsert_group string string "string list" string pyfloat
  | On_delete_group string
  | On_acquire string string "string list" int bool
  | On_prepare string "string list" int
  | On_renew string
  | On_release string
  | On_observations string "observed list"
  | On_status string "sensor_msg list"
  | On_group_status string "group_msg list"
  | On_reload_profiles
  | On_get_profiles
  | On_upsert_profile string bool
  | On_delete_profile string
  | On_apply_begin string string string bool
  | On_apply_finish string string pydict "verdict result"
  | On_enroll_begin bool enroll_goal
  | On_enroll_finish enroll_job provision
  | On_place_begin bool place_goal
  | On_place_finish place_job provision
  | On_expire_timer
  | On_flush_timer
  | On_publish_timer
  | On_reconcile_timer bool
  | On_goal_sent string bool
  | On_goal_finished string bool
  | On_capture_begin string string string string
  | On_capture_poll capture_job
  | On_capture_send capture_goal capture_job
  | On_capture_end capture_job "unit capture_answer result"

fun run_callback :: "'f mg_env \<Rightarrow> callback \<Rightarrow> 'f manager \<Rightarrow> 'f manager" where
  "run_callback env (On_update_metadata sid name location pose url enabled) m =
     snd (update_metadata env sid name location pose url enabled m)"
| "run_callback env (On_forget sid force) m = snd (forget_sensor env sid force m)"
| "run_callback env (On_port_mode nid mode) m = snd (set_port_mode_service env nid mode m)"
| "run_callback env (On_update_known sid notes profile text) m = snd (update_known_service env sid notes profile text m)"
| "run_callback env (On_purge sid) m = snd (purge_known_service env sid m)"
| "run_callback env (On_set_mode mode kind target) m = snd (set_mode env mode kind target m)"
| "run_callback env (On_upsert_group gid provider members policy rate) m =
     snd (upsert_group_service env gid provider members policy rate m)"
| "run_callback env (On_delete_group gid) m = snd (delete_group_service env gid m)"
| "run_callback env (On_acquire owner kind targets interval exclusive) m =
     snd (acquire_service env owner kind targets interval exclusive m)"
| "run_callback env (On_prepare owner gids interval) m = snd (prepare_capture_groups env owner gids interval m)"
| "run_callback env (On_renew sid) m = snd (renew_service env sid m)"
| "run_callback env (On_release sid) m = snd (release_service env sid m)"
| "run_callback env (On_observations provider os) m = snd (observe_all env provider os m)"
| "run_callback env (On_status provider messages) m = snd (provider_status provider messages m)"
| "run_callback env (On_group_status provider messages) m = snd (provider_group_status provider messages m)"
| "run_callback env On_reload_profiles m = snd (reload_profiles env m)"
| "run_callback env On_get_profiles m = snd (get_camera_profiles m)"
| "run_callback env (On_upsert_profile text overwrite) m = snd (upsert_profile env text overwrite m)"
| "run_callback env (On_delete_profile name) m = snd (delete_profile env name m)"
| "run_callback env (On_apply_begin sid profile text offline) m = snd (apply_begin env sid profile text offline m)"
| "run_callback env (On_apply_finish sid profile overrides outcome) m =
     snd (apply_finish env sid profile overrides outcome m)"
| "run_callback env (On_enroll_begin available goal) m = snd (enroll_begin available goal m)"
| "run_callback env (On_enroll_finish job outcome) m = snd (enroll_finish env job outcome m)"
| "run_callback env (On_place_begin available goal) m = snd (place_begin available goal m)"
| "run_callback env (On_place_finish pjob outcome) m = snd (place_finish env pjob outcome m)"
| "run_callback env On_expire_timer m = snd (expire_callback env m)"
| "run_callback env On_flush_timer m = snd (flush_catalog env m)"
| "run_callback env On_publish_timer m = snd (publishing env m)"
| "run_callback env (On_reconcile_timer ready) m = snd (reconcile_automation env ready m)"
| "run_callback env (On_goal_sent cid goal_accepted) m = auto_enroll_goal_sent env cid goal_accepted m"
| "run_callback env (On_goal_finished cid success) m = snd (auto_enroll_finished env cid success m)"
| "run_callback env (On_capture_begin owner kind target sid) m =
     snd (capture_begin env owner kind target sid m :: unit capture_phase result \<times> 'f manager)"
| "run_callback env (On_capture_poll job) m = snd (capture_poll env job m)"
| "run_callback env (On_capture_send goal job) m = snd (capture_send env (\<lambda>_. True) goal job m)"
| "run_callback env (On_capture_end job outcome) m = snd (capture_finish env job outcome m)"

text \<open>\<open>uuid4\<close> gives a session an identifier that no live session has.\<close>

fun admissible :: "'f mg_env \<Rightarrow> callback \<Rightarrow> 'f manager \<Rightarrow> bool" where
  "admissible env (On_acquire _ _ _ _ _) m \<longleftrightarrow> \<not> dhas (mg_sessions m) (''session_'' @ me_uuid env)"
| "admissible env (On_prepare _ _ _) m \<longleftrightarrow> \<not> dhas (mg_sessions m) (''session_'' @ me_uuid env)"
| "admissible env (On_capture_begin _ _ _ _) m \<longleftrightarrow> \<not> dhas (mg_sessions m) (''session_'' @ me_uuid env)"
| "admissible env _ m \<longleftrightarrow> True"

text \<open>The callbacks that are not steps of an action.\<close>

fun is_action :: "callback \<Rightarrow> bool" where
  "is_action (On_enroll_begin _ _) \<longleftrightarrow> True"
| "is_action (On_enroll_finish _ _) \<longleftrightarrow> True"
| "is_action (On_place_begin _ _) \<longleftrightarrow> True"
| "is_action (On_place_finish _ _) \<longleftrightarrow> True"
| "is_action _ \<longleftrightarrow> False"

inductive manager_step :: "(pydict \<Rightarrow> 'f) \<Rightarrow> 'f manager \<Rightarrow> 'f manager \<Rightarrow> bool" for dump where
  callback: "re_dump (me_reg env) = dump \<Longrightarrow> admissible env cb m
    \<Longrightarrow> manager_step dump m (run_callback env cb m)"

inductive_cases manager_stepE: "manager_step dump m m'"

definition manager_reach :: "(pydict \<Rightarrow> 'f) \<Rightarrow> 'f manager \<Rightarrow> 'f manager \<Rightarrow> bool" where
  "manager_reach dump = (manager_step dump)\<^sup>*\<^sup>*"

context service_effects
begin

lemma callback_kept:
  assumes "re_dump (me_reg env) = dump" and "admissible env cb m" and "\<not> is_action cb"
  shows "R m (run_callback env cb m)"
  using assms(2,3)
  by (cases cb)
     (simp_all add: step_acquire keepsD [OF keeps_services(1) [OF assms(1)]] keepsD [OF keeps_services(2) [OF assms(1)]]
       keepsD [OF keeps_services(3) [OF assms(1)]] keepsD [OF keeps_services(4) [OF assms(1)]]
       keepsD [OF keeps_services(5) [OF assms(1)]] keepsD [OF keeps_services(6) [OF assms(1)]]
       keepsD [OF keeps_services(7) [OF assms(1)]] keepsD [OF keeps_update_known [OF assms(1)]]
       keepsD [OF keeps_observe(2) [OF assms(1)]] keepsD [OF keeps_flush [OF assms(1)]]
       keepsD [OF keeps_reports(1)] keepsD [OF keeps_reports(2)] keepsD [OF keeps_session_services(1)]
       keepsD [OF keeps_session_services(2)] keepsD [OF keeps_session_services(3)]
       keepsD [OF keeps_profile_services(1)] keepsD [OF keeps_profile_services(2)]
       keepsD [OF keeps_profile_services(3)] keepsD [OF keeps_profile_services(4)]
       keepsD [OF keeps_apply(1) [OF assms(1)]] keepsD [OF keeps_apply(2) [OF assms(1)]]
       keepsD [OF keeps_publishing] keepsD [OF keeps_automation(1)] keeps_automation(2)
       keepsD [OF keeps_automation(3)] step_capture_begin keepsD [OF keeps_capture(1)]
       keepsD [OF keeps_capture(2)] keepsD [OF keeps_capture(3)])

end

context manager_effects
begin

lemma step_kept: "manager_step dump m m' \<Longrightarrow> R m m'"
proof (erule manager_stepE)
  fix env cb
  assume cb: "m' = run_callback env cb m" "re_dump (me_reg env) = dump" "admissible env cb m"
  show "R m m'"
  proof (cases "is_action cb")
    case True
    with cb show ?thesis
      by (cases cb) (simp_all add: keepsD [OF keeps_enroll(1)] keepsD [OF keeps_enroll(2)]
        keepsD [OF keeps_place(1)] keepsD [OF keeps_place(2)])
  next
    case False
    with cb show ?thesis by (simp add: callback_kept)
  qed
qed

lemma reach_kept: "manager_reach dump m m' \<Longrightarrow> R m m'"
  unfolding manager_reach_def
  by (induction rule: rtranclp_induct) (auto intro: kept_refl kept_trans step_kept)

end

subsection \<open>What the session commands leave alone\<close>

definition outside_sessions :: "'f manager \<Rightarrow> 'f manager \<Rightarrow> bool" where
  "outside_sessions m m' \<longleftrightarrow>
     mg_registry m' = mg_registry m \<and> mg_generation m \<le> mg_generation m'
     \<and> mg_enrolling m' = mg_enrolling m \<and> mg_enrolling_networks m' = mg_enrolling_networks m
     \<and> mg_placing m' = mg_placing m"

lemma drop_outside: "outside_sessions m (snd (drop_capture_session sid m))"
  by (simp add: drop_cases outside_sessions_def bump_def)

lemma drops_outside: "outside_sessions m (foldl (\<lambda>m sid. snd (drop_capture_session sid m)) m sids)"
proof (induction sids arbitrary: m)
  case (Cons sid sids)
  show ?case using Cons [of "snd (drop_capture_session sid m)"] drop_outside [of m sid]
    by (auto simp: outside_sessions_def)
qed (simp add: outside_sessions_def)

lemma exec_outside: "outside_sessions m (session_exec c m)"
proof (cases c)
  case (Create env owner kind targets interval exclusive)
  then show ?thesis
    by (cases rule: create_cases [of env owner kind targets interval exclusive m, case_names refused created])
       (simp_all add: outside_sessions_def bump_def)
qed (simp_all add: drop_outside drops_outside expire_capture_sessions_def Let_def,
     simp_all add: renew_capture_session_def capture_session_for_target_def outside_sessions_def Let_def split: option.split)

subsection \<open>Interpretations\<close>

text \<open>
  A run of the manager is a run of its registry; it never lowers the generation; it keeps
  the session table's invariant; and only the steps of the actions change the claims.
\<close>

definition registry_reaches :: "(pydict \<Rightarrow> 'f) \<Rightarrow> 'f manager \<Rightarrow> 'f manager \<Rightarrow> bool" where
  "registry_reaches dump m m' \<longleftrightarrow> reg_reach dump (mg_registry m) (mg_registry m')"

interpretation reaches: manager_effects "registry_reaches dump" dump for dump :: "pydict \<Rightarrow> 'f"
proof
  fix m m' m'' :: "'f manager"
  show "registry_reaches dump m m" by (simp add: registry_reaches_def reg_reach_def)
  show "registry_reaches dump m m' \<Longrightarrow> registry_reaches dump m' m'' \<Longrightarrow> registry_reaches dump m m''"
    unfolding registry_reaches_def reg_reach_def by (rule rtranclp_trans)
  show "same_core m m' \<Longrightarrow> registry_reaches dump m m'"
    by (simp add: same_core_def registry_reaches_def reg_reach_def)
  show "reg_step dump (mg_registry m) r \<Longrightarrow> registry_reaches dump m (m\<lparr>mg_registry := r\<rparr>)" for r
    by (simp add: registry_reaches_def reg_reach_def)
  show "registry_reaches dump m (session_exec c m)" for c
    using exec_outside [of m c] by (simp add: outside_sessions_def registry_reaches_def reg_reach_def)
  show "claims_only m m' \<Longrightarrow> registry_reaches dump m m'"
    unfolding claims_only_def registry_reaches_def reg_reach_def
    by (drule arg_cong [where f = mg_registry]) simp
qed

definition generation_grows :: "'f manager \<Rightarrow> 'f manager \<Rightarrow> bool" where
  "generation_grows m m' \<longleftrightarrow> mg_generation m \<le> mg_generation m'"

interpretation grows: manager_effects generation_grows dump for dump :: "pydict \<Rightarrow> 'f"
proof
  fix m m' :: "'f manager"
  show "claims_only m m' \<Longrightarrow> generation_grows m m'"
    unfolding claims_only_def generation_grows_def by (drule arg_cong [where f = mg_generation]) simp
  show "generation_grows m (session_exec c m)" for c
    using exec_outside [of m c] by (simp add: outside_sessions_def generation_grows_def)
qed (auto simp: generation_grows_def same_core_def)

definition sessions_kept :: "'f manager \<Rightarrow> 'f manager \<Rightarrow> bool" where
  "sessions_kept m m' \<longleftrightarrow> (sessions_inv (mg_sessions m) \<longrightarrow> sessions_inv (mg_sessions m'))"

interpretation leases: manager_effects sessions_kept dump for dump :: "pydict \<Rightarrow> 'f"
proof
  fix m m' :: "'f manager"
  show "claims_only m m' \<Longrightarrow> sessions_kept m m'"
    unfolding claims_only_def sessions_kept_def by (drule arg_cong [where f = mg_sessions]) simp
qed (auto simp: sessions_kept_def same_core_def exec_inv)

definition same_claims :: "'f manager \<Rightarrow> 'f manager \<Rightarrow> bool" where
  "same_claims m m' \<longleftrightarrow>
     mg_enrolling m' = mg_enrolling m \<and> mg_enrolling_networks m' = mg_enrolling_networks m
     \<and> mg_placing m' = mg_placing m"

interpretation claims: service_effects same_claims dump for dump :: "pydict \<Rightarrow> 'f"
proof
  show "same_claims m (session_exec c m)" for m :: "'f manager" and c
    using exec_outside [of m c] by (simp add: outside_sessions_def same_claims_def)
qed (auto simp: same_claims_def same_core_def)

end
