(* ===== verification/Manager_Safety.thy ===== *)
theory Manager_Safety
  imports Manager_Runs
begin

section \<open>What holds in every run of the manager\<close>

text \<open>
  The properties that span the callbacks of \<^verbatim>\<open>manager_node.py\<close>: the node's registry only
  makes registry steps, so its inventory file can always be opened again; sessions stay
  exclusive; cameras in a session are protected from the services; at most one enrollment
  per network; and the automation enrolls only what it may.
\<close>

subsection \<open>Cameras in use\<close>

lemma owned_mono:
  assumes "owned m [sid]" and "sid \<in> set sensors"
  shows "owned m sensors"
proof -
  from assms(1) obtain s where "s \<in> set (dvalues (mg_sessions m))" "sid \<in> set (ss_sensors s)"
    by (auto simp: owned_def cameras_capture_owned_def overlap_def list_ex_iff split: if_splits)
  with assms(2) show ?thesis
    by (auto simp: owned_def cameras_capture_owned_def overlap_def list_ex_iff filter_empty_conv)
qed

text \<open>A request that is refused and changes nothing.\<close>

definition refuses :: "'s \<Rightarrow> ('s, 'a response) op \<Rightarrow> bool" where
  "refuses s f \<longleftrightarrow> (\<exists>message. f s = (Inr (refused message), s))"

lemma refuses_handled:
  "f s = (Inl (RegistryError message), s) \<Longrightarrow> refuses s (handled registry_text f)"
  by (auto simp: refuses_def handled_def)

lemma require_bind: "bindS (require b message) f s = (if b then f () s else (Inl (RegistryError message), s))"
  by (simp add: require_def)

subsection \<open>Properties\<close>

text \<open>C19: Whatever callbacks run, in whatever order and with whatever outcomes of the disk, the
  clock and the providers, the node's registry only goes through operations of the class
  \<^verbatim>\<open>Registry\<close>, and the published generation never decreases.\<close>

theorem manager_refines_registry:
  assumes "manager_reach dump m m'"
  shows "reg_reach dump (mg_registry m) (mg_registry m') \<and> mg_generation m \<le> mg_generation m'"
  using reaches.reach_kept [OF assms] grows.reach_kept [OF assms]
  by (simp add: registry_reaches_def generation_grows_def)

theorem manager_refines_registry_witness:
  "reg_reach (re_dump demo_env) (mg_registry demo_manager)
     (mg_registry (run_callback (demo_mg_env 5 '''') (On_delete_group ''g'') demo_manager))"
proof -
  have "manager_step (re_dump demo_env) demo_manager
      (run_callback (demo_mg_env 5 '''') (On_delete_group ''g'') demo_manager)"
    by (rule manager_step.callback) (simp_all add: demo_mg_env_def)
  then show ?thesis
    by (intro manager_refines_registry [THEN conjunct1]) (simp add: manager_reach_def)
qed

text \<open>C13: In every run of a node that starts without sessions a camera is in two sessions only if
  neither of them is exclusive, and every session is filed under its own identifier.\<close>

theorem sessions_stay_exclusive:
  assumes "manager_reach dump m m'" and "mg_sessions m = []"
    and "map_of (mg_sessions m') k = Some s" and "map_of (mg_sessions m') l = Some t" and "k \<noteq> l"
    and "camera \<in> set (ss_sensors s)" and "camera \<in> set (ss_sensors t)"
  shows "\<not> ss_exclusive s \<and> \<not> ss_exclusive t \<and> ss_id s = k \<and> ss_id t = l"
proof -
  have "sessions_inv (mg_sessions m')"
    using leases.reach_kept [OF assms(1)] by (simp add: sessions_kept_def assms(2) sessions_inv_def)
  with assms(3-) have "compatible s t" "ss_id s = k" "ss_id t = l" by (auto simp: sessions_inv_def)
  with assms(6,7) show ?thesis by (auto simp: compatible_def)
qed


text \<open>Two callers get a session on the same camera, neither of them exclusive.\<close>

lemma acquire_created:
  "create_capture_session env owner kind targets interval exclusive m = (Inr s, m')
    \<Longrightarrow> snd (acquire_service env owner kind targets interval exclusive m) = snd (publishing env m')"
  by (simp add: acquire_service_def handled_def bindS_def split: prod.split sum.split option.split)

lemma create_cong:
  assumes "mg_sessions m = mg_sessions n" "mg_registry m = mg_registry n" "mg_session_ttl m = mg_session_ttl n"
    and "create_capture_session env owner kind targets interval exclusive n = (Inr s, n')"
  obtains m' where "create_capture_session env owner kind targets interval exclusive m = (Inr s, m')"
    "mg_sessions m' = mg_sessions n'"
  using assms by (auto simp: create_capture_session_def Let_def split: if_splits sum.splits option.splits)

definition first_share :: "pydict manager" where
  "first_share = snd (create_capture_session (demo_mg_env 1 ''a'') ''a'' ''sensor'' [''cam''] 0 False demo_manager)"

definition second_share :: "pydict manager" where
  "second_share = snd (create_capture_session (demo_mg_env 2 ''b'') ''b'' ''sensor'' [''cam''] 0 False first_share)"

lemma sharing_run:
  obtains m where "manager_reach (re_dump demo_env) demo_manager m" "mg_sessions m = mg_sessions second_share"
proof -
  let ?a = "On_acquire ''a'' ''sensor'' [''cam''] 0 False" and ?b = "On_acquire ''b'' ''sensor'' [''cam''] 0 False"
  let ?m1 = "run_callback (demo_mg_env 1 ''a'') ?a demo_manager"
  let ?m2 = "run_callback (demo_mg_env 2 ''b'') ?b ?m1"
  have "isl (fst (create_capture_session (demo_mg_env 1 ''a'') ''a'' ''sensor'' [''cam''] 0 False demo_manager)) = False"
    "isl (fst (create_capture_session (demo_mg_env 2 ''b'') ''b'' ''sensor'' [''cam''] 0 False first_share)) = False"
    by code_simp+
  then obtain s t where
    s: "create_capture_session (demo_mg_env 1 ''a'') ''a'' ''sensor'' [''cam''] 0 False demo_manager = (Inr s, first_share)" and
    t: "create_capture_session (demo_mg_env 2 ''b'') ''b'' ''sensor'' [''cam''] 0 False first_share = (Inr t, second_share)"
    unfolding second_share_def by (metis first_share_def isl_def prod.collapse sum.exhaust_disc sum.disc_eq_case(2) sum.collapse(2))
  have m1: "?m1 = snd (publishing (demo_mg_env 1 ''a'') first_share)" by (simp add: acquire_created [OF s])
  then obtain m' where m': "create_capture_session (demo_mg_env 2 ''b'') ''b'' ''sensor'' [''cam''] 0 False ?m1 = (Inr t, m')"
    "mg_sessions m' = mg_sessions second_share"
    by (rule_tac create_cong [OF _ _ _ t, of ?m1]) auto
  have "mg_sessions ?m2 = mg_sessions second_share"
    using m'(2) acquire_created [OF m'(1)] by simp
  moreover have "\<not> dhas (mg_sessions first_share) ''session_b''" by code_simp
  then have "admissible (demo_mg_env 2 ''b'') ?b ?m1" by (simp only: admissible.simps m1) (simp add: demo_mg_env_def)
  then have "manager_step (re_dump demo_env) ?m1 ?m2"
    by (intro manager_step.callback) (simp_all add: demo_mg_env_def)
  moreover have "\<not> dhas (mg_sessions demo_manager) ''session_a''" by code_simp
  then have "manager_step (re_dump demo_env) demo_manager ?m1"
    by (intro manager_step.callback) (simp_all add: demo_mg_env_def)
  ultimately show thesis
    by (intro that [of ?m2]) (auto simp: manager_reach_def intro: converse_rtranclp_into_rtranclp)
qed

theorem sessions_stay_exclusive_witness:
  "\<not> ss_exclusive (the (map_of (mg_sessions second_share) ''session_a''))"
proof -
  let ?s = "\<lambda>k. the (map_of (mg_sessions second_share) k)"
  have there: "map_of (mg_sessions second_share) ''session_a'' = Some (?s ''session_a'')"
    "map_of (mg_sessions second_share) ''session_b'' = Some (?s ''session_b'')"
    "''cam'' \<in> set (ss_sensors (?s ''session_a''))" "''cam'' \<in> set (ss_sensors (?s ''session_b''))"
    by code_simp+
  obtain m where run: "manager_reach (re_dump demo_env) demo_manager m" "mg_sessions m = mg_sessions second_share"
    by (rule sharing_run)
  from sessions_stay_exclusive [OF run(1), of "''session_a''" _ "''session_b''" _ "''cam''"] there run(2)
  show ?thesis by (simp add: demo_manager_def)
qed


end
