(* ===== verification/Enrollment_Safety.thy ===== *)
theory Enrollment_Safety
  imports Manager_Safety
begin

section \<open>Enrollments do not interfere\<close>

text \<open>
  The actions of \<^verbatim>\<open>manager_node.py\<close> as a transition system: the node with the enrollments
  that wait for their provider. An enrollment claims the network of its camera; the claim is
  shown to be held by exactly one waiting enrollment. The second part is the automation that
  starts enrollments by itself.
\<close>

subsection \<open>Waiting enrollments\<close>

text \<open>
  The first step of an enrollment either ends it or leaves it waiting; the second step ends
  it. Every other callback may run in between.
\<close>

inductive enroll_step ::
  "(pydict \<Rightarrow> 'f) \<Rightarrow> 'f manager \<times> enroll_job list \<Rightarrow> 'f manager \<times> enroll_job list \<Rightarrow> bool" for dump where
  started: "enroll_begin available goal m = (Inr (Provisioning job), m')
    \<Longrightarrow> enroll_step dump (m, jobs) (m', jobs @ [job])"
| declined: "enroll_begin available goal m = (r, m') \<Longrightarrow> \<forall>job. r \<noteq> Inr (Provisioning job)
    \<Longrightarrow> enroll_step dump (m, jobs) (m', jobs)"
| finished: "re_dump (me_reg env) = dump \<Longrightarrow> enroll_finish env job outcome m = (r, m')
    \<Longrightarrow> enroll_step dump (m, xs @ job # ys) (m', xs @ ys)"
| placed_begin: "place_begin available pgoal m = (p, m') \<Longrightarrow> enroll_step dump (m, jobs) (m', jobs)"
| placed_finish: "re_dump (me_reg env) = dump \<Longrightarrow> place_finish env pjob outcome m = (p, m')
    \<Longrightarrow> enroll_step dump (m, jobs) (m', jobs)"
| other: "re_dump (me_reg env) = dump \<Longrightarrow> admissible env cb m \<Longrightarrow> \<not> is_action cb
    \<Longrightarrow> enroll_step dump (m, jobs) (run_callback env cb m, jobs)"

inductive_cases enroll_stepE: "enroll_step dump s s'"

definition enroll_reach ::
  "(pydict \<Rightarrow> 'f) \<Rightarrow> 'f manager \<times> enroll_job list \<Rightarrow> 'f manager \<times> enroll_job list \<Rightarrow> bool" where
  "enroll_reach dump = (enroll_step dump)\<^sup>*\<^sup>*"

text \<open>The claimed networks are the networks of the waiting enrollments, each of them once.\<close>

fun claims_held :: "'f manager \<times> enroll_job list \<Rightarrow> bool" where
  "claims_held (m, jobs) \<longleftrightarrow>
     distinct (map ej_network jobs) \<and> mg_enrolling_networks m = set (map ej_network jobs)
     \<and> '''' \<notin> mg_enrolling_networks m"

lemma check_enrollment_network: "check_enrollment m goal obs = Inr (sid, nid) \<Longrightarrow> nid \<noteq> ''''"
  by (auto simp: check_enrollment_def Let_def result_simps split: if_splits)

lemma end_enrollmentD:
  "end_enrollment goal claimed q n = (r, m')
    \<Longrightarrow> (\<forall>job. r \<noteq> Inr (Provisioning job)) \<and> m' = release_claims goal claimed n"
  by (auto simp: end_enrollment_def split: sum.splits option.splits)

lemma claim_candidate_frame:
  "claim_candidate goal m = (c, m1)
    \<Longrightarrow> mg_enrolling_networks m1 = mg_enrolling_networks m \<and> mg_registry m1 = mg_registry m"
  by (auto simp: claim_candidate_def split: if_splits)

text \<open>The first step either gains one network that was free, or changes no claim on networks.\<close>

lemma enroll_begin_cases:
  assumes "enroll_begin available goal m = (r, m')"
  obtains (started) job where "r = Inr (Provisioning job)" "ej_network job \<notin> mg_enrolling_networks m"
      "ej_network job \<noteq> ''''" "mg_enrolling_networks m' = insert (ej_network job) (mg_enrolling_networks m)"
      "allocate (mg_machine m) (mg_inventory m) (ej_network job) (eg_address goal) = Inr (ej_allocation job)"
  | (ended) "\<forall>job. r \<noteq> Inr (Provisioning job)" "mg_enrolling_networks m' = mg_enrolling_networks m"
proof -
  obtain c m1 where c: "claim_candidate goal m = (c, m1)" by fastforce
  note m1 = claim_candidate_frame [OF c]
  show thesis
  proof (cases "\<exists>obs sid nid. c = Inr obs \<and> check_enrollment m1 goal obs = Inr (sid, nid) \<and> nid \<notin> mg_enrolling_networks m1")
    case False
    with assms c have "(\<forall>job. r \<noteq> Inr (Provisioning job)) \<and> mg_enrolling_networks m' = mg_enrolling_networks m"
      by (auto simp: enroll_begin_def claim_network_def m1 release_claims_def dest!: end_enrollmentD
        split: sum.splits prod.splits if_splits)
    then show thesis by (auto intro: ended)
  next
    case True
    then obtain obs sid nid where t: "c = Inr obs" "check_enrollment m1 goal obs = Inr (sid, nid)"
      "nid \<notin> mg_enrolling_networks m" by (auto simp: m1)
    note nid = check_enrollment_network [OF t(2)]
    define m2 where "m2 = m1\<lparr>mg_enrolling_networks := insert nid (mg_enrolling_networks m)\<rparr>"
    define q where "q = bindR (allocate (mg_machine m2) (mg_inventory m2) nid (eg_address goal)) (\<lambda>al.
      bindR (provision_client m2 available obs) (\<lambda>_. bindR (py_index (PDict obs) ''serial'') (\<lambda>_. Inr al)))"
    have run: "enroll_begin available goal m =
        (case q of Inl e \<Rightarrow> end_enrollment goal nid (Inl e) m2
         | Inr al \<Rightarrow> (Inr (Provisioning \<lparr>ej_goal = goal, ej_observation = obs, ej_sensor = sid,
              ej_network = nid, ej_allocation = al\<rparr>), m2))"
      unfolding q_def m2_def by (simp add: enroll_begin_def c t claim_network_def m1)
    show thesis
    proof (cases q)
      case (Inl e)
      with assms run t(3) m1 nid show thesis
        by (intro ended) (auto dest!: end_enrollmentD simp: release_claims_def m2_def)
    next
      case (Inr al)
      then have "allocate (mg_machine m2) (mg_inventory m2) nid (eg_address goal) = Inr al"
        unfolding q_def bindR_eq_Inr by blast
      then have "allocate (mg_machine m) (mg_inventory m) nid (eg_address goal) = Inr al"
        by (simp add: m2_def m1)
      moreover define job where "job = \<lparr>ej_goal = goal, ej_observation = obs, ej_sensor = sid,
        ej_network = nid, ej_allocation = al\<rparr>"
      moreover from assms run Inr have "r = Inr (Provisioning job)" "m' = m2" by (simp_all add: job_def)
      ultimately show thesis using t(3) nid
        by (intro started [of job]) (simp_all add: m2_def)
    qed
  qed
qed

text \<open>The second step gives exactly its network back.\<close>

lemma enroll_finish_claims:
  assumes "enroll_finish env job outcome m = (r, m')" and "ej_network job \<noteq> ''''"
  shows "mg_enrolling_networks m' = mg_enrolling_networks m - {ej_network job}"
proof -
  have "keeps same_claims (persist_enrollment env job outcome)"
    unfolding persist_enrollment_def by (intro claims.keeps_registry_ops [OF refl] claims.effect_rules)
  from keepsD [OF this, of m] have "mg_enrolling_networks (snd (persist_enrollment env job outcome m)) = mg_enrolling_networks m"
    by (simp only: same_claims_def)
  moreover have "m' = release_claims (ej_goal job) (ej_network job) (snd (persist_enrollment env job outcome m))"
    using arg_cong [OF assms(1), of snd] by (simp add: enroll_finish_def case_prod_beta)
  ultimately show ?thesis using assms(2) by (simp add: release_claims_def)
qed

lemma place_claims:
  "place_begin available pgoal m = (p, m') \<Longrightarrow> mg_enrolling_networks m' = mg_enrolling_networks m"
  "place_finish env pjob outcome m = (p, m') \<Longrightarrow> mg_enrolling_networks m' = mg_enrolling_networks m"
proof -
  have "mg_enrolling_networks (snd (place_begin available pgoal m)) = mg_enrolling_networks m"
    by (simp add: place_begin_def Let_def split: prod.splits sum.splits option.splits)
  moreover assume "place_begin available pgoal m = (p, m')"
  ultimately show "mg_enrolling_networks m' = mg_enrolling_networks m" by simp
next
  assume run: "place_finish env pjob outcome m = (p, m')"
  have "keeps same_claims (persist_placement env pjob outcome)"
    unfolding persist_placement_def by (intro claims.keeps_registry_ops [OF refl] claims.effect_rules)
  from keepsD [OF this, of m] have "mg_enrolling_networks (snd (persist_placement env pjob outcome m)) = mg_enrolling_networks m"
    by (simp only: same_claims_def)
  moreover have "m' = (snd (persist_placement env pjob outcome m))
      \<lparr>mg_placing := mg_placing (snd (persist_placement env pjob outcome m)) - pj_claimed pjob\<rparr>"
    using arg_cong [OF run, of snd] by (simp add: place_finish_def case_prod_beta)
  ultimately show "mg_enrolling_networks m' = mg_enrolling_networks m" by simp
qed

lemma claims_held_step:
  assumes "enroll_step dump s s'" and "claims_held s"
  shows "claims_held s'"
  using assms
proof (cases rule: enroll_step.cases)
  case (started available goal m job m' jobs)
  from started(3) assms(2) show ?thesis
    by (cases rule: enroll_begin_cases) (auto simp: started)
next
  case (declined available goal m r m' jobs)
  from declined(3) assms(2) declined(4) show ?thesis
    by (cases rule: enroll_begin_cases) (auto simp: declined)
next
  case (finished env job outcome m r m' xs ys)
  with assms(2) have "ej_network job \<noteq> ''''" by auto
  from enroll_finish_claims [OF finished(4) this] assms(2) show ?thesis by (auto simp: finished)
next
  case (placed_begin available pgoal m p m' jobs)
  with place_claims assms(2) show ?thesis by fastforce
next
  case (placed_finish env pjob outcome m p m' jobs)
  with place_claims assms(2) show ?thesis by fastforce
next
  case (other env cb m jobs)
  with claims.callback_kept [of env _ cb m] have "mg_enrolling_networks (run_callback env cb m) = mg_enrolling_networks m"
    by (simp add: same_claims_def)
  with assms(2) show ?thesis by (auto simp: other)
qed

lemma claims_held_reach: "enroll_reach dump s s' \<Longrightarrow> claims_held s \<Longrightarrow> claims_held s'"
  unfolding enroll_reach_def by (induction rule: rtranclp_induct) (auto intro: claims_held_step)

subsection \<open>The automation\<close>

text \<open>What a candidate needs to be enrolled by itself.\<close>

definition may_auto_enroll :: "rat \<Rightarrow> 'f manager \<Rightarrow> string \<Rightarrow> string \<Rightarrow> pydict \<Rightarrow> bool" where
  "may_auto_enroll now m nid cid obs \<longleftrightarrow>
     nid = network_for_observation (mg_machine m) obs \<and> dhas (machine_networks (mg_machine m)) nid
     \<and> is_approved (network_record (mg_machine m) nid)
     \<and> truthy (dget (network_record (mg_machine m) nid) ''auto_enroll'' PNone)
     \<and> \<not> dhas (inv_sensors (mg_inventory m)) cid \<and> \<not> unavailable (mg_inventory m) cid
     \<and> cid \<notin> mg_inflight m \<and> dget (mg_retry_after m) cid 0 \<le> now
     \<and> (\<exists>capacity. port_capacity (mg_machine m) (mg_inventory m) nid = Inr capacity
          \<and> int (length (assigned_to nid (mg_inventory m))) < capacity)
     \<and> (port_mode (mg_machine m) (mg_inventory m) nid = Inr ''direct'' \<longrightarrow> assigned_to nid (mg_inventory m) = [])"

lemma eligible_may:
  assumes "eligible now m busy cid obs = Inr (Some nid)"
  shows "may_auto_enroll now m nid cid obs \<and> nid \<notin> busy"
proof -
  let ?nid = "network_for_observation (mg_machine m) obs"
  from assms obtain mode capacity where
    port: "port_mode (mg_machine m) (mg_inventory m) ?nid = Inr mode"
      "port_capacity (mg_machine m) (mg_inventory m) ?nid = Inr capacity"
      "\<not> (mode = ''direct'' \<and> assigned_to ?nid (mg_inventory m) \<noteq> [])"
      "int (length (assigned_to ?nid (mg_inventory m))) < capacity" "nid = ?nid"
    by (auto simp: eligible_def Let_def bindR_eq_Inr not_le split: if_splits)
  from assms have "\<not> (dhas (inv_sensors (mg_inventory m)) cid \<or> unavailable (mg_inventory m) cid \<or> cid \<in> mg_inflight m
      \<or> now < dget (mg_retry_after m) cid 0
      \<or> \<not> dhas (machine_networks (mg_machine m)) ?nid \<or> \<not> is_approved (network_record (mg_machine m) ?nid)
      \<or> \<not> truthy (dget (network_record (mg_machine m) ?nid) ''auto_enroll'' PNone) \<or> ?nid \<in> busy)"
    unfolding eligible_def Let_def by (rule contrapos_pn) simp
  with port show ?thesis by (auto simp: may_auto_enroll_def)
qed

definition justified :: "rat \<Rightarrow> 'f manager \<Rightarrow> (string \<times> pydict \<times> rat) list \<Rightarrow> enroll_goal \<Rightarrow> bool" where
  "justified now m os g \<longleftrightarrow>
     (\<exists>obs t. (eg_candidate g, obs, t) \<in> set os \<and> may_auto_enroll now m (eg_network g) (eg_candidate g) obs)"

lemma justified_Cons [intro]: "justified now m os g \<Longrightarrow> justified now m (o' # os) g"
  by (auto simp: justified_def)

lemma justified_here: "may_auto_enroll now m (eg_network g) (eg_candidate g) obs
    \<Longrightarrow> justified now m ((eg_candidate g, obs, t) # os) g"
  unfolding justified_def by (rule exI [of _ obs], rule exI [of _ t]) simp

text \<open>The goals the loop starts, each with the observation it is for.\<close>

lemma reconcile_loop_goals:
  assumes "reconcile_loop now ready m0 busy os m = (Inr goals, m')"
  shows "distinct (map eg_network goals)
    \<and> (\<forall>g \<in> set goals. eg_network g \<notin> busy \<and> justified now m0 os g)
    \<and> mg_inflight m' = mg_inflight m \<union> set (map eg_candidate goals)
    \<and> (\<not> ready \<longrightarrow> goals = [])"
  using assms
proof (induction os arbitrary: busy m goals)
  case (Cons o' os)
  obtain cid obs t where o': "o' = (cid, obs, t)" by (cases o')
  show ?case
  proof (cases "\<exists>nid. eligible now m0 busy cid obs = Inr (Some nid)")
    case False
    with Cons.prems have "reconcile_loop now ready m0 busy os m = (Inr goals, m')"
      by (auto simp: o' split: sum.splits option.splits)
    from Cons.IH [OF this] show ?thesis by (auto simp: o')
  next
    case True
    then obtain nid where el: "eligible now m0 busy cid obs = Inr (Some nid)" by blast
    obtain goal m1 where start: "start_auto_enroll now ready cid nid m = (goal, m1)" by fastforce
    with Cons.prems el obtain later where
      later: "reconcile_loop now ready m0 (insert nid busy) os m1 = (Inr later, m')"
        "goals = (case goal of None \<Rightarrow> later | Some g \<Rightarrow> g # later)"
      by (auto simp: o' split: prod.splits sum.splits)
    have goal: "(goal = None \<and> mg_inflight m1 = mg_inflight m \<and> \<not> ready)
        \<or> (\<exists>g. goal = Some g \<and> eg_network g = nid \<and> eg_candidate g = cid
             \<and> mg_inflight m1 = insert cid (mg_inflight m) \<and> ready)"
      using start by (auto simp: start_auto_enroll_def split: if_splits)
    note IH = Cons.IH [OF later(1)]
    show ?thesis
    proof (cases goal)
      case None
      with IH goal later(2) show ?thesis by auto
    next
      case (Some g)
      with goal later(2) have g: "goals = g # later" "eg_network g = nid" "eg_candidate g = cid"
        "mg_inflight m1 = insert cid (mg_inflight m)" ready by auto
      with eligible_may [OF el] have "eg_network g \<notin> busy" "justified now m0 (o' # os) g"
        by (auto simp: o' intro!: justified_here)
      moreover from IH have "\<forall>ga \<in> set later. eg_network ga \<notin> insert nid busy \<and> justified now m0 (o' # os) ga"
        by blast
      ultimately show ?thesis using IH g by auto
    qed
  qed
qed simp

subsection \<open>Properties\<close>

text \<open>C21: Enrollments that wait for their provider are on different networks, and a network is
  claimed exactly while an enrollment waits on it: two cameras are never given an address on
  one network at the same time, and a network is free again when its enrollment has ended,
  however it ended.\<close>

theorem one_enrollment_per_network:
  assumes "enroll_reach dump (m, []) (m', jobs)" and "mg_enrolling_networks m = {}"
  shows "distinct (map ej_network jobs) \<and> mg_enrolling_networks m' = set (map ej_network jobs)"
  using claims_held_reach [OF assms(1)] assms(2) by simp

text \<open>C22: The automation starts an enrollment only for an observed camera that is not enrolled,
  archived, retired or being enrolled, whose retry time has come, on an approved port with
  automatic enrollment that has room for it, and starts at most one per network, none on a
  network that already has one.\<close>

theorem automation_enrolls_only_eligible:
  assumes "reconcile_automation env ready m = (Inr goals, m')"
  shows "distinct (map eg_network goals)
    \<and> (\<forall>g \<in> set goals. eg_network g \<notin> set (dvalues (mg_inflight_networks m))
        \<and> justified (me_now env) m (mg_observations m) g)
    \<and> mg_inflight m' = mg_inflight m \<union> set (map eg_candidate goals)
    \<and> (\<not> ready \<longrightarrow> goals = [])"
  using reconcile_loop_goals [of "me_now env" ready m] assms
  unfolding reconcile_automation_def by blast

subsection \<open>A node with a camera to enroll\<close>

definition waiting_observation :: pydict where
  "waiting_observation = spare_observation @ [(''interface_name'', PStr ''eth0'')]"

definition waiting_manager :: "pydict manager" where
  "waiting_manager = demo_manager
     \<lparr>mg_registry := \<lparr>rg_machine = port_machine, rg_inventory = port_inventory ''switched'', rg_disk = empty_disk\<rparr>,
      mg_observations := [(''spare'', waiting_observation, 1)]\<rparr>"

definition waiting_goal :: enroll_goal where
  "waiting_goal = \<lparr>eg_candidate = ''spare'', eg_network = '''', eg_address = '''', eg_name = ''spare'', eg_location = ''roof''\<rparr>"

lemma waiting_begins:
  obtains job m where "enroll_begin True waiting_goal waiting_manager = (Inr (Provisioning job), m)"
    "ej_network job = ''net0''"
proof -
  obtain al where al: "allocate port_machine (port_inventory ''switched'') ''net0'' '''' = Inr al"
    using port_allocates by blast
  let ?m1 = "waiting_manager\<lparr>mg_enrolling := {''spare''}\<rparr>"
  have "claim_candidate waiting_goal waiting_manager = (Inr waiting_observation, ?m1)"
    by (simp add: claim_candidate_def waiting_goal_def waiting_manager_def demo_manager_def)
  moreover have "check_enrollment ?m1 waiting_goal waiting_observation = Inr (''camera_basler_b2'', ''net0'')"
    by code_simp
  moreover have "py_index (PDict waiting_observation) ''provider'' = Inr (PStr ''genicam'')"
    "py_index (PDict waiting_observation) ''serial'' = Inr (PStr ''B2'')" by code_simp+
  ultimately have "\<exists>m. enroll_begin True waiting_goal waiting_manager =
      (Inr (Provisioning \<lparr>ej_goal = waiting_goal, ej_observation = waiting_observation, ej_sensor = ''camera_basler_b2'',
        ej_network = ''net0'', ej_allocation = al\<rparr>), m)" using al
    by (simp add: enroll_begin_def claim_network_def provision_client_def waiting_manager_def
      demo_manager_def waiting_goal_def)
  then show thesis by (elim exE) (rule that, assumption, simp)
qed

theorem one_enrollment_per_network_witness:
  "mg_enrolling_networks (snd (enroll_begin True waiting_goal waiting_manager)) = {''net0''}"
proof -
  obtain job m where begun: "enroll_begin True waiting_goal waiting_manager = (Inr (Provisioning job), m)"
    and job: "ej_network job = ''net0''" by (rule waiting_begins)
  from begun have "enroll_step undefined (waiting_manager, []) (m, [] @ [job])" by (rule enroll_step.started)
  then have "enroll_reach undefined (waiting_manager, []) (m, [job])"
    unfolding enroll_reach_def by (simp add: r_into_rtranclp)
  moreover have "mg_enrolling_networks waiting_manager = {}" by (simp add: waiting_manager_def demo_manager_def)
  ultimately have "mg_enrolling_networks m = {''net0''}"
    using one_enrollment_per_network job by force
  with begun show ?thesis by simp
qed

text \<open>The same node with automatic enrollment on the port.\<close>

definition auto_manager :: "pydict manager" where
  "auto_manager = waiting_manager
     \<lparr>mg_registry := (mg_registry waiting_manager)\<lparr>rg_machine :=
        [(''managed_networks'', PDict [(''net0'', PDict (dset ''auto_enroll'' (PBool True) port_entry))])]\<rparr>\<rparr>"

definition auto_goal :: enroll_goal where
  "auto_goal = \<lparr>eg_candidate = ''spare'', eg_network = ''net0'', eg_address = '''', eg_name = ''spare'',
     eg_location = ''unknown''\<rparr>"

theorem automation_enrolls_only_eligible_witness: "justified 5 auto_manager (mg_observations auto_manager) auto_goal"
proof -
  let ?run = "reconcile_automation (demo_mg_env 5 '''') True auto_manager"
  have "fst ?run = Inr [auto_goal]" by code_simp
  then have "?run = (Inr [auto_goal], snd ?run)" by (metis prod.collapse)
  from automation_enrolls_only_eligible [OF this] show ?thesis by (simp add: demo_mg_env_def)
qed

end
