(* ===== verification/Paths.thy ===== *)
theory Paths
  imports Prelude
begin

section \<open>File names\<close>

text \<open>
  What the code uses of \<^verbatim>\<open>pathlib\<close>, on absolute paths without \<open>.\<close> and \<open>..\<close> as \<open>resolve\<close> returns
  them, and \<open>PurePath(s).name\<close> for any text.
\<close>

definition path_parts :: "string \<Rightarrow> string list" where
  "path_parts path = filter (\<lambda>p. p \<noteq> '''') (split_on (CHR ''/'') path)"

definition path_name :: "string \<Rightarrow> string" where
  "path_name s =
     (case rev (filter (\<lambda>p. p \<noteq> '''' \<and> p \<noteq> ''.'') (split_on (CHR ''/'') s)) of
        [] \<Rightarrow> ''''
      | p # _ \<Rightarrow> p)"

definition path_in :: "string \<Rightarrow> string \<Rightarrow> string" where
  "path_in directory name = (if directory = ''/'' then directory @ name else directory @ ''/'' @ name)"

definition path_parent :: "string \<Rightarrow> string" where
  "path_parent p =
     (let ps = butlast (split_on (CHR ''/'') p) in if length ps \<le> 1 then ''/'' else join ''/'' ps)"

lemma split_on_parts: "p \<in> set (split_on c s) \<Longrightarrow> c \<notin> set p"
proof (induction s arbitrary: p)
  case (Cons x s)
  show ?case
  proof (cases "x = c")
    case True
    with Cons show ?thesis by auto
  next
    case False
    obtain y ys where ys: "split_on c s = y # ys" by (cases "split_on c s") auto
    with False Cons.prems have "p = x # y \<or> p \<in> set ys" by auto
    with Cons.IH ys False show ?thesis by auto
  qed
qed simp

lemma path_name_no_slash: "CHR ''/'' \<notin> set (path_name s)"
proof (cases "rev (filter (\<lambda>p. p \<noteq> '''' \<and> p \<noteq> ''.'') (split_on (CHR ''/'') s))")
  case Nil
  then show ?thesis by (simp add: path_name_def)
next
  case (Cons p ps)
  have "p \<in> set (rev (filter (\<lambda>p. p \<noteq> '''' \<and> p \<noteq> ''.'') (split_on (CHR ''/'') s)))"
    unfolding Cons by simp
  then have "p \<in> set (split_on (CHR ''/'') s)" by simp
  with Cons show ?thesis by (simp add: path_name_def split_on_parts)
qed

end
