(* ===== verification/Manager_Start.thy ===== *)
theory Manager_Start
  imports Manager_Safety Enrollment_Safety Paths
begin

section \<open>Starting the manager\<close>

text \<open>
  \<open>InventoryManager.__init__\<close> of \<^verbatim>\<open>manager_node.py\<close> as far as it computes the node's state: the
  path of the inventory, the registry and the profiles it loads, the checks that refuse to
  start, the limits taken from the configuration, the providers it connects to, and the first
  publication. Creating publishers, services and timers is not modelled. The properties of the
  runs hold from here on.
\<close>

subsection \<open>The inventory's path\<close>

text \<open>\<open>_writable_inventory_path\<close>: whether a file can be created beside the requested one decides.\<close>

record start_host =
  hs_expand :: "string \<Rightarrow> string"
  hs_writable :: "string \<Rightarrow> bool"
  hs_state_home :: "string option"
  hs_home :: string
  hs_can_create :: "string \<Rightarrow> bool"

definition writable_inventory_path :: "start_host \<Rightarrow> string \<Rightarrow> string result" where
  "writable_inventory_path host requested =
     (let path = hs_expand host requested;
          state = (case hs_state_home host of Some d \<Rightarrow> d | None \<Rightarrow> path_in (hs_home host) ''.local/state'');
          fallback = path_in state ''vixel/inventory.yaml'' in
      if hs_writable host path then Inr path
      else if hs_can_create host fallback then Inr fallback else Inl OSErr)"

subsection \<open>The node's first state\<close>

record 'f node_params =
  np_machine :: "'f option"
  np_legacy :: "'f option"
  np_inventory :: "'f disk"
  np_profile_file :: "'f disk"
  np_timeout :: rat
  np_backend :: string
  np_preview :: bool

definition blank_node :: "'f node_params \<Rightarrow> 'f registry \<Rightarrow> profiles \<Rightarrow> 'f manager" where
  "blank_node p r profiles =
     \<lparr>mg_registry = r, mg_profiles = profiles, mg_profile_file = np_profile_file p, mg_backend = np_backend p,
      mg_default_mode = (if np_preview p then ''preview'' else ''idle''), mg_generation = 1,
      mg_observations = [], mg_checkpoints = [], mg_runtime = [], mg_provider_groups = [],
      mg_sensor_modes = [], mg_group_modes = [], mg_group_intervals = [], mg_sessions = [],
      mg_session_generation = 1, mg_pending = [], mg_applying = {}, mg_session_ttl = 0,
      mg_observation_timeout = max (np_timeout p) 2, mg_catalog_dirty = False, mg_port_version = 0,
      mg_providers = [], mg_inflight = {}, mg_inflight_networks = [], mg_retry_after = [],
      mg_enrolling = {}, mg_enrolling_networks = {}, mg_placing = {}\<rparr>"

definition session_ttl :: "pydict \<Rightarrow> rat result" where
  "session_ttl machine =
     bindR (py_index (PDict machine) ''recording'') (\<lambda>recording.
     bindR (py_index recording ''capture_session_ttl_ms'') (\<lambda>v.
     bindR (py_int v) (\<lambda>ms. Inr (of_int ms / 1000))))"

definition recorded_providers :: "pydict \<Rightarrow> string list result" where
  "recorded_providers sensors =
     mapR (\<lambda>(sid, s). bindR (py_index s ''provider'') (\<lambda>p. Inr (py_str p))) sensors"

definition machine_providers :: "pydict \<Rightarrow> pydict" where
  "machine_providers machine = dict_of (dget machine ''providers'' (PDict []))"

definition connected_providers :: "pydict \<Rightarrow> pydict \<Rightarrow> string \<Rightarrow> string list result" where
  "connected_providers machine ivt backend =
     bindR (recorded_providers (inv_sensors ivt)) (\<lambda>enrolled.
     bindR (recorded_providers (inv_known ivt)) (\<lambda>known.
     Inr (sort (remdups (dkeys (machine_providers machine) @ enrolled @ known @ [backend])))))"

definition start_node :: "'f mg_env \<Rightarrow> 'f node_params \<Rightarrow> 'f manager result \<times> 'f disk" where
  "start_node env p =
     (case open_registry (me_reg env) (np_machine p) (np_legacy p) (np_inventory p) of
        (Inl e, d) \<Rightarrow> (Inl e, d)
      | (Inr r, d) \<Rightarrow>
          (bindR (py_index (PDict (rg_machine r)) ''camera_profiles'') (\<lambda>section.
           bindR (py_index section ''directory'') (\<lambda>_.
           bindR (py_index section ''managed_file'') (\<lambda>_.
           bindR (load_camera_profiles (re_load (me_reg env)) (me_profile_dir env) (dk_file (np_profile_file p))) (\<lambda>profiles.
           (let m = blank_node p r profiles; missing = missing_profiles m profiles in
            if missing \<noteq> [] then
              Inl (RegistryError (''inventory selects missing camera profiles: '' @ join '', '' missing))
            else if \<not> dhas (machine_providers (rg_machine r)) (np_backend p) then
              Inl (RegistryError (''camera backend '' @ np_backend p @ '' is absent from machine providers''))
            else
              bindR (session_ttl (rg_machine r)) (\<lambda>ttl.
              bindR (connected_providers (rg_machine r) (rg_inventory r) (np_backend p)) (\<lambda>providers.
              Inr (m\<lparr>mg_session_ttl := ttl, mg_providers := providers\<rparr>)))))))), d))"

text \<open>The constructor ends with the first publication.\<close>

definition start_manager :: "'f mg_env \<Rightarrow> 'f node_params \<Rightarrow> 'f manager result" where
  "start_manager env p =
     bindR (fst (start_node env p)) (\<lambda>m.
       case publishing env m of (Inl e, m') \<Rightarrow> Inl e | (Inr _, m') \<Rightarrow> Inr m')"

subsection \<open>What a started node satisfies\<close>

text \<open>The start of every run: valid documents, known profiles, connected providers, nothing in use.\<close>

definition fresh_node :: "'f manager \<Rightarrow> bool" where
  "fresh_node m \<longleftrightarrow>
     valid_machine (mg_machine m) \<and> valid_inventory (mg_machine m) (mg_inventory m)
     \<and> missing_profiles m (mg_profiles m) = []
     \<and> sorted (mg_providers m) \<and> distinct (mg_providers m) \<and> mg_backend m \<in> set (mg_providers m)
     \<and> set (dkeys (machine_providers (mg_machine m))) \<subseteq> set (mg_providers m)
     \<and> (\<forall>(sid, s) \<in> set (inv_sensors (mg_inventory m)). \<forall>p. runtime_provider m (dict_of s) = Inr p \<longrightarrow> p \<in> set (mg_providers m))
     \<and> 5 \<le> mg_session_ttl m \<and> mg_session_ttl m \<le> 300 \<and> 2 \<le> mg_observation_timeout m
     \<and> mg_sessions m = [] \<and> mg_enrolling m = {} \<and> mg_enrolling_networks m = {} \<and> mg_placing m = {}
     \<and> mg_pending m = [] \<and> mg_applying m = {}"

lemma session_ttl_range:
  assumes "valid_machine machine" and "session_ttl machine = Inr ttl"
  shows "5 \<le> ttl \<and> ttl \<le> 300"
proof -
  from assms(2) obtain recording v ms where r: "map_of machine ''recording'' = Some recording"
    "py_index recording ''capture_session_ttl_ms'' = Inr v" "py_int v = Inr ms" "ttl = of_int ms / 1000"
    by (auto simp: session_ttl_def result_simps or_raise_def split: option.splits)
  from r(2) obtain d where d: "recording = PDict d" "map_of d ''capture_session_ttl_ms'' = Some v"
    by (cases recording) (auto simp: or_raise_def split: option.splits)
  have "int_between (machine_section machine ''recording'') ''capture_session_ttl_ms'' 5000 300000"
    using assms(1) by (simp add: valid_machine_def)
  with r d have "5000 \<le> ms" "ms \<le> 300000"
    by (simp_all add: int_between_def machine_section_def dget_def)
  then show ?thesis by (simp add: r(4) le_divide_eq divide_le_eq)
qed

lemma recorded_member:
  assumes "recorded_providers sensors = Inr ps" and "(sid, s) \<in> set sensors" and "py_index s ''provider'' = Inr p"
  shows "py_str p \<in> set ps"
  using assms
proof (induction sensors arbitrary: ps)
  case (Cons x sensors)
  then show ?case by (cases x) (auto simp: recorded_providers_def result_simps)
qed simp

lemma started_providers:
  assumes "connected_providers machine ivt backend = Inr providers"
  shows "sorted providers" "distinct providers" "backend \<in> set providers"
    "set (dkeys (machine_providers machine)) \<subseteq> set providers"
    "(sid, s) \<in> set (inv_sensors ivt) \<Longrightarrow> py_index s ''provider'' = Inr p \<Longrightarrow> py_str p \<in> set providers"
  using assms recorded_member [of "inv_sensors ivt" _ sid s p]
  by (auto simp del: set_map simp: connected_providers_def result_simps)

lemma publishing_keeps [simp]:
  "mg_profiles (snd (publishing env m)) = mg_profiles m" "mg_backend (snd (publishing env m)) = mg_backend m"
  "mg_providers (snd (publishing env m)) = mg_providers m" "mg_pending (snd (publishing env m)) = mg_pending m"
  "mg_applying (snd (publishing env m)) = mg_applying m" "mg_enrolling (snd (publishing env m)) = mg_enrolling m"
  "mg_enrolling_networks (snd (publishing env m)) = mg_enrolling_networks m"
  "mg_placing (snd (publishing env m)) = mg_placing m"
  "mg_observation_timeout (snd (publishing env m)) = mg_observation_timeout m"
  by (simp_all add: publishing_def publish_state_def Let_def prune_observations_def refresh_ports_def bump_def)

lemma fresh_publishing: "fresh_node m \<Longrightarrow> fresh_node (snd (publishing env m))"
  by (auto simp: fresh_node_def missing_profiles_def selected_profiles_def runtime_provider_def)

lemma started_fresh:
  assumes "start_node env p = (Inr m, d)"
  shows "fresh_node m"
proof -
  from assms obtain r profiles ttl providers where
    r: "open_registry (me_reg env) (np_machine p) (np_legacy p) (np_inventory p) = (Inr r, d)" and
    known: "missing_profiles (blank_node p r profiles) profiles = []" and
    backend: "dhas (machine_providers (rg_machine r)) (np_backend p)" and
    ttl: "session_ttl (rg_machine r) = Inr ttl" and
    providers: "connected_providers (rg_machine r) (rg_inventory r) (np_backend p) = Inr providers" and
    m: "m = (blank_node p r profiles)\<lparr>mg_session_ttl := ttl, mg_providers := providers\<rparr>"
    unfolding start_node_def Let_def
    by (auto simp: bindR_eq_Inr split: prod.splits sum.splits if_splits)
  then obtain mf where "np_machine p = Some mf"
    by (cases "np_machine p") (auto simp: open_registry_def or_raise_def)
  with r obtain mdoc where "validate_machine mdoc = Inr (rg_machine r)" and
    ivt: "valid_inventory (rg_machine r) (rg_inventory r)"
    by (auto elim: open_registry_Inr)
  then have machine: "valid_machine (rg_machine r)" by (blast intro: validate_machine_valid)
  have provider: "q \<in> set providers"
    if "(sid, s) \<in> set (inv_sensors (rg_inventory r))" "runtime_provider m (dict_of s) = Inr q" for sid s q
  proof (cases "dget (dict_of s) ''kind'' (PStr ''camera'') = PStr ''camera''")
    case True
    with that(2) have "q = np_backend p" by (simp add: runtime_provider_def m blank_node_def)
    with started_providers(3) [OF providers] show ?thesis by simp
  next
    case False
    with that(2) obtain v where v: "py_index (PDict (dict_of s)) ''provider'' = Inr v" "q = py_str v"
      unfolding runtime_provider_def by (auto simp: bindR_eq_Inr)
    then have "py_index s ''provider'' = Inr v" by (cases s) (auto simp: or_raise_def)
    with started_providers(5) [OF providers that(1)] v(2) show ?thesis by simp
  qed
  have "missing_profiles m (mg_profiles m) = missing_profiles (blank_node p r profiles) profiles"
    by (simp add: m blank_node_def missing_profiles_def selected_profiles_def)
  with machine ivt known provider session_ttl_range [OF machine ttl] started_providers(1-4) [OF providers]
  show ?thesis
    unfolding fresh_node_def by (intro conjI) (auto simp: m blank_node_def)
qed

subsection \<open>Properties\<close>

text \<open>C36: A node that starts has valid documents, every camera profile its inventory selects, limits
  within their ranges, a connection to the provider of every enrolled camera, and nothing in
  use; and in every run from there two sessions share a camera only if neither is exclusive.\<close>

theorem started_nodes_are_sound:
  assumes "start_manager env p = Inr m"
  shows "fresh_node m \<and> (\<forall>dump m'. manager_reach dump m m' \<longrightarrow> sessions_inv (mg_sessions m'))"
proof -
  from assms obtain n where n: "fst (start_node env p) = Inr n"
    and pub: "(case publishing env n of (Inl e, m') \<Rightarrow> Inl e | (Inr _, m') \<Rightarrow> Inr m') = Inr m"
    unfolding start_manager_def bindR_eq_Inr by blast
  from pub have m: "snd (publishing env n) = m"
    by (cases "publishing env n"; cases "fst (publishing env n)") auto
  from n have "start_node env p = (Inr n, snd (start_node env p))" by (simp add: prod_eq_iff)
  then have fresh: "fresh_node m" using fresh_publishing [OF started_fresh] m by metis
  then have "mg_sessions m = []" by (simp add: fresh_node_def)
  then have "sessions_inv (mg_sessions m')" if "manager_reach dump m m'" for dump m'
    using leases.reach_kept [OF that] by (simp add: sessions_kept_def sessions_inv_def)
  with fresh show ?thesis by blast
qed

subsection \<open>A concrete start\<close>

text \<open>An empty machine file and no inventory.\<close>

definition demo_params :: "pydict node_params" where
  "demo_params = \<lparr>np_machine = Some [], np_legacy = None, np_inventory = empty_disk, np_profile_file = empty_disk,
     np_timeout = 6, np_backend = ''genicam'', np_preview = False\<rparr>"

lemma demo_starts: "\<not> isl (start_manager (demo_mg_env 1 '''') demo_params)"
  by code_simp

theorem started_nodes_are_sound_witness:
  "\<exists>m. start_manager (demo_mg_env 1 '''') demo_params = Inr m \<and> fresh_node m"
proof -
  from demo_starts obtain m where m: "start_manager (demo_mg_env 1 '''') demo_params = Inr m"
    by (cases "start_manager (demo_mg_env 1 '''') demo_params") auto
  from m started_nodes_are_sound [OF m] show ?thesis by blast
qed

end
