(* ===== verification/Gateway_Messages.thy ===== *)
theory Gateway_Messages
  imports Json
begin

section \<open>What the gateway shows of the manager's messages\<close>

text \<open>
  The functions \<open>..._to_dict\<close> of \<^verbatim>\<open>vixel_web/gateway.py\<close>. A received message is the dictionary
  of its attributes; its type (\<^verbatim>\<open>vixel_interfaces/msg\<close>) gives every attribute a value of its
  type, on which the code's \<open>int()\<close>, \<open>float()\<close>, \<open>bool()\<close> and \<open>list()\<close> are the identity.
  \<open>getattr(message, name, default)\<close> is a lookup with that default.
\<close>

definition attr :: "pydict \<Rightarrow> string \<Rightarrow> pyval" where
  "attr msg name = dget msg name PNone"

definition attrs_of :: "pydict \<Rightarrow> string \<Rightarrow> pydict" where
  "attrs_of msg name = dict_of (attr msg name)"

definition attr_text :: "pydict \<Rightarrow> string \<Rightarrow> string" where
  "attr_text msg name = str_of (attr msg name)"

definition copied :: "pydict \<Rightarrow> string list \<Rightarrow> pydict" where
  "copied msg names = map (\<lambda>name. (name, attr msg name)) names"

definition copied_or :: "pydict \<Rightarrow> pydict \<Rightarrow> pydict" where
  "copied_or msg defaults = map (\<lambda>(name, v). (name, dget msg name v)) defaults"

lemma map_of_copied: "name \<in> set names \<Longrightarrow> map_of (copied msg names) name = Some (attr msg name)"
  by (induction names) (auto simp: copied_def)

lemma map_of_copied_None: "name \<notin> set names \<Longrightarrow> map_of (copied msg names) name = None"
  by (auto simp: copied_def map_of_eq_None_iff)

text \<open>\<open>_json_value\<close> and the nested \<open>decoded\<close> of \<open>camera_feature_to_dict\<close>.\<close>

definition json_or :: "pyval \<Rightarrow> pyval \<Rightarrow> pyval" where
  "json_or v d =
     (case v of
        PStr s \<Rightarrow> (case json_loads s of Inr w \<Rightarrow> w | Inl e \<Rightarrow> d)
      | _ \<Rightarrow> d)"

definition decoded :: "pyval \<Rightarrow> pyval \<Rightarrow> pyval" where
  "decoded v d = (if truthy v then json_or v d else d)"

definition time_to_dict :: "pydict \<Rightarrow> pyval" where
  "time_to_dict t = PDict (copied t [''sec'', ''nanosec''])"

definition pose_document :: "pydict \<Rightarrow> pyval" where
  "pose_document pose = PDict
     [(''position'', PDict (copied (attrs_of pose ''position'') [''x'', ''y'', ''z''])),
      (''orientation'', PDict (copied (attrs_of pose ''orientation'') [''x'', ''y'', ''z'', ''w'']))]"

definition sensor_to_dict :: "pydict \<Rightarrow> pydict" where
  "sensor_to_dict msg =
     copied msg [''sensor_id'', ''provider'', ''kind'', ''vendor'', ''model'', ''serial'', ''mac_address'',
       ''enrolled'', ''enabled'', ''online'', ''lifecycle_state'', ''display_name'', ''location_label'',
       ''has_pose'', ''parent_frame'']
     @ [(''pose'', pose_document (attrs_of msg ''pose''))]
     @ copied msg [''calibration_url'', ''topic_base'', ''network_id'', ''assigned_address'',
         ''current_address'', ''interface_name'', ''sync_group'']
     @ copied_or msg [(''capture_group_ids'', PList [])]
     @ copied msg [''operating_mode'', ''capture_ready'', ''capabilities'', ''last_error'', ''managed'',
         ''pending_action'', ''status_detail'']
     @ [(''applied_settings'', json_or (attr msg ''applied_settings_json'') (PDict []))]
     @ copied msg [''stream_health_state'', ''stream_completed_buffers'', ''stream_failed_buffers'',
         ''stream_underruns'', ''stream_resent_packets'', ''stream_missing_packets'',
         ''stream_restart_count'']"

definition camera_feature_to_dict :: "pydict \<Rightarrow> pydict" where
  "camera_feature_to_dict msg =
     (let or_else = (\<lambda>name d. if truthy (attr msg name) then attr msg name else d) in
      copied msg [''name'']
      @ [(''display_name'', or_else ''display_name'' (attr msg ''name'')),
         (''category'', or_else ''category'' (PStr ''Other''))]
      @ copied msg [''value_type'', ''readable'', ''writable'', ''available'', ''editable'']
      @ [(''current_value'', decoded (attr msg ''current_value_json'') PNone),
         (''minimum'', decoded (attr msg ''minimum_value_json'') PNone),
         (''maximum'', decoded (attr msg ''maximum_value_json'') PNone),
         (''increment'', decoded (attr msg ''increment_value_json'') PNone)]
      @ copied msg [''enum_values'', ''unit'', ''description'', ''visibility'', ''representation'']
      @ [(''selector_context'', decoded (attr msg ''selector_context_json'') (PDict []))]
      @ copied msg [''lock_reason''])"

definition known_sensor_to_dict :: "pydict \<Rightarrow> pydict" where
  "known_sensor_to_dict msg =
     copied msg [''sensor_id'', ''provider'', ''kind'', ''vendor'', ''model'', ''serial'', ''mac_address'',
       ''capabilities'', ''catalog_state'', ''enrolled'', ''online'', ''managed'', ''first_seen_at'',
       ''last_seen_at'', ''sighting_count'', ''transport'', ''interface_name'', ''current_address'',
       ''network_id'', ''notes'']
     @ copied_or msg [(''camera_profile'', PStr '''')]
     @ [(''provider_settings'', json_or (attr msg ''provider_settings_json'') (PDict [])),
        (''last_configuration'', json_or (attr msg ''last_configuration_json'') PNone),
        (''changes'', json_or (attr msg ''changes_json'') (PList []))]
     @ copied msg [''replaced_by'']"

definition group_to_dict :: "pydict \<Rightarrow> pydict" where
  "group_to_dict msg =
     copied msg [''group_id'', ''provider'', ''member_ids'', ''missing_policy'', ''trigger_source'',
       ''operating_mode'', ''preview_rate_hz'', ''preferred_master_id'', ''synchronization_method'',
       ''ptp_ready'', ''synchronized_member_ids'', ''locking_member_ids'', ''unsynchronized_member_ids'',
       ''max_ptp_offset_ns'']
     @ copied_or msg [(''requested_capture_interval_ms'', PInt 0), (''cadence_configured'', PBool False),
         (''cadence_ready'', PBool False), (''minimum_capture_interval_ms'', PInt 0),
         (''maximum_capture_rate_hz'', PFloat (Dec 0 0)), (''action_queue_size'', PInt 0),
         (''cadence_limit_reason'', PStr '''')]
     @ copied msg [''ready'', ''online_member_ids'', ''missing_member_ids'', ''last_error'']"

definition port_to_dict :: "pydict \<Rightarrow> pydict" where
  "port_to_dict msg =
     copied msg [''network_id'', ''interface_name'', ''interface_mac'', ''mode'', ''approved'',
       ''auto_enroll'', ''configured'', ''link_up'', ''host_cidr'', ''capacity'', ''enrolled_sensor_ids'',
       ''discovered_candidate_ids'', ''lifecycle_state'', ''last_error'']"

definition camera_timing_to_dict :: "pyval \<Rightarrow> pyval" where
  "camera_timing_to_dict timing =
     PDict (copied (dict_of timing) [''sensor_id'', ''device_timestamp_ns'', ''ptp_offset_ns'', ''synchronized''])"

definition capture_record_to_dict :: "pydict \<Rightarrow> pydict" where
  "capture_record_to_dict msg =
     copied msg [''capture_id'']
     @ copied_or msg [(''operation_id'', PStr ''''), (''cycle'', PInt 0)]
     @ [(''metadata'', json_or (dget msg ''metadata_json'' (PStr '''')) (PDict [])),
        (''capture_timings'', json_or (dget msg ''timings_json'' (PStr '''')) (PDict []))]
     @ copied msg [''group_id'']
     @ copied_or msg [(''capture_kind'', PStr ''production''), (''target_kind'', PStr ''group''),
         (''target_id'', attr msg ''group_id'')]
     @ copied msg [''status'', ''directory'', ''message'', ''started_at'', ''completed_at'']
     @ [(''scheduled_time'', time_to_dict (attrs_of msg ''scheduled_time''))]
     @ copied msg [''trigger_span_ns'']
     @ copied_or msg [(''exposure_skew_ns'', PInt 0), (''within_tolerance'', PBool False)]
     @ [(''camera_timings'',
          PList (map camera_timing_to_dict (list_of (dget msg ''camera_timings'' (PList [])))))]
     @ copied msg [''requested_sensor_ids'', ''participating_sensor_ids'', ''saved_sensor_ids'',
         ''missing_sensor_ids'']"

definition capture_operation_to_dict :: "pydict \<Rightarrow> pydict" where
  "capture_operation_to_dict msg =
     copied msg [''operation_id'', ''kind'']
     @ copied_or msg [(''session_id'', PStr ''''), (''target_kind'', PStr ''''), (''target_id'', PStr '''')]
     @ copied msg [''status'', ''message'', ''group_ids'', ''requested_cycles'', ''scheduled_cycles'',
         ''completed_cycles'', ''failed_cycles'', ''pending_saves'', ''capture_ids'']
     @ copied_or msg [(''capture_id_count'', PInt 0), (''capture_ids_truncated'', PBool False)]
     @ [(''first_scheduled_time'', time_to_dict (attrs_of msg ''first_scheduled_time'')),
        (''last_scheduled_time'', time_to_dict (attrs_of msg ''last_scheduled_time''))]
     @ copied msg [''interval_ms'', ''synchronize_groups'']
     @ [(''metadata'', json_or (attr msg ''metadata_json'') (PDict []))]"

definition capture_session_to_dict :: "pydict \<Rightarrow> pydict" where
  "capture_session_to_dict msg =
     copied msg [''session_id'', ''owner_id'', ''target_kind'', ''target_ids'', ''group_ids'', ''sensor_ids'',
       ''requested_interval_ms'', ''exclusive'', ''status'', ''message'']
     @ [(''expires_at'', time_to_dict (attrs_of msg ''expires_at''))]"

text \<open>
  A dictionary comprehension over an array of messages: a later message with the same key
  replaces the value of the earlier one.
\<close>

definition keyed :: "string \<Rightarrow> (pydict \<Rightarrow> 'v) \<Rightarrow> pydict list \<Rightarrow> 'v dict" where
  "keyed key f msgs = foldl (\<lambda>d msg. dset (attr_text msg key) (f msg) d) [] msgs"

lemma keyed_snoc: "keyed key f (msgs @ [msg]) = dset (attr_text msg key) (f msg) (keyed key f msgs)"
  by (simp add: keyed_def)

lemma dkeys_keyed: "set (dkeys (keyed key f msgs)) = (\<lambda>msg. attr_text msg key) ` set msgs"
  by (induction msgs rule: rev_induct) (auto simp: keyed_snoc dkeys_dset simp del: set_map, simp add: keyed_def)

lemma distinct_keyed: "distinct (dkeys (keyed key f msgs))"
  by (induction msgs rule: rev_induct) (simp_all add: keyed_snoc distinct_dset, simp add: keyed_def)

text \<open>The last message with a key is the one shown.\<close>

lemma map_of_keyed_Some:
  "map_of (keyed key f msgs) k = Some v \<Longrightarrow> \<exists>msg \<in> set msgs. attr_text msg key = k \<and> v = f msg"
proof (induction msgs rule: rev_induct)
  case Nil
  then show ?case by (simp add: keyed_def)
next
  case (snoc msg msgs)
  then show ?case
    by (cases "attr_text msg key = k") (auto simp: keyed_snoc map_of_dset)
qed

end
