(* ===== verification/Gateway_State.thy ===== *)
theory Gateway_State
  imports Gateway_Messages
begin

section \<open>The state of the web gateway\<close>

text \<open>
  The attributes of \<^verbatim>\<open>GatewayNode\<close> (\<^verbatim>\<open>vixel_web/gateway.py\<close>) and the callbacks that change
  them. Every callback takes the node's lock for its whole body, so a run of the gateway
  is a sequence of callbacks; \<open>gateway_step\<close> lists them and \<open>gateway_run\<close> closes them.
  A callback that reads the monotonic clock takes the time as its argument, and a new
  operation takes its \<^verbatim>\<open>uuid4\<close>.

  The table of operations is the part with a protocol: an operation is queued by a request,
  and its thread moves it to running and then to succeeded or failed, while feedback of the
  action arrives in between. The number of unfinished operations and of finished ones that
  are kept is limited.
\<close>

subsection \<open>Data\<close>

record operation =
  op_id :: string
  op_kind :: string
  op_target :: string
  op_state :: string
  op_stage :: string
  op_detail :: string
  op_progress :: int
  op_message :: string

record frame =
  fr_data :: string
  fr_received :: rat
  fr_generation :: int
  fr_type :: string

record gateway =
  gw_generation :: int
  gw_last_state :: rat
  gw_sensors :: "pydict dict"
  gw_known_sensors :: "pydict dict"
  gw_groups :: "pydict dict"
  gw_ports :: "pydict dict"
  gw_operations :: "operation dict"
  gw_history_limit :: int
  gw_max_active :: int
  gw_capture_operations :: "pydict dict"
  gw_capture_sessions :: "pydict dict"
  gw_capture_records :: "pydict list"
  gw_frames :: "frame dict"
  gw_preview_topics :: "string dict"
  gw_preview_demand :: "rat dict"
  gw_subscriptions :: "string dict"

definition demand_timeout :: rat where
  "demand_timeout = 5"

definition new_gateway :: "int \<Rightarrow> int \<Rightarrow> gateway" where
  "new_gateway history max_active =
     \<lparr>gw_generation = 0, gw_last_state = 0, gw_sensors = [], gw_known_sensors = [], gw_groups = [],
      gw_ports = [], gw_operations = [], gw_history_limit = history, gw_max_active = max_active,
      gw_capture_operations = [], gw_capture_sessions = [], gw_capture_records = [], gw_frames = [],
      gw_preview_topics = [], gw_preview_demand = [], gw_subscriptions = []\<rparr>"

subsection \<open>The limits of the machine file\<close>

definition integer_limit :: "pydict \<Rightarrow> string \<Rightarrow> int \<Rightarrow> int result" where
  "integer_limit recording key d =
     (case py_int (dget recording key (PInt d)) of
        Inr i \<Rightarrow> Inr i
      | Inl TypeErr \<Rightarrow> Inl (RuntimeErr ''recording limits must be integers'')
      | Inl ValueErr \<Rightarrow> Inl (RuntimeErr ''recording limits must be integers'')
      | Inl e \<Rightarrow> Inl e)"

text \<open>The settings are the result time-out in milliseconds and the two limits.\<close>

definition recording_runtime_settings :: "pydict \<Rightarrow> (int \<times> int \<times> int) result" where
  "recording_runtime_settings machine =
     (let section = dget machine ''recording'' PNone in
      case (if truthy section then section else PDict []) of
        PDict recording \<Rightarrow>
          bindR (integer_limit recording ''capture_timeout_ms'' 10000) (\<lambda>timeout.
          bindR (integer_limit recording ''operation_history_limit'' 100) (\<lambda>history.
          bindR (integer_limit recording ''max_active_operations'' 64) (\<lambda>max_active.
          if \<not> (1000 \<le> timeout \<and> timeout \<le> 60000) then
            Inl (RuntimeErr ''recording.capture_timeout_ms must be between 1000 and 60000'')
          else if \<not> (1 \<le> history \<and> history \<le> 1000) then
            Inl (RuntimeErr ''recording.operation_history_limit must be between 1 and 1000'')
          else if \<not> (1 \<le> max_active \<and> max_active \<le> 256) then
            Inl (RuntimeErr ''recording.max_active_operations must be between 1 and 256'')
          else Inr (2 * timeout + 20000, history, max_active))))
      | _ \<Rightarrow> Inl (RuntimeErr ''recording configuration must be a mapping''))"

text \<open>
  The machine file: what \<^verbatim>\<open>open\<close> and \<^verbatim>\<open>yaml.safe_load\<close> yield is a parameter, an exception
  with its text or the document.
\<close>

definition load_recording_runtime_settings :: "string \<Rightarrow> string + pyval \<Rightarrow> (int \<times> int \<times> int) result" where
  "load_recording_runtime_settings path document =
     (case document of
        Inl message \<Rightarrow> Inl (RuntimeErr (''cannot load machine configuration '' @ path @ '': '' @ message))
      | Inr v \<Rightarrow>
          (case (if truthy v then v else PDict []) of
             PDict machine \<Rightarrow> recording_runtime_settings machine
           | _ \<Rightarrow> Inl (RuntimeErr (''machine configuration '' @ path @ '' must contain a mapping''))))"

lemma loaded_limits:
  "load_recording_runtime_settings path document = Inr (timeout, history, max_active) \<Longrightarrow>
   22000 \<le> timeout \<and> timeout \<le> 140000 \<and> 1 \<le> history \<and> history \<le> 1000 \<and> 1 \<le> max_active \<and> max_active \<le> 256"
  by (auto simp: load_recording_runtime_settings_def recording_runtime_settings_def result_simps Let_def
      split: sum.splits pyval.splits if_splits)

subsection \<open>The manager's arrays\<close>

definition next_generation :: "int \<Rightarrow> gateway \<Rightarrow> gateway" where
  "next_generation published g = g\<lparr>gw_generation := max (gw_generation g + 1) published\<rparr>"

definition preview_capabilities :: "string list" where
  "preview_capabilities = [''compressed_preview'', ''png_preview'', ''jpeg_preview'']"

definition offers_preview :: "pydict \<Rightarrow> bool" where
  "offers_preview msg \<longleftrightarrow>
     truthy (attr msg ''enrolled'')
     \<and> list_ex (\<lambda>c. PStr c \<in> set (list_of (attr msg ''capabilities''))) preview_capabilities
     \<and> attr_text msg ''topic_base'' \<noteq> ''''"

definition preview_topic :: "pydict \<Rightarrow> string" where
  "preview_topic msg = attr_text msg ''topic_base'' @ ''/image_raw/compressed''"

definition drop_preview :: "string \<Rightarrow> gateway \<Rightarrow> gateway" where
  "drop_preview sid g = g
     \<lparr>gw_subscriptions := dpop sid (gw_subscriptions g),
      gw_preview_demand := dpop sid (gw_preview_demand g),
      gw_frames := dpop sid (gw_frames g)\<rparr>"

definition receive_sensors :: "rat \<Rightarrow> int \<Rightarrow> pydict list \<Rightarrow> gateway \<Rightarrow> gateway" where
  "receive_sensors now published msgs g0 =
     (let g = (next_generation published g0)
            \<lparr>gw_last_state := now, gw_sensors := keyed ''sensor_id'' sensor_to_dict msgs,
             gw_preview_topics := keyed ''sensor_id'' preview_topic (filter offers_preview msgs)\<rparr>
      in fold (\<lambda>sid g. if dhas (gw_preview_topics g) sid then g else drop_preview sid g)
           (dkeys (gw_subscriptions g)) g)"

definition receive_groups :: "int \<Rightarrow> pydict list \<Rightarrow> gateway \<Rightarrow> gateway" where
  "receive_groups published msgs g =
     (next_generation published g)\<lparr>gw_groups := keyed ''group_id'' group_to_dict msgs\<rparr>"

definition receive_known_sensors :: "int \<Rightarrow> pydict list \<Rightarrow> gateway \<Rightarrow> gateway" where
  "receive_known_sensors published msgs g =
     (next_generation published g)\<lparr>gw_known_sensors := keyed ''sensor_id'' known_sensor_to_dict msgs\<rparr>"

definition receive_ports :: "int \<Rightarrow> pydict list \<Rightarrow> gateway \<Rightarrow> gateway" where
  "receive_ports published msgs g =
     (next_generation published g)\<lparr>gw_ports := keyed ''network_id'' port_to_dict msgs\<rparr>"

definition receive_capture_records :: "int \<Rightarrow> pydict list \<Rightarrow> gateway \<Rightarrow> gateway" where
  "receive_capture_records published msgs g =
     (next_generation published g)\<lparr>gw_capture_records := map capture_record_to_dict msgs\<rparr>"

definition receive_capture_operations :: "int \<Rightarrow> pydict list \<Rightarrow> gateway \<Rightarrow> gateway" where
  "receive_capture_operations published msgs g =
     (next_generation published g)
       \<lparr>gw_capture_operations := keyed ''operation_id'' capture_operation_to_dict msgs\<rparr>"

definition receive_capture_sessions :: "int \<Rightarrow> pydict list \<Rightarrow> gateway \<Rightarrow> gateway" where
  "receive_capture_sessions published msgs g =
     (next_generation published g)
       \<lparr>gw_capture_sessions := keyed ''session_id'' capture_session_to_dict msgs\<rparr>"

subsection \<open>Previews\<close>

text \<open>
  A subscription is its topic; \<open>gw_preview_demand\<close> is when a browser last asked for the camera.
\<close>

definition request_preview :: "rat \<Rightarrow> string \<Rightarrow> gateway \<Rightarrow> bool \<times> gateway" where
  "request_preview now sid g =
     (let topic = dget (gw_preview_topics g) sid '''' in
      if topic = '''' then (False, g)
      else
        (True, g
          \<lparr>gw_preview_demand := dset sid now (gw_preview_demand g),
           gw_subscriptions := (if dhas (gw_subscriptions g) sid then gw_subscriptions g
             else dset sid topic (gw_subscriptions g))\<rparr>))"

definition drop_demand :: "string \<Rightarrow> gateway \<Rightarrow> gateway" where
  "drop_demand sid g = g
     \<lparr>gw_preview_demand := dpop sid (gw_preview_demand g),
      gw_subscriptions := dpop sid (gw_subscriptions g)\<rparr>"

definition expire_preview_demand :: "rat \<Rightarrow> gateway \<Rightarrow> gateway" where
  "expire_preview_demand now g =
     fold drop_demand (map fst (filter (\<lambda>(sid, t). demand_timeout \<le> now - t) (gw_preview_demand g))) g"

definition content_type :: "string \<Rightarrow> string option" where
  "content_type format =
     (let f = lower format in
      if contains ''png'' f then Some ''image/png''
      else if contains ''jpeg'' f \<or> contains ''jpg'' f then Some ''image/jpeg''
      else None)"

definition receive_frame :: "rat \<Rightarrow> string \<Rightarrow> string \<Rightarrow> string \<Rightarrow> gateway \<Rightarrow> gateway" where
  "receive_frame now sid format data g =
     (case content_type format of
        None \<Rightarrow> g
      | Some t \<Rightarrow>
          (let count = (case map_of (gw_frames g) sid of Some f \<Rightarrow> fr_generation f + 1 | None \<Rightarrow> 1) in
           g\<lparr>gw_frames := dset sid
               \<lparr>fr_data = data, fr_received = now, fr_generation = count, fr_type = t\<rparr> (gw_frames g)\<rparr>))"

subsection \<open>Operations\<close>

definition finished :: "operation \<Rightarrow> bool" where
  "finished p \<longleftrightarrow> op_state p \<in> {''succeeded'', ''failed'', ''cancelled''}"

definition unfinished_count :: "operation dict \<Rightarrow> nat" where
  "unfinished_count ops = length (filter (\<lambda>(i, p). \<not> finished p) ops)"

definition queued_operation :: "string \<Rightarrow> string \<Rightarrow> string \<Rightarrow> operation" where
  "queued_operation uid kind target =
     \<lparr>op_id = uid, op_kind = kind, op_target = target, op_state = ''queued'', op_stage = ''queued'',
      op_detail = ''Waiting to start'', op_progress = 0, op_message = ''''\<rparr>"

definition start_operation :: "string \<Rightarrow> string \<Rightarrow> string \<Rightarrow> gateway \<Rightarrow> operation result \<times> gateway" where
  "start_operation uid kind target g =
     (if gw_max_active g \<le> int (unfinished_count (gw_operations g)) then
        (Inl (RuntimeErr ''gateway reached the active operation limit''), g)
      else
        (Inr (queued_operation uid kind target), g
          \<lparr>gw_operations := dset uid (queued_operation uid kind target) (gw_operations g),
           gw_generation := gw_generation g + 1\<rparr>))"

text \<open>\<open>xs[:-n]\<close> for any integer \<open>n\<close>.\<close>

definition slice_to_minus :: "int \<Rightarrow> 'a list \<Rightarrow> 'a list" where
  "slice_to_minus n xs = (if 0 < n then take (length xs - nat n) xs else take (nat (- n)) xs)"

definition prune_finished :: "int \<Rightarrow> operation dict \<Rightarrow> operation dict" where
  "prune_finished limit ops =
     fold dpop (slice_to_minus limit (map fst (filter (\<lambda>(i, p). finished p) ops))) ops"

definition update_operation :: "string \<Rightarrow> (operation \<Rightarrow> operation) \<Rightarrow> gateway \<Rightarrow> gateway" where
  "update_operation uid change g =
     (case map_of (gw_operations g) uid of
        None \<Rightarrow> g
      | Some p \<Rightarrow> g
          \<lparr>gw_operations := prune_finished (gw_history_limit g) (dset uid (change p) (gw_operations g)),
           gw_generation := gw_generation g + 1\<rparr>)"

text \<open>
  \<open>_run_operation\<close>: the thread starts the operation, the worker's result or exception ends
  it. A result without success is raised as an exception with the same message.
\<close>

definition begin_operation :: "string \<Rightarrow> gateway \<Rightarrow> gateway" where
  "begin_operation uid =
     update_operation uid (\<lambda>p. p\<lparr>op_state := ''running'', op_stage := ''starting'', op_detail := ''Starting''\<rparr>)"

definition finish_operation :: "string \<Rightarrow> bool \<Rightarrow> string \<Rightarrow> gateway \<Rightarrow> gateway" where
  "finish_operation uid success message =
     update_operation uid (\<lambda>p.
       if success then
         p\<lparr>op_state := ''succeeded'', op_stage := ''complete'', op_detail := message, op_progress := 100,
           op_message := message\<rparr>
       else p\<lparr>op_state := ''failed'', op_stage := ''failed'', op_detail := message, op_message := message\<rparr>)"

definition operation_feedback :: "string \<Rightarrow> string \<Rightarrow> string \<Rightarrow> int \<Rightarrow> gateway \<Rightarrow> gateway" where
  "operation_feedback uid stage detail progress =
     update_operation uid (\<lambda>p.
       p\<lparr>op_state := ''running'', op_stage := stage, op_detail := detail, op_progress := progress\<rparr>)"

subsection \<open>What the gateway answers from its state\<close>

definition operation_dict :: "operation \<Rightarrow> pydict" where
  "operation_dict p =
     [(''operation_id'', PStr (op_id p)), (''kind'', PStr (op_kind p)), (''target'', PStr (op_target p)),
      (''state'', PStr (op_state p)), (''stage'', PStr (op_stage p)), (''detail'', PStr (op_detail p)),
      (''progress_percent'', PInt (op_progress p)), (''message'', PStr (op_message p))]"

definition state_snapshot :: "gateway \<Rightarrow> pydict" where
  "state_snapshot g =
     [(''generation'', PInt (gw_generation g)),
      (''sensors'', PList (map PDict (dvalues (gw_sensors g)))),
      (''known_sensors'', PList (map PDict (dvalues (gw_known_sensors g)))),
      (''groups'', PList (map PDict (dvalues (gw_groups g)))),
      (''ports'', PList (map PDict (dvalues (gw_ports g)))),
      (''operations'', PList (map (PDict \<circ> operation_dict) (dvalues (gw_operations g)))),
      (''capture_operations'', PList (map PDict (dvalues (gw_capture_operations g)))),
      (''capture_sessions'', PList (map PDict (dvalues (gw_capture_sessions g)))),
      (''capture_records'', PList (map PDict (gw_capture_records g)))]"

text \<open>\<open>health_response\<close>: the status code and the document.\<close>

definition health_response :: "pydict list \<Rightarrow> rat \<Rightarrow> frame dict \<Rightarrow> rat \<Rightarrow> rat \<Rightarrow> nat \<times> pydict" where
  "health_response sensors last_state frames now timeout =
     (let age = (if last_state \<le> 0 then None else Some (max 0 (now - last_state)));
          healthy = (case age of None \<Rightarrow> False | Some a \<Rightarrow> a \<le> timeout);
          enrolled = filter (\<lambda>s. truthy (attr s ''enrolled'')) sensors;
          count = (\<lambda>p. PInt (int (length (filter p enrolled)))) in
      (if healthy then 200 else 503,
       [(''status'', PStr (if healthy then ''ok'' else if age = None then ''starting'' else ''degraded'')),
        (''manager_state_age_ms'', case age of None \<Rightarrow> PNone | Some a \<Rightarrow> PInt \<lfloor>a * 1000\<rfloor>),
        (''sensor_count'', count (\<lambda>s. True)),
        (''online_sensor_count'', count (\<lambda>s. truthy (attr s ''online''))),
        (''preview_sensor_count'', count (\<lambda>s. attr s ''sensor_id'' \<in> PStr ` set (dkeys frames)))]))"

definition health :: "rat \<Rightarrow> rat \<Rightarrow> gateway \<Rightarrow> nat \<times> pydict" where
  "health now timeout g =
     health_response (dvalues (gw_sensors g)) (gw_last_state g) (gw_frames g) now timeout"

subsection \<open>Runs of the gateway\<close>

datatype gateway_event =
    Sensors_arrive rat int "pydict list"
  | Known_sensors_arrive int "pydict list"
  | Groups_arrive int "pydict list"
  | Ports_arrive int "pydict list"
  | Records_arrive int "pydict list"
  | Operations_arrive int "pydict list"
  | Sessions_arrive int "pydict list"
  | Preview_wanted rat string
  | Demand_timer rat
  | Frame_arrives rat string string string
  | Operation_starts string string string
  | Operation_begins string
  | Operation_feedback string string string int
  | Operation_ends string bool string

fun gateway_step :: "gateway_event \<Rightarrow> gateway \<Rightarrow> gateway" where
  "gateway_step (Sensors_arrive now n msgs) g = receive_sensors now n msgs g"
| "gateway_step (Known_sensors_arrive n msgs) g = receive_known_sensors n msgs g"
| "gateway_step (Groups_arrive n msgs) g = receive_groups n msgs g"
| "gateway_step (Ports_arrive n msgs) g = receive_ports n msgs g"
| "gateway_step (Records_arrive n msgs) g = receive_capture_records n msgs g"
| "gateway_step (Operations_arrive n msgs) g = receive_capture_operations n msgs g"
| "gateway_step (Sessions_arrive n msgs) g = receive_capture_sessions n msgs g"
| "gateway_step (Preview_wanted now sid) g = snd (request_preview now sid g)"
| "gateway_step (Demand_timer now) g = expire_preview_demand now g"
| "gateway_step (Frame_arrives now sid format data) g = receive_frame now sid format data g"
| "gateway_step (Operation_starts uid kind target) g = snd (start_operation uid kind target g)"
| "gateway_step (Operation_begins uid) g = begin_operation uid g"
| "gateway_step (Operation_feedback uid stage detail progress) g = operation_feedback uid stage detail progress g"
| "gateway_step (Operation_ends uid success message) g = finish_operation uid success message g"

text \<open>
  The states a gateway reaches by events that the predicate admits; \<open>uuid4\<close> never repeats.
\<close>

inductive gateway_run :: "(gateway \<Rightarrow> gateway_event \<Rightarrow> bool) \<Rightarrow> gateway \<Rightarrow> gateway \<Rightarrow> bool"
  for admits g0 where
  start: "gateway_run admits g0 g0"
| step: "gateway_run admits g0 g \<Longrightarrow> admits g e \<Longrightarrow> gateway_run admits g0 (gateway_step e g)"

end
