(* ===== verification/Gateway_Safety.thy ===== *)
theory Gateway_Safety
  imports Gateway_State
begin

section \<open>What every run of the gateway keeps\<close>

text \<open>
  Invariants of the runs of \<^verbatim>\<open>Gateway_State\<close>: the subscriptions follow the demand for
  previews, the generation identifies what the snapshot shows, and the table of operations
  stays within its limits.
\<close>

lemma fold_dpop: "fold dpop ks d = filter (\<lambda>(i, v). i \<notin> set ks) d"
proof (induction ks arbitrary: d)
  case (Cons k ks)
  have "filter (\<lambda>(i, v). i \<notin> set ks) (dpop k d) = filter (\<lambda>(i, v). i \<notin> set (k # ks)) d"
    by (induction d) (auto simp: dpop_def)
  with Cons.IH [of "dpop k d"] show ?case by simp
qed simp

lemma dkeys_fold_dpop: "set (dkeys (fold dpop ks d)) = set (dkeys d) - set ks"
  by (auto simp: fold_dpop)

lemma map_of_None: "map_of d k = None \<longleftrightarrow> k \<notin> set (dkeys d)"
  by (simp add: map_of_eq_None_iff)

subsection \<open>Previews\<close>

definition previews_agree :: "gateway \<Rightarrow> bool" where
  "previews_agree g \<longleftrightarrow>
     set (dkeys (gw_subscriptions g)) = set (dkeys (gw_preview_demand g))
     \<and> set (dkeys (gw_subscriptions g)) \<subseteq> set (dkeys (gw_preview_topics g))"

lemma drop_previews:
  "fold (\<lambda>sid g. if dhas (gw_preview_topics g) sid then g else drop_preview sid g) ks g
   = (let gone = filter (\<lambda>sid. \<not> dhas (gw_preview_topics g) sid) ks in
      g\<lparr>gw_subscriptions := fold dpop gone (gw_subscriptions g),
        gw_preview_demand := fold dpop gone (gw_preview_demand g),
        gw_frames := fold dpop gone (gw_frames g)\<rparr>)"
  by (induction ks arbitrary: g) (simp_all add: drop_preview_def Let_def)

lemma receive_sensors_previews:
  "previews_agree g \<Longrightarrow> previews_agree (receive_sensors now published msgs g)"
  unfolding receive_sensors_def next_generation_def drop_previews Let_def
  by (auto simp: previews_agree_def dkeys_fold_dpop dhas_iff simp del: set_map)

lemma request_preview_agrees:
  "previews_agree g \<Longrightarrow> previews_agree (snd (request_preview now sid g))"
proof -
  assume agree: "previews_agree g"
  have "sid \<in> set (dkeys (gw_preview_topics g))" if "dget (gw_preview_topics g) sid '''' \<noteq> ''''"
    using that map_of_None [of "gw_preview_topics g" sid] by (force simp: dget_def split: option.splits)
  with agree show ?thesis
    by (auto simp: previews_agree_def request_preview_def Let_def dhas_iff dkeys_dset simp del: set_map)
qed

lemma drop_demands:
  "fold drop_demand ks g
   = g\<lparr>gw_preview_demand := fold dpop ks (gw_preview_demand g),
       gw_subscriptions := fold dpop ks (gw_subscriptions g)\<rparr>"
  by (induction ks arbitrary: g) (simp_all add: drop_demand_def)

lemma expire_preview_agrees:
  "previews_agree g \<Longrightarrow> previews_agree (expire_preview_demand now g)"
  by (auto simp: previews_agree_def expire_preview_demand_def drop_demands dkeys_fold_dpop simp del: set_map)

lemma update_operation_unfold:
  "update_operation uid change g =
     (if uid \<in> set (dkeys (gw_operations g)) then
        g\<lparr>gw_operations := prune_finished (gw_history_limit g)
             (dset uid (change (the (map_of (gw_operations g) uid))) (gw_operations g)),
          gw_generation := gw_generation g + 1\<rparr>
      else g)"
  using map_of_None [of "gw_operations g" uid]
  by (auto simp: update_operation_def split: option.splits simp del: set_map)

lemma start_operation_unfold:
  "snd (start_operation uid kind target g) =
     (if gw_max_active g \<le> int (unfinished_count (gw_operations g)) then g
      else g\<lparr>gw_operations := dset uid (queued_operation uid kind target) (gw_operations g),
             gw_generation := gw_generation g + 1\<rparr>)"
  by (simp add: start_operation_def)

lemmas operation_events = start_operation_unfold begin_operation_def finish_operation_def operation_feedback_def
  update_operation_unfold

lemmas array_events = receive_known_sensors_def receive_groups_def receive_ports_def receive_capture_records_def
  receive_capture_operations_def receive_capture_sessions_def next_generation_def

lemma step_previews_agree: "previews_agree g \<Longrightarrow> previews_agree (gateway_step e g)"
proof (cases e)
  case (Frame_arrives now sid format data)
  then show "previews_agree g \<Longrightarrow> ?thesis"
    by (auto simp: previews_agree_def receive_frame_def Let_def split: option.splits)
next
  case (Sensors_arrive now n msgs)
  then show "previews_agree g \<Longrightarrow> ?thesis" by (simp add: receive_sensors_previews)
qed (simp_all add: receive_sensors_previews request_preview_agrees expire_preview_agrees,
     auto simp: previews_agree_def array_events operation_events)

lemma run_previews_agree:
  "gateway_run admits g0 g \<Longrightarrow> previews_agree g0 \<Longrightarrow> previews_agree g"
  by (induction rule: gateway_run.induct) (simp_all add: step_previews_agree)

lemma expired_demand:
  "(sid, t) \<in> set (gw_preview_demand (expire_preview_demand now g)) \<Longrightarrow> now - t < demand_timeout"
  by (force simp: expire_preview_demand_def drop_demands fold_dpop)

text \<open>C26: The gateway subscribes to the images of exactly the cameras that a browser asks for,
  all of which offer a preview in the manager's last inventory, and the timer leaves only those
  that were asked for in the last five seconds.\<close>

theorem subscriptions_follow_demand:
  assumes "gateway_run admits (new_gateway history max_active) g"
  shows "set (dkeys (gw_subscriptions g)) = set (dkeys (gw_preview_demand g))
    \<and> set (dkeys (gw_subscriptions g)) \<subseteq> set (dkeys (gw_preview_topics g))
    \<and> (\<forall>now sid t. (sid, t) \<in> set (gw_preview_demand (expire_preview_demand now g)) \<longrightarrow> now - t < 5)"
proof -
  have "previews_agree (new_gateway history max_active)" by (simp add: previews_agree_def new_gateway_def)
  with assms have "previews_agree g" by (rule run_previews_agree)
  then show ?thesis using expired_demand unfolding previews_agree_def demand_timeout_def by blast
qed

definition preview_camera :: pydict where
  "preview_camera = [(''sensor_id'', PStr ''cam''), (''enrolled'', PBool True),
     (''capabilities'', PList [PStr ''jpeg_preview'']), (''topic_base'', PStr ''/cam'')]"

definition watched_gateway :: gateway where
  "watched_gateway = gateway_step (Preview_wanted 1 ''cam'')
     (gateway_step (Sensors_arrive 0 7 [preview_camera]) (new_gateway 2 1))"

lemma watched_run: "gateway_run (\<lambda>g e. True) (new_gateway 2 1) watched_gateway"
  unfolding watched_gateway_def by (intro gateway_run.intros) simp_all

theorem subscriptions_follow_demand_witness:
  "dkeys (gw_subscriptions watched_gateway) = [''cam'']
   \<and> set (dkeys (gw_subscriptions watched_gateway)) \<subseteq> set (dkeys (gw_preview_topics watched_gateway))"
proof
  show "dkeys (gw_subscriptions watched_gateway) = [''cam'']" by code_simp
qed (use subscriptions_follow_demand [OF watched_run] in blast)

subsection \<open>The generation\<close>

lemma receive_sensors_generation:
  "gw_generation g < gw_generation (receive_sensors now published msgs g)"
  by (simp add: receive_sensors_def drop_previews next_generation_def Let_def)

lemma state_snapshot_cong:
  "gw_generation g = gw_generation h \<Longrightarrow> gw_sensors g = gw_sensors h \<Longrightarrow>
   gw_known_sensors g = gw_known_sensors h \<Longrightarrow> gw_groups g = gw_groups h \<Longrightarrow> gw_ports g = gw_ports h \<Longrightarrow>
   gw_operations g = gw_operations h \<Longrightarrow> gw_capture_operations g = gw_capture_operations h \<Longrightarrow>
   gw_capture_sessions g = gw_capture_sessions h \<Longrightarrow> gw_capture_records g = gw_capture_records h \<Longrightarrow>
   state_snapshot g = state_snapshot h"
  by (simp add: state_snapshot_def)

lemma past_maximum: "max (a + 1) n \<noteq> a" "a \<le> max (a + 1) n" for a :: int
  by simp_all

lemma step_generation:
  "gw_generation g \<le> gw_generation (gateway_step e g)
   \<and> (gw_generation (gateway_step e g) = gw_generation g \<longrightarrow> state_snapshot (gateway_step e g) = state_snapshot g)"
proof (cases e)
  case (Sensors_arrive now n msgs)
  then show ?thesis using receive_sensors_generation [of g now n msgs] by simp
next
  case (Preview_wanted now sid)
  then show ?thesis by (auto simp: request_preview_def Let_def intro: state_snapshot_cong)
next
  case (Demand_timer now)
  then show ?thesis by (auto simp: expire_preview_demand_def drop_demands intro: state_snapshot_cong)
next
  case (Frame_arrives now sid format data)
  then show ?thesis by (auto simp: receive_frame_def Let_def intro: state_snapshot_cong split: option.splits)
qed (simp_all add: array_events operation_events past_maximum)

lemma run_generation:
  "gateway_run admits g0 g \<Longrightarrow>
   gw_generation g0 \<le> gw_generation g \<and> (gw_generation g = gw_generation g0 \<longrightarrow> state_snapshot g = state_snapshot g0)"
proof (induction rule: gateway_run.induct)
  case (step g e)
  then show ?case using step_generation [of g e] by auto
qed simp



subsection \<open>The table of operations\<close>

definition finished_count :: "operation dict \<Rightarrow> nat" where
  "finished_count ops = length (filter (\<lambda>(i, p). finished p) ops)"

lemma counts_sum: "unfinished_count ops + finished_count ops = length ops"
  by (induction ops) (auto simp: unfinished_count_def finished_count_def)

lemma dset_new: "k \<notin> set (dkeys d) \<Longrightarrow> dset k v d = d @ [(k, v)]"
  by (induction d) (auto simp: dset_def)

lemma unfinished_dset:
  "map_of ops uid = Some p \<Longrightarrow>
   unfinished_count (dset uid q ops) + (if finished p then 0 else 1)
     = unfinished_count ops + (if finished q then 0 else 1)"
  by (induction ops) (auto simp: unfinished_count_def dset_def)

lemma distinct_ids: "distinct (dkeys ops) \<Longrightarrow> (i, p) \<in> set ops \<Longrightarrow> (i, q) \<in> set ops \<Longrightarrow> p = q"
  by (metis map_of_eq_Some_iff option.inject)

lemma filter_keys_take:
  "distinct (map fst xs) \<Longrightarrow> filter (\<lambda>(i, v). i \<notin> set (take n (map fst xs))) xs = drop n xs"
proof (induction xs arbitrary: n)
  case (Cons x xs)
  show ?case
  proof (cases n)
    case (Suc m)
    have "filter (\<lambda>a. fst a \<noteq> fst x \<and> fst a \<notin> set (take m (map fst xs))) xs
      = filter (\<lambda>a. fst a \<notin> set (take m (map fst xs))) xs"
      using Cons.prems by (intro filter_cong) (auto intro: rev_image_eqI)
    with Cons Suc show ?thesis by (simp add: case_prod_beta)
  qed simp
qed simp

lemma finished_pruned:
  assumes "distinct (dkeys ops)" "0 < limit"
  shows "filter (\<lambda>(i, p). finished p) (prune_finished limit ops)
    = drop (finished_count ops - nat limit) (filter (\<lambda>(i, p). finished p) ops)"
proof -
  let ?done = "filter (\<lambda>(i, p). finished p) ops"
  let ?ks = "take (finished_count ops - nat limit) (map fst ?done)"
  have "distinct (map fst ?done)" using assms(1) by (rule distinct_map_filter)
  then have "filter (\<lambda>(i, v). i \<notin> set ?ks) ?done = drop (finished_count ops - nat limit) ?done"
    by (rule filter_keys_take)
  moreover have "filter (\<lambda>(i, p). finished p) (prune_finished limit ops)
    = filter (\<lambda>(i, v). i \<notin> set ?ks) ?done"
    using assms(2)
    by (simp add: prune_finished_def slice_to_minus_def fold_dpop finished_count_def case_prod_beta conj_commute)
  ultimately show ?thesis by simp
qed

lemma unfinished_not_pruned:
  assumes "distinct (dkeys ops)" "(i, p) \<in> set ops" "\<not> finished p"
  shows "i \<notin> set (slice_to_minus limit (map fst (filter (\<lambda>(i, p). finished p) ops)))"
proof
  assume "i \<in> set (slice_to_minus limit (map fst (filter (\<lambda>(i, p). finished p) ops)))"
  then have "i \<in> set (map fst (filter (\<lambda>(i, p). finished p) ops))"
    by (auto simp: slice_to_minus_def dest: in_set_takeD split: if_splits)
  then obtain q where q: "(i, q) \<in> set ops" "finished q" by auto
  have "p = q" using assms(1,2) q(1) by (rule distinct_ids)
  with q(2) assms(3) show False by simp
qed

lemma unfinished_pruned:
  "distinct (dkeys ops) \<Longrightarrow> (i, p) \<in> set ops \<Longrightarrow> \<not> finished p \<Longrightarrow> (i, p) \<in> set (prune_finished limit ops)"
  using unfinished_not_pruned by (simp add: prune_finished_def fold_dpop)

lemma prune_subset: "set (prune_finished limit ops) \<subseteq> set ops"
  by (auto simp: prune_finished_def fold_dpop)

lemma distinct_pruned: "distinct (dkeys ops) \<Longrightarrow> distinct (dkeys (prune_finished limit ops))"
  unfolding prune_finished_def fold_dpop by (rule distinct_map_filter)

lemma unfinished_count_pruned:
  "distinct (dkeys ops) \<Longrightarrow> unfinished_count (prune_finished limit ops) = unfinished_count ops"
proof -
  assume distinct: "distinct (dkeys ops)"
  have "filter (\<lambda>(i, p). \<not> finished p) (prune_finished limit ops) = filter (\<lambda>(i, p). \<not> finished p) ops"
    unfolding prune_finished_def fold_dpop filter_filter
  proof (rule filter_cong [OF refl])
    fix x assume x: "x \<in> set ops"
    obtain i p where ip: "x = (i, p)" by (cases x)
    then have "\<not> finished p \<Longrightarrow> i \<notin> set (slice_to_minus limit (map fst (filter (\<lambda>(i, p). finished p) ops)))"
      using unfinished_not_pruned [OF distinct, of i p limit] x by simp
    then show "((case x of (i, v) \<Rightarrow> i \<notin> set (slice_to_minus limit (map fst (filter (\<lambda>(i, p). finished p) ops))))
        \<and> (case x of (i, p) \<Rightarrow> \<not> finished p)) \<longleftrightarrow> (case x of (i, p) \<Rightarrow> \<not> finished p)"
      unfolding ip prod.case by blast
  qed
  then show ?thesis by (simp add: unfinished_count_def)
qed

lemma finished_count_pruned:
  "distinct (dkeys ops) \<Longrightarrow> 0 < limit \<Longrightarrow>
   finished_count (prune_finished limit ops) = min (finished_count ops) (nat limit)"
  using finished_pruned [of ops limit] by (simp add: finished_count_def)

text \<open>
  Feedback is timely when its operation has not ended: then ended operations stay ended.
\<close>

definition operations_in :: "gateway \<Rightarrow> bool" where
  "operations_in g \<longleftrightarrow>
     distinct (dkeys (gw_operations g))
     \<and> finished_count (gw_operations g) \<le> nat (gw_history_limit g)
     \<and> length (gw_operations g) \<le> nat (gw_max_active g) + nat (gw_history_limit g)"

definition running_at :: "gateway \<Rightarrow> string \<Rightarrow> bool" where
  "running_at g uid \<longleftrightarrow> (\<forall>p. map_of (gw_operations g) uid = Some p \<longrightarrow> \<not> finished p)"

fun timely :: "gateway \<Rightarrow> gateway_event \<Rightarrow> bool" where
  "timely g (Operation_begins uid) = running_at g uid"
| "timely g (Operation_feedback uid stage detail progress) = running_at g uid"
| "timely g e = True"

fun fresh_id :: "gateway \<Rightarrow> gateway_event \<Rightarrow> bool" where
  "fresh_id g (Operation_starts uid kind target) = (uid \<notin> set (dkeys (gw_operations g)))"
| "fresh_id g e = True"

lemma update_operations_in:
  assumes ok: "operations_in g" and limit: "0 < gw_history_limit g"
  shows "operations_in (update_operation uid change g)"
proof -
  let ?ops = "dset uid (change (the (map_of (gw_operations g) uid))) (gw_operations g)"
  have distinct: "distinct (dkeys ?ops)" using ok by (intro distinct_dset) (simp add: operations_in_def)
  show ?thesis
  proof (cases "uid \<in> set (dkeys (gw_operations g))")
    case True
    have "length (prune_finished (gw_history_limit g) ?ops) \<le> length ?ops"
      by (simp add: prune_finished_def fold_dpop)
    also have "\<dots> = length (gw_operations g)" using True by (simp add: length_dset dhas_iff)
    finally show ?thesis
      using ok limit True distinct
      by (simp add: operations_in_def update_operation_unfold distinct_pruned finished_count_pruned)
  next
    case False
    with ok show ?thesis by (simp add: update_operation_unfold)
  qed
qed

lemma update_unfinished_count:
  assumes "operations_in g" "\<And>p. map_of (gw_operations g) uid = Some p \<Longrightarrow> finished p \<Longrightarrow> finished (change p)"
  shows "unfinished_count (gw_operations (update_operation uid change g)) \<le> unfinished_count (gw_operations g)"
proof (cases "map_of (gw_operations g) uid")
  case None
  then show ?thesis by (simp add: update_operation_def)
next
  case (Some p)
  have "distinct (dkeys (dset uid (change p) (gw_operations g)))"
    using assms(1) by (intro distinct_dset) (simp add: operations_in_def)
  then show ?thesis
    using Some assms(2) [OF Some] unfinished_dset [OF Some, of "change p"]
    by (simp add: update_operation_def unfinished_count_pruned split: if_splits)
qed

lemma unfinished_count_le: "unfinished_count ops \<le> length ops"
  by (simp add: unfinished_count_def)

lemma start_operations_in:
  assumes ok: "operations_in g" and fresh: "uid \<notin> set (dkeys (gw_operations g))"
  shows "operations_in (snd (start_operation uid kind target g))"
proof -
  let ?ops = "dset uid (queued_operation uid kind target) (gw_operations g)"
  have "finished_count ?ops = finished_count (gw_operations g)"
    using fresh by (simp add: dset_new finished_count_def queued_operation_def finished_def)
  moreover have "length ?ops = Suc (length (gw_operations g))" using fresh by (simp add: length_dset dhas_iff)
  moreover have "distinct (dkeys ?ops)" using ok by (intro distinct_dset) (simp add: operations_in_def)
  ultimately show ?thesis
    using ok counts_sum [of "gw_operations g"]
    by (auto simp: operations_in_def start_operation_unfold)
qed

lemma start_unfinished_count:
  assumes "uid \<notin> set (dkeys (gw_operations g))"
    "int (unfinished_count (gw_operations g)) \<le> max 0 (gw_max_active g)"
  shows "int (unfinished_count (gw_operations (snd (start_operation uid kind target g)))) \<le> max 0 (gw_max_active g)"
  using assms by (auto simp: start_operation_unfold dset_new unfinished_count_def)

text \<open>The events that leave the table of operations alone, and the limits, which never change.\<close>

lemma step_keeps_limits:
  "gw_history_limit (gateway_step e g) = gw_history_limit g"
  "gw_max_active (gateway_step e g) = gw_max_active g"
  by (cases e; simp add: array_events operation_events receive_sensors_def drop_previews Let_def
      request_preview_def expire_preview_demand_def drop_demands receive_frame_def split: option.splits)+

fun operation_event :: "gateway_event \<Rightarrow> bool" where
  "operation_event (Operation_starts uid kind target) = True"
| "operation_event (Operation_begins uid) = True"
| "operation_event (Operation_feedback uid stage detail progress) = True"
| "operation_event (Operation_ends uid success message) = True"
| "operation_event e = False"

lemma other_events: "\<not> operation_event e \<Longrightarrow> gw_operations (gateway_step e g) = gw_operations g"
  by (cases e) (simp_all add: array_events receive_sensors_def drop_previews Let_def
      request_preview_def expire_preview_demand_def drop_demands receive_frame_def split: option.splits)

lemma step_operations_in:
  assumes "operations_in g" "0 < gw_history_limit g" "fresh_id g e"
  shows "operations_in (gateway_step e g)"
proof (cases "operation_event e")
  case True
  with assms show ?thesis
    by (cases e) (simp_all add: start_operations_in update_operations_in begin_operation_def
        operation_feedback_def finish_operation_def del: set_map)
next
  case False
  with assms(1) show ?thesis by (simp add: operations_in_def other_events step_keeps_limits)
qed

lemma later_unfinished_count:
  assumes ok: "operations_in g" and timely: "timely g e" and later: "operation_event e"
    "\<And>uid kind target. e \<noteq> Operation_starts uid kind target"
  shows "unfinished_count (gw_operations (gateway_step e g)) \<le> unfinished_count (gw_operations g)"
proof (cases e)
  case (Operation_begins uid)
  show ?thesis
    unfolding Operation_begins gateway_step.simps begin_operation_def
    by (rule update_unfinished_count [OF ok]) (use timely in \<open>auto simp: Operation_begins running_at_def\<close>)
next
  case (Operation_feedback uid stage detail progress)
  show ?thesis
    unfolding Operation_feedback gateway_step.simps operation_feedback_def
    by (rule update_unfinished_count [OF ok]) (use timely in \<open>auto simp: Operation_feedback running_at_def\<close>)
next
  case (Operation_ends uid success message)
  show ?thesis
    unfolding Operation_ends gateway_step.simps finish_operation_def
    by (rule update_unfinished_count [OF ok]) (simp add: finished_def)
qed (use later in simp_all)

lemma step_unfinished_count:
  assumes ok: "operations_in g" and fresh: "fresh_id g e" and timely: "timely g e"
    and count: "int (unfinished_count (gw_operations g)) \<le> max 0 (gw_max_active g)"
  shows "int (unfinished_count (gw_operations (gateway_step e g))) \<le> max 0 (gw_max_active (gateway_step e g))"
proof (cases "operation_event e")
  case False
  with count show ?thesis by (simp add: other_events step_keeps_limits)
next
  case True
  show ?thesis
  proof (cases "\<exists>uid kind target. e = Operation_starts uid kind target")
    case True
    then obtain uid kind target where e: "e = Operation_starts uid kind target" by blast
    show ?thesis
      using start_unfinished_count [of uid g kind target] fresh count step_keeps_limits(2) [of e g]
      by (simp add: e)
  next
    case False
    then have "unfinished_count (gw_operations (gateway_step e g)) \<le> unfinished_count (gw_operations g)"
      using later_unfinished_count [OF ok timely \<open>operation_event e\<close>] by blast
    with count show ?thesis by (simp add: step_keeps_limits)
  qed
qed

lemma run_operations_in:
  assumes "gateway_run admits (new_gateway history max_active) g"
    and "0 < history" and "\<And>g e. admits g e \<Longrightarrow> fresh_id g e"
  shows "operations_in g \<and> gw_history_limit g = history \<and> gw_max_active g = max_active
    \<and> ((\<forall>g e. admits g e \<longrightarrow> timely g e)
        \<longrightarrow> int (unfinished_count (gw_operations g)) \<le> max 0 max_active)"
  using assms(1)
proof induction
  case start
  then show ?case by (simp add: operations_in_def new_gateway_def finished_count_def unfinished_count_def)
next
  case (step g e)
  then show ?case
    using assms(2) step_operations_in [of g e] step_unfinished_count [of g e] step_keeps_limits [of e g]
      assms(3) [of g e] by auto
qed

text \<open>C24: However the threads and callbacks interleave, the table holds at most the configured number
  of ended operations and, with those that have not ended, at most the sum of both limits; and
  when no feedback arrives after the end of its operation, the unfinished ones respect their own
  limit.\<close>

theorem operations_stay_bounded:
  assumes "load_recording_runtime_settings path document = Inr (timeout, history, max_active)"
    and "gateway_run admits (new_gateway history max_active) g"
    and "\<And>g e. admits g e \<Longrightarrow> fresh_id g e"
  shows "finished_count (gw_operations g) \<le> nat history
    \<and> length (gw_operations g) \<le> nat max_active + nat history
    \<and> ((\<forall>g e. admits g e \<longrightarrow> timely g e) \<longrightarrow> unfinished_count (gw_operations g) \<le> nat max_active)"
proof -
  have "0 < history" "0 < max_active" using loaded_limits [OF assms(1)] by simp_all
  then show ?thesis
    using run_operations_in [OF assms(2) \<open>0 < history\<close> assms(3)] by (auto simp: operations_in_def)
qed

definition enrolling_gateway :: gateway where
  "enrolling_gateway =
     gateway_step (Operation_feedback ''a'' ''probing'' ''Opening the camera'' 40)
       (gateway_step (Operation_begins ''a'')
         (gateway_step (Operation_starts ''a'' ''enroll'' ''cam'') (new_gateway 100 64)))"

lemma enrolling_run:
  "gateway_run (\<lambda>g e. fresh_id g e \<and> timely g e) (new_gateway 100 64) enrolling_gateway"
proof -
  have "fresh_id (new_gateway 100 64) (Operation_starts ''a'' ''enroll'' ''cam'')"
    by (simp add: new_gateway_def)
  moreover have "running_at (gateway_step (Operation_starts ''a'' ''enroll'' ''cam'') (new_gateway 100 64)) ''a''"
    by (simp add: running_at_def start_operation_unfold new_gateway_def dset_def unfinished_count_def
        queued_operation_def finished_def)
  moreover have "running_at (gateway_step (Operation_begins ''a'')
      (gateway_step (Operation_starts ''a'' ''enroll'' ''cam'') (new_gateway 100 64))) ''a''"
    by (simp add: running_at_def start_operation_unfold new_gateway_def dset_def unfinished_count_def
        queued_operation_def finished_def begin_operation_def update_operation_unfold prune_finished_def
        slice_to_minus_def)
  ultimately show ?thesis unfolding enrolling_gateway_def by (intro gateway_run.intros) simp_all
qed

theorem operations_stay_bounded_witness:
  "length (gw_operations enrolling_gateway) = 1 \<and> length (gw_operations enrolling_gateway) \<le> nat 64 + nat 100
   \<and> unfinished_count (gw_operations enrolling_gateway) \<le> nat 64"
proof -
  have "load_recording_runtime_settings ''machine.yaml'' (Inr (PDict [])) = Inr (100000 - 60000, 100, 64)"
    by (simp add: load_recording_runtime_settings_def recording_runtime_settings_def integer_limit_def dget_def)
  note bounded = operations_stay_bounded [OF this enrolling_run]
  moreover have "length (gw_operations enrolling_gateway) = 1" by code_simp
  ultimately show ?thesis by simp
qed

text \<open>
  Feedback that arrives after the end of its operation, for instance after the five minutes that
  the gateway waits for a result, opens the operation again; nothing ends it a second time,
  and it keeps occupying one of the slots.
\<close>

lemma late_feedback_reopens:
  "let ended = gateway_step (Operation_ends ''a'' False ''ROS request timed out'') enrolling_gateway;
       late = gateway_step (Operation_feedback ''a'' ''validating'' ''Still at work'' 80) ended
   in unfinished_count (gw_operations ended) = 0 \<and> unfinished_count (gw_operations late) = 1"
  by code_simp

end
