(* ===== verification/Gateway_Start.thy ===== *)
theory Gateway_Start
  imports Gateway_Safety Manager_Start
begin

section \<open>Starting the gateway\<close>

text \<open>
  \<open>GatewayNode.__init__\<close> of \<^verbatim>\<open>vixel_web/gateway.py\<close> as far as it computes the node's state:
  the limits it clamps, the recording settings it loads, and the path of the inventory it shows.
  Creating subscriptions and clients is not modelled.
\<close>

subsection \<open>The inventory's path\<close>

text \<open>
  The file system as \<open>_resolved_inventory_path\<close> asks it: what exists, and what the process may
  write according to \<open>os.access\<close>.
\<close>

record gateway_host =
  gh_expand :: "string \<Rightarrow> string"
  gh_exists :: "string \<Rightarrow> bool"
  gh_access :: "string \<Rightarrow> bool"
  gh_state_home :: "string option"
  gh_home :: string

text \<open>\<open>Path.parents\<close> of an absolute path, nearest first.\<close>

definition path_parents :: "string \<Rightarrow> string list" where
  "path_parents path = map (\<lambda>n. CHR ''/'' # join ''/'' (take n (path_parts path))) (rev [0..<length (path_parts path)])"

definition resolved_inventory_path :: "gateway_host \<Rightarrow> string \<Rightarrow> string" where
  "resolved_inventory_path host requested =
     (let path = gh_expand host requested in
      if gh_exists host path
         \<or> (case List.find (gh_exists host) (path_parent path # path_parents path) of
              None \<Rightarrow> False | Some parent \<Rightarrow> gh_access host parent)
      then path
      else path_in (case gh_state_home host of Some d \<Rightarrow> d | None \<Rightarrow> path_in (gh_home host) ''.local/state'')
             ''vixel/inventory.yaml'')"

lemma path_parents_example: "path_parents ''/var/lib/vixel/inventory.yaml'' = [''/var/lib/vixel'', ''/var/lib'', ''/var'', ''/'']"
  by code_simp

subsection \<open>The node's first state\<close>

record gateway_params =
  gp_address :: string
  gp_port :: int
  gp_state_timeout :: rat
  gp_connections :: int
  gp_machine_file :: string
  gp_inventory_file :: string

record gateway_node =
  gn_address :: string
  gn_port :: int
  gn_state_timeout :: rat
  gn_connections :: int
  gn_machine_file :: string
  gn_inventory_file :: string
  gn_result_timeout_ms :: int
  gn_state :: gateway

text \<open>\<open>load\<close>: what opening and parsing a file yields.\<close>

definition start_gateway ::
  "gateway_host \<Rightarrow> (string \<Rightarrow> string + pyval) \<Rightarrow> gateway_params \<Rightarrow> gateway_node result" where
  "start_gateway host load p =
     bindR (load_recording_runtime_settings (gp_machine_file p) (load (gp_machine_file p))) (\<lambda>(timeout, history, max_active).
     Inr \<lparr>gn_address = gp_address p, gn_port = gp_port p, gn_state_timeout = max 1 (gp_state_timeout p),
       gn_connections = max 4 (gp_connections p), gn_machine_file = gp_machine_file p,
       gn_inventory_file = resolved_inventory_path host (gp_inventory_file p),
       gn_result_timeout_ms = timeout, gn_state = new_gateway history max_active\<rparr>)"

lemma started_limits:
  assumes "start_gateway host load p = Inr n"
  shows "1 \<le> gn_state_timeout n" "4 \<le> gn_connections n" "22000 \<le> gn_result_timeout_ms n"
    "1 \<le> gw_history_limit (gn_state n)" "1 \<le> gw_max_active (gn_state n)" "gw_max_active (gn_state n) \<le> 256"
  using assms loaded_limits
  by (auto simp: start_gateway_def result_simps new_gateway_def)

text \<open>
  The manager tries to create a file beside the inventory, the gateway looks whether the file is
  there: for a file in a directory that takes no new files the two nodes use different paths.
\<close>

lemma inventory_paths_may_differ:
  assumes "gh_exists gateway (gh_expand gateway requested)"
    and "\<not> hs_writable manager (hs_expand manager requested)"
    and "writable_inventory_path manager requested = Inr path"
  shows "resolved_inventory_path gateway requested = gh_expand gateway requested
    \<and> path = path_in (case hs_state_home manager of Some d \<Rightarrow> d | None \<Rightarrow> path_in (hs_home manager) ''.local/state'')
        ''vixel/inventory.yaml''"
  using assms
  by (auto simp: resolved_inventory_path_def writable_inventory_path_def Let_def split: if_splits option.splits)

end
