(* ===== verification/Programs.thy ===== *)
theory Programs
  imports Main
begin

section \<open>Programs that may raise and may run forever\<close>

text \<open>
  A program over a state \<open>'s\<close> raises an \<open>'e\<close> or returns an \<open>'a\<close>, and keeps its state in either
  case; None is that it runs forever. The combinators are the statements of the code: sequencing,
  \<open>except\<close>, \<open>finally\<close> and a \<open>while\<close> loop. Then the rules that the proofs about such programs use: a
  rule of partial correctness for each statement, one for what a program does to the history of a
  state, and a measure for the loops that end.
\<close>

type_synonym ('s, 'e, 'a) prog = "'s \<Rightarrow> (('e + 'a) \<times> 's) option"

definition returnP :: "'a \<Rightarrow> ('s, 'e, 'a) prog" where
  "returnP x s = Some (Inr x, s)"

definition raiseP :: "'e \<Rightarrow> ('s, 'e, 'a) prog" where
  "raiseP e s = Some (Inl e, s)"

definition stepP :: "('s \<Rightarrow> ('e + 'a) \<times> 's) \<Rightarrow> ('s, 'e, 'a) prog" where
  "stepP f s = Some (f s)"

definition bindP :: "('s, 'e, 'a) prog \<Rightarrow> ('a \<Rightarrow> ('s, 'e, 'b) prog) \<Rightarrow> ('s, 'e, 'b) prog" where
  "bindP m f s =
     (case m s of
        None \<Rightarrow> None
      | Some (Inl e, s') \<Rightarrow> Some (Inl e, s')
      | Some (Inr x, s') \<Rightarrow> f x s')"

text \<open>\<open>try: m except e: h e\<close>; a handler re-raises what it does not catch.\<close>

definition exceptP :: "('s, 'e, 'a) prog \<Rightarrow> ('e \<Rightarrow> ('s, 'e, 'a) prog) \<Rightarrow> ('s, 'e, 'a) prog" where
  "exceptP m h s =
     (case m s of
        None \<Rightarrow> None
      | Some (Inl e, s') \<Rightarrow> h e s'
      | Some (Inr x, s') \<Rightarrow> Some (Inr x, s'))"

text \<open>\<open>try: m finally: f\<close>; an exception of \<open>f\<close> takes the place of the outcome of \<open>m\<close>.\<close>

definition finallyP :: "('s, 'e, 'a) prog \<Rightarrow> ('s, 'e, unit) prog \<Rightarrow> ('s, 'e, 'a) prog" where
  "finallyP m f s =
     (case m s of
        None \<Rightarrow> None
      | Some (r, s') \<Rightarrow>
          (case f s' of
             None \<Rightarrow> None
           | Some (Inl e, s'') \<Rightarrow> Some (Inl e, s'')
           | Some (Inr _, s'') \<Rightarrow> Some (r, s'')))"

text \<open>A loop whose body returns the loop's result or the local variables of the next pass.\<close>

partial_function (option) loopP ::
  "('x \<Rightarrow> ('s, 'e, 'r + 'x) prog) \<Rightarrow> 'x \<Rightarrow> ('s, 'e, 'r) prog" where
  "loopP body x s =
     (case body x s of
        None \<Rightarrow> None
      | Some (r, s') \<Rightarrow>
          (case r of
             Inl e \<Rightarrow> Some (Inl e, s')
           | Inr y \<Rightarrow> (case y of Inl v \<Rightarrow> Some (Inr v, s') | Inr x' \<Rightarrow> loopP body x' s')))"

declare loopP.simps [code]

lemma returnP_simp [simp]: "returnP x s = Some (Inr x, s)"
  and raiseP_simp [simp]: "raiseP e s = Some (Inl e, s)"
  and stepP_simp [simp]: "stepP f s = Some (f s)"
  by (simp_all add: returnP_def raiseP_def stepP_def)

lemma bindP_Some:
  "bindP m f s = Some (r, s'') \<longleftrightarrow>
     (\<exists>e. m s = Some (Inl e, s'') \<and> r = Inl e) \<or> (\<exists>x s'. m s = Some (Inr x, s') \<and> f x s' = Some (r, s''))"
  by (auto simp: bindP_def split: option.splits sum.splits)

lemma exceptP_Some:
  "exceptP m h s = Some (r, s'') \<longleftrightarrow>
     (\<exists>e s'. m s = Some (Inl e, s') \<and> h e s' = Some (r, s'')) \<or> (\<exists>x. m s = Some (Inr x, s'') \<and> r = Inr x)"
  by (auto simp: exceptP_def split: option.splits sum.splits)

lemma finallyP_Some:
  "finallyP m f s = Some (r, s'') \<longleftrightarrow>
     (\<exists>q s' t. m s = Some (q, s') \<and> f s' = Some (t, s'') \<and> r = (case t of Inl e \<Rightarrow> Inl e | Inr _ \<Rightarrow> q))"
  by (force simp: finallyP_def split: option.splits sum.splits)

subsection \<open>Partial correctness\<close>

text \<open>Whenever the program ends from a state of \<open>P\<close>, its outcome and state are in \<open>Q\<close>.\<close>

definition ensures :: "('s \<Rightarrow> bool) \<Rightarrow> ('s, 'e, 'a) prog \<Rightarrow> ('e + 'a \<Rightarrow> 's \<Rightarrow> bool) \<Rightarrow> bool" where
  "ensures P m Q \<longleftrightarrow> (\<forall>s r s'. P s \<longrightarrow> m s = Some (r, s') \<longrightarrow> Q r s')"

lemma ensuresD: "ensures P m Q \<Longrightarrow> m s = Some (r, s') \<Longrightarrow> P s \<Longrightarrow> Q r s'"
  by (simp add: ensures_def)

lemma ensuresI: "(\<And>s r s'. P s \<Longrightarrow> m s = Some (r, s') \<Longrightarrow> Q r s') \<Longrightarrow> ensures P m Q"
  by (simp add: ensures_def)

text \<open>The rule of the loop: an invariant of the local variables and the state.\<close>

lemma loopP_ensures:
  assumes pass: "\<And>x. ensures (I x) (body x) (\<lambda>r s.
      case r of Inl e \<Rightarrow> Q (Inl e) s | Inr (Inl v) \<Rightarrow> Q (Inr v) s | Inr (Inr x') \<Rightarrow> I x' s)"
  shows "ensures (I x) (loopP body x) Q"
proof (rule ensuresI)
  fix s r s'
  assume start: "I x s" and ends: "loopP body x s = Some (r, s')"
  let ?P = "\<lambda>b x s y. b = body \<longrightarrow> I x s \<longrightarrow> Q (fst y) (snd y)"
  have "?P body x s (r, s')"
  proof (rule loopP.raw_induct [of ?P "((body, x), s)" "(r, s')", unfolded prod.case, OF _ ends])
    fix loop b x s y
    assume IH: "\<And>b' x s y. loop b' x s = Some y \<Longrightarrow> b' = body \<longrightarrow> I x s \<longrightarrow> Q (fst y) (snd y)"
      and step: "(case b x s of
          None \<Rightarrow> None
        | Some (Inl e, s') \<Rightarrow> Some (Inl e, s')
        | Some (Inr (Inl v), s') \<Rightarrow> Some (Inr v, s')
        | Some (Inr (Inr x'), s') \<Rightarrow> loop b x' s') = Some y"
    show "b = body \<longrightarrow> I x s \<longrightarrow> Q (fst y) (snd y)"
    proof (intro impI)
      assume b: "b = body" and inv: "I x s"
      from step obtain q t where q: "body x s = Some (q, t)" by (auto simp: b split: option.splits)
      from ensuresD [OF pass q inv] IH [of b _ t y] step q b show "Q (fst y) (snd y)"
        by (auto split: sum.splits)
    qed
  qed
  with start show "Q r s'" by simp
qed

text \<open>A measure that falls with every further pass, and passes that end: the loop ends.\<close>

lemma loopP_ends:
  fixes f :: "'x \<Rightarrow> 's \<Rightarrow> nat"
  assumes body: "\<And>x s. I x s \<Longrightarrow> body x s \<noteq> None"
    and falls: "\<And>x s x' s'. I x s \<Longrightarrow> body x s = Some (Inr (Inr x'), s') \<Longrightarrow> I x' s' \<and> f x' s' < f x s"
    and start: "I x s"
  shows "loopP body x s \<noteq> None"
  using start
proof (induction "f x s" arbitrary: x s rule: less_induct)
  case less
  from body [OF less.prems] obtain r t where pass: "body x s = Some (r, t)" by auto
  show ?case
  proof (cases "\<exists>x'. r = Inr (Inr x')")
    case True
    then obtain x' where x': "r = Inr (Inr x')" by blast
    with pass falls [OF less.prems] have "I x' t" "f x' t < f x s" by auto
    from less.hyps [OF this(2,1)] pass x' show ?thesis by (simp add: loopP.simps [of body x s])
  next
    case False
    with pass show ?thesis by (auto simp: loopP.simps [of body x s] split: sum.splits)
  qed
qed

text \<open>
  Programs that only append to a history \<open>h\<close> of their state, and only entries of \<open>A\<close>.
\<close>

definition only_does :: "('s \<Rightarrow> 'h list) \<Rightarrow> ('h \<Rightarrow> bool) \<Rightarrow> ('s, 'e, 'a) prog \<Rightarrow> bool" where
  "only_does h A m \<longleftrightarrow> (\<forall>s r s'. m s = Some (r, s') \<longrightarrow> (\<exists>new. h s' = h s @ new \<and> list_all A new))"

named_theorems does \<open>what programs append to their history\<close>

lemma only_doesD: "only_does h A m \<Longrightarrow> m s = Some (r, s') \<Longrightarrow> \<exists>new. h s' = h s @ new \<and> list_all A new"
  by (simp add: only_does_def)

lemma only_does_pure [does]: "only_does h A (returnP x)" "only_does h A (raiseP e)"
  by (simp_all add: only_does_def)

lemma only_does_bindP [does]:
  "only_does h A m \<Longrightarrow> (\<And>x. only_does h A (f x)) \<Longrightarrow> only_does h A (bindP m f)"
  by (fastforce simp: only_does_def bindP_Some)

lemma only_does_exceptP [does]:
  "only_does h A m \<Longrightarrow> (\<And>e. only_does h A (k e)) \<Longrightarrow> only_does h A (exceptP m k)"
  by (fastforce simp: only_does_def exceptP_Some)

lemma only_does_finallyP [does]:
  "only_does h A m \<Longrightarrow> only_does h A f \<Longrightarrow> only_does h A (finallyP m f)"
  by (fastforce simp: only_does_def finallyP_Some)

lemma only_does_loopP [does]:
  assumes "\<And>x. only_does h A (body x)"
  shows "only_does h A (loopP body x)"
proof -
  have "ensures (\<lambda>s. \<exists>new. h s = h0 @ new \<and> list_all A new) (loopP body x)
      (\<lambda>r s. \<exists>new. h s = h0 @ new \<and> list_all A new)" for h0
    by (rule loopP_ensures)
       (fastforce simp: ensures_def dest: only_doesD [OF assms] split: sum.splits)
  then show ?thesis unfolding only_does_def ensures_def by (metis append_Nil2 list.pred_inject(1))
qed

lemma only_does_mono: "only_does h A m \<Longrightarrow> (\<And>e. A e \<Longrightarrow> B e) \<Longrightarrow> only_does h B m"
  unfolding only_does_def list_all_iff by blast

text \<open>Programs that end from every state.\<close>

definition always_ends :: "('s, 'e, 'a) prog \<Rightarrow> bool" where
  "always_ends m \<longleftrightarrow> (\<forall>s. m s \<noteq> None)"

named_theorems ends \<open>programs that end\<close>

lemma ends_pure [ends]: "always_ends (returnP x)" "always_ends (raiseP e)" "always_ends (stepP f)"
  by (simp_all add: always_ends_def)

lemma ends_bindP [ends]: "always_ends m \<Longrightarrow> (\<And>x. always_ends (f x)) \<Longrightarrow> always_ends (bindP m f)"
  by (fastforce simp: always_ends_def bindP_def split: option.splits sum.splits)

lemma ends_exceptP [ends]: "always_ends m \<Longrightarrow> (\<And>e. always_ends (k e)) \<Longrightarrow> always_ends (exceptP m k)"
  by (fastforce simp: always_ends_def exceptP_def split: option.splits sum.splits)

lemma ends_finallyP [ends]:
  assumes "always_ends m" "always_ends f"
  shows "always_ends (finallyP m f)"
  unfolding always_ends_def
proof
  fix s
  from assms(1) obtain r s' where m: "m s = Some (r, s')" unfolding always_ends_def by fast
  from assms(2) obtain t s'' where "f s' = Some (t, s'')" unfolding always_ends_def by fast
  with m show "finallyP m f s \<noteq> None" by (simp add: finallyP_def split: sum.split)
qed

lemma ends_if [ends]: "(P \<Longrightarrow> always_ends m) \<Longrightarrow> (\<not> P \<Longrightarrow> always_ends k) \<Longrightarrow> always_ends (if P then m else k)"
  by simp

lemma ends_loopP:
  fixes f :: "'x \<Rightarrow> 's \<Rightarrow> nat"
  assumes "\<And>x. always_ends (body x)"
    and "\<And>x s x' s'. body x s = Some (Inr (Inr x'), s') \<Longrightarrow> f x' s' < f x s"
  shows "always_ends (loopP body x)"
  unfolding always_ends_def
  by (intro allI loopP_ends [where I = "\<lambda>_ _. True" and f = f]) (use assms in \<open>auto simp: always_ends_def\<close>)

text \<open>Programs that keep an invariant, however they end.\<close>

definition preserves :: "('s \<Rightarrow> bool) \<Rightarrow> ('s, 'e, 'a) prog \<Rightarrow> bool" where
  "preserves I m \<longleftrightarrow> (\<forall>s r s'. I s \<longrightarrow> m s = Some (r, s') \<longrightarrow> I s')"

named_theorems keeping \<open>programs that keep an invariant\<close>

lemma preservesD: "preserves I m \<Longrightarrow> m s = Some (r, s') \<Longrightarrow> I s \<Longrightarrow> I s'"
  by (auto simp: preserves_def)

lemma preserves_pure [keeping]: "preserves I (returnP x)" "preserves I (raiseP e)"
  by (simp_all add: preserves_def)

lemma preserves_stepP: "(\<And>s. I s \<Longrightarrow> I (snd (f s))) \<Longrightarrow> preserves I (stepP f)"
  unfolding preserves_def stepP_def by (metis option.inject snd_conv)

lemma preserves_bindP [keeping]: "preserves I m \<Longrightarrow> (\<And>x. preserves I (f x)) \<Longrightarrow> preserves I (bindP m f)"
  unfolding preserves_def bindP_Some by blast

lemma preserves_if [keeping]: "(P \<Longrightarrow> preserves I m) \<Longrightarrow> (\<not> P \<Longrightarrow> preserves I k) \<Longrightarrow> preserves I (if P then m else k)"
  by simp

lemma preserves_loopP [keeping]:
  assumes "\<And>x. preserves I (body x)"
  shows "preserves I (loopP body x)"
proof -
  have "ensures I (loopP body x) (\<lambda>r s. I s)"
    by (rule loopP_ensures) (use assms in \<open>fastforce simp: ensures_def preserves_def split: sum.splits\<close>)
  then show ?thesis by (auto simp: ensures_def preserves_def)
qed

subsection \<open>Loops with a deadline\<close>

text \<open>
  The interface of a loop that watches a clock: \<open>ticks\<close> counts the readings, and a pass that goes on
  has read a time before the deadline. Then the loop ends if the clock passes the deadline.
\<close>

locale timed_loop =
  fixes clock :: "nat \<Rightarrow> 't :: linorder" and ticks :: "'s \<Rightarrow> nat" and deadline :: 't
    and body :: "'x \<Rightarrow> ('s, 'e, 'r + 'x) prog"
  assumes pass_ends: "always_ends (body x)"
    and in_time: "body x s = Some (Inr (Inr x'), s') \<Longrightarrow> \<exists>k \<ge> ticks s. clock k < deadline \<and> ticks s' = Suc k"
begin

lemma loop_ends:
  assumes "\<forall>n \<ge> N. deadline \<le> clock n"
  shows "always_ends (loopP body x)"
proof (rule ends_loopP [where f = "\<lambda>_ s. N - ticks s"])
  fix x s x' s'
  assume "body x s = Some (Inr (Inr x'), s')"
  from in_time [OF this] obtain k where k: "ticks s \<le> k" "clock k < deadline" "ticks s' = Suc k" by blast
  with assms have "k < N" by (meson not_le)
  with k show "N - ticks s' < N - ticks s" by linarith
qed (rule pass_ends)

end

end
