(* ===== verification/Node_Main.thy ===== *)
theory Node_Main
  imports Prelude Programs
begin

section \<open>The main functions of the nodes\<close>

text \<open>
  \<open>main\<close> of \<^verbatim>\<open>manager_node.py\<close> and of \<^verbatim>\<open>gateway.py\<close>: what they set up, in which order, and what they take
  down again when they end. Every call may raise; the world says which one raises what, and
  whether ROS is still up at the end. The history is what was done. That the set-up of the node is
  \<open>start_manager\<close> or \<open>start_gateway\<close> is shown elsewhere; here it is one call.
\<close>

datatype part = Ros | Node | Server | Executor | Spin_thread

datatype main_event = Up part | Down part | Serve

datatype base_exn = Exception py_exn | Keyboard_interrupt

record main_world =
  mw_fault :: "main_event \<Rightarrow> base_exn option"
  mw_ok :: bool

type_synonym 'a main_prog = "(main_event list, base_exn, 'a) prog"

definition perform_main :: "main_world \<Rightarrow> main_event \<Rightarrow> unit main_prog" where
  "perform_main w e = stepP (\<lambda>h. case mw_fault w e of Some x \<Rightarrow> (Inl x, h) | None \<Rightarrow> (Inr (), h @ [e]))"

text \<open>\<open>if node: ...\<close>: the variable is set once the part is up.\<close>

definition if_up :: "part \<Rightarrow> unit main_prog \<Rightarrow> unit main_prog" where
  "if_up p m h = (if Up p \<in> set h then m h else returnP () h)"

text \<open>\<open>try: ... except (KeyboardInterrupt, RuntimeError): pass\<close>.\<close>

definition quietly :: "unit main_prog \<Rightarrow> unit main_prog" where
  "quietly m = exceptP m (\<lambda>e. case e of
     Keyboard_interrupt \<Rightarrow> returnP ()
   | Exception x \<Rightarrow> (case x of RuntimeErr _ \<Rightarrow> returnP () | _ \<Rightarrow> raiseP e))"

fun in_order :: "unit main_prog list \<Rightarrow> unit main_prog" where
  "in_order [] = returnP ()"
| "in_order (m # ms) = bindP m (\<lambda>_. in_order ms)"

definition is_os_error :: "py_exn \<Rightarrow> bool" where
  "is_os_error e \<longleftrightarrow> e = OSErr \<or> e = TimeoutErr"

definition stop_ros :: "main_world \<Rightarrow> unit main_prog" where
  "stop_ros w = quietly (if mw_ok w then perform_main w (Down Ros) else returnP ())"

definition gateway_main :: "main_world \<Rightarrow> int main_prog" where
  "gateway_main w =
     bindP (perform_main w (Up Ros)) (\<lambda>_.
     finallyP
       (exceptP
         (bindP (in_order [perform_main w (Up Node), perform_main w (Up Server), perform_main w (Up Executor), perform_main w (Up Spin_thread),
            perform_main w Serve]) (\<lambda>_. returnP 0))
         (\<lambda>e. case e of
            Keyboard_interrupt \<Rightarrow> returnP 0
          | Exception x \<Rightarrow> if is_os_error x then returnP 1 else raiseP e))
       (in_order
         [if_up Server (perform_main w (Down Server)),
          quietly (if_up Executor (perform_main w (Down Executor))),
          if_up Spin_thread (perform_main w (Down Spin_thread)),
          quietly (if_up Node (perform_main w (Down Node))),
          stop_ros w]))"

text \<open>The manager's clause for \<open>RegistryError\<close> and \<open>OSError\<close> only logs the exception and raises it again.\<close>

definition manager_main :: "main_world \<Rightarrow> unit main_prog" where
  "manager_main w =
     bindP (perform_main w (Up Ros)) (\<lambda>_.
     finallyP
       (exceptP
         (in_order [perform_main w (Up Node), perform_main w (Up Executor), perform_main w Serve])
         (\<lambda>e. case e of Keyboard_interrupt \<Rightarrow> returnP () | Exception x \<Rightarrow> raiseP e))
       (in_order
         [quietly (if_up Executor (perform_main w (Down Executor))),
          quietly (if_up Node (perform_main w (Down Node))),
          stop_ros w]))"

text \<open>
  If taking things down does not fail, all that went up is taken down, however the run ended: on
  Ctrl-C, when the port cannot be bound or the files cannot be read, or on any other exception.
\<close>

lemma perform_main_Some:
  "perform_main w e h = Some (r, h') \<longleftrightarrow>
     (case mw_fault w e of Some x \<Rightarrow> r = Inl x \<and> h' = h | None \<Rightarrow> r = Inr () \<and> h' = h @ [e])"
  by (auto simp: perform_main_def split: option.split)

lemma down_run:
  assumes "\<And>p. mw_fault w (Down p) = None"
  shows "perform_main w (Down p) h = Some (Inr (), h @ [Down p])"
  using assms by (simp add: perform_main_def)

definition balanced :: "main_event list \<Rightarrow> bool" where
  "balanced h \<longleftrightarrow> (\<forall>p. p \<noteq> Ros \<longrightarrow> Up p \<in> set h \<longrightarrow> Down p \<in> set h)"

lemma gateway_takes_down:
  assumes "\<And>p. mw_fault w (Down p) = None" "gateway_main w [] = Some (r, h)"
  shows "balanced h \<and> (r = Inr 1 \<longrightarrow> (\<exists>e x. mw_fault w e = Some (Exception x) \<and> is_os_error x))"
  using assms(2)
  by (auto simp: gateway_main_def bindP_Some finallyP_Some exceptP_Some perform_main_Some if_up_def quietly_def stop_ros_def
      down_run [OF assms(1)] balanced_def split: option.splits if_splits base_exn.splits py_exn.splits)

lemma manager_takes_down:
  assumes "\<And>p. mw_fault w (Down p) = None" "manager_main w [] = Some (r, h)"
  shows "balanced h"
  using assms(2)
  by (auto simp: manager_main_def bindP_Some finallyP_Some exceptP_Some perform_main_Some if_up_def quietly_def stop_ros_def
      down_run [OF assms(1)] balanced_def split: option.splits if_splits base_exn.splits py_exn.splits)

end
