(* ===== verification/Traced.thy ===== *)
theory Traced
  imports Prelude
begin

section \<open>Computations with exceptions and a trace\<close>

text \<open>
  Code that talks to the outside (requests to the manager, commands, files, output) is a result
  together with the list of what it did, in order; an exception keeps what was done before it.
\<close>

type_synonym ('a, 'e, 'v) traced = "('e + 'a) \<times> 'v list"

definition returnW :: "'a \<Rightarrow> ('a, 'e, 'v) traced" where
  "returnW x = (Inr x, [])"

definition raiseW :: "'e \<Rightarrow> ('a, 'e, 'v) traced" where
  "raiseW e = (Inl e, [])"

definition bindW :: "('a, 'e, 'v) traced \<Rightarrow> ('a \<Rightarrow> ('b, 'e, 'v) traced) \<Rightarrow> ('b, 'e, 'v) traced" where
  "bindW m f =
     (case m of
        (Inl e, sent) \<Rightarrow> (Inl e, sent)
      | (Inr x, sent) \<Rightarrow> (case f x of (r, later) \<Rightarrow> (r, sent @ later)))"

lemma fst_bindW: "fst (bindW m f) = (case fst m of Inl e \<Rightarrow> Inl e | Inr x \<Rightarrow> fst (f x))"
  and snd_bindW: "snd (bindW m f) = snd m @ (case fst m of Inl e \<Rightarrow> [] | Inr x \<Rightarrow> snd (f x))"
  by (auto simp: bindW_def split: prod.splits sum.splits)

lemma bindW_Inr:
  "fst (bindW m f) = Inr y \<longleftrightarrow> (\<exists>x. fst m = Inr x \<and> fst (f x) = Inr y)"
  by (auto simp: fst_bindW split: sum.splits)

lemma bind_returnW [simp]: "bindW (returnW x) f = f x"
  by (simp add: bindW_def returnW_def case_prod_beta)

lemma plain_traces [simp]:
  "fst (returnW x) = Inr x" "snd (returnW x) = []" "fst (raiseW e) = Inl e" "snd (raiseW e) = []"
  by (auto simp: returnW_def raiseW_def)

text \<open>An operation for each element of a list, stopping at the first exception.\<close>

fun eachW :: "('a \<Rightarrow> (unit, 'e, 'v) traced) \<Rightarrow> 'a list \<Rightarrow> (unit, 'e, 'v) traced" where
  "eachW f [] = returnW ()"
| "eachW f (x # xs) = bindW (f x) (\<lambda>_. eachW f xs)"

lemma fst_eachW: "fst (eachW f xs) = Inr () \<longleftrightarrow> (\<forall>x \<in> set xs. fst (f x) = Inr ())"
  by (induction xs) (auto simp: bindW_Inr)

lemma snd_eachW: "fst (eachW f xs) = Inr () \<Longrightarrow> snd (eachW f xs) = concat (map (snd \<circ> f) xs)"
  by (induction xs) (auto simp: bindW_Inr snd_bindW)

subsection \<open>What a computation may emit\<close>

definition emits :: "('v \<Rightarrow> bool) \<Rightarrow> ('a, 'e, 'v) traced \<Rightarrow> bool" where
  "emits P m \<longleftrightarrow> (\<forall>v \<in> set (snd m). P v)"

named_theorems emits_rules \<open>what a computation emits\<close>

lemma emits_bind [emits_rules]:
  "emits P m \<Longrightarrow> (\<And>x. fst m = Inr x \<Longrightarrow> emits P (f x)) \<Longrightarrow> emits P (bindW m f)"
  by (cases "fst m") (auto simp: emits_def snd_bindW)

lemma emits_nothing [simp, emits_rules]: "emits P (returnW x)" "emits P (raiseW e)"
  by (simp_all add: emits_def)

lemma emits_each: "(\<And>x. x \<in> set xs \<Longrightarrow> emits P (f x)) \<Longrightarrow> emits P (eachW f xs)"
  by (induction xs) (auto intro!: emits_bind)

lemma emits_mono: "emits P m \<Longrightarrow> (\<And>v. P v \<Longrightarrow> Q v) \<Longrightarrow> emits Q m"
  by (auto simp: emits_def)

end
