(* ===== verification/Gateway_Requests.thy ===== *)
theory Gateway_Requests
  imports Gateway_State Traced
begin

section \<open>What the gateway asks of the manager\<close>

text \<open>
  The methods of \<^verbatim>\<open>GatewayNode\<close> that turn the body of an HTTP request into a ROS request and
  the reply into a document. A method is a value of type \<open>'a web\<close>: its result, and the
  requests it sent in their order.

  Parameters (\<open>world\<close>): what the services and actions reply, what the YAML library reads
  and prints, the text of an exception. The conversion that the generated request classes
  apply to a field is not modelled; a request holds the value that the code assigns.
\<close>

datatype ros_request =
    Update_sensor_metadata string string string bool string "pyfloat list" string bool
  | Forget_sensor string bool
  | Update_known_sensor string string string string
  | Get_camera_features string
  | Get_camera_profiles
  | Upsert_camera_profile string bool
  | Delete_camera_profile string
  | Apply_camera_settings string string string bool
  | Purge_known_sensor string
  | Set_operating_mode string string string
  | Prepare_capture_groups "string list" int string
  | Acquire_capture_session string string "string list" int bool
  | Renew_capture_session string
  | Release_capture_session string
  | Set_port_mode string string
  | Upsert_sync_group string string "pyval list" string string pyfloat string
  | Delete_sync_group string
  | Submit_capture_batch "string list" string bool string
  | Start_capture_sequence "string list" string int int bool string
  | Start_test_shot string string string
  | Get_capture_operation string
  | Cancel_capture_operation string
  | Enroll_goal string string string string string
  | Placement_goal string string string string
  | Record_goal string string string
  | Trigger_goal string string string
  | Cancel_record_goal

text \<open>
  How a service call ends: the service is missing, no answer within the time-out, the call
  fails with a text, or a response. Sending a goal can take too long or fail with a text; a
  goal can be rejected, and the result of an accepted one is awaited like a response.
\<close>

datatype reply = Missing string | No_answer | Failing string | Answer pydict

datatype goal_reply =
    No_server
  | Not_sent "string option"
  | Rejected
  | Accepted reply

text \<open>
  The result of a capture that is not there in time: as it is when the time-out is noticed,
  and after the goal has been cancelled.
\<close>

record world =
  wo_service :: "ros_request \<Rightarrow> reply"
  wo_goal :: "ros_request \<Rightarrow> goal_reply"
  wo_late_result :: "pydict option"
  wo_cancelled_result :: "pydict option"
  wo_yaml_load :: "string \<Rightarrow> string + pyval"
  wo_yaml_dump :: "pydict \<Rightarrow> string"
  wo_capture_timeout :: int

text \<open>
  The exceptions: a \<open>ValueError\<close> or \<open>TimeoutError\<close> that the gateway raises with its text, and
  every other one.
\<close>

datatype web_exn = Value_error string | Timed_out string | Other py_exn

type_synonym 'a web = "('a, web_exn, ros_request) traced"

definition liftW :: "'a result \<Rightarrow> 'a web" where
  "liftW r = (case r of Inl e \<Rightarrow> raiseW (Other e) | Inr x \<Rightarrow> returnW x)"

definition runtime_error :: "string \<Rightarrow> web_exn" where
  "runtime_error text = Other (RuntimeErr text)"

definition no_time :: web_exn where
  "no_time = Timed_out ''ROS request timed out''"

subsection \<open>Calls\<close>

definition await :: "reply \<Rightarrow> pydict web" where
  "await r =
     (case r of
        Missing name \<Rightarrow> raiseW (runtime_error (''Vixel ROS service'' @ (if name = '''' then '''' else '' '' @ name)
          @ '' is unavailable''))
      | No_answer \<Rightarrow> raiseW no_time
      | Failing text \<Rightarrow> raiseW (runtime_error text)
      | Answer response \<Rightarrow> returnW response)"

definition call_service :: "world \<Rightarrow> ros_request \<Rightarrow> pydict web" where
  "call_service w request =
     (case wo_service w request of
        Missing name \<Rightarrow> await (Missing name)
      | r \<Rightarrow> (fst (await r), [request]))"

text \<open>A service that answers without success is an exception with its message.\<close>

definition accepted_call :: "world \<Rightarrow> string \<Rightarrow> (string \<Rightarrow> web_exn) \<Rightarrow> ros_request \<Rightarrow> pydict web" where
  "accepted_call w flag failure request =
     bindW (call_service w request) (\<lambda>response.
     if truthy (attr response flag) then returnW response
     else raiseW (failure (attr_text response ''message'')))"

abbreviation confirmed_call :: "world \<Rightarrow> string \<Rightarrow> ros_request \<Rightarrow> pydict web" where
  "confirmed_call w flag \<equiv> accepted_call w flag runtime_error"

definition send_goal :: "world \<Rightarrow> string \<Rightarrow> string \<Rightarrow> ros_request \<Rightarrow> reply web" where
  "send_goal w unavailable rejected goal =
     (case wo_goal w goal of
        No_server \<Rightarrow> raiseW (runtime_error unavailable)
      | Not_sent None \<Rightarrow> (Inl no_time, [goal])
      | Not_sent (Some text) \<Rightarrow> (Inl (runtime_error text), [goal])
      | Rejected \<Rightarrow> (Inl (runtime_error rejected), [goal])
      | Accepted r \<Rightarrow> (Inr r, [goal]))"

definition done_with :: "pydict \<Rightarrow> pydict" where
  "done_with response = copied response [''success'', ''message'']"

definition body_text :: "pydict \<Rightarrow> string \<Rightarrow> string \<Rightarrow> string" where
  "body_text body key d = py_str (dget body key (PStr d))"

definition body_flag :: "pydict \<Rightarrow> string \<Rightarrow> bool \<Rightarrow> bool" where
  "body_flag body key d = truthy (dget body key (PBool d))"

subsection \<open>Enrollment and placement\<close>

definition enroll_web :: "world \<Rightarrow> string \<Rightarrow> pydict \<Rightarrow> pydict web" where
  "enroll_web w sid body =
     bindW (send_goal w ''Vixel enrollment action is unavailable''
       ''Enrollment goal was rejected; refresh the discovery list''
       (Enroll_goal sid (body_text body ''network_id'' '''') (body_text body ''requested_address'' '''')
         (body_text body ''display_name'' '''') (body_text body ''location_label'' ''unknown''))) (\<lambda>r.
     bindW (await r) (\<lambda>res.
     returnW (done_with res @ [(''sensor'', PDict (sensor_to_dict (attrs_of res ''sensor'')))])))"

definition resolve_placement :: "world \<Rightarrow> string \<Rightarrow> pydict \<Rightarrow> pydict web" where
  "resolve_placement w sid body =
     bindW (send_goal w ''Vixel placement action is unavailable''
       ''Placement goal was rejected; refresh sensor state''
       (Placement_goal (body_text body ''operation'' '''') sid (body_text body ''source_sensor_id'' '''')
         (body_text body ''target_network_id'' ''''))) (\<lambda>r.
     bindW (await r) (\<lambda>res.
     returnW (done_with res @ [(''sensor'', PDict (sensor_to_dict (attrs_of res ''sensor'')))])))"

subsection \<open>Captures\<close>

text \<open>\<open>f"{x / 1000:.0f}"\<close>: halves are rounded to the even neighbour.\<close>

definition show_seconds :: "int \<Rightarrow> string" where
  "show_seconds ms =
     (let q = ms div 1000; r = ms mod 1000 in
      show_int (if r < 500 \<or> (r = 500 \<and> even q) then q else q + 1))"

definition wait_for_capture_result :: "world \<Rightarrow> reply \<Rightarrow> pydict web" where
  "wait_for_capture_result w r =
     (case r of
        No_answer \<Rightarrow>
          (case wo_late_result w of
             Some res \<Rightarrow> returnW res
           | None \<Rightarrow>
               (case wo_cancelled_result w of
                  Some res \<Rightarrow> (Inr res, [Cancel_record_goal])
                | None \<Rightarrow> (Inl (Timed_out (''Capture exceeded the '' @ show_seconds (wo_capture_timeout w)
                    @ ''s deadline; cancellation requested'')), [Cancel_record_goal])))
      | _ \<Rightarrow> await r)"

definition record_capture :: "world \<Rightarrow> string \<Rightarrow> pydict \<Rightarrow> pydict web" where
  "record_capture w gid body =
     bindW (send_goal w ''Vixel capture recorder action is unavailable''
       ''Capture was rejected; check the group or whether one of its cameras is busy''
       (Record_goal gid (body_text body ''request_id'' '''') (body_text body ''session_id'' ''''))) (\<lambda>r.
     bindW (wait_for_capture_result w r) (\<lambda>res.
     returnW (copied res [''success'', ''message'', ''capture_id'', ''directory'', ''saved_sensor_ids'',
       ''missing_sensor_ids''])))"

definition trigger_group :: "world \<Rightarrow> string \<Rightarrow> pydict \<Rightarrow> pydict web" where
  "trigger_group w gid body =
     bindW (send_goal w ''Vixel group trigger action is unavailable''
       ''Trigger was rejected; check the group, request ID, and operating mode''
       (Trigger_goal gid (body_text body ''request_id'' '''') (body_text body ''session_id'' ''''))) (\<lambda>r.
     bindW (await r) (\<lambda>res.
     returnW
       (copied res [''success'', ''message'', ''capture_id'']
        @ [(''scheduled_time'', time_to_dict (attrs_of res ''scheduled_time''))]
        @ copied res [''participating_sensor_ids'', ''missing_sensor_ids'', ''trigger_span_ns'',
            ''exposure_skew_ns'', ''within_tolerance'']
        @ [(''camera_timings'', PList (map camera_timing_to_dict (list_of (attr res ''camera_timings''))))])))"

definition is_string_list :: "pyval \<Rightarrow> bool" where
  "is_string_list v \<longleftrightarrow> is_list v \<and> list_all is_str (list_of v)"

text \<open>The group ids, the request id, the synchronisation flag and the metadata text of a body.\<close>

definition capture_operation_request :: "pydict \<Rightarrow> (string list \<times> string \<times> bool \<times> string) web" where
  "capture_operation_request body =
     (let groups = dget body ''group_ids'' (PList []); metadata = dget body ''metadata'' (PDict []) in
      if \<not> is_string_list groups then raiseW (Value_error ''group_ids must be an array of strings'')
      else if \<not> is_dict metadata then raiseW (Value_error ''metadata must be a JSON object'')
      else returnW (strings_of (list_of groups), body_text body ''request_id'' '''',
        body_flag body ''synchronize_groups'' (length (list_of groups) \<le> 1), json_dumps metadata))"

definition submit_capture_batch :: "world \<Rightarrow> pydict \<Rightarrow> pydict web" where
  "submit_capture_batch w body =
     bindW (capture_operation_request body) (\<lambda>(groups, request, synchronize, metadata).
     bindW (confirmed_call w ''accepted'' (Submit_capture_batch groups request synchronize metadata)) (\<lambda>response.
     returnW ([(''accepted'', PBool True)] @ copied response [''message'', ''operation_id'']
       @ [(''scheduled_time'', time_to_dict (attrs_of response ''scheduled_time''))])))"

definition start_capture_sequence :: "world \<Rightarrow> pydict \<Rightarrow> pydict web" where
  "start_capture_sequence w body =
     bindW (capture_operation_request body) (\<lambda>(groups, request, synchronize, metadata).
     bindW (liftW (py_int (dget body ''interval_ms'' (PInt 0)))) (\<lambda>interval.
     bindW (liftW (py_int (dget body ''count'' (PInt 0)))) (\<lambda>count.
     if count < 0 \<or> 0xFFFFFFFF < count then
       raiseW (Value_error ''count must be zero or a positive 32-bit integer'')
     else
     bindW (confirmed_call w ''accepted''
       (Start_capture_sequence groups request interval count synchronize metadata)) (\<lambda>response.
     returnW ([(''accepted'', PBool True)] @ copied response [''message'', ''operation_id'']
       @ [(''first_scheduled_time'', time_to_dict (attrs_of response ''first_scheduled_time''))])))))"

definition start_test_shot :: "world \<Rightarrow> pydict \<Rightarrow> pydict web" where
  "start_test_shot w body =
     (let kind = body_text body ''target_kind'' ''''; target = body_text body ''target_id'' '''' in
      if kind \<notin> {''sensor'', ''group''} \<or> target = '''' then
        raiseW (Value_error ''test shot requires target_kind sensor|group and target_id'')
      else
        bindW (confirmed_call w ''accepted'' (Start_test_shot kind target (body_text body ''request_id'' '''')))
          (\<lambda>response.
        returnW ([(''accepted'', PBool True)] @ copied response [''message'', ''operation_id''])))"

subsection \<open>Capture sessions and operations\<close>

definition session_reply :: "pydict \<Rightarrow> pydict" where
  "session_reply response =
     [(''success'', PBool True)] @ copied response [''message'']
     @ [(''session'', PDict (capture_session_to_dict (attrs_of response ''session'')))]"

definition acquire_capture_session :: "world \<Rightarrow> pydict \<Rightarrow> pydict web" where
  "acquire_capture_session w body =
     (let kind = body_text body ''target_kind'' ''''; targets = dget body ''target_ids'' (PList []) in
      if kind \<notin> {''sensor'', ''group''} then
        raiseW (Value_error ''capture session target_kind must be sensor or group'')
      else if \<not> is_string_list targets \<or> list_of targets = [] \<or> PStr '''' \<in> set (list_of targets) then
        raiseW (Value_error ''capture session target_ids must be a non-empty string array'')
      else
        bindW (liftW (py_int (dget body ''requested_interval_ms'' (PInt 0)))) (\<lambda>interval.
        if interval < 0 \<or> 0xFFFFFFFF < interval then
          raiseW (Value_error ''requested_interval_ms must be a non-negative 32-bit integer'')
        else
        bindW (confirmed_call w ''success''
          (Acquire_capture_session (body_text body ''owner_id'' ''http-client'') kind
            (strings_of (list_of targets)) interval (body_flag body ''exclusive'' False))) (\<lambda>response.
        returnW (session_reply response))))"

definition renew_capture_session_web :: "world \<Rightarrow> string \<Rightarrow> pydict web" where
  "renew_capture_session_web w session =
     bindW (confirmed_call w ''success'' (Renew_capture_session session)) (\<lambda>response.
     returnW (session_reply response))"

definition confirmation :: "pydict \<Rightarrow> pydict" where
  "confirmation response = [(''success'', PBool True)] @ copied response [''message'']"

definition release_capture_session :: "world \<Rightarrow> string \<Rightarrow> pydict web" where
  "release_capture_session w session =
     bindW (confirmed_call w ''success'' (Release_capture_session session)) (\<lambda>response.
     returnW (confirmation response))"

definition operation_reply :: "pydict \<Rightarrow> pydict" where
  "operation_reply response =
     confirmation response
     @ [(''operation'', PDict (capture_operation_to_dict (attrs_of response ''operation'')))]"

definition cancel_capture_operation :: "world \<Rightarrow> string \<Rightarrow> pydict web" where
  "cancel_capture_operation w uid =
     bindW (confirmed_call w ''success'' (Cancel_capture_operation uid)) (\<lambda>response.
     returnW (operation_reply response))"

definition get_capture_operation :: "world \<Rightarrow> string \<Rightarrow> pydict web" where
  "get_capture_operation w uid =
     bindW (accepted_call w ''success'' (\<lambda>text. Other (KeyErr text)) (Get_capture_operation uid)) (\<lambda>response.
     returnW (operation_reply response))"

subsection \<open>Cameras\<close>

definition numbers :: "pyval \<Rightarrow> (string \<times> pyfloat) list \<Rightarrow> pyfloat list result" where
  "numbers v components = mapR (\<lambda>(k, d). bindR (py_get v k (PFloat d)) py_float) components"

text \<open>
  A patch of an enrolled camera: the body over the gateway's copy of the camera, with the pose as
  position and orientation.
\<close>

definition update_request :: "string \<Rightarrow> pydict \<Rightarrow> pydict \<Rightarrow> ros_request result" where
  "update_request sid current body =
     (let merged = dupdate body current; pose = dget merged ''pose'' (PDict []) in
      bindR (py_get pose ''position'' (PDict [])) (\<lambda>position.
      bindR (py_get pose ''orientation'' (PDict [])) (\<lambda>orientation.
      bindR (numbers position [(''x'', Dec 0 0), (''y'', Dec 0 0), (''z'', Dec 0 0)]) (\<lambda>xyz.
      bindR (numbers orientation [(''x'', Dec 0 0), (''y'', Dec 0 0), (''z'', Dec 0 0), (''w'', Dec 1 0)]) (\<lambda>quaternion.
      Inr (Update_sensor_metadata sid (body_text merged ''display_name'' sid)
        (body_text merged ''location_label'' ''unknown'') (body_flag merged ''has_pose'' False)
        (body_text merged ''parent_frame'' '''') (xyz @ quaternion) (body_text merged ''calibration_url'' '''')
        (body_flag merged ''enabled'' True)))))))"

definition update_sensor_web :: "world \<Rightarrow> gateway \<Rightarrow> string \<Rightarrow> pydict \<Rightarrow> pydict web" where
  "update_sensor_web w g sid body =
     (case map_of (gw_sensors g) sid of
        Some current \<Rightarrow>
          if \<not> truthy (attr current ''enrolled'') then
            raiseW (Other (KeyErr (''unknown enrolled sensor '' @ sid)))
          else
            bindW (liftW (update_request sid current body)) (\<lambda>request.
            bindW (call_service w request) (\<lambda>response.
            returnW (done_with response @ [(''sensor'', PDict (sensor_to_dict (attrs_of response ''sensor'')))])))
      | None \<Rightarrow> raiseW (Other (KeyErr (''unknown enrolled sensor '' @ sid))))"

definition update_known_sensor_web :: "world \<Rightarrow> gateway \<Rightarrow> string \<Rightarrow> pydict \<Rightarrow> pydict web" where
  "update_known_sensor_web w g sid body =
     (case map_of (gw_known_sensors g) sid of
        Some current \<Rightarrow>
          (let settings = dget body ''provider_settings'' (dget current ''provider_settings'' (PDict []));
               text = (\<lambda>key. py_str (dget body key (dget current key (PStr '''')))) in
           if \<not> is_dict settings then raiseW (Value_error ''provider_settings must be a JSON object'')
           else
             bindW (confirmed_call w ''success''
               (Update_known_sensor sid (text ''notes'') (text ''camera_profile'') (json_dumps settings)))
               (\<lambda>response.
             returnW (confirmation response
               @ [(''sensor'', PDict (known_sensor_to_dict (attrs_of response ''sensor'')))])))
      | None \<Rightarrow> raiseW (Other (KeyErr (''unknown sensor '' @ sid))))"

definition camera_features :: "world \<Rightarrow> string \<Rightarrow> pydict web" where
  "camera_features w sid =
     bindW (confirmed_call w ''success'' (Get_camera_features sid)) (\<lambda>response.
     returnW (confirmation response @ [(''features'',
       PList (map (\<lambda>v. PDict (camera_feature_to_dict (dict_of v))) (list_of (attr response ''features''))))]))"

definition apply_camera_settings :: "world \<Rightarrow> string \<Rightarrow> pydict \<Rightarrow> pydict web" where
  "apply_camera_settings w sid body =
     (let settings = dget body ''provider_settings'' (PDict []) in
      if \<not> is_dict settings then raiseW (Value_error ''provider_settings must be a JSON object'')
      else
        bindW (confirmed_call w ''success''
          (Apply_camera_settings sid (body_text body ''camera_profile'' '''') (json_dumps settings)
            (body_flag body ''allow_offline'' False))) (\<lambda>response.
        returnW (confirmation response @ copied response [''rolled_back'']
          @ [(''effective_settings'', json_or (attr response ''effective_settings_json'') (PDict []))])))"

definition purge_known_sensor_web :: "world \<Rightarrow> string \<Rightarrow> pydict web" where
  "purge_known_sensor_web w sid =
     bindW (confirmed_call w ''success'' (Purge_known_sensor sid)) (\<lambda>response.
     returnW (confirmation response))"

definition set_port_mode_web :: "world \<Rightarrow> string \<Rightarrow> pydict \<Rightarrow> pydict web" where
  "set_port_mode_web w nid body =
     bindW (call_service w (Set_port_mode nid (body_text body ''mode'' ''''))) (\<lambda>response.
     returnW (done_with response @ [(''port'', PDict (port_to_dict (attrs_of response ''port'')))]))"

subsection \<open>Camera profiles\<close>

definition text_or :: "string \<Rightarrow> string \<Rightarrow> string" where
  "text_or s d = (if s = '''' then d else s)"

definition camera_profiles_web :: "world \<Rightarrow> pydict web" where
  "camera_profiles_web w =
     bindW (confirmed_call w ''success'' Get_camera_profiles) (\<lambda>response.
     bindW (liftW (json_loads (text_or (attr_text response ''profiles_json'') ''[]''))) (\<lambda>profiles.
     returnW (confirmation response @ [(''profiles'', profiles)])))"

definition upsert_camera_profile :: "world \<Rightarrow> string \<Rightarrow> pydict \<Rightarrow> pydict web" where
  "upsert_camera_profile w name body =
     (if \<not> py_eq (dget body ''name'' (PStr name)) (PStr name) then
        raiseW (Value_error ''profile name in URL and document must match'')
      else
        bindW (confirmed_call w ''success''
          (Upsert_camera_profile (json_dumps (PDict (dset ''name'' (PStr name) body)))
            (body_flag body ''overwrite'' False))) (\<lambda>response.
        bindW (liftW (json_loads (text_or (attr_text response ''profile_json'') ''{}''))) (\<lambda>profile.
        returnW (confirmation response @ [(''profile'', profile)]))))"

definition import_camera_profile :: "world \<Rightarrow> pydict \<Rightarrow> pydict web" where
  "import_camera_profile w body =
     (let text = dget body ''profile_yaml'' (PStr '''') in
      if \<not> is_str text \<or> strip (str_of text) = '''' then
        raiseW (Value_error ''profile_yaml must contain a YAML camera profile'')
      else if 64 * 1024 < utf8_length (str_of text) then raiseW (Value_error ''camera profile exceeds 64 KiB'')
      else
        (case wo_yaml_load w (str_of text) of
           Inl reason \<Rightarrow> raiseW (Value_error (''invalid camera profile YAML: '' @ reason))
         | Inr (PDict profile) \<Rightarrow>
             (let name = strip (body_text profile ''name'' '''') in
              if name = '''' then raiseW (Value_error ''camera profile YAML must contain a name'')
              else upsert_camera_profile w name
                (dset ''overwrite'' (PBool (body_flag body ''overwrite'' False)) profile))
         | Inr v \<Rightarrow> raiseW (Value_error ''camera profile YAML must contain a mapping'')))"

definition delete_camera_profile :: "world \<Rightarrow> string \<Rightarrow> pydict web" where
  "delete_camera_profile w name =
     bindW (confirmed_call w ''success'' (Delete_camera_profile name)) (\<lambda>response.
     returnW (confirmation response))"

subsection \<open>Operations of the dashboard\<close>

text \<open>
  The worker of an operation, run by its own thread; \<open>ended\<close> is how the table records its end.
  The texts of the exceptions without one in the model are left empty.
\<close>

datatype worker = Enroll_worker string pydict | Placement_worker string pydict

definition run_worker :: "world \<Rightarrow> worker \<Rightarrow> pydict web" where
  "run_worker w worker =
     (case worker of
        Enroll_worker sid body \<Rightarrow> enroll_web w sid body
      | Placement_worker sid body \<Rightarrow> resolve_placement w sid body)"

definition exn_text :: "web_exn \<Rightarrow> string" where
  "exn_text e =
     (case e of
        Value_error text \<Rightarrow> text
      | Timed_out text \<Rightarrow> text
      | Other (RuntimeErr text) \<Rightarrow> text
      | Other (KeyErr key) \<Rightarrow> str_repr key
      | _ \<Rightarrow> '''')"

definition operation_end :: "world \<Rightarrow> string \<Rightarrow> worker \<Rightarrow> gateway_event" where
  "operation_end w uid worker =
     (case fst (run_worker w worker) of
        Inr res \<Rightarrow> Operation_ends uid (truthy (attr res ''success'')) (attr_text res ''message'')
      | Inl e \<Rightarrow> Operation_ends uid False (exn_text e))"

end
