(* ===== verification/Gateway_Http.thy ===== *)
theory Gateway_Http
  imports Gateway_Requests Paths
begin

section \<open>The HTTP interface of the gateway\<close>

text \<open>
  The class \<^verbatim>\<open>Handler\<close> of \<^verbatim>\<open>vixel_web/gateway.py\<close>: routing, request bodies, the answers of
  \<open>GET\<close> and of the mutations with their status codes, images on disk, preview frames,
  streams, and the connection slots of the server.

  A response is its status and document, or what the handler sends instead of a document; an
  exception that no clause catches closes the connection without a response (\<open>Dropped\<close>).
  The file system and the clock are parameters (\<open>site\<close>). A request target is given by the path
  that \<^verbatim>\<open>urlparse\<close> finds in it.
\<close>

datatype http_response =
    Json_response nat pydict
  | Page string
  | Attachment string string
  | Image string
  | Preview_frame string string string int
  | Not_modified string int
  | Frame_stream string
  | Event_stream
  | Dropped py_exn

definition error_response :: "nat \<Rightarrow> string \<Rightarrow> http_response" where
  "error_response st message =
     Json_response st [(''success'', PBool False), (''message'', PStr message)]"

record site =
  si_now :: rat
  si_state_timeout :: rat
  si_page :: "string option"
  si_machine_file :: string
  si_inventory_file :: string
  si_document :: "string + pyval"
  si_profile_files :: "string \<Rightarrow> (string + (string \<times> pyval option) list) option"
  si_resolve :: "string \<Rightarrow> string option"
  si_is_file :: "string \<Rightarrow> bool"
  si_read :: "string \<Rightarrow> string option"

subsection \<open>Targets\<close>

definition api :: "string \<Rightarrow> nat \<Rightarrow> string list \<Rightarrow> bool" where
  "api section n parts \<longleftrightarrow> length parts = n \<and> take 3 parts = [''api'', ''v1'', section]"

definition is_routine_snapshot_request :: "string \<Rightarrow> nat \<Rightarrow> bool" where
  "is_routine_snapshot_request path st \<longleftrightarrow>
     st \<in> {200, 304} \<and> api ''sensors'' 5 (path_parts path)
     \<and> path_parts path ! 4 \<in> {''snapshot'', ''snapshot.jpg'', ''snapshot.png''}"

text \<open>
  \<^verbatim>\<open>urllib.parse.unquote\<close>: percent escapes are the bytes of UTF-8; a byte sequence that is not a
  character of the model's strings becomes a question mark.
\<close>

fun unquote :: "string \<Rightarrow> string" where
  "unquote [] = []"
| "unquote (c # s) =
     (if c = CHR ''%'' then
        (case s of
           a # b # r \<Rightarrow>
             (case (json_hex a, json_hex b) of
                (Some h, Some l) \<Rightarrow>
                  (let n = 16 * h + l in
                   if n < 128 then chr n # unquote r
                   else
                     (case r of
                        p # d # e # t \<Rightarrow>
                          (case (json_hex d, json_hex e) of
                             (Some h', Some l') \<Rightarrow>
                               (let n' = 16 * h' + l' in
                                if p = CHR ''%'' \<and> n \<in> {194, 195} \<and> 128 \<le> n' \<and> n' < 192
                                then chr (64 * (n - 192) + (n' - 128)) # unquote t
                                else CHR ''?'' # unquote r)
                           | _ \<Rightarrow> CHR ''?'' # unquote r)
                      | _ \<Rightarrow> CHR ''?'' # unquote r))
              | _ \<Rightarrow> c # unquote s)
         | _ \<Rightarrow> c # unquote s)
      else c # unquote s)"

subsection \<open>Request bodies\<close>

text \<open>
  The header \<^verbatim>\<open>Content-Length\<close> (absent: zero) and what reading that many bytes yields, as decoded
  text; a negative number reads to the end of the connection.
\<close>

record incoming =
  in_method :: string
  in_path :: string
  in_length :: string
  in_read :: "int \<Rightarrow> string"
  in_none_match :: "string option"

definition request_body :: "incoming \<Rightarrow> pydict web" where
  "request_body q =
     bindW (liftW (py_int (PStr (in_length q)))) (\<lambda>n.
     if 1024 * 1024 < n then raiseW (Value_error ''request body is too large'')
     else if n = 0 then returnW []
     else
       bindW (liftW (json_loads (in_read q n))) (\<lambda>v.
       case v of
         PDict body \<Rightarrow> returnW body
       | _ \<Rightarrow> raiseW (Value_error ''JSON request body must be an object'')))"

subsection \<open>Mutations\<close>

text \<open>
  The clauses \<open>except TimeoutError\<close> and \<open>except (ValueError, KeyError, RuntimeError,
  JSONDecodeError)\<close>; the text of an exception that has none in the model is left empty.
\<close>

definition mutation_error :: "web_exn \<Rightarrow> http_response" where
  "mutation_error e =
     (case e of
        Timed_out text \<Rightarrow> error_response 504 text
      | Value_error text \<Rightarrow> error_response 400 text
      | Other x \<Rightarrow>
          (case x of
             RuntimeErr text \<Rightarrow> error_response 400 text
           | KeyErr key \<Rightarrow> error_response 400 (exn_text e)
           | ValueErr \<Rightarrow> error_response 400 (exn_text e)
           | JSONErr \<Rightarrow> error_response 400 (exn_text e)
           | TimeoutErr \<Rightarrow> error_response 504 (exn_text e)
           | _ \<Rightarrow> Dropped x))"

text \<open>
  What a mutation does: the response, the requests sent to the manager, the gateway afterwards
  and the operation whose thread it starts.
\<close>

record mutation =
  mu_response :: http_response
  mu_sent :: "ros_request list"
  mu_gateway :: gateway
  mu_thread :: "(string \<times> worker) option"

definition answered :: "gateway \<Rightarrow> (nat \<times> pydict) web \<Rightarrow> mutation" where
  "answered g m =
     \<lparr>mu_response = (case fst m of Inr (st, document) \<Rightarrow> Json_response st document | Inl e \<Rightarrow> mutation_error e),
      mu_sent = snd m, mu_gateway = g, mu_thread = None\<rparr>"

definition with_status :: "nat \<Rightarrow> pydict web \<Rightarrow> (nat \<times> pydict) web" where
  "with_status st m = bindW m (\<lambda>document. returnW (st, document))"

definition start_work :: "string \<Rightarrow> string \<Rightarrow> string \<Rightarrow> worker \<Rightarrow> gateway \<Rightarrow> mutation" where
  "start_work uid kind target worker g =
     (case start_operation uid kind target g of
        (Inl e, g') \<Rightarrow> answered g' (raiseW (Other e))
      | (Inr p, g') \<Rightarrow>
          \<lparr>mu_response = Json_response 202 ((''success'', PBool True) # operation_dict p),
           mu_sent = [], mu_gateway = g', mu_thread = Some (uid, worker)\<rparr>)"

definition forget_sensor_web :: "world \<Rightarrow> string \<Rightarrow> pydict \<Rightarrow> (nat \<times> pydict) web" where
  "forget_sensor_web w sid body =
     bindW (call_service w (Forget_sensor sid (body_flag body ''force'' False))) (\<lambda>response.
     returnW (if truthy (attr response ''success'') then 200 else 409, done_with response))"

definition change_mode :: "world \<Rightarrow> pydict \<Rightarrow> pydict web" where
  "change_mode w body =
     (let kind = body_text body ''target_kind'' ''''; target = body_text body ''target_id'' '''';
          mode = body_text body ''mode'' '''' in
      bindW (liftW (py_int (dget body ''capture_interval_ms'' (PInt 0)))) (\<lambda>interval.
      if kind = ''group'' \<and> mode = ''capture'' \<and> 0 < interval then
        bindW (call_service w (Prepare_capture_groups [target] interval ''legacy-http-mode'')) (\<lambda>response.
        returnW [(''success'', attr response ''accepted''), (''message'', attr response ''message''),
          (''session_id'', attr response ''session_id'')])
      else
        bindW (call_service w (Set_operating_mode kind target mode)) (\<lambda>response.
        returnW (done_with response))))"

definition upsert_group_web :: "world \<Rightarrow> string \<Rightarrow> pydict \<Rightarrow> pydict web" where
  "upsert_group_web w gid body =
     bindW (liftW (py_list (dget body ''member_ids'' (PList [])))) (\<lambda>members.
     bindW (liftW (py_float (dget body ''preview_rate_hz'' (PFloat (Dec 2 0))))) (\<lambda>rate.
     bindW (call_service w (Upsert_sync_group gid (body_text body ''provider'' ''genicam'') members
       (body_text body ''missing_policy'' ''strict'') ''Action0'' rate '''')) (\<lambda>response.
     returnW (done_with response))))"

definition delete_group_web :: "world \<Rightarrow> string \<Rightarrow> pydict web" where
  "delete_group_web w gid =
     bindW (call_service w (Delete_sync_group gid)) (\<lambda>response. returnW (done_with response))"

text \<open>The routes in the order of the code; \<open>uid\<close> is the identifier of a new operation.\<close>

definition route_mutation :: "world \<Rightarrow> string \<Rightarrow> gateway \<Rightarrow> string \<Rightarrow> string \<Rightarrow> pydict \<Rightarrow> mutation" where
  "route_mutation w uid g verb path body =
     (let parts = path_parts path; target = parts ! 3; action = parts ! 4;
          ok = (\<lambda>m. answered g (with_status 200 m)) in
      if verb = ''POST'' \<and> api ''sensors'' 5 parts \<and> action = ''enroll'' then
        start_work uid ''enroll'' target (Enroll_worker target body) g
      else if verb = ''POST'' \<and> api ''sensors'' 5 parts \<and> action \<in> {''replace'', ''move''} then
        start_work uid action target (Placement_worker target (dset ''operation'' (PStr action) body)) g
      else if verb = ''PATCH'' \<and> api ''sensors'' 4 parts then ok (update_sensor_web w g target body)
      else if verb = ''PATCH'' \<and> api ''known-sensors'' 4 parts then ok (update_known_sensor_web w g target body)
      else if verb = ''POST'' \<and> api ''sensors'' 5 parts \<and> action = ''camera-settings'' then
        ok (apply_camera_settings w target body)
      else if verb = ''PUT'' \<and> api ''camera-profiles'' 4 parts then ok (upsert_camera_profile w target body)
      else if verb = ''POST'' \<and> path = ''/api/v1/camera-profiles/import'' then ok (import_camera_profile w body)
      else if verb = ''DELETE'' \<and> api ''camera-profiles'' 4 parts then ok (delete_camera_profile w target)
      else if verb = ''DELETE'' \<and> api ''sensors'' 4 parts then answered g (forget_sensor_web w target body)
      else if verb = ''DELETE'' \<and> api ''known-sensors'' 4 parts then ok (purge_known_sensor_web w target)
      else if verb = ''POST'' \<and> path = ''/api/v1/mode'' then ok (change_mode w body)
      else if verb = ''POST'' \<and> path = ''/api/v1/capture-sessions'' then
        answered g (with_status 201 (acquire_capture_session w body))
      else if verb = ''PATCH'' \<and> api ''capture-sessions'' 4 parts then ok (renew_capture_session_web w target)
      else if verb = ''DELETE'' \<and> api ''capture-sessions'' 4 parts then ok (release_capture_session w target)
      else if verb = ''PUT'' \<and> api ''ports'' 5 parts \<and> action = ''mode'' then ok (set_port_mode_web w target body)
      else if verb = ''PUT'' \<and> api ''groups'' 4 parts then ok (upsert_group_web w target body)
      else if verb = ''DELETE'' \<and> api ''groups'' 4 parts then ok (delete_group_web w target)
      else if verb = ''POST'' \<and> api ''groups'' 5 parts \<and> action = ''capture'' then ok (record_capture w target body)
      else if verb = ''POST'' \<and> api ''groups'' 5 parts \<and> action = ''trigger'' then ok (trigger_group w target body)
      else if verb = ''POST'' \<and> path = ''/api/v1/capture-operations/batch'' then
        answered g (with_status 202 (submit_capture_batch w body))
      else if verb = ''POST'' \<and> path = ''/api/v1/capture-operations/sequence'' then
        answered g (with_status 202 (start_capture_sequence w body))
      else if verb = ''POST'' \<and> path = ''/api/v1/test-shots'' then
        answered g (with_status 202 (start_test_shot w body))
      else if verb = ''POST'' \<and> api ''capture-operations'' 5 parts \<and> action = ''cancel'' then
        ok (cancel_capture_operation w target)
      else
        \<lparr>mu_response = error_response 404 ''not found'', mu_sent = [], mu_gateway = g, mu_thread = None\<rparr>)"

definition mutate :: "world \<Rightarrow> string \<Rightarrow> gateway \<Rightarrow> incoming \<Rightarrow> mutation" where
  "mutate w uid g q =
     (case fst (request_body q) of
        Inl e \<Rightarrow> answered g (raiseW e)
      | Inr body \<Rightarrow> route_mutation w uid g (in_method q) (in_path q) body)"

subsection \<open>Answers from the state\<close>

definition file_suffix :: "string \<Rightarrow> string" where
  "file_suffix name =
     (let tail = takeWhile (\<lambda>c. c \<noteq> CHR ''.'') (rev name) in
      if length tail = length name \<or> tail = [] \<or> length tail + 1 = length name then ''''
      else CHR ''.'' # rev tail)"

definition file_stem :: "string \<Rightarrow> string" where
  "file_stem name = take (length name - length (file_suffix name)) name"

text \<open>The names of the profile files of a directory; a file that cannot be read is skipped.\<close>

fun profile_file_names :: "(string \<times> pyval option) list \<Rightarrow> string list result" where
  "profile_file_names [] = Inr []"
| "profile_file_names ((name, document) # files) =
     (if lower (file_suffix name) \<notin> {''.yaml'', ''.yml''} then profile_file_names files
      else
        (case document of
           None \<Rightarrow> profile_file_names files
         | Some v \<Rightarrow>
             bindR (py_get (if truthy v then v else PDict []) ''name'' (PStr (file_stem name))) (\<lambda>n.
             bindR (profile_file_names files) (\<lambda>ns. Inr (py_str n # ns)))))"

definition truthy_or :: "pyval \<Rightarrow> pyval \<Rightarrow> pyval" where
  "truthy_or v d = (if truthy v then v else d)"

definition system_document :: "site \<Rightarrow> pyval list \<Rightarrow> string list \<Rightarrow> string list \<Rightarrow> string \<Rightarrow> pydict" where
  "system_document si networks providers profiles reason =
     [(''machine_file'', PStr (si_machine_file si)), (''inventory_file'', PStr (si_inventory_file si)),
      (''managed_networks'', PList networks), (''providers'', PList (map PStr providers)),
      (''camera_profiles'', PList (map PStr profiles)), (''error'', PStr reason)]"

definition network_item :: "string \<times> pyval \<Rightarrow> pyval result" where
  "network_item entry =
     (case entry of
        (k, PDict network) \<Rightarrow> Inr (PDict (dupdate network [(''network_id'', PStr k)]))
      | _ \<Rightarrow> Inl TypeErr)"

definition profile_directory :: "pyval \<Rightarrow> string result" where
  "profile_directory machine =
     bindR (py_get machine ''camera_profiles'' PNone) (\<lambda>section.
     bindR (py_get (truthy_or section (PDict [])) ''directory'' (PStr ''/etc/vixel/camera-profiles'')) (\<lambda>directory.
     case directory of PStr d \<Rightarrow> Inr d | _ \<Rightarrow> Inl TypeErr))"

definition system_info :: "site \<Rightarrow> pydict result" where
  "system_info si =
     (case si_document si of
        Inl reason \<Rightarrow> Inr (system_document si [] [] [] reason)
      | Inr document \<Rightarrow>
          (let machine = truthy_or document (PDict []) in
           bindR (py_get machine ''managed_networks'' PNone) (\<lambda>section.
           bindR (py_items (truthy_or section (PDict []))) (\<lambda>items.
           bindR (mapR network_item items) (\<lambda>networks.
           bindR (profile_directory machine) (\<lambda>directory.
           case si_profile_files si directory of
             Some (Inl reason) \<Rightarrow> Inr (system_document si networks [] [] reason)
           | found \<Rightarrow>
               bindR (profile_file_names (case found of Some (Inr files) \<Rightarrow> files | _ \<Rightarrow> [])) (\<lambda>names.
               bindR (py_get machine ''providers'' PNone) (\<lambda>section.
               bindR (py_items (truthy_or section (PDict []))) (\<lambda>providers.
               Inr (system_document si networks (sort (dkeys providers)) (sort (remdups names)) ''''))))))))))"

subsection \<open>Images on disk\<close>

definition capture_record :: "gateway \<Rightarrow> string \<Rightarrow> pydict option" where
  "capture_record g cid = List.find (\<lambda>r. attr r ''capture_id'' = PStr cid) (gw_capture_records g)"

definition saved_image :: "site \<Rightarrow> string \<Rightarrow> string \<Rightarrow> string option" where
  "saved_image si directory sid =
     (case si_resolve si directory of
        None \<Rightarrow> None
      | Some d \<Rightarrow>
          (case si_resolve si (path_in d (sid @ ''.png'')) of
             None \<Rightarrow> None
           | Some p \<Rightarrow> if path_parent p \<noteq> d \<or> \<not> si_is_file si p then None else si_read si p))"

definition capture_image :: "site \<Rightarrow> gateway \<Rightarrow> string \<Rightarrow> string \<Rightarrow> http_response" where
  "capture_image si g cid sid =
     (if cid = '''' \<or> sid = '''' \<or> path_name sid \<noteq> sid \<or> sid \<in> {''.'', ''..''} then
        error_response 400 ''invalid capture image path''
      else
        (case capture_record g cid of
           None \<Rightarrow> error_response 404 (''completed capture '' @ cid @ '' was not found'')
         | Some r \<Rightarrow>
             if attr r ''status'' \<noteq> PStr ''complete'' then
               error_response 404 (''completed capture '' @ cid @ '' was not found'')
             else if PStr sid \<notin> set (list_of (dget r ''saved_sensor_ids'' (PList []))) then
               error_response 404 (''capture '' @ cid @ '' has no saved image for '' @ sid)
             else
               (case saved_image si (attr_text r ''directory'') sid of
                  None \<Rightarrow> error_response 404 (''saved image for '' @ sid @ '' is unavailable on disk'')
                | Some data \<Rightarrow> Image data)))"

subsection \<open>Preview frames\<close>

definition truncated :: "rat \<Rightarrow> int" where
  "truncated x = (if 0 \<le> x then \<lfloor>x\<rfloor> else \<lceil>x\<rceil>)"

definition etag :: "frame \<Rightarrow> string" where
  "etag f = [chr 34] @ show_int (fr_generation f) @ [chr 34]"

definition preview_unavailable :: http_response where
  "preview_unavailable = error_response 404 ''camera preview is unavailable''"

definition preview_snapshot :: "site \<Rightarrow> string option \<Rightarrow> string \<Rightarrow> gateway \<Rightarrow> http_response \<times> gateway" where
  "preview_snapshot si none_match sid g =
     (case request_preview (si_now si) sid g of
        (False, g') \<Rightarrow> (preview_unavailable, g')
      | (True, g') \<Rightarrow>
          ((case map_of (gw_frames g') sid of
              None \<Rightarrow> error_response 503 ''no preview frame is available''
            | Some f \<Rightarrow>
                (let age = truncated ((si_now si - fr_received f) * 1000) in
                 if none_match = Some (etag f) then Not_modified (etag f) age
                 else Preview_frame (fr_data f) (fr_type f) (etag f) age)), g'))"

definition preview_stream :: "site \<Rightarrow> string \<Rightarrow> gateway \<Rightarrow> http_response \<times> gateway" where
  "preview_stream si sid g =
     (case request_preview (si_now si) sid g of
        (False, g') \<Rightarrow> (preview_unavailable, g')
      | (True, g') \<Rightarrow> (Frame_stream sid, g'))"

text \<open>
  The loops of the two streams, which end when the client goes away: what is sent for the table
  entries and the generations seen when the stream wakes up. The event stream repeats the
  snapshot after fifteen seconds without a change.
\<close>

fun sent_frames :: "int \<Rightarrow> frame option list \<Rightarrow> frame list" where
  "sent_frames n [] = []"
| "sent_frames n (None # seen) = sent_frames n seen"
| "sent_frames n (Some f # seen) =
     (if fr_generation f \<le> n then sent_frames n seen else f # sent_frames (fr_generation f) seen)"

definition event_wakes :: "bool \<Rightarrow> int \<Rightarrow> gateway \<Rightarrow> bool" where
  "event_wakes timeout n g \<longleftrightarrow> gw_generation g \<noteq> n \<or> timeout"

fun sent_events :: "int \<Rightarrow> (bool \<times> gateway) list \<Rightarrow> pydict list" where
  "sent_events n [] = []"
| "sent_events n ((timeout, g) # seen) =
     (if event_wakes timeout n g then state_snapshot g # sent_events (gw_generation g) seen
      else sent_events n seen)"

subsection \<open>\<open>GET\<close>\<close>

fun profile_named :: "string \<Rightarrow> pyval list \<Rightarrow> pydict option result" where
  "profile_named name [] = Inr None"
| "profile_named name (v # vs) =
     bindR (py_get v ''name'' PNone) (\<lambda>n.
     if n = PStr name then Inr (Some (dict_of v)) else profile_named name vs)"

definition query_error :: "nat \<Rightarrow> (py_exn \<Rightarrow> bool) \<Rightarrow> web_exn \<Rightarrow> http_response" where
  "query_error st caught e =
     (case e of
        Timed_out text \<Rightarrow> error_response st text
      | Value_error text \<Rightarrow> Dropped ValueErr
      | Other x \<Rightarrow> if caught x then error_response st (exn_text e) else Dropped x)"

fun is_runtime :: "py_exn \<Rightarrow> bool" where
  "is_runtime (RuntimeErr text) = True"
| "is_runtime e = False"

fun is_key :: "py_exn \<Rightarrow> bool" where
  "is_key (KeyErr k) = True"
| "is_key e = False"

definition queried :: "nat \<Rightarrow> (py_exn \<Rightarrow> bool) \<Rightarrow> pydict web \<Rightarrow> http_response \<times> ros_request list" where
  "queried st caught m =
     (case fst m of Inr document \<Rightarrow> Json_response 200 document | Inl e \<Rightarrow> query_error st caught e, snd m)"

definition export_profile :: "world \<Rightarrow> string \<Rightarrow> http_response \<times> ros_request list" where
  "export_profile w name =
     (let m = bindW (camera_profiles_web w) (\<lambda>document.
          liftW (bindR (py_list (attr document ''profiles'')) (profile_named name))) in
      (case fst m of
         Inl e \<Rightarrow> query_error 503 is_runtime e
       | Inr None \<Rightarrow> error_response 404 (''unknown camera profile '' @ name)
       | Inr (Some profile) \<Rightarrow>
           Attachment (name @ ''.yaml'')
             (wo_yaml_dump w (filter (\<lambda>(k, v). k \<notin> {''source'', ''source_path''}) profile)), snd m))"

definition shown :: "gateway \<Rightarrow> string \<Rightarrow> http_response" where
  "shown g key =
     Json_response 200 [(''generation'', attr (state_snapshot g) ''generation''), (key, attr (state_snapshot g) key)]"

definition is_page :: "string \<Rightarrow> bool" where
  "is_page path \<longleftrightarrow>
     path \<in> {''/'', ''/index.html''}
     \<or> (length (path_parts path) = 2 \<and> hd (path_parts path) \<in> {''sensors'', ''test-shots''})"

text \<open>The routes in the order of the code.\<close>

definition get :: "world \<Rightarrow> site \<Rightarrow> gateway \<Rightarrow> incoming \<Rightarrow> (http_response \<times> ros_request list) \<times> gateway" where
  "get w si g q =
     (let path = in_path q; parts = path_parts path; target = parts ! 3; action = parts ! 4;
          plain = (\<lambda>r. ((r, []), g)); asked = (\<lambda>r. (r, g)); stateful = (\<lambda>(r, g'). ((r, []), g')) in
      if is_page path then plain (case si_page si of Some body \<Rightarrow> Page body | None \<Rightarrow> Dropped OSErr)
      else if path = ''/api/v1/sensors'' then plain (shown g ''sensors'')
      else if path = ''/api/v1/known-sensors'' then plain (shown g ''known_sensors'')
      else if api ''known-sensors'' 4 parts then
        plain (case map_of (gw_known_sensors g) target of
                 None \<Rightarrow> error_response 404 (''unknown sensor '' @ target)
               | Some s \<Rightarrow> Json_response 200 [(''sensor'', PDict s)])
      else if path = ''/api/v1/camera-profiles'' then
        asked (queried 503 (\<lambda>e. is_runtime e \<or> e = JSONErr) (camera_profiles_web w))
      else if api ''sensors'' 5 parts \<and> action = ''features'' then
        asked (queried 503 is_runtime (camera_features w target))
      else if api ''camera-profiles'' 5 parts \<and> action = ''export'' then asked (export_profile w target)
      else if path = ''/api/v1/groups'' then plain (shown g ''groups'')
      else if path = ''/api/v1/ports'' then plain (shown g ''ports'')
      else if path = ''/api/v1/operations'' then plain (shown g ''operations'')
      else if path = ''/api/v1/capture-operations'' then plain (shown g ''capture_operations'')
      else if path = ''/api/v1/capture-sessions'' then plain (shown g ''capture_sessions'')
      else if api ''capture-operations'' 4 parts then
        asked (queried 404 (\<lambda>e. is_runtime e \<or> is_key e) (get_capture_operation w target))
      else if path = ''/api/v1/captures'' then plain (shown g ''capture_records'')
      else if api ''captures'' 6 parts \<and> action = ''images'' then
        plain (capture_image si g (unquote target) (unquote (parts ! 5)))
      else if path = ''/api/v1/system/config'' then
        plain (case system_info si of Inr document \<Rightarrow> Json_response 200 document | Inl e \<Rightarrow> Dropped e)
      else if path = ''/api/v1/health'' then
        plain (case_prod Json_response (health (si_now si) (si_state_timeout si) g))
      else if path = ''/api/v1/events'' then plain Event_stream
      else if api ''sensors'' 5 parts \<and> action \<in> {''snapshot'', ''snapshot.jpg'', ''snapshot.png''} then
        stateful (preview_snapshot si (in_none_match q) target g)
      else if api ''sensors'' 5 parts \<and> action \<in> {''stream'', ''stream.mjpg''} then
        stateful (preview_stream si target g)
      else plain (error_response 404 ''not found''))"

subsection \<open>Connection slots\<close>

text \<open>
  \<^verbatim>\<open>VixelHTTPServer\<close>: a connection takes a slot without waiting, or is refused with status 503;
  a thread that does not start, and one that ends, gives its slot back.
\<close>

record http_server =
  sv_slots :: nat
  sv_free :: nat
  sv_served :: nat

datatype admission = Admitted | Refused http_response | Thread_failed

definition new_server :: "nat \<Rightarrow> http_server" where
  "new_server max_connections =
     \<lparr>sv_slots = max 1 max_connections, sv_free = max 1 max_connections, sv_served = 0\<rparr>"

definition process_request :: "bool \<Rightarrow> http_server \<Rightarrow> admission \<times> http_server" where
  "process_request thread_starts sv =
     (if sv_free sv = 0 then (Refused (error_response 503 ''HTTP connection limit reached''), sv)
      else if thread_starts then (Admitted, sv\<lparr>sv_free := sv_free sv - 1, sv_served := sv_served sv + 1\<rparr>)
      else (Thread_failed, sv))"

definition end_request :: "http_server \<Rightarrow> http_server" where
  "end_request sv =
     (if sv_served sv = 0 then sv
      else sv\<lparr>sv_free := sv_free sv + 1, sv_served := sv_served sv - 1\<rparr>)"

end
