(* ===== verification/Http_Client.thy ===== *)
theory Http_Client
  imports Gateway_Http Identity
begin

section \<open>Clients of the HTTP interface\<close>

text \<open>
  What the example clients \<^verbatim>\<open>http_trigger.py\<close> and \<^verbatim>\<open>http_trigger_groups_periodic.py\<close> send to the
  gateway and make of its replies. A request is its method, its path below the base address and
  its body; a reply is what \<^verbatim>\<open>urlopen\<close> and \<^verbatim>\<open>json\<close> yield. What the clients print is not modelled.
\<close>

subsection \<open>Percent encoding\<close>

text \<open>\<^verbatim>\<open>urllib.parse.quote(text, safe="")\<close> on the model's characters.\<close>

definition unreserved :: "char \<Rightarrow> bool" where
  "unreserved c \<longleftrightarrow> is_ascii_letter c \<or> is_digit c \<or> c \<in> {CHR ''_'', CHR ''.'', CHR ''-'', CHR ''~''}"

definition hex_upper :: "nat \<Rightarrow> char" where
  "hex_upper n = (if n < 10 then chr (48 + n) else chr (55 + n))"

definition escaped :: "nat \<Rightarrow> string" where
  "escaped n = [CHR ''%'', hex_upper (n div 16), hex_upper (n mod 16)]"

definition quote_char :: "char \<Rightarrow> string" where
  "quote_char c =
     (if unreserved c then [c]
      else if code c < 128 then escaped (code c)
      else escaped (192 + code c div 64) @ escaped (128 + code c mod 64))"

definition quote :: "string \<Rightarrow> string" where
  "quote s = concat (map quote_char s)"

subsection \<open>Requests\<close>

record http_call =
  hc_method :: string
  hc_path :: string
  hc_body :: "pydict option"

definition group_operation :: "string \<Rightarrow> string" where
  "group_operation mode = (if mode = ''publish'' then ''trigger'' else ''capture'')"

definition operation_path :: "string \<Rightarrow> string \<Rightarrow> string" where
  "operation_path gid mode = ''/api/v1/groups/'' @ quote gid @ ''/'' @ group_operation mode"

definition session_path :: "string \<Rightarrow> string" where
  "session_path sid = ''/api/v1/capture-sessions/'' @ quote sid"

definition capture_operation_path :: "string \<Rightarrow> string" where
  "capture_operation_path uid = ''/api/v1/capture-operations/'' @ quote uid"

definition group_call :: "string \<Rightarrow> string \<Rightarrow> string \<Rightarrow> string \<Rightarrow> http_call" where
  "group_call gid request mode sid =
     \<lparr>hc_method = ''POST'', hc_path = operation_path gid mode,
      hc_body = Some ((''request_id'', PStr request) # (if sid = '''' then [] else [(''session_id'', PStr sid)]))\<rparr>"

definition renew_call :: "string \<Rightarrow> http_call" where
  "renew_call sid = \<lparr>hc_method = ''PATCH'', hc_path = session_path sid, hc_body = Some []\<rparr>"

definition release_call :: "string \<Rightarrow> http_call" where
  "release_call sid = \<lparr>hc_method = ''DELETE'', hc_path = session_path sid, hc_body = Some []\<rparr>"

definition groups_call :: http_call where
  "groups_call = \<lparr>hc_method = ''GET'', hc_path = ''/api/v1/groups'', hc_body = None\<rparr>"

definition operation_call :: "string \<Rightarrow> http_call" where
  "operation_call uid = \<lparr>hc_method = ''GET'', hc_path = capture_operation_path uid, hc_body = None\<rparr>"

definition cancel_call :: "string \<Rightarrow> http_call" where
  "cancel_call uid = \<lparr>hc_method = ''POST'', hc_path = capture_operation_path uid @ ''/cancel'', hc_body = Some []\<rparr>"

text \<open>\<open>round\<close>: halves go to the even neighbour.\<close>

definition round_even :: "rat \<Rightarrow> int" where
  "round_even x =
     (let q = \<lfloor>x\<rfloor>; r = x - of_int q in if r < 1 / 2 \<or> (r = 1 / 2 \<and> even q) then q else q + 1)"

definition acquire_call :: "string list \<Rightarrow> rat \<Rightarrow> string \<Rightarrow> http_call" where
  "acquire_call groups interval owner =
     \<lparr>hc_method = ''POST'', hc_path = ''/api/v1/capture-sessions'',
      hc_body = Some [(''owner_id'', PStr owner), (''target_kind'', PStr ''group''),
        (''target_ids'', PList (map PStr groups)),
        (''requested_interval_ms'', PInt (round_even (interval * 1000))), (''exclusive'', PBool False)]\<rparr>"

definition sequence_call :: "string list \<Rightarrow> rat \<Rightarrow> int \<Rightarrow> string \<Rightarrow> bool \<Rightarrow> http_call" where
  "sequence_call groups interval count prefix synchronize =
     \<lparr>hc_method = ''POST'', hc_path = ''/api/v1/capture-operations/sequence'',
      hc_body = Some [(''group_ids'', PList (map PStr groups)), (''request_id'', PStr prefix),
        (''interval_ms'', PInt (round_even (interval * 1000))), (''count'', PInt count),
        (''synchronize_groups'', PBool synchronize),
        (''metadata'', PDict [(''source'', PStr ''http_trigger_groups_periodic.py'')])]\<rparr>"

subsection \<open>Replies\<close>

text \<open>
  A document, a body that is text but not JSON, a body that is no text, an error status with its
  reason and the document of its body (if it is JSON), no connection, or no reply in time.
\<close>

datatype http_reply =
    Document pyval
  | Not_json
  | Not_text
  | Error_status nat string "pyval option"
  | Unreachable string
  | Silent

definition error_detail :: "nat \<Rightarrow> string \<Rightarrow> pyval option \<Rightarrow> string result" where
  "error_detail st reason document =
     bindR (case document of None \<Rightarrow> Inr (PStr '''') | Some v \<Rightarrow> py_get v ''message'' (PStr '''')) (\<lambda>detail.
     Inr (if truthy detail then py_str detail else ''HTTP '' @ show_nat st @ '': '' @ reason))"

definition reply_document :: "py_exn \<Rightarrow> http_reply \<Rightarrow> pyval result" where
  "reply_document bad_json r =
     (case r of
        Document v \<Rightarrow> Inr v
      | Not_json \<Rightarrow> Inl bad_json
      | Not_text \<Rightarrow> Inl ValueErr
      | Error_status st reason document \<Rightarrow>
          bindR (error_detail st reason document) (\<lambda>text. Inl (RuntimeErr text))
      | Unreachable reason \<Rightarrow> Inl (RuntimeErr (''cannot reach Vixel API: '' @ reason))
      | Silent \<Rightarrow> Inl TimeoutErr)"

definition refused_reply :: "pydict \<Rightarrow> bool" where
  "refused_reply d \<longleftrightarrow> map_of d ''success'' = Some (PBool False)"

text \<open>\<open>api_request\<close>: for a reply that is no object it asks that reply for its message.\<close>

definition api_reply :: "http_reply \<Rightarrow> pydict result" where
  "api_reply r =
     bindR (reply_document JSONErr r) (\<lambda>v.
     case v of
       PDict d \<Rightarrow>
         if refused_reply d then Inl (RuntimeErr (py_str (dget d ''message'' (PStr ''invalid API response'')))) else Inr d
     | _ \<Rightarrow> Inl AttrErr)"

text \<open>\<open>request_group\<close> of the periodic client and of \<^verbatim>\<open>http_trigger.py\<close>.\<close>

definition group_reply_of :: "string \<Rightarrow> string \<Rightarrow> http_reply \<Rightarrow> pydict result" where
  "group_reply_of unexpected mode r =
     bindR (reply_document (RuntimeErr ''Vixel API returned invalid JSON'') r) (\<lambda>v.
     case v of
       PDict d \<Rightarrow>
         if refused_reply d then
           Inl (RuntimeErr (py_str (dget d ''message'' (PStr (''group '' @ mode @ '' failed'')))))
         else Inr d
     | _ \<Rightarrow> Inl (RuntimeErr unexpected))"

definition group_reply_periodic :: "string \<Rightarrow> http_reply \<Rightarrow> pydict result" where
  "group_reply_periodic mode = group_reply_of ''invalid API response'' mode"

definition scheduled_ns :: "pydict \<Rightarrow> int result" where
  "scheduled_ns d =
     (let stamp = dget d ''scheduled_time'' (PDict []) in
      bindR (py_get stamp ''sec'' (PInt 0)) (\<lambda>s. bindR (py_int s) (\<lambda>sec.
      bindR (py_get stamp ''nanosec'' (PInt 0)) (\<lambda>n. bindR (py_int n) (\<lambda>nanosec.
      Inr (sec * 1000000000 + nanosec))))))"

subsection \<open>The single trigger\<close>

text \<open>
  \<^verbatim>\<open>http_trigger.py\<close>: its request and how it ends. The texts it prints are not modelled, but the
  exceptions that a document of another shape raises while it is printed are.
\<close>

datatype exit_status = Exit int | Traceback py_exn

definition single_call :: "string \<Rightarrow> string \<Rightarrow> string \<Rightarrow> http_call" where
  "single_call gid mode request =
     \<lparr>hc_method = ''POST'', hc_path = operation_path gid mode, hc_body = Some [(''request_id'', PStr request)]\<rparr>"

fun caught_by_clients :: "py_exn \<Rightarrow> bool" where
  "caught_by_clients (RuntimeErr _) \<longleftrightarrow> True"
| "caught_by_clients ValueErr \<longleftrightarrow> True"
| "caught_by_clients JSONErr \<longleftrightarrow> True"
| "caught_by_clients _ \<longleftrightarrow> False"

text \<open>\<open>", ".join(v)\<close>, and the format \<open>:09d\<close>.\<close>

definition joinable :: "pyval \<Rightarrow> unit result" where
  "joinable v = bindR (py_list v) (\<lambda>xs. if list_all is_str xs then Inr () else Inl TypeErr)"

fun decimal_format :: "pyval \<Rightarrow> unit result" where
  "decimal_format (PInt _) = Inr ()"
| "decimal_format (PBool _) = Inr ()"
| "decimal_format (PStr _) = Inl ValueErr"
| "decimal_format (PFloat _) = Inl ValueErr"
| "decimal_format _ = Inl TypeErr"

definition single_output :: "string \<Rightarrow> pydict \<Rightarrow> unit result" where
  "single_output mode d =
     bindR (joinable (dget d ''missing_sensor_ids'' (PList []))) (\<lambda>_.
     if mode = ''save'' then joinable (dget d ''saved_sensor_ids'' (PList []))
     else
       (let stamp = dget d ''scheduled_time'' (PDict []) in
        bindR (joinable (dget d ''participating_sensor_ids'' (PList []))) (\<lambda>_.
        bindR (py_get stamp ''sec'' (PInt 0)) (\<lambda>_.
        bindR (py_get stamp ''nanosec'' (PInt 0)) decimal_format))))"

definition single_status :: "string \<Rightarrow> http_reply \<Rightarrow> exit_status" where
  "single_status mode r =
     (case group_reply_of ''Vixel API returned an unexpected response'' mode r of
        Inr d \<Rightarrow> (case single_output mode d of Inr _ \<Rightarrow> Exit 0 | Inl e \<Rightarrow> Traceback e)
      | Inl e \<Rightarrow> if caught_by_clients e then Exit 1 else Traceback e)"

subsection \<open>Readiness of the groups\<close>

definition listed :: "pydict \<Rightarrow> string \<Rightarrow> pyval list result" where
  "listed g key = py_list (dget g key (PList []))"

definition group_readiness :: "pydict option \<Rightarrow> string result" where
  "group_readiness status =
     (case status of
        None \<Rightarrow> Inr ''status unavailable''
      | Some g \<Rightarrow>
          (let mode = py_str (dget g ''operating_mode'' (PStr ''unknown'')) in
           if mode = ''capture'' \<and> truthy (dget g ''ready'' (PBool False)) then Inr ''ready''
           else
             bindR (listed g ''member_ids'') (\<lambda>members.
             bindR (listed g ''online_member_ids'') (\<lambda>online.
             bindR (listed g ''missing_member_ids'') (\<lambda>missing.
             bindR (listed g ''locking_member_ids'') (\<lambda>locking.
             Inr (join '' '' ([''mode='' @ mode]
               @ (if members = [] then [] else
                    [''online='' @ show_nat (length online) @ ''/'' @ show_nat (length members)])
               @ (if missing = [] then [] else [''missing='' @ join '','' (map py_str missing)])
               @ (if locking = [] then [] else [''PTP-locking='' @ join '','' (map py_str locking)])
               @ (if truthy (dget g ''last_error'' PNone)
                  then [''notice='' @ py_str (dget g ''last_error'' PNone)] else [])))))))))"

definition group_entries :: "pydict \<Rightarrow> pydict list result" where
  "group_entries d =
     bindR (py_list (dget d ''groups'' (PList []))) (\<lambda>entries.
     Inr (map dict_of (filter is_dict entries)))"

definition by_group_id :: "pydict list \<Rightarrow> pydict dict" where
  "by_group_id groups = foldl (\<lambda>d g. dset (py_str (dget g ''group_id'' (PStr ''''))) g d) [] groups"

definition readiness_of :: "string list \<Rightarrow> pydict \<Rightarrow> string list result" where
  "readiness_of groups d =
     bindR (group_entries d) (\<lambda>entries.
     mapR (\<lambda>gid. group_readiness (map_of (by_group_id entries) gid)) groups)"

definition all_ready :: "string list \<Rightarrow> pydict \<Rightarrow> bool result" where
  "all_ready groups d = bindR (readiness_of groups d) (\<lambda>states. Inr (list_all (\<lambda>t. t = ''ready'') states))"

subsection \<open>An aggregate group\<close>

definition member_names :: "pydict \<Rightarrow> string list result" where
  "member_names g = bindR (listed g ''member_ids'') (\<lambda>members. Inr (map py_str members))"

definition requested_members :: "pydict dict \<Rightarrow> string list \<Rightarrow> string set result" where
  "requested_members records groups =
     bindR (mapR (\<lambda>gid. bindR (or_raise (map_of records gid) (KeyErr gid)) member_names) groups) (\<lambda>names.
     Inr (\<Union> (set (map set names))))"

text \<open>The shortest name, and of those the first in the alphabet.\<close>

definition shortest :: "string list \<Rightarrow> string option" where
  "shortest names = (case sort_key length (sort names) of [] \<Rightarrow> None | name # _ \<Rightarrow> Some name)"

definition named_groups :: "pydict \<Rightarrow> pydict dict result" where
  "named_groups d =
     bindR (group_entries d) (\<lambda>entries.
     Inr (by_group_id (filter (\<lambda>g. truthy (dget g ''group_id'' PNone)) entries)))"

definition aggregate_capture_group :: "string list \<Rightarrow> pydict \<Rightarrow> string result" where
  "aggregate_capture_group groups d =
     bindR (named_groups d) (\<lambda>records.
     (let missing = filter (\<lambda>gid. \<not> dhas records gid) groups in
      if missing \<noteq> [] then Inl (RuntimeErr (''unknown capture group(s): '' @ join '','' missing))
      else
        bindR (requested_members records groups) (\<lambda>cameras.
        bindR (mapR (\<lambda>(gid, g). bindR (member_names g) (\<lambda>names. Inr (gid, set names))) records) (\<lambda>members.
        case shortest (map fst (filter (\<lambda>(gid, names). names = cameras) members)) of
          Some gid \<Rightarrow> Inr gid
        | None \<Rightarrow> Inl (RuntimeErr (''no aggregate capture group contains exactly the requested cameras; ''
            @ ''create one or pass --separate-groups''))))))"

subsection \<open>Quoting is undone by the gateway\<close>

lemma json_hex_upper: "n < 16 \<Longrightarrow> json_hex (hex_upper n) = Some n"
  by (auto simp: hex_upper_def json_hex_def is_digit_def)

lemma escaped_hex:
  assumes "n < 256"
  shows "json_hex (hex_upper (n div 16)) = Some (n div 16)" "json_hex (hex_upper (n mod 16)) = Some (n mod 16)"
  using assms by (auto intro!: json_hex_upper)

lemma unquote_plain: "c \<noteq> CHR ''%'' \<Longrightarrow> unquote (c # s) = c # unquote s"
  by simp

lemma unquote_ascii: "n < 128 \<Longrightarrow> unquote (escaped n @ s) = chr n # unquote s"
  by (simp add: escaped_def escaped_hex)

lemma unquote_pair:
  assumes "n = 194 \<or> n = 195" "128 \<le> m" "m < 192"
  shows "unquote (escaped n @ escaped m @ s) = chr (64 * (n - 192) + (m - 128)) # unquote s"
proof -
  from assms have "n < 256" "m < 256" "\<not> n < 128" by auto
  then show ?thesis
    using assms by (simp only: escaped_def append.simps unquote.simps escaped_hex list.case option.case prod.case
      mult_div_mod_eq Let_def if_True if_False refl insert_iff empty_iff simp_thms)
qed

lemma unquote_latin:
  assumes "128 \<le> n" "n < 256"
  shows "unquote (escaped (192 + n div 64) @ escaped (128 + n mod 64) @ s) = chr n # unquote s"
proof -
  have "2 \<le> n div 64" using div_le_mono [OF assms(1), of 64] by simp
  moreover have "n div 64 < 4" using assms(2) by (intro less_mult_imp_div_less) simp
  ultimately have "192 + n div 64 = 194 \<or> 192 + n div 64 = 195" by linarith
  moreover have "128 + n mod 64 < 192" by simp
  moreover have "64 * (192 + n div 64 - 192) + (128 + n mod 64 - 128) = n" by simp
  ultimately show ?thesis
    using unquote_pair [of "192 + n div 64" "128 + n mod 64" s] by (simp only: le_add1 simp_thms)
qed

lemma unreserved_not_percent: "unreserved c \<Longrightarrow> c \<noteq> CHR ''%''"
  by (auto simp: unreserved_def is_ascii_letter_def is_digit_def is_lower_def code_def)

lemma unquote_quote_char: "unquote (quote_char c @ s) = c # unquote s"
  using unquote_ascii [of "code c" s] unquote_latin [of "code c" s] unreserved_not_percent [of c]
  by (auto simp: quote_char_def)

lemma unquote_quote: "unquote (quote s @ t) = s @ unquote t"
  by (induction s) (simp_all add: quote_def unquote_quote_char del: unquote.simps(2))

text \<open>Identifiers are sent as they are.\<close>

lemma quote_plain: "list_all unreserved s \<Longrightarrow> quote s = s"
  by (induction s) (simp_all add: quote_def quote_char_def)

lemma unreserved_id_char: "is_id_char c \<Longrightarrow> unreserved c"
  by (auto simp: is_id_char_def is_alnum_lower_def unreserved_def is_ascii_letter_def)

lemma quote_id: "list_all is_id_char s \<Longrightarrow> quote s = s"
  by (rule quote_plain) (auto simp: list_all_iff intro: unreserved_id_char)

subsection \<open>The aggregate group is the right one\<close>

lemma shortest_least:
  assumes "shortest names = Some name"
  shows "name \<in> set names"
    and "other \<in> set names \<Longrightarrow> length name < length other \<or> length name = length other \<and> name \<le> other"
proof -
  from assms obtain rest where sorted: "sort_key length (sort names) = name # rest"
    by (auto simp: shortest_def split: list.splits)
  from arg_cong [OF sorted, of set] have members: "set names = insert name (set rest)" by simp
  then show "name \<in> set names" by simp
  assume other: "other \<in> set names"
  have "length name \<le> length other"
    using sorted_sort_key [of length "sort names"] other unfolding sorted members by auto
  moreover have "name \<le> other" if same: "length name = length other"
  proof -
    let ?same = "filter (\<lambda>n. length n = length name)"
    have "?same (name # rest) = ?same (sort names)"
      unfolding sorted [symmetric] by (rule sort_key_stable)
    then have "sorted (?same (name # rest))" by (simp only: sorted_wrt_filter sorted_sort)
    with other same show ?thesis unfolding members by auto
  qed
  ultimately show "length name < length other \<or> length name = length other \<and> name \<le> other" by linarith
qed

lemma by_group_id_distinct: "distinct (dkeys (by_group_id groups))"
proof -
  have "distinct (dkeys d) \<Longrightarrow>
      distinct (dkeys (foldl (\<lambda>d g. dset (py_str (dget g ''group_id'' (PStr ''''))) g d) d groups))" for d :: "pydict dict"
    by (induction groups arbitrary: d) (auto simp: dset_def distinct_update)
  then show ?thesis by (simp add: by_group_id_def)
qed

definition cameras_of :: "pydict \<Rightarrow> string set" where
  "cameras_of g = (case member_names g of Inr names \<Rightarrow> set names | Inl _ \<Rightarrow> {})"

lemma requested_members_Inr:
  assumes "requested_members records groups = Inr cameras"
  shows "cameras = (\<Union>gid \<in> set groups. \<Union>g \<in> set_option (map_of records gid). cameras_of g)"
proof -
  from assms obtain names where names: "cameras = \<Union> (set (map set names))"
    "list_all2 (\<lambda>gid ns. \<exists>g. map_of records gid = Some g \<and> member_names g = Inr ns) groups names"
    by (auto simp: requested_members_def result_simps)
  from names(2) have "map set names = map (\<lambda>gid. \<Union>g \<in> set_option (map_of records gid). cameras_of g) groups"
    by (induction rule: list_all2_induct) (auto simp: cameras_of_def)
  then show ?thesis by (simp add: names(1))
qed

text \<open>
  What the choice of an aggregate group promises: every requested group is known, and the chosen
  one has exactly their cameras; no other group of that kind has a shorter name, or one of the
  same length that comes first.
\<close>

lemma listed_cameras:
  assumes "mapR (\<lambda>(gid, g). bindR (member_names g) (\<lambda>names. Inr (gid, set names))) records = Inr members"
  shows "members = map (\<lambda>(gid, g). (gid, cameras_of g)) records"
  using assms
  by (induction records arbitrary: members) (auto simp: result_simps cameras_of_def)

lemma candidates_iff:
  assumes "distinct (dkeys records)"
  shows "gid \<in> set (map fst (filter (\<lambda>(gid, names). names = cameras) (map (\<lambda>(gid, g). (gid, cameras_of g)) records)))
    \<longleftrightarrow> (\<exists>g. map_of records gid = Some g \<and> cameras_of g = cameras)"
  using assms by (force simp: image_iff)

lemma aggregate_sound:
  assumes "aggregate_capture_group groups d = Inr gid"
  shows "\<exists>records. named_groups d = Inr records
    \<and> (\<forall>r \<in> set groups. dhas records r)
    \<and> (\<exists>g. map_of records gid = Some g
        \<and> cameras_of g = (\<Union>r \<in> set groups. \<Union>g \<in> set_option (map_of records r). cameras_of g)
        \<and> (\<forall>other h. map_of records other = Some h \<longrightarrow> cameras_of h = cameras_of g \<longrightarrow>
             length gid < length other \<or> length gid = length other \<and> gid \<le> other))"
proof -
  from assms obtain records cameras members where records: "named_groups d = Inr records"
    and known: "filter (\<lambda>r. \<not> dhas records r) groups = []"
    and cameras: "requested_members records groups = Inr cameras"
    and members: "mapR (\<lambda>(gid, g). bindR (member_names g) (\<lambda>names. Inr (gid, set names))) records = Inr members"
    and short: "shortest (map fst (filter (\<lambda>(gid, names). names = cameras) members)) = Some gid"
    by (auto simp: aggregate_capture_group_def bindR_eq_Inr Let_def guard_Inr split: option.splits if_splits)
  have "distinct (dkeys records)"
    using records by (auto simp: named_groups_def result_simps by_group_id_distinct)
  note candidates = candidates_iff [OF this, of _ cameras, folded listed_cameras [OF members]]
  from shortest_least(1) [OF short] obtain g where "map_of records gid = Some g" "cameras_of g = cameras"
    unfolding candidates by blast
  with records known requested_members_Inr [OF cameras] shortest_least(2) [OF short, unfolded candidates]
  show ?thesis by (auto simp: filter_empty_conv)
qed

subsection \<open>The requests arrive at the manager\<close>

text \<open>A request of a client as the gateway routes it, and what the gateway then asks of the manager.\<close>

definition submitted :: "world \<Rightarrow> string \<Rightarrow> gateway \<Rightarrow> http_call \<Rightarrow> mutation" where
  "submitted w uid g c =
     route_mutation w uid g (hc_method c) (hc_path c) (case hc_body c of None \<Rightarrow> [] | Some body \<Rightarrow> body)"

definition service_sent :: "world \<Rightarrow> ros_request \<Rightarrow> ros_request list" where
  "service_sent w q = (case wo_service w q of Missing _ \<Rightarrow> [] | _ \<Rightarrow> [q])"

definition goal_sent :: "world \<Rightarrow> ros_request \<Rightarrow> ros_request list" where
  "goal_sent w q = (if wo_goal w q = No_server then [] else [q])"

lemma id_no_slash: "list_all is_id_char s \<Longrightarrow> CHR ''/'' \<notin> set s"
  by (force simp: list_all_iff is_id_char_def is_alnum_lower_def is_lower_def is_digit_def code_def)

lemma session_path_id:
  assumes "list_all is_id_char sid" "sid \<noteq> []"
  shows "path_parts (session_path sid) = [''api'', ''v1'', ''capture-sessions'', sid]"
  using assms by (simp add: session_path_def path_parts_def quote_id split_on_id id_no_slash)

lemma operation_path_id:
  assumes "list_all is_id_char gid" "gid \<noteq> []"
  shows "path_parts (operation_path gid mode) = [''api'', ''v1'', ''groups'', gid, group_operation mode]"
  using assms by (simp add: operation_path_def path_parts_def quote_id split_on_append id_no_slash group_operation_def)

lemma cancel_path_id:
  assumes "list_all is_id_char uid" "uid \<noteq> []"
  shows "path_parts (capture_operation_path uid @ ''/cancel'') = [''api'', ''v1'', ''capture-operations'', uid, ''cancel'']"
  using assms by (simp add: capture_operation_path_def path_parts_def quote_id split_on_append id_no_slash)

lemma snd_send_goal: "snd (send_goal w u r q) = goal_sent w q"
  by (auto simp: send_goal_def goal_sent_def split: goal_reply.split option.split)

lemma snd_await [simp]: "snd (await r) = []"
  by (simp add: await_def split: reply.split)

lemma snd_confirmed: "snd (accepted_call w flag failure q) = service_sent w q"
  by (auto simp: accepted_call_def call_service_def snd_bindW service_sent_def split: reply.split sum.split)

lemma fixed_paths:
  "path_parts ''/api/v1/camera-profiles/import'' = [''api'', ''v1'', ''camera-profiles'', ''import'']"
  "path_parts ''/api/v1/mode'' = [''api'', ''v1'', ''mode'']"
  "path_parts ''/api/v1/capture-sessions'' = [''api'', ''v1'', ''capture-sessions'']"
  "path_parts ''/api/v1/capture-operations/batch'' = [''api'', ''v1'', ''capture-operations'', ''batch'']"
  "path_parts ''/api/v1/capture-operations/sequence'' = [''api'', ''v1'', ''capture-operations'', ''sequence'']"
  "path_parts ''/api/v1/test-shots'' = [''api'', ''v1'', ''test-shots'']"
  by (simp_all add: path_parts_def)

lemma not_fixed: "path_parts p \<noteq> path_parts q \<Longrightarrow> p \<noteq> q"
  by auto

lemma route_group:
  assumes "path_parts path = [''api'', ''v1'', ''groups'', gid, op]" "op = ''trigger'' \<or> op = ''capture''"
  shows "route_mutation w uid g ''POST'' path body =
    answered g (with_status 200 (if op = ''trigger'' then trigger_group w gid body else record_capture w gid body))"
proof -
  have "path \<noteq> ''/api/v1/camera-profiles/import'' \<and> path \<noteq> ''/api/v1/mode'' \<and> path \<noteq> ''/api/v1/capture-sessions''
      \<and> path \<noteq> ''/api/v1/capture-operations/batch'' \<and> path \<noteq> ''/api/v1/capture-operations/sequence''
      \<and> path \<noteq> ''/api/v1/test-shots''"
    by (intro conjI not_fixed) (simp_all add: assms(1) fixed_paths)
  with assms show ?thesis by (auto simp: route_mutation_def api_def Let_def)
qed

lemma route_session:
  assumes "path_parts path = [''api'', ''v1'', ''capture-sessions'', sid]"
  shows "route_mutation w uid g ''PATCH'' path body = answered g (with_status 200 (renew_capture_session_web w sid))"
    and "route_mutation w uid g ''DELETE'' path body = answered g (with_status 200 (release_capture_session w sid))"
  using assms by (auto simp: route_mutation_def api_def Let_def)

lemma route_cancel:
  assumes "path_parts path = [''api'', ''v1'', ''capture-operations'', tid, ''cancel'']"
  shows "route_mutation w uid g ''POST'' path body = answered g (with_status 200 (cancel_capture_operation w tid))"
proof -
  have "path \<noteq> ''/api/v1/camera-profiles/import'' \<and> path \<noteq> ''/api/v1/mode'' \<and> path \<noteq> ''/api/v1/capture-sessions''
      \<and> path \<noteq> ''/api/v1/capture-operations/batch'' \<and> path \<noteq> ''/api/v1/capture-operations/sequence''
      \<and> path \<noteq> ''/api/v1/test-shots''"
    by (intro conjI not_fixed) (simp_all add: assms(1) fixed_paths)
  with assms show ?thesis by (auto simp: route_mutation_def api_def Let_def)
qed

lemma route_fixed:
  "route_mutation w uid g ''POST'' ''/api/v1/capture-sessions'' body =
     answered g (with_status 201 (acquire_capture_session w body))"
  "route_mutation w uid g ''POST'' ''/api/v1/capture-operations/sequence'' body =
     answered g (with_status 202 (start_capture_sequence w body))"
  by (simp_all add: route_mutation_def api_def fixed_paths Let_def)

lemma sent_answered: "mu_sent (answered g (with_status st m)) = snd m"
  by (auto simp: answered_def with_status_def snd_bindW split: sum.split)

lemma sent_trigger:
  assumes "list_all is_id_char gid" "gid \<noteq> []"
  shows "mu_sent (submitted w uid g (group_call gid request ''publish'' sid)) = goal_sent w (Trigger_goal gid request sid)"
  unfolding submitted_def group_call_def http_call.simps option.case
  by (subst route_group [OF operation_path_id [OF assms]])
     (auto simp: sent_answered group_operation_def trigger_group_def snd_bindW snd_send_goal body_text_def dget_def
        split: sum.split)

lemma sent_acquire:
  assumes "groups \<noteq> []" "'''' \<notin> set groups" "0 \<le> round_even (interval * 1000)" "round_even (interval * 1000) < 2 ^ 32"
  shows "mu_sent (submitted w uid g (acquire_call groups interval owner))
    = service_sent w (Acquire_capture_session owner ''group'' groups (round_even (interval * 1000)) False)"
  unfolding submitted_def acquire_call_def http_call.simps option.case route_fixed sent_answered
  using assms
  by (auto simp: acquire_capture_session_def Let_def snd_bindW snd_confirmed body_text_def body_flag_def dget_def
      is_string_list_def list_all_iff liftW_def split: sum.split)

lemma sent_sequence:
  assumes "0 \<le> count" "count < 2 ^ 32"
  shows "mu_sent (submitted w uid g (sequence_call groups interval count prefix synchronize))
    = service_sent w (Start_capture_sequence groups prefix (round_even (interval * 1000)) count synchronize
        (json_dumps (PDict [(''source'', PStr ''http_trigger_groups_periodic.py'')])))"
  unfolding submitted_def sequence_call_def http_call.simps option.case route_fixed sent_answered
  using assms
  by (auto simp: start_capture_sequence_def capture_operation_request_def Let_def snd_bindW snd_confirmed body_text_def
      body_flag_def dget_def is_string_list_def list_all_iff liftW_def split: sum.split)

lemma sent_renew:
  assumes "list_all is_id_char sid" "sid \<noteq> []"
  shows "mu_sent (submitted w uid g (renew_call sid)) = service_sent w (Renew_capture_session sid)"
    and "mu_sent (submitted w uid g (release_call sid)) = service_sent w (Release_capture_session sid)"
  unfolding submitted_def renew_call_def release_call_def http_call.simps option.case
    route_session [OF session_path_id [OF assms]] sent_answered
  by (auto simp: renew_capture_session_web_def release_capture_session_def snd_bindW snd_confirmed split: sum.split)

lemma sent_cancel:
  assumes "list_all is_id_char tid" "tid \<noteq> []"
  shows "mu_sent (submitted w uid g (cancel_call tid)) = service_sent w (Cancel_capture_operation tid)"
  unfolding submitted_def cancel_call_def http_call.simps option.case
    route_cancel [OF cancel_path_id [OF assms]] sent_answered
  by (auto simp: cancel_capture_operation_def snd_bindW snd_confirmed split: sum.split)

end
