(* ===== verification/Periodic_Client.thy ===== *)
theory Periodic_Client
  imports Http_Client Programs
begin

section \<open>The periodic client\<close>

text \<open>
  The program \<^verbatim>\<open>http_trigger_groups_periodic.py\<close>: it acquires a capture session, waits until its
  groups are ready, triggers them in cycles and renews the session, and gives the session back
  when it ends, or it has the manager run a sequence of saved captures.

  The client's history is what it did: the requests it sent and its sleeps. The surroundings give
  the reply to the \<open>n\<close>-th entry of the history (if it is a request), whether Ctrl-C arrives during
  it, and the \<open>n\<close>-th reading of the clock. The requests of one cycle are sent by threads; they are
  entered in the order of the groups, and as any reply may come for each of them this says
  nothing about their order on the wire. Times are exact rationals. Ctrl-C at another place than a
  request or a sleep, and what is printed, are not modelled.
\<close>

subsection \<open>Surroundings and state\<close>

datatype client_event = Sent http_call | Slept rat

datatype client_exn = Raised py_exn | Interrupted

record surroundings =
  sr_reply :: "nat \<Rightarrow> http_reply"
  sr_stop :: "nat \<Rightarrow> bool"
  sr_clock :: "nat \<Rightarrow> rat"
  sr_started :: string

record client =
  cl_history :: "client_event list"
  cl_ticks :: nat

type_synonym 'a client_prog = "(client, client_exn, 'a) prog"

definition enter :: "surroundings \<Rightarrow> client_event list \<Rightarrow> nat client_prog" where
  "enter env events =
     stepP (\<lambda>c. let n = length (cl_history c) in
       (if list_ex (\<lambda>i. sr_stop env (n + i)) [0..<length events] then Inl Interrupted else Inr n,
        c\<lparr>cl_history := cl_history c @ events\<rparr>))"

definition liftP :: "'a result \<Rightarrow> 'a client_prog" where
  "liftP r = (case r of Inl e \<Rightarrow> raiseP (Raised e) | Inr x \<Rightarrow> returnP x)"

definition monotonic :: "surroundings \<Rightarrow> rat client_prog" where
  "monotonic env = stepP (\<lambda>c. (Inr (sr_clock env (cl_ticks c)), c\<lparr>cl_ticks := cl_ticks c + 1\<rparr>))"

definition sleep :: "surroundings \<Rightarrow> rat \<Rightarrow> unit client_prog" where
  "sleep env t = bindP (enter env [Slept t]) (\<lambda>_. returnP ())"

definition api_request :: "surroundings \<Rightarrow> http_call \<Rightarrow> pydict client_prog" where
  "api_request env c = bindP (enter env [Sent c]) (\<lambda>n. liftP (api_reply (sr_reply env n)))"

subsection \<open>The session\<close>

definition session_of :: "pydict \<Rightarrow> string result" where
  "session_of d =
     bindR (py_get (dget d ''session'' (PDict [])) ''session_id'' (PStr '''')) (\<lambda>v.
     if py_str v = '''' then Inl (RuntimeErr ''Vixel API did not return a capture session ID'')
     else Inr (py_str v))"

definition acquire_session :: "surroundings \<Rightarrow> string list \<Rightarrow> rat \<Rightarrow> string \<Rightarrow> string client_prog" where
  "acquire_session env groups interval owner =
     bindP (api_request env (acquire_call groups interval owner)) (\<lambda>d. liftP (session_of d))"

definition renew_session :: "surroundings \<Rightarrow> string \<Rightarrow> unit client_prog" where
  "renew_session env sid = bindP (api_request env (renew_call sid)) (\<lambda>_. returnP ())"

definition release_session :: "surroundings \<Rightarrow> string \<Rightarrow> unit client_prog" where
  "release_session env sid = bindP (api_request env (release_call sid)) (\<lambda>_. returnP ())"

text \<open>A \<open>RuntimeError\<close> of the release is ignored (or only printed).\<close>

fun is_runtime_error :: "client_exn \<Rightarrow> bool" where
  "is_runtime_error (Raised (RuntimeErr _)) \<longleftrightarrow> True"
| "is_runtime_error _ \<longleftrightarrow> False"

definition ignoring_runtime :: "unit client_prog \<Rightarrow> unit client_prog" where
  "ignoring_runtime m = exceptP m (\<lambda>e. if is_runtime_error e then returnP () else raiseP e)"

text \<open>The renewal that is due, and the time of the next one.\<close>

definition renew_when_due :: "surroundings \<Rightarrow> string \<Rightarrow> rat \<Rightarrow> rat \<Rightarrow> rat client_prog" where
  "renew_when_due env sid now renewal =
     (if sid \<noteq> '''' \<and> renewal \<le> now then
        bindP (renew_session env sid) (\<lambda>_. bindP (monotonic env) (\<lambda>t. returnP (t + 2)))
      else returnP renewal)"

subsection \<open>Waiting for the groups\<close>

text \<open>\<open>f"{t:.1f}"\<close> of a positive time.\<close>

definition one_decimal :: "rat \<Rightarrow> string" where
  "one_decimal t = (let q = round_even (t * 10) in show_int (q div 10) @ ''.'' @ show_int (q mod 10))"

definition readiness_text :: "string list \<Rightarrow> string list \<Rightarrow> string" where
  "readiness_text groups states = join ''; '' (map2 (\<lambda>gid state. gid @ ''='' @ state) groups states)"

text \<open>One pass: \<open>ready\<close> counts the ready looks in a row, \<open>renewal\<close> is when the session is to be renewed.\<close>

definition ready_pass ::
  "surroundings \<Rightarrow> string list \<Rightarrow> rat \<Rightarrow> rat \<Rightarrow> string \<Rightarrow> nat \<times> rat \<Rightarrow> (unit + nat \<times> rat) client_prog" where
  "ready_pass env groups wait deadline sid x =
     (case x of (ready, renewal) \<Rightarrow>
        bindP (monotonic env) (\<lambda>now.
        bindP (renew_when_due env sid now renewal) (\<lambda>renewal'.
        bindP (api_request env groups_call) (\<lambda>d.
        bindP (liftP (readiness_of groups d)) (\<lambda>states.
        let ready' = (if list_all (\<lambda>t. t = ''ready'') states then ready + 1 else 0) in
        if 2 \<le> ready' then returnP (Inl ())
        else
          bindP (monotonic env) (\<lambda>later.
          if deadline \<le> later then
            raiseP (Raised (RuntimeErr (''groups did not become capture-ready within '' @ one_decimal wait
              @ '' s: '' @ readiness_text groups states)))
          else bindP (sleep env (1 / 4)) (\<lambda>_. returnP (Inr (ready', renewal')))))))))"

definition wait_for_groups :: "surroundings \<Rightarrow> string list \<Rightarrow> rat \<Rightarrow> string \<Rightarrow> unit client_prog" where
  "wait_for_groups env groups wait sid =
     bindP (monotonic env) (\<lambda>start.
     bindP (monotonic env) (\<lambda>start'.
     loopP (ready_pass env groups wait (start + wait) sid) (0, start' + 2)))"

text \<open>Any exception, Ctrl-C included, gives the session back before it goes on.\<close>

definition prepare_groups ::
  "surroundings \<Rightarrow> string list \<Rightarrow> rat \<Rightarrow> rat \<Rightarrow> string \<Rightarrow> string client_prog" where
  "prepare_groups env groups wait interval owner =
     bindP (acquire_session env groups interval owner) (\<lambda>sid.
     bindP (exceptP (wait_for_groups env groups wait sid)
       (\<lambda>e. bindP (ignoring_runtime (release_session env sid)) (\<lambda>_. raiseP e))) (\<lambda>_.
     returnP sid))"

subsection \<open>Cycles of triggers\<close>

definition request_name :: "string \<Rightarrow> nat \<Rightarrow> string \<Rightarrow> string" where
  "request_name prefix n gid = prefix @ ''_'' @ show_nat n @ ''_'' @ gid"

text \<open>
  All groups are asked at once, and the cycle waits for all of them; the first group, in the order
  of the arguments, that failed decides the exception.
\<close>

definition trigger_cycle ::
  "surroundings \<Rightarrow> string list \<Rightarrow> string \<Rightarrow> string \<Rightarrow> nat \<Rightarrow> string \<Rightarrow> (string \<times> pydict) list client_prog" where
  "trigger_cycle env groups mode prefix n sid =
     (if mode \<notin> {''publish'', ''save''} then raiseP (Raised ValueErr)
      else
        bindP (enter env (map (\<lambda>gid. Sent (group_call gid (request_name prefix n gid) mode sid)) groups)) (\<lambda>k.
        liftP (mapR (\<lambda>(i, gid). bindR (group_reply_periodic mode (sr_reply env (k + i))) (\<lambda>d. Inr (gid, d)))
          (enumerate 0 groups))))"

text \<open>What printing the results of a cycle reads of them.\<close>

definition result_output :: "pydict \<Rightarrow> unit result" where
  "result_output d =
     bindR (py_list (dget d ''camera_timings'' (PList []))) (\<lambda>timings.
     bindR (mapR (\<lambda>t. py_get t ''synchronized'' PNone) timings) (\<lambda>_.
     bindR (py_list (dget d ''participating_sensor_ids'' (PList []))) (\<lambda>_. Inr ())))"

definition cycle_output :: "(string \<times> pydict) list \<Rightarrow> unit result" where
  "cycle_output results =
     bindR (mapR (scheduled_ns \<circ> snd) results) (\<lambda>_.
     bindR (mapR (result_output \<circ> snd) results) (\<lambda>_. Inr ()))"

text \<open>Sleeping until the next cycle, in pieces that end when the session is to be renewed.\<close>

definition pace_pass ::
  "surroundings \<Rightarrow> string \<Rightarrow> rat \<Rightarrow> rat \<times> rat \<Rightarrow> (rat + rat \<times> rat) client_prog" where
  "pace_pass env sid due x =
     (case x of (renewal, remaining) \<Rightarrow>
        if remaining \<le> 0 then returnP (Inl renewal)
        else
          bindP (monotonic env) (\<lambda>now.
          bindP (if sid \<noteq> '''' \<and> renewal \<le> now then
                   bindP (renew_session env sid) (\<lambda>_.
                   bindP (monotonic env) (\<lambda>t. bindP (monotonic env) (\<lambda>now'. returnP (t + 2, now'))))
                 else returnP (renewal, now)) (\<lambda>(renewal', now').
          bindP (sleep env (if sid = '''' then remaining else min remaining (max (1 / 100) (renewal' - now')))) (\<lambda>_.
          bindP (monotonic env) (\<lambda>t. returnP (Inr (renewal', due - t)))))))"

record arguments =
  ag_groups :: "string list"
  ag_mode :: string
  ag_interval :: rat
  ag_count :: int
  ag_ready_timeout :: rat
  ag_prefix :: string
  ag_synchronize :: bool
  ag_separate :: bool

definition valid_arguments :: "arguments \<Rightarrow> bool" where
  "valid_arguments a \<longleftrightarrow> 0 < ag_interval a \<and> 0 \<le> ag_count a \<and> 0 < ag_ready_timeout a \<and> distinct (ag_groups a)"

definition request_prefix :: "surroundings \<Rightarrow> arguments \<Rightarrow> string" where
  "request_prefix env a = (if ag_prefix a = '''' then sr_started env else ag_prefix a)"

definition publish_pass ::
  "surroundings \<Rightarrow> arguments \<Rightarrow> string \<Rightarrow> nat \<times> rat \<times> rat \<Rightarrow> (unit + nat \<times> rat \<times> rat) client_prog" where
  "publish_pass env a sid x =
     (case x of (n, due, renewal) \<Rightarrow>
        if \<not> (ag_count a = 0 \<or> int n < ag_count a) then returnP (Inl ())
        else
          bindP (monotonic env) (\<lambda>now.
          bindP (renew_when_due env sid now renewal) (\<lambda>renewal'.
          bindP (trigger_cycle env (ag_groups a) (ag_mode a) (request_prefix env a) (n + 1) sid) (\<lambda>results.
          bindP (liftP (cycle_output results)) (\<lambda>_.
          let due' = due + ag_interval a in
          bindP (monotonic env) (\<lambda>t.
          bindP (loopP (pace_pass env sid due') (renewal', due' - t)) (\<lambda>renewal''.
          returnP (Inr (n + 1, due', renewal'')))))))))"

text \<open>\<open>except KeyboardInterrupt: return 0\<close> and \<open>except (...): return 1\<close>.\<close>

definition exit_code :: "(py_exn \<Rightarrow> bool) \<Rightarrow> client_exn \<Rightarrow> int client_prog" where
  "exit_code caught e =
     (case e of
        Interrupted \<Rightarrow> returnP 0
      | Raised x \<Rightarrow> if caught x then returnP 1 else raiseP e)"

definition caught_by_preparation :: "py_exn \<Rightarrow> bool" where
  "caught_by_preparation e \<longleftrightarrow> caught_by_clients e \<or> (case e of KeyErr _ \<Rightarrow> True | _ \<Rightarrow> False)"

definition publish_session :: "surroundings \<Rightarrow> arguments \<Rightarrow> string \<Rightarrow> int client_prog" where
  "publish_session env a sid =
     bindP (monotonic env) (\<lambda>start.
     finallyP
       (exceptP (bindP (loopP (publish_pass env a sid) (0, start, start + 2)) (\<lambda>_. returnP 0))
         (exit_code caught_by_clients))
       (if sid = '''' then returnP () else ignoring_runtime (release_session env sid)))"

definition publish_main :: "surroundings \<Rightarrow> arguments \<Rightarrow> int client_prog" where
  "publish_main env a =
     bindP
       (exceptP
         (bindP (prepare_groups env (ag_groups a) (ag_ready_timeout a) (ag_interval a) (request_prefix env a))
           (\<lambda>sid. returnP (Inr sid)))
         (\<lambda>e. bindP (exit_code caught_by_preparation e) (\<lambda>st. returnP (Inl st)))) (\<lambda>r.
     case r of Inl st \<Rightarrow> returnP st | Inr sid \<Rightarrow> publish_session env a sid)"

subsection \<open>Saved sequences\<close>

definition start_sequence :: "surroundings \<Rightarrow> arguments \<Rightarrow> string client_prog" where
  "start_sequence env a =
     bindP
       (if 1 < length (ag_groups a) \<and> \<not> ag_separate a then
          bindP (api_request env groups_call) (\<lambda>d.
          bindP (liftP (aggregate_capture_group (ag_groups a) d)) (\<lambda>gid. returnP [gid]))
        else returnP (ag_groups a)) (\<lambda>groups.
     bindP (api_request env
       (sequence_call groups (ag_interval a) (ag_count a) (request_prefix env a) (ag_synchronize a))) (\<lambda>d.
     bindP (liftP (py_index (PDict d) ''operation_id'')) (\<lambda>v. returnP (py_str v))))"

definition monitor_pass :: "surroundings \<Rightarrow> string \<Rightarrow> unit \<Rightarrow> (pydict + unit) client_prog" where
  "monitor_pass env uid _ =
     bindP (api_request env (operation_call uid)) (\<lambda>d.
     bindP (liftP (py_index (PDict d) ''operation'')) (\<lambda>v.
     bindP (liftP (py_get v ''status'' PNone)) (\<lambda>st.
     if \<not> hashable st then raiseP (Raised TypeErr)
     else if st \<in> {PStr ''complete'', PStr ''failed'', PStr ''cancelled''} then returnP (Inl (dict_of v))
     else bindP (sleep env (1 / 4)) (\<lambda>_. returnP (Inr ())))))"

definition monitor_sequence :: "surroundings \<Rightarrow> string \<Rightarrow> pydict client_prog" where
  "monitor_sequence env uid = loopP (monitor_pass env uid) ()"

definition cancel_sequence :: "surroundings \<Rightarrow> string \<Rightarrow> unit client_prog" where
  "cancel_sequence env uid = bindP (api_request env (cancel_call uid)) (\<lambda>_. returnP ())"

definition save_main :: "surroundings \<Rightarrow> arguments \<Rightarrow> int client_prog" where
  "save_main env a =
     bindP
       (exceptP (bindP (start_sequence env a) (\<lambda>uid. returnP (Inr uid)))
         (\<lambda>e. bindP (exit_code caught_by_preparation e) (\<lambda>st. returnP (Inl st)))) (\<lambda>r.
     case r of
       Inl st \<Rightarrow> returnP st
     | Inr uid \<Rightarrow>
         exceptP
           (bindP (monitor_sequence env uid) (\<lambda>d.
            returnP (if dget d ''status'' PNone = PStr ''complete'' then 0 else 1)))
           (\<lambda>e. bindP
             (if e = Interrupted \<and> uid \<noteq> '''' then ignoring_runtime (cancel_sequence env uid) else returnP ())
             (\<lambda>_. exit_code caught_by_preparation e)))"

definition periodic_main :: "surroundings \<Rightarrow> arguments \<Rightarrow> int client_prog" where
  "periodic_main env a =
     (if \<not> valid_arguments a then returnP 2
      else if ag_mode a = ''publish'' then publish_main env a
      else save_main env a)"

end
