(* ===== verification/Client_Safety.thy ===== *)
theory Client_Safety
  imports Periodic_Client
begin

section \<open>The periodic client keeps to its session\<close>

text \<open>
  What every run of the periodic client does in its history, when it ends, and what its requests
  become at the manager.
\<close>

subsection \<open>The steps of the client in its history\<close>

lemma only_does_if [does]:
  "(P \<Longrightarrow> only_does h A m) \<Longrightarrow> (\<not> P \<Longrightarrow> only_does h A k) \<Longrightarrow> only_does h A (if P then m else k)"
  by simp

lemma does_enter: "list_all A events \<Longrightarrow> only_does cl_history A (enter env events)"
  by (auto simp: only_does_def enter_def Let_def)

lemma does_monotonic [does]: "only_does cl_history A (monotonic env)"
  by (auto simp: only_does_def monotonic_def)

lemma does_liftP [does]: "only_does h A (liftP r)"
  by (auto simp: only_does_def liftP_def split: sum.splits)

lemma does_sleep [does]: "A (Slept t) \<Longrightarrow> only_does cl_history A (sleep env t)"
  unfolding sleep_def by (intro does does_enter) simp

lemma does_api [does]: "A (Sent c) \<Longrightarrow> only_does cl_history A (api_request env c)"
  unfolding api_request_def by (intro does does_enter) simp

text \<open>What belongs to a session: sleeping, renewing it, looking at the groups and triggering with it.\<close>

fun within_session :: "string \<Rightarrow> client_event \<Rightarrow> bool" where
  "within_session sid (Slept _) \<longleftrightarrow> True"
| "within_session sid (Sent c) \<longleftrightarrow>
     c = renew_call sid \<or> c = groups_call \<or> (\<exists>gid name. c = group_call gid name ''publish'' sid)"

definition no_trigger :: "client_event \<Rightarrow> bool" where
  "no_trigger e \<longleftrightarrow> (\<forall>gid name sid. e \<noteq> Sent (group_call gid name ''publish'' sid))"

lemma does_renew [does]: "A (Sent (renew_call sid)) \<Longrightarrow> only_does cl_history A (renew_when_due env sid now renewal)"
  unfolding renew_when_due_def renew_session_def by (intro does)

lemma does_ready_pass:
  assumes "A (Sent (renew_call sid))" "A (Sent groups_call)" "\<And>t. A (Slept t)"
  shows "only_does cl_history A (ready_pass env groups wait deadline sid x)"
  unfolding ready_pass_def Let_def by (cases x) (auto intro!: does intro: assms)

lemma does_wait [does]:
  assumes "A (Sent (renew_call sid))" "A (Sent groups_call)" "\<And>t. A (Slept t)"
  shows "only_does cl_history A (wait_for_groups env groups wait sid)"
  unfolding wait_for_groups_def by (intro does does_ready_pass assms)

lemma does_cycle:
  assumes "\<And>gid name. A (Sent (group_call gid name mode sid))"
  shows "only_does cl_history A (trigger_cycle env groups mode prefix n sid)"
  unfolding trigger_cycle_def by (intro does does_enter) (simp add: list_all_iff assms)

lemma does_pace:
  assumes "A (Sent (renew_call sid))" "\<And>t. A (Slept t)"
  shows "only_does cl_history A (pace_pass env sid due x)"
  unfolding pace_pass_def renew_session_def by (cases x) (auto intro!: does intro: assms)

lemma does_publish_pass:
  assumes "A (Sent (renew_call sid))" "\<And>t. A (Slept t)" "\<And>gid name. A (Sent (group_call gid name (ag_mode a) sid))"
  shows "only_does cl_history A (publish_pass env a sid x)"
  unfolding publish_pass_def Let_def by (cases x) (auto intro!: does does_pace does_cycle intro: assms)

lemma does_exit [does]: "only_does h A (exit_code caught e)"
  unfolding exit_code_def by (cases e) (auto intro!: does)

subsection \<open>The session is given back\<close>

text \<open>The session the gateway grants in reply to the \<open>n\<close>-th entry of the history.\<close>

definition granted :: "surroundings \<Rightarrow> nat \<Rightarrow> string option" where
  "granted env n =
     (if sr_stop env n then None
      else case bindR (api_reply (sr_reply env n)) session_of of Inl _ \<Rightarrow> None | Inr sid \<Rightarrow> Some sid)"

lemma granted_name: "granted env n = Some sid \<Longrightarrow> sid \<noteq> ''''"
  by (auto simp: granted_def session_of_def result_simps split: if_splits sum.splits)

text \<open>The client after a request, and the outcome of the request.\<close>

definition after :: "client \<Rightarrow> http_call \<Rightarrow> client" where
  "after c call = c\<lparr>cl_history := cl_history c @ [Sent call]\<rparr>"

definition outcome :: "surroundings \<Rightarrow> nat \<Rightarrow> 'a result \<Rightarrow> client_exn + 'a" where
  "outcome env n r =
     (if sr_stop env n then Inl Interrupted else case r of Inl e \<Rightarrow> Inl (Raised e) | Inr x \<Rightarrow> Inr x)"

lemma after_history [simp]: "cl_history (after c call) = cl_history c @ [Sent call]"
  by (simp add: after_def)

lemma api_request_run:
  "api_request env call c =
     Some (outcome env (length (cl_history c)) (api_reply (sr_reply env (length (cl_history c)))), after c call)"
  by (simp add: api_request_def enter_def bindP_def liftP_def Let_def outcome_def after_def split: sum.split)

lemma acquire_run:
  "acquire_session env groups interval owner c =
     Some (outcome env (length (cl_history c)) (bindR (api_reply (sr_reply env (length (cl_history c)))) session_of),
       after c (acquire_call groups interval owner))"
  by (auto simp: acquire_session_def bindP_def api_request_run liftP_def outcome_def bindR_def split: sum.split)

lemma granted_outcome:
  "granted env n = (case outcome env n (bindR (api_reply (sr_reply env n)) session_of) of Inl _ \<Rightarrow> None | Inr sid \<Rightarrow> Some sid)"
  by (simp add: granted_def outcome_def split: sum.split)

lemma release_run: "\<exists>r. ignoring_runtime (release_session env sid) c = Some (r, after c (release_call sid))"
  by (simp add: ignoring_runtime_def release_session_def exceptP_def bindP_def api_request_run split: sum.split)

lemma release_history:
  "ignoring_runtime (release_session env sid) c = Some (r, c') \<Longrightarrow> c' = after c (release_call sid)"
  using release_run [of env sid c] by auto

text \<open>
  The three stages of a publishing run: acquiring, waiting, and the cycles. After a failed wait and
  after the cycles the session is released.
\<close>

lemma exit_code_history: "exit_code caught e c = Some (r, c') \<Longrightarrow> c' = c"
  by (auto simp: exit_code_def split: client_exn.splits if_splits)

lemma prepare_groups_run:
  "prepare_groups env groups wait interval owner c =
     (let n = length (cl_history c); c1 = after c (acquire_call groups interval owner) in
      case outcome env n (bindR (api_reply (sr_reply env n)) session_of) of
        Inl e \<Rightarrow> Some (Inl e, c1)
      | Inr sid \<Rightarrow>
          bindP (exceptP (wait_for_groups env groups wait sid)
            (\<lambda>e. bindP (ignoring_runtime (release_session env sid)) (\<lambda>_. raiseP e))) (\<lambda>_. returnP sid) c1)"
  by (simp add: prepare_groups_def bindP_def [of "acquire_session env groups interval owner"] acquire_run Let_def
      split: sum.split)

text \<open>What a successful wait leaves, and what a failed one does.\<close>

lemma prepare_outcome:
  assumes "prepare_groups env groups wait interval owner c = Some (r, c')"
    and c1: "c1 = after c (acquire_call groups interval owner)"
  shows "(\<exists>e. r = Inl e \<and> granted env (length (cl_history c)) = None \<and> c' = c1)
    \<or> (\<exists>sid w c2. granted env (length (cl_history c)) = Some sid \<and> wait_for_groups env groups wait sid c1 = Some (w, c2)
        \<and> ((\<exists>e. w = Inl e \<and> (\<exists>e'. r = Inl e') \<and> c' = after c2 (release_call sid)) \<or> (w = Inr () \<and> r = Inr sid \<and> c' = c2)))"
  using assms(1) unfolding prepare_groups_run Let_def c1 [symmetric] granted_outcome
  by (auto split: sum.splits simp: bindP_Some exceptP_Some dest!: release_history)

lemma publish_session_history:
  assumes "publish_session env a sid c = Some (r, c')" "sid \<noteq> ''''" "ag_mode a = ''publish''"
  shows "\<exists>cycles. cl_history c' = cl_history c @ cycles @ [Sent (release_call sid)] \<and> list_all (within_session sid) cycles"
proof -
  let ?cycles = "exceptP (bindP (loopP (publish_pass env a sid) (0, sr_clock env (cl_ticks c), sr_clock env (cl_ticks c) + 2))
      (\<lambda>_. returnP 0)) (exit_code caught_by_clients)"
  from assms(1,2) obtain q c1 where q: "?cycles (c\<lparr>cl_ticks := cl_ticks c + 1\<rparr>) = Some (q, c1)"
    and c': "c' = after c1 (release_call sid)"
    by (auto simp: publish_session_def bindP_Some monotonic_def finallyP_Some dest!: release_history)
  have "only_does cl_history (within_session sid) ?cycles"
    using assms(3) by (intro does does_publish_pass) auto
  from only_doesD [OF this q] show ?thesis by (auto simp: c')
qed

lemma publish_main_outcome:
  assumes "publish_main env a c = Some (r, c')"
  shows "\<exists>q c1. prepare_groups env (ag_groups a) (ag_ready_timeout a) (ag_interval a) (request_prefix env a) c = Some (q, c1)
    \<and> (case q of Inl _ \<Rightarrow> c' = c1 | Inr sid \<Rightarrow> publish_session env a sid c1 = Some (r, c'))"
  using assms by (fastforce simp: publish_main_def bindP_Some exceptP_Some dest!: exit_code_history)

lemma wait_within: "only_does cl_history (within_session sid) (wait_for_groups env groups wait sid)"
  by (intro does) auto

lemma publish_main_history:
  assumes "publish_main env a c = Some (r, c')" and mode: "ag_mode a = ''publish''"
  shows "\<exists>later. cl_history c' = cl_history c @ Sent (acquire_call (ag_groups a) (ag_interval a) (request_prefix env a)) # later
    \<and> (case granted env (length (cl_history c)) of
         None \<Rightarrow> later = []
       | Some sid \<Rightarrow> \<exists>during. later = during @ [Sent (release_call sid)] \<and> list_all (within_session sid) during)"
proof -
  let ?c1 = "after c (acquire_call (ag_groups a) (ag_interval a) (request_prefix env a))"
  from publish_main_outcome [OF assms(1)] obtain q c2 where
    prepared: "prepare_groups env (ag_groups a) (ag_ready_timeout a) (ag_interval a) (request_prefix env a) c = Some (q, c2)"
    and rest: "case q of Inl _ \<Rightarrow> c' = c2 | Inr sid \<Rightarrow> publish_session env a sid c2 = Some (r, c')" by blast
  from prepare_outcome [OF prepared refl] consider
      e where "q = Inl e" "granted env (length (cl_history c)) = None" "c2 = ?c1"
    | sid w c3 e where "granted env (length (cl_history c)) = Some sid"
        "wait_for_groups env (ag_groups a) (ag_ready_timeout a) sid ?c1 = Some (w, c3)" "q = Inl e" "c2 = after c3 (release_call sid)"
    | sid w where "granted env (length (cl_history c)) = Some sid"
        "wait_for_groups env (ag_groups a) (ag_ready_timeout a) sid ?c1 = Some (w, c2)" "q = Inr sid"
    by blast
  then show ?thesis
  proof cases
    case 1
    with rest show ?thesis by simp
  next
    case 2
    with rest only_doesD [OF wait_within 2(2)] show ?thesis by auto
  next
    case 3
    with rest publish_session_history [OF _ granted_name [OF 3(1)] mode, of env c2 r c'] only_doesD [OF wait_within 3(2)]
    show ?thesis by fastforce
  qed
qed

subsection \<open>Triggers follow two ready looks\<close>

text \<open>A look at the groups that found all of them ready, and two of them with no other look between.\<close>

definition ready_look :: "surroundings \<Rightarrow> string list \<Rightarrow> client_event list \<Rightarrow> nat \<Rightarrow> bool" where
  "ready_look env groups h i \<longleftrightarrow>
     i < length h \<and> h ! i = Sent groups_call \<and> \<not> sr_stop env i
     \<and> bindR (api_reply (sr_reply env i)) (all_ready groups) = Inr True"

definition unseen_since :: "client_event list \<Rightarrow> nat \<Rightarrow> bool" where
  "unseen_since h i \<longleftrightarrow> Sent groups_call \<notin> set (drop (Suc i) h)"

definition two_ready_looks :: "surroundings \<Rightarrow> string list \<Rightarrow> nat \<Rightarrow> client_event list \<Rightarrow> bool" where
  "two_ready_looks env groups start h \<longleftrightarrow>
     (\<exists>i j. start \<le> i \<and> i < j \<and> ready_look env groups h i \<and> ready_look env groups h j \<and> unseen_since (take j h) i)"

lemma ready_look_append [simp]: "ready_look env groups h i \<Longrightarrow> ready_look env groups (h @ h') i"
  by (simp add: ready_look_def nth_append)

lemma ready_look_here:
  "ready_look env groups (h @ [Sent groups_call]) (length h) \<longleftrightarrow>
     \<not> sr_stop env (length h) \<and> bindR (api_reply (sr_reply env (length h))) (all_ready groups) = Inr True"
  by (simp add: ready_look_def)

lemma two_ready_looks_append: "two_ready_looks env groups start h \<Longrightarrow> two_ready_looks env groups start (h @ h')"
  unfolding two_ready_looks_def by (metis ready_look_append ready_look_def less_or_eq_imp_le take_append append_Nil2 diff_is_0_eq take0)

definition looked :: "surroundings \<Rightarrow> string list \<Rightarrow> nat \<Rightarrow> nat \<times> rat \<Rightarrow> client \<Rightarrow> bool" where
  "looked env groups start x c \<longleftrightarrow>
     start \<le> length (cl_history c) \<and> fst x \<le> 1
     \<and> (fst x = 1 \<longrightarrow> (\<exists>i \<ge> start. ready_look env groups (cl_history c) i \<and> unseen_since (cl_history c) i))"

lemma other_calls: "renew_call sid \<noteq> groups_call" "group_call gid name mode sid \<noteq> groups_call"
    "group_call gid name mode sid' \<noteq> renew_call sid"
  by (auto simp: renew_call_def groups_call_def group_call_def)

lemma renew_unseen:
  assumes "renew_when_due env sid now renewal c = Some (r, c1)"
  shows "\<exists>new. cl_history c1 = cl_history c @ new \<and> Sent groups_call \<notin> set new"
proof -
  have "only_does cl_history (\<lambda>e. e \<noteq> Sent groups_call) (renew_when_due env sid now renewal)"
    by (intro does) (simp add: other_calls)
  from only_doesD [OF this assms] show ?thesis by (auto simp: list_all_iff)
qed

lemma monotonic_bind: "bindP (monotonic env) f c = f (sr_clock env (cl_ticks c)) (c\<lparr>cl_ticks := cl_ticks c + 1\<rparr>)"
  by (simp add: bindP_def monotonic_def)

lemma liftP_bind: "bindP (liftP r) f c = (case r of Inl e \<Rightarrow> Some (Inl (Raised e), c) | Inr x \<Rightarrow> f x c)"
  by (simp add: bindP_def liftP_def split: sum.split)

lemma sleep_run:
  "sleep env t c = Some (if sr_stop env (length (cl_history c)) then Inl Interrupted else Inr (),
     c\<lparr>cl_history := cl_history c @ [Slept t]\<rparr>)"
  by (simp add: sleep_def enter_def bindP_def Let_def)

lemma api_request_bind:
  "bindP (api_request env call) f c =
     (case outcome env (length (cl_history c)) (api_reply (sr_reply env (length (cl_history c)))) of
        Inl e \<Rightarrow> Some (Inl e, after c call) | Inr d \<Rightarrow> f d (after c call))"
  by (simp add: bindP_def api_request_run split: sum.split)

lemma after_ticks [simp]: "cl_ticks (after c call) = cl_ticks c"
  by (simp add: after_def)

lemma outcome_Inr: "outcome env n r = Inr x \<longleftrightarrow> \<not> sr_stop env n \<and> r = Inr x"
  by (simp add: outcome_def split: sum.split)

lemmas client_runs = monotonic_bind liftP_bind api_request_bind sleep_run

text \<open>A pass that goes on or ends the wait: what it saw, and what it leaves.\<close>

lemma ready_pass_Inr:
  assumes "ready_pass env groups wait deadline sid (ready, renewal) c = Some (Inr y, c')"
  shows "\<exists>c1 renewal' d states. renew_when_due env sid (sr_clock env (cl_ticks c)) renewal (c\<lparr>cl_ticks := cl_ticks c + 1\<rparr>) = Some (Inr renewal', c1)
    \<and> \<not> sr_stop env (length (cl_history c1)) \<and> api_reply (sr_reply env (length (cl_history c1))) = Inr d
    \<and> readiness_of groups d = Inr states
    \<and> (let ready' = (if list_all (\<lambda>t. t = ''ready'') states then ready + 1 else 0) in
       case y of
         Inl _ \<Rightarrow> 2 \<le> ready' \<and> cl_history c' = cl_history c1 @ [Sent groups_call]
       | Inr x' \<Rightarrow> \<not> 2 \<le> ready' \<and> fst x' = ready' \<and> cl_history c' = cl_history c1 @ [Sent groups_call, Slept (1 / 4)]
           \<and> sr_clock env (cl_ticks c1) < deadline \<and> cl_ticks c' = cl_ticks c1 + 1)"
proof -
  from assms obtain renewal' c1 where c1: "renew_when_due env sid (sr_clock env (cl_ticks c)) renewal (c\<lparr>cl_ticks := cl_ticks c + 1\<rparr>) = Some (Inr renewal', c1)"
    and rest: "bindP (api_request env groups_call) (\<lambda>d.
        bindP (liftP (readiness_of groups d)) (\<lambda>states.
        let ready' = (if list_all (\<lambda>t. t = ''ready'') states then ready + 1 else 0) in
        if 2 \<le> ready' then returnP (Inl ())
        else
          bindP (monotonic env) (\<lambda>later.
          if deadline \<le> later then
            raiseP (Raised (RuntimeErr (''groups did not become capture-ready within '' @ one_decimal wait
              @ '' s: '' @ readiness_text groups states)))
          else bindP (sleep env (1 / 4)) (\<lambda>_. returnP (Inr (ready', renewal')))))) c1 = Some (Inr y, c')"
    unfolding ready_pass_def prod.case monotonic_bind [of env _ c] by (auto simp: bindP_Some [of "renew_when_due env sid _ _"])
  from rest obtain d where d: "\<not> sr_stop env (length (cl_history c1))" "api_reply (sr_reply env (length (cl_history c1))) = Inr d"
    by (auto simp: api_request_bind outcome_Inr split: sum.splits)
  from rest d obtain states where states: "readiness_of groups d = Inr states"
    by (auto simp: client_runs outcome_def split: sum.splits)
  show ?thesis
    using c1 rest d states
    by (auto simp: client_runs outcome_def Let_def bindP_def [of "sleep env _"] split: if_splits
        intro!: exI [of _ c1] exI [of _ renewal'] exI [of _ d] exI [of _ states])
qed

lemma ready_pass_looks:
  "ensures (looked env groups start x) (ready_pass env groups wait deadline sid x) (\<lambda>r c.
     case r of
       Inl e \<Rightarrow> True
     | Inr (Inl v) \<Rightarrow> two_ready_looks env groups start (cl_history c)
     | Inr (Inr x') \<Rightarrow> looked env groups start x' c)"
proof (rule ensuresI)
  fix c r c'
  assume before: "looked env groups start x c" and pass: "ready_pass env groups wait deadline sid x c = Some (r, c')"
  obtain ready renewal where x: "x = (ready, renewal)" by (cases x)
  show "case r of
       Inl e \<Rightarrow> True
     | Inr (Inl v) \<Rightarrow> two_ready_looks env groups start (cl_history c')
     | Inr (Inr x') \<Rightarrow> looked env groups start x' c'"
  proof (cases r)
    case (Inr y)
    from ready_pass_Inr [OF pass [unfolded x Inr]] obtain c1 renewal' d states where
      renewed: "renew_when_due env sid (sr_clock env (cl_ticks c)) renewal (c\<lparr>cl_ticks := cl_ticks c + 1\<rparr>) = Some (Inr renewal', c1)"
      and reply: "\<not> sr_stop env (length (cl_history c1))" "api_reply (sr_reply env (length (cl_history c1))) = Inr d"
      and states: "readiness_of groups d = Inr states"
      and ends: "let ready' = (if list_all (\<lambda>t. t = ''ready'') states then ready + 1 else 0) in
         case y of
           Inl _ \<Rightarrow> 2 \<le> ready' \<and> cl_history c' = cl_history c1 @ [Sent groups_call]
         | Inr x' \<Rightarrow> \<not> 2 \<le> ready' \<and> fst x' = ready' \<and> cl_history c' = cl_history c1 @ [Sent groups_call, Slept (1 / 4)]
             \<and> sr_clock env (cl_ticks c1) < deadline \<and> cl_ticks c' = cl_ticks c1 + 1" by blast
    let ?all = "list_all (\<lambda>t. t = ''ready'') states" and ?h1 = "cl_history c1"
    from renew_unseen [OF renewed] obtain new where new: "?h1 = cl_history c @ new" "Sent groups_call \<notin> set new" by auto
    have here: "ready_look env groups (?h1 @ [Sent groups_call] @ h) (length ?h1)" if ?all for h
      using that reply states by (simp add: ready_look_def all_ready_def nth_append)
    have earlier: "\<exists>i \<ge> start. i < length ?h1 \<and> ready_look env groups (?h1 @ h) i \<and> unseen_since ?h1 i" if "ready = 1" for h
    proof -
      from before that obtain i where "start \<le> i" "ready_look env groups (cl_history c) i" "unseen_since (cl_history c) i"
        by (auto simp: looked_def x)
      with new show ?thesis by (intro exI [of _ i]) (auto simp: ready_look_def unseen_since_def nth_append)
    qed
    show ?thesis
    proof (cases y)
      case (Inl v)
      with ends before have all: ?all and h': "cl_history c' = ?h1 @ [Sent groups_call]" and "ready = 1"
        by (auto simp: Let_def looked_def x split: if_splits)
      from earlier [OF this(3), of "[Sent groups_call]"] obtain i where "start \<le> i" "i < length ?h1"
        "ready_look env groups (?h1 @ [Sent groups_call]) i" "unseen_since ?h1 i" by blast
      with here [OF all, of "[]"] show ?thesis unfolding Inr Inl sum.case two_ready_looks_def h'
        by (intro exI [of _ i] exI [of _ "length ?h1"]) auto
    next
      case (Inr x')
      with ends before here [of "[Slept (1 / 4)]"] new(1) have "looked env groups start x' c'"
        by (auto simp: looked_def Let_def x unseen_since_def split: if_splits intro!: exI [of _ "length ?h1"])
      with \<open>r = Inr y\<close> Inr show ?thesis by simp
    qed
  qed simp
qed

lemma wait_looks:
  assumes "wait_for_groups env groups wait sid c = Some (Inr v, c')"
  shows "two_ready_looks env groups (length (cl_history c)) (cl_history c')"
proof -
  let ?start = "length (cl_history c)" and ?t = "sr_clock env (cl_ticks c)" and ?t' = "sr_clock env (cl_ticks c + 1)"
  from assms have loop: "loopP (ready_pass env groups wait (?t + wait) sid) (0, ?t' + 2)
      (c\<lparr>cl_ticks := cl_ticks c + 1 + 1\<rparr>) = Some (Inr v, c')"
    by (simp add: wait_for_groups_def monotonic_bind)
  have "ensures (looked env groups ?start x) (loopP (ready_pass env groups wait (?t + wait) sid) x)
      (\<lambda>r c. case r of Inl e \<Rightarrow> True | Inr _ \<Rightarrow> two_ready_looks env groups ?start (cl_history c))" for x
    by (rule loopP_ensures, unfold sum.case) (rule ready_pass_looks)
  from ensuresD [OF this loop] show ?thesis by (simp add: looked_def)
qed

lemma wait_no_trigger: "only_does cl_history no_trigger (wait_for_groups env groups wait sid)"
  by (intro does) (auto simp: no_trigger_def renew_call_def groups_call_def group_call_def)

lemma two_ready_looks_start: "two_ready_looks env groups start h \<Longrightarrow> start' \<le> start \<Longrightarrow> two_ready_looks env groups start' h"
  unfolding two_ready_looks_def by (meson order_trans)

lemma publish_main_looks:
  assumes "publish_main env a c = Some (r, c')" and mode: "ag_mode a = ''publish''"
  shows "\<exists>quiet rest. cl_history c' = cl_history c @ quiet @ rest \<and> list_all no_trigger quiet
    \<and> (rest = [] \<or> two_ready_looks env (ag_groups a) (length (cl_history c)) (cl_history c @ quiet))"
proof -
  let ?call = "acquire_call (ag_groups a) (ag_interval a) (request_prefix env a)"
  have quiet: "no_trigger (Sent ?call)" "no_trigger (Sent (release_call sid))" for sid
    by (auto simp: no_trigger_def acquire_call_def release_call_def group_call_def)
  from publish_main_outcome [OF assms(1)] obtain q c2 where
    prepared: "prepare_groups env (ag_groups a) (ag_ready_timeout a) (ag_interval a) (request_prefix env a) c = Some (q, c2)"
    and rest: "case q of Inl _ \<Rightarrow> c' = c2 | Inr sid \<Rightarrow> publish_session env a sid c2 = Some (r, c')" by blast
  from prepare_outcome [OF prepared refl] consider
      e where "q = Inl e" "c2 = after c ?call"
    | sid w c3 e where "wait_for_groups env (ag_groups a) (ag_ready_timeout a) sid (after c ?call) = Some (w, c3)"
        "q = Inl e" "c2 = after c3 (release_call sid)"
    | sid where "granted env (length (cl_history c)) = Some sid"
        "wait_for_groups env (ag_groups a) (ag_ready_timeout a) sid (after c ?call) = Some (Inr (), c2)" "q = Inr sid"
    by blast
  then show ?thesis
  proof cases
    case 1
    with rest quiet show ?thesis by (intro exI [of _ "[Sent ?call]"] exI [of _ "[]"]) simp
  next
    case 2
    from only_doesD [OF wait_no_trigger 2(1)] obtain new where
      "cl_history c3 = cl_history c @ Sent ?call # new" "list_all no_trigger new" by auto
    with 2 rest quiet show ?thesis
      by (intro exI [of _ "Sent ?call # new @ [Sent (release_call sid)]"] exI [of _ "[]"]) simp
  next
    case 3
    from only_doesD [OF wait_no_trigger 3(2)] obtain new where
      new: "cl_history c2 = cl_history c @ Sent ?call # new" "list_all no_trigger new" by auto
    from 3 rest publish_session_history [OF _ granted_name [OF 3(1)] mode, of env c2 r c'] obtain tail where
      "cl_history c' = cl_history c2 @ tail" by auto
    with new quiet two_ready_looks_start [OF wait_looks [OF 3(2)], of "length (cl_history c)"] show ?thesis
      by (intro exI [of _ "Sent ?call # new"] exI [of _ tail]) simp
  qed
qed

subsection \<open>Waits and bounded runs end\<close>

definition clock_advances :: "surroundings \<Rightarrow> bool" where
  "clock_advances env \<longleftrightarrow> (\<forall>t. \<exists>N. \<forall>n \<ge> N. t \<le> sr_clock env n)"

lemma ends_client [ends]:
  "always_ends (enter env events)" "always_ends (monotonic env)" "always_ends (liftP r)"
  unfolding enter_def monotonic_def liftP_def by (auto intro: ends split: sum.split)

lemma ends_sleep [ends]: "always_ends (sleep env t)"
  unfolding sleep_def by (intro ends)

lemma ends_api [ends]: "always_ends (api_request env call)"
  unfolding api_request_def by (intro ends)

lemma ends_sessions [ends]:
  "always_ends (acquire_session env groups interval owner)" "always_ends (renew_session env sid)"
  "always_ends (release_session env sid)"
  unfolding acquire_session_def renew_session_def release_session_def by (intro ends)+

lemma ends_release [ends]: "always_ends (ignoring_runtime (release_session env sid))"
  unfolding ignoring_runtime_def by (intro ends)

lemma ends_renew [ends]: "always_ends (renew_when_due env sid now renewal)"
  unfolding renew_when_due_def by (intro ends)

lemma ends_exit [ends]: "always_ends (exit_code caught e)"
  unfolding exit_code_def by (cases e) (auto intro!: ends)

lemma ends_cycle [ends]: "always_ends (trigger_cycle env groups mode prefix n sid)"
  unfolding trigger_cycle_def by (intro ends)

lemma ends_ready_pass: "always_ends (ready_pass env groups wait deadline sid x)"
  unfolding ready_pass_def Let_def by (cases x) (auto intro!: ends)

lemma ends_pace_pass: "always_ends (pace_pass env sid due x)"
  unfolding pace_pass_def by (cases x) (auto intro!: ends)

lemma renew_ticks:
  assumes "renew_when_due env sid now renewal c = Some (r, c1)"
  shows "cl_ticks c \<le> cl_ticks c1"
  using assms
  by (auto simp: renew_when_due_def renew_session_def bindP_Some api_request_run monotonic_def split: if_splits)

interpretation waiting: timed_loop "sr_clock env" cl_ticks deadline "ready_pass env groups wait deadline sid"
  for env groups wait deadline sid
proof
  fix x c x' c'
  assume "ready_pass env groups wait deadline sid x c = Some (Inr (Inr x'), c')"
  from ready_pass_Inr [of env groups wait deadline sid "fst x" "snd x", unfolded prod.collapse, OF this]
  obtain k where "cl_ticks c + 1 \<le> k" "sr_clock env k < deadline" "cl_ticks c' = k + 1"
    by (auto simp: Let_def dest!: renew_ticks)
  then show "\<exists>k \<ge> cl_ticks c. sr_clock env k < deadline \<and> cl_ticks c' = Suc k" by (intro exI [of _ k]) simp
qed (rule ends_ready_pass)

lemma ends_wait [ends]:
  assumes "clock_advances env"
  shows "always_ends (wait_for_groups env groups wait sid)"
  unfolding wait_for_groups_def
proof (intro ends)
  fix start start'
  from assms obtain N where "\<forall>n \<ge> N. start + wait \<le> sr_clock env n" unfolding clock_advances_def by blast
  then show "always_ends (loopP (ready_pass env groups wait (start + wait) sid) (0, start' + 2))"
    by (rule waiting.loop_ends)
qed

lemma pace_pass_Inr:
  assumes "pace_pass env sid due x c = Some (Inr (Inr x'), c')"
  shows "0 < snd x \<and> (\<exists>k \<ge> cl_ticks c. snd x' = due - sr_clock env k \<and> cl_ticks c' = k + 1)"
  using assms
  by (cases x) (auto simp: pace_pass_def renew_session_def bindP_Some api_request_run monotonic_def sleep_run
      split: if_splits)

lemma ends_pace [ends]:
  assumes "clock_advances env"
  shows "always_ends (loopP (pace_pass env sid due) x)"
proof -
  from assms obtain N where N: "\<And>n. N \<le> n \<Longrightarrow> due \<le> sr_clock env n" unfolding clock_advances_def by blast
  show ?thesis
  proof (rule ends_loopP [where f = "\<lambda>x c. if snd x \<le> 0 then 0 else Suc (N - cl_ticks c)"])
    fix x c x' c'
    assume "pace_pass env sid due x c = Some (Inr (Inr x'), c')"
    from pace_pass_Inr [OF this] obtain k where k: "0 < snd x" "cl_ticks c \<le> k" "snd x' = due - sr_clock env k" "cl_ticks c' = k + 1"
      by blast
    show "(if snd x' \<le> 0 then 0 else Suc (N - cl_ticks c')) < (if snd x \<le> 0 then 0 else Suc (N - cl_ticks c))"
    proof (cases "N \<le> k")
      case True
      with N [OF True] k show ?thesis by simp
    next
      case False
      then have "N - Suc k < N - cl_ticks c" using k(2) by linarith
      with k show ?thesis by simp
    qed
  qed (rule ends_pace_pass)
qed

lemma ends_publish_pass: "clock_advances env \<Longrightarrow> always_ends (publish_pass env a sid x)"
  unfolding publish_pass_def Let_def by (cases x) (auto intro!: ends)

lemma publish_pass_Inr:
  assumes "publish_pass env a sid x c = Some (Inr (Inr x'), c')"
  shows "(ag_count a = 0 \<or> int (fst x) < ag_count a) \<and> fst x' = fst x + 1"
  using assms by (cases x) (auto simp: publish_pass_def bindP_Some Let_def split: if_splits)

lemma ends_publish_session:
  assumes "clock_advances env" "0 < ag_count a"
  shows "always_ends (publish_session env a sid)"
proof -
  have "always_ends (loopP (publish_pass env a sid) x)" for x
    by (rule ends_loopP [where f = "\<lambda>x _. nat (ag_count a - int (fst x))"])
       (use assms in \<open>auto intro: ends_publish_pass dest!: publish_pass_Inr\<close>)
  then show ?thesis unfolding publish_session_def by (intro ends)
qed

lemma ends_prepare [ends]:
  "clock_advances env \<Longrightarrow> always_ends (prepare_groups env groups wait interval owner)"
  unfolding prepare_groups_def by (intro ends)

lemma ends_publish_main:
  assumes "clock_advances env" "0 < ag_count a"
  shows "always_ends (publish_main env a)"
  unfolding publish_main_def
proof (intro ends assms(1))
  fix r :: "int + string"
  show "always_ends (case r of Inl st \<Rightarrow> returnP st | Inr sid \<Rightarrow> publish_session env a sid)"
    by (cases r) (auto intro: ends ends_publish_session assms)
qed

text \<open>How a run may end: with an exit status of its own, and never with an uncaught \<open>RuntimeError\<close>.\<close>

definition orderly :: "client_exn + int \<Rightarrow> bool" where
  "orderly r \<longleftrightarrow> (case r of Inl e \<Rightarrow> \<not> is_runtime_error e | Inr st \<Rightarrow> st \<in> {0, 1, 2})"

lemma exit_code_orderly:
  assumes "exit_code caught e c = Some (r, c')" "\<And>t. caught (RuntimeErr t)"
  shows "orderly r"
  using assms by (auto simp: exit_code_def orderly_def split: client_exn.splits if_splits elim!: is_runtime_error.elims)

lemma ignoring_runtime_raises: "ignoring_runtime m c = Some (Inl e, c') \<Longrightarrow> \<not> is_runtime_error e"
  by (auto simp: ignoring_runtime_def exceptP_Some split: if_splits)

lemma publish_session_orderly:
  assumes "publish_session env a sid c = Some (r, c')"
  shows "orderly r"
proof -
  let ?cycles = "\<lambda>start. exceptP (bindP (loopP (publish_pass env a sid) (0, start, start + 2)) (\<lambda>_. returnP 0))
      (exit_code caught_by_clients)"
  from assms obtain start c0 q c1 t where q: "?cycles start c0 = Some (q, c1)"
    and t: "(if sid = '''' then returnP () else ignoring_runtime (release_session env sid)) c1 = Some (t, c')"
    and r: "r = (case t of Inl e \<Rightarrow> Inl e | Inr _ \<Rightarrow> q)"
    unfolding publish_session_def monotonic_bind finallyP_Some by blast
  from q have "orderly q"
    by (auto simp: exceptP_Some bindP_Some dest!: exit_code_orderly) (simp add: orderly_def)
  with t r show ?thesis
    by (auto simp: orderly_def dest!: ignoring_runtime_raises split: sum.splits if_splits)
qed

lemma publish_main_orderly:
  assumes "publish_main env a c = Some (r, c')"
  shows "orderly r"
proof -
  have "orderly q" if "exit_code caught_by_preparation e c1 = Some (q, c2)" for e c1 c2 q
    using that by (rule exit_code_orderly) (simp add: caught_by_preparation_def)
  moreover from assms have "(\<exists>e c1. exit_code caught_by_preparation e c1 = Some (r, c'))
      \<or> (\<exists>sid c1. publish_session env a sid c1 = Some (r, c'))"
    by (auto simp: publish_main_def bindP_Some exceptP_Some)
  ultimately show ?thesis by (blast intro: publish_session_orderly)
qed

subsection \<open>A saved sequence\<close>

text \<open>Entry \<open>n\<close> of the history is a request that was answered with \<open>d\<close>.\<close>

definition answered_with :: "surroundings \<Rightarrow> client_event list \<Rightarrow> nat \<Rightarrow> http_call \<Rightarrow> pydict \<Rightarrow> bool" where
  "answered_with env h n call d \<longleftrightarrow>
     n < length h \<and> h ! n = Sent call \<and> \<not> sr_stop env n \<and> api_reply (sr_reply env n) = Inr d"

lemma answered_append [simp]: "answered_with env h n call d \<Longrightarrow> answered_with env (h @ h') n call d"
  by (simp add: answered_with_def nth_append)

lemma monitor_pass_Inl:
  assumes "monitor_pass env tid x c = Some (Inr (Inl d), c')"
  shows "\<exists>doc. answered_with env (cl_history c') (length (cl_history c)) (operation_call tid) doc
    \<and> map_of doc ''operation'' = Some (PDict d) \<and> length (cl_history c') = length (cl_history c) + 1"
  using assms
  by (auto simp: monitor_pass_def client_runs bindP_Some [of "sleep _ _"] outcome_def answered_with_def is_dict_iff
      result_simps split: if_splits sum.splits)

lemma monitor_pass_Inr:
  assumes "monitor_pass env tid x c = Some (Inr (Inr x'), c')"
  shows "length (cl_history c) \<le> length (cl_history c')"
  using assms
  by (auto simp: monitor_pass_def client_runs bindP_Some [of "sleep _ _"] outcome_def split: if_splits sum.splits)

lemma monitor_complete:
  assumes "monitor_sequence env tid c = Some (Inr d, c')"
  shows "\<exists>n doc. length (cl_history c) \<le> n \<and> length (cl_history c') = n + 1
    \<and> answered_with env (cl_history c') n (operation_call tid) doc \<and> map_of doc ''operation'' = Some (PDict d)"
proof -
  let ?I = "\<lambda>x s. length (cl_history c) \<le> length (cl_history s)"
  have "ensures (?I x) (loopP (monitor_pass env tid) x) (\<lambda>r s. \<forall>d. r = Inr d \<longrightarrow>
      (\<exists>n doc. length (cl_history c) \<le> n \<and> length (cl_history s) = n + 1
        \<and> answered_with env (cl_history s) n (operation_call tid) doc \<and> map_of doc ''operation'' = Some (PDict d)))" for x
    by (rule loopP_ensures, rule ensuresI)
       (fastforce split: sum.splits dest: monitor_pass_Inl monitor_pass_Inr)
  from ensuresD [OF this assms [unfolded monitor_sequence_def]] show ?thesis by simp
qed

definition captured_groups :: "arguments \<Rightarrow> string list \<Rightarrow> bool" where
  "captured_groups a groups \<longleftrightarrow>
     (if 1 < length (ag_groups a) \<and> \<not> ag_separate a
      then \<exists>d gid. aggregate_capture_group (ag_groups a) d = Inr gid \<and> groups = [gid]
      else groups = ag_groups a)"

abbreviation sequence_of :: "surroundings \<Rightarrow> arguments \<Rightarrow> string list \<Rightarrow> http_call" where
  "sequence_of env a groups \<equiv>
     sequence_call groups (ag_interval a) (ag_count a) (request_prefix env a) (ag_synchronize a)"

lemma start_sequence_accepted:
  assumes "start_sequence env a c = Some (Inr tid, c')"
  shows "\<exists>groups d v. captured_groups a groups
    \<and> length (cl_history c) < length (cl_history c')
    \<and> answered_with env (cl_history c') (length (cl_history c') - 1) (sequence_of env a groups) d
    \<and> map_of d ''operation_id'' = Some v \<and> py_str v = tid"
proof (cases "1 < length (ag_groups a) \<and> \<not> ag_separate a")
  case True
  with assms show ?thesis
    by (auto simp: start_sequence_def bindP_Some api_request_run liftP_def outcome_def answered_with_def captured_groups_def
        result_simps nth_append split: if_splits sum.splits) blast
next
  case False
  with assms show ?thesis
    by (auto simp: start_sequence_def bindP_Some api_request_run liftP_def outcome_def answered_with_def captured_groups_def
        result_simps split: if_splits sum.splits)
qed

lemma start_sequence_uninterrupted:
  assumes "start_sequence env a c = Some (Inl e, c')" "\<And>n. \<not> sr_stop env n"
  shows "e \<noteq> Interrupted"
  using assms
  by (auto simp: start_sequence_def bindP_Some api_request_run liftP_def outcome_def split: if_splits sum.splits)

lemma monitor_uninterrupted:
  assumes "monitor_sequence env tid c = Some (Inl e, c')" "\<And>n. \<not> sr_stop env n"
  shows "e \<noteq> Interrupted"
proof -
  have "ensures (\<lambda>_. True) (loopP (monitor_pass env tid) x) (\<lambda>r s. r \<noteq> Inl Interrupted)" for x
    by (rule loopP_ensures, rule ensuresI)
       (auto simp: monitor_pass_def client_runs bindP_Some [of "sleep _ _"] outcome_def assms(2) split: if_splits sum.splits)
  from ensuresD [OF this assms(1) [unfolded monitor_sequence_def]] show ?thesis by simp
qed

lemma exit_zero: "exit_code caught e c = Some (Inr 0, c') \<Longrightarrow> e = Interrupted"
  by (auto simp: exit_code_def split: client_exn.splits if_splits)

lemma save_main_complete:
  assumes "save_main env a c = Some (Inr 0, c')" and "\<And>n. \<not> sr_stop env n"
  shows "\<exists>tid c1 d. start_sequence env a c = Some (Inr tid, c1) \<and> monitor_sequence env tid c1 = Some (Inr d, c')
    \<and> dget d ''status'' PNone = PStr ''complete''"
  using assms(1)
  by (auto simp: save_main_def bindP_Some exceptP_Some dest!: exit_zero start_sequence_uninterrupted [OF _ assms(2)]
      monitor_uninterrupted [OF _ assms(2)] split: if_splits)

subsection \<open>What a run of the program promises\<close>

text \<open>A run against a gateway whose group is ready and whose triggers succeed.\<close>

definition demo_groups :: pydict where
  "demo_groups = [(''groups'', PList [PDict [(''group_id'', PStr ''front''), (''operating_mode'', PStr ''capture''),
     (''ready'', PBool True)]])]"

definition demo_surroundings :: surroundings where
  "demo_surroundings =
     \<lparr>sr_reply = (\<lambda>n. Document (PDict (if n = 0 then [(''session'', PDict [(''session_id'', PStr ''session_1'')])]
        else if n < 4 then demo_groups else [(''success'', PBool True)]))),
      sr_stop = (\<lambda>_. False), sr_clock = (\<lambda>n. of_nat n / 10), sr_started = ''periodic''\<rparr>"

definition demo_arguments :: arguments where
  "demo_arguments =
     \<lparr>ag_groups = [''front''], ag_mode = ''publish'', ag_interval = 1 / 20, ag_count = 1, ag_ready_timeout = 60,
      ag_prefix = ''run'', ag_synchronize = False, ag_separate = False\<rparr>"

definition demo_client :: client where
  "demo_client = \<lparr>cl_history = [], cl_ticks = 0\<rparr>"

definition demo_history :: "client_event list" where
  "demo_history = [Sent (acquire_call [''front''] (1 / 20) ''run''), Sent groups_call, Slept (1 / 4), Sent groups_call,
     Sent (group_call ''front'' ''run_1_front'' ''publish'' ''session_1''), Sent (release_call ''session_1'')]"

lemma demo_all_ready: "readiness_of [''front''] demo_groups = Inr [''ready'']"
  by code_simp

lemma demo_replies:
  "api_reply (sr_reply demo_surroundings 0) = Inr [(''session'', PDict [(''session_id'', PStr ''session_1'')])]"
  "0 < n \<Longrightarrow> n < 4 \<Longrightarrow> api_reply (sr_reply demo_surroundings n) = Inr demo_groups"
  "3 < n \<Longrightarrow> api_reply (sr_reply demo_surroundings n) = Inr [(''success'', PBool True)]"
  "3 < n \<Longrightarrow> group_reply_periodic ''publish'' (sr_reply demo_surroundings n) = Inr [(''success'', PBool True)]"
  by (simp_all add: demo_surroundings_def api_reply_def reply_document_def refused_reply_def demo_groups_def
      group_reply_periodic_def group_reply_of_def)

lemma demo_runs:
  "outcome demo_surroundings n r = (case r of Inl e \<Rightarrow> Inl (Raised e) | Inr x \<Rightarrow> Inr x)"
  "sr_stop demo_surroundings n = False" "sr_clock demo_surroundings n = of_nat n / 10"
  by (simp_all add: outcome_def demo_surroundings_def)

lemma demo_wait:
  "wait_for_groups demo_surroundings [''front''] 60 ''session_1'' (after demo_client (acquire_call [''front''] (1 / 20) ''run''))
     = Some (Inr (), \<lparr>cl_history = take 4 demo_history, cl_ticks = 5\<rparr>)"
  by (simp add: wait_for_groups_def client_runs demo_runs demo_client_def after_def loopP.simps ready_pass_def
      renew_when_due_def bindP_def [of "returnP _"] bindP_def [of "sleep _ _"] demo_replies demo_all_ready demo_history_def Let_def)

lemma demo_cycle:
  "trigger_cycle demo_surroundings [''front''] ''publish'' ''run'' 1 ''session_1'' \<lparr>cl_history = take 4 demo_history, cl_ticks = k\<rparr>
     = Some (Inr [(''front'', [(''success'', PBool True)])], \<lparr>cl_history = take 5 demo_history, cl_ticks = k\<rparr>)"
proof -
  have "request_name ''run'' 1 ''front'' = ''run_1_front''" by code_simp
  then have name: "request_name ''run'' (Suc 0) ''front'' = ''run_1_front''" by simp
  show ?thesis
    by (simp add: trigger_cycle_def enter_def bindP_def liftP_def demo_runs demo_history_def name demo_replies)
qed

lemma demo_output: "cycle_output [(''front'', [(''success'', PBool True)])] = Inr ()"
  by code_simp

lemma demo_session:
  "publish_session demo_surroundings demo_arguments ''session_1'' \<lparr>cl_history = take 4 demo_history, cl_ticks = 5\<rparr>
     = Some (Inr 0, \<lparr>cl_history = demo_history, cl_ticks = 8\<rparr>)"
proof -
  have first: "publish_pass demo_surroundings demo_arguments ''session_1'' (0, 1 / 2, 5 / 2) \<lparr>cl_history = take 4 demo_history, cl_ticks = 6\<rparr>
      = Some (Inr (Inr (1, 11 / 20, 5 / 2)), \<lparr>cl_history = take 5 demo_history, cl_ticks = 8\<rparr>)"
    using demo_cycle [of 7]
    by (simp add: publish_pass_def demo_arguments_def request_prefix_def client_runs demo_runs renew_when_due_def
        bindP_def [of "returnP _"] bindP_def [of "trigger_cycle _ _ _ _ _ _"] bindP_def [of "loopP _ _"] demo_output
        loopP.simps pace_pass_def Let_def)
  have second: "publish_pass demo_surroundings demo_arguments ''session_1'' (1, 11 / 20, 5 / 2) s = Some (Inr (Inl ()), s)" for s
    by (simp add: publish_pass_def demo_arguments_def)
  show ?thesis
  proof -
    have "loopP (publish_pass demo_surroundings demo_arguments ''session_1'') (0, 1 / 2, 5 / 2)
        \<lparr>cl_history = take 4 demo_history, cl_ticks = 6\<rparr> = Some (Inr (), \<lparr>cl_history = take 5 demo_history, cl_ticks = 8\<rparr>)"
      by (subst loopP.simps) (simp only: first second option.case prod.case sum.case
          loopP.simps [of _ "(1, 11 / 20, 5 / 2)"])
    moreover have "ignoring_runtime (release_session demo_surroundings ''session_1'') \<lparr>cl_history = take 5 demo_history, cl_ticks = 8\<rparr>
        = Some (Inr (), \<lparr>cl_history = demo_history, cl_ticks = 8\<rparr>)"
      by (simp add: ignoring_runtime_def release_session_def exceptP_def bindP_def api_request_run demo_runs
          demo_history_def after_def demo_replies)
    ultimately show ?thesis
      by (simp add: publish_session_def monotonic_bind demo_runs finallyP_def exceptP_def bindP_def [of "loopP _ _"])
  qed
qed

lemma demo_run: "periodic_main demo_surroundings demo_arguments demo_client = Some (Inr 0, \<lparr>cl_history = demo_history, cl_ticks = 8\<rparr>)"
proof -
  have granted: "bindR (api_reply (sr_reply demo_surroundings 0)) session_of = Inr ''session_1''"
    unfolding demo_replies by code_simp
  have "prepare_groups demo_surroundings [''front''] 60 (1 / 20) ''run'' demo_client
      = Some (Inr ''session_1'', \<lparr>cl_history = take 4 demo_history, cl_ticks = 5\<rparr>)"
    unfolding prepare_groups_run using granted demo_wait
    by (simp add: demo_runs demo_client_def Let_def bindP_def exceptP_def)
  with demo_session show ?thesis
    by (simp add: periodic_main_def valid_arguments_def demo_arguments_def publish_main_def request_prefix_def
        bindP_def exceptP_def)
qed

text \<open>C37: a publishing run that returns has sent its request for a session; if the session was granted,
  then what followed was renewing it, looking at the groups, triggering with it and sleeping, and
  in the end, whatever happened, the request that gives the session back. If it was not granted
  nothing followed.\<close>

theorem session_is_given_back:
  assumes "valid_arguments a" "ag_mode a = ''publish''" "periodic_main env a c = Some (r, c')"
  shows "\<exists>later. cl_history c' = cl_history c @ Sent (acquire_call (ag_groups a) (ag_interval a) (request_prefix env a)) # later
    \<and> (case granted env (length (cl_history c)) of
         None \<Rightarrow> later = []
       | Some sid \<Rightarrow> \<exists>during. later = during @ [Sent (release_call sid)] \<and> list_all (within_session sid) during)"
  using assms publish_main_history [of env a c r c'] by (simp add: periodic_main_def)

lemma demo_valid: "valid_arguments demo_arguments" "ag_mode demo_arguments = ''publish''"
    "ag_groups demo_arguments = [''front'']"
  by (simp_all add: valid_arguments_def demo_arguments_def)

theorem session_is_given_back_witness:
  "granted demo_surroundings 0 = Some ''session_1''
   \<and> (\<exists>later. demo_history = Sent (acquire_call [''front''] (1 / 20) ''run'') # later
      \<and> (\<exists>during. later = during @ [Sent (release_call ''session_1'')] \<and> list_all (within_session ''session_1'') during))"
proof -
  have "bindR (api_reply (sr_reply demo_surroundings 0)) session_of = Inr ''session_1''"
    unfolding demo_replies by code_simp
  then have granted: "granted demo_surroundings 0 = Some ''session_1''" by (simp add: granted_def demo_runs)
  with session_is_given_back [OF demo_valid(1,2) demo_run] show ?thesis
    by (simp add: demo_client_def demo_arguments_def request_prefix_def)
qed

text \<open>a publishing run triggers a group only after two looks at the groups, with no other look in
  between, that both found all its groups ready.\<close>

theorem triggers_follow_ready_looks:
  assumes "ag_mode a = ''publish''" "periodic_main env a c = Some (r, c')"
    and "length (cl_history c) \<le> k" "k < length (cl_history c')"
    and "cl_history c' ! k = Sent (group_call gid name ''publish'' sid)"
  shows "two_ready_looks env (ag_groups a) (length (cl_history c)) (take k (cl_history c'))"
proof -
  from assms(1-4) have "publish_main env a c = Some (r, c')"
    by (auto simp: periodic_main_def split: if_splits)
  from publish_main_looks [OF this assms(1)] obtain quiet rest where
    h: "cl_history c' = cl_history c @ quiet @ rest" and quiet: "list_all no_trigger quiet"
    and looks: "rest = [] \<or> two_ready_looks env (ag_groups a) (length (cl_history c)) (cl_history c @ quiet)" by blast
  have late: "length (cl_history c @ quiet) \<le> k"
  proof (rule ccontr)
    assume "\<not> length (cl_history c @ quiet) \<le> k"
    with assms(3) have "k - length (cl_history c) < length quiet" by auto
    with assms(3) have "cl_history c' ! k \<in> set quiet" by (simp add: h nth_append)
    with quiet assms(5) show False by (auto simp: list_all_iff no_trigger_def)
  qed
  with h assms(4) looks have "two_ready_looks env (ag_groups a) (length (cl_history c)) (cl_history c @ quiet)" by auto
  from two_ready_looks_append [OF this, of "take (k - length (cl_history c @ quiet)) rest"] late show ?thesis
    by (simp add: h)
qed

theorem triggers_follow_ready_looks_witness:
  "two_ready_looks demo_surroundings [''front''] 0 (take 4 demo_history)"
  using triggers_follow_ready_looks [OF demo_valid(2) demo_run, of 4 "''front''" "''run_1_front''" "''session_1''"]
  unfolding demo_valid(3) by (simp add: demo_client_def demo_history_def)

text \<open>C38: a publishing run with a number of cycles ends when the clock goes on: its wait, its pauses
  and its cycles are finite whatever the gateway replies. It ends with a status of its own or with
  an exception other than \<open>RuntimeError\<close>.
\<close>

theorem bounded_runs_end:
  assumes "clock_advances env" "0 < ag_count a" "ag_mode a = ''publish''"
  shows "\<exists>r c'. periodic_main env a c = Some (r, c')
    \<and> (case r of Inl e \<Rightarrow> \<not> is_runtime_error e | Inr st \<Rightarrow> st \<in> {0, 1, 2})"
proof (cases "valid_arguments a")
  case True
  from ends_publish_main [OF assms(1,2)] obtain r c' where "publish_main env a c = Some (r, c')"
    unfolding always_ends_def by fast
  with True assms(3) publish_main_orderly [OF this] show ?thesis by (auto simp: periodic_main_def orderly_def)
qed (auto simp: periodic_main_def)

theorem bounded_runs_end_witness:
  "clock_advances demo_surroundings \<and>
   (\<exists>r c'. periodic_main demo_surroundings demo_arguments demo_client = Some (r, c')
      \<and> (case r of Inl e \<Rightarrow> \<not> is_runtime_error e | Inr st \<Rightarrow> st \<in> {0, 1, 2}))"
proof
  show clock: "clock_advances demo_surroundings"
    unfolding clock_advances_def demo_runs
  proof
    fix t :: rat
    obtain N :: nat where N: "t * 10 \<le> of_nat N" using real_arch_simple by blast
    have "t \<le> of_nat n / 10" if "N \<le> n" for n
    proof -
      from that have "(of_nat N :: rat) \<le> of_nat n" by simp
      with N show ?thesis by simp
    qed
    then have "\<forall>n \<ge> N. t \<le> of_nat n / 10" by blast
    then show "\<exists>N. \<forall>n \<ge> N. t \<le> of_nat n / 10" ..
  qed
  show "\<exists>r c'. periodic_main demo_surroundings demo_arguments demo_client = Some (r, c')
      \<and> (case r of Inl e \<Rightarrow> \<not> is_runtime_error e | Inr st \<Rightarrow> st \<in> {0, 1, 2})"
    by (rule bounded_runs_end [OF clock]) (simp_all add: demo_arguments_def)
qed

text \<open>without Ctrl-C a saving run ends with status 0 only when the last thing it did was to ask for
  the operation that the gateway had accepted for the run's groups (an aggregate group of the same
  cameras, or the groups themselves) and it was told that the operation is complete.\<close>

theorem save_success_means_complete:
  assumes "valid_arguments a" "ag_mode a \<noteq> ''publish''" "\<forall>n. \<not> sr_stop env n"
    and "periodic_main env a c = Some (Inr 0, c')"
  shows "\<exists>groups m n accepted v report d.
    captured_groups a groups \<and> length (cl_history c) \<le> m \<and> m < n \<and> n + 1 = length (cl_history c')
    \<and> answered_with env (cl_history c') m (sequence_of env a groups) accepted
    \<and> map_of accepted ''operation_id'' = Some v
    \<and> answered_with env (cl_history c') n (operation_call (py_str v)) report
    \<and> map_of report ''operation'' = Some (PDict d) \<and> dget d ''status'' PNone = PStr ''complete''"
proof -
  have stops: "\<not> sr_stop env n" for n using assms(3) by blast
  from assms(1,2,4) have "save_main env a c = Some (Inr 0, c')" by (simp add: periodic_main_def)
  from save_main_complete [OF this stops] obtain tid c1 d where start: "start_sequence env a c = Some (Inr tid, c1)"
    and monitor: "monitor_sequence env tid c1 = Some (Inr d, c')" and complete: "dget d ''status'' PNone = PStr ''complete''" by blast
  have "only_does cl_history (\<lambda>_. True) (monitor_sequence env tid)"
    unfolding monitor_sequence_def monitor_pass_def by (intro does) simp_all
  from only_doesD [OF this monitor] obtain more where more: "cl_history c' = cl_history c1 @ more" by blast
  from start_sequence_accepted [OF start] obtain groups accepted v where
    "captured_groups a groups" "length (cl_history c) < length (cl_history c1)"
    "answered_with env (cl_history c1) (length (cl_history c1) - 1) (sequence_of env a groups) accepted"
    "map_of accepted ''operation_id'' = Some v" "py_str v = tid" by blast
  moreover from monitor_complete [OF monitor] obtain n report where
    "length (cl_history c1) \<le> n" "length (cl_history c') = n + 1"
    "answered_with env (cl_history c') n (operation_call tid) report" "map_of report ''operation'' = Some (PDict d)" by blast
  ultimately show ?thesis using complete more
    by (intro exI [of _ groups] exI [of _ "length (cl_history c1) - 1"] exI [of _ n] exI [of _ accepted] exI [of _ v]
        exI [of _ report] exI [of _ d]) auto
qed

definition demo_saving :: surroundings where
  "demo_saving =
     \<lparr>sr_reply = (\<lambda>n. Document (PDict (if n = 0 then [(''operation_id'', PStr ''operation_1'')]
        else [(''operation'', PDict [(''status'', PStr ''complete'')])]))),
      sr_stop = (\<lambda>_. False), sr_clock = (\<lambda>n. of_nat n / 10), sr_started = ''periodic''\<rparr>"

lemma demo_saved:
  "periodic_main demo_saving (demo_arguments\<lparr>ag_mode := ''save''\<rparr>) demo_client
     = Some (Inr 0, \<lparr>cl_history = [Sent (sequence_call [''front''] (1 / 20) 1 ''run'' False), Sent (operation_call ''operation_1'')],
         cl_ticks = 0\<rparr>)"
  by (simp add: periodic_main_def valid_arguments_def demo_arguments_def save_main_def start_sequence_def monitor_sequence_def
      bindP_def exceptP_def api_request_run outcome_def demo_saving_def demo_client_def after_def request_prefix_def
      liftP_def loopP.simps monitor_pass_def api_reply_def reply_document_def refused_reply_def dget_def)

theorem save_success_means_complete_witness:
  "\<exists>accepted v report d.
     answered_with demo_saving [Sent (sequence_call [''front''] (1 / 20) 1 ''run'' False), Sent (operation_call ''operation_1'')] 0
       (sequence_call [''front''] (1 / 20) 1 ''run'' False) accepted
     \<and> map_of accepted ''operation_id'' = Some v
     \<and> answered_with demo_saving [Sent (sequence_call [''front''] (1 / 20) 1 ''run'' False), Sent (operation_call ''operation_1'')] 1
       (operation_call (py_str v)) report
     \<and> map_of report ''operation'' = Some (PDict d) \<and> dget d ''status'' PNone = PStr ''complete''"
proof -
  have "valid_arguments (demo_arguments\<lparr>ag_mode := ''save''\<rparr>)" "ag_mode (demo_arguments\<lparr>ag_mode := ''save''\<rparr>) \<noteq> ''publish''"
    "\<forall>n. \<not> sr_stop demo_saving n"
    by (simp_all add: valid_arguments_def demo_arguments_def demo_saving_def)
  from save_success_means_complete [OF this demo_saved] show ?thesis
    by (auto simp: captured_groups_def demo_arguments_def request_prefix_def demo_client_def less_Suc_eq)
qed

text \<open>C39: the requests of the clients arrive at the manager as they are meant: for identifiers as the
  manager gives them the gateway turns a trigger into the goal for that group, request and
  session, and the session and operation requests into the service calls for that session or
  operation, for the given groups, interval and number of captures.\<close>

theorem client_requests_reach_the_manager:
  assumes "ros_safe gid" "ros_safe sid" "list_all is_id_char tid" "tid \<noteq> ''''"
    and "groups \<noteq> []" "'''' \<notin> set groups"
    and "0 \<le> round_even (interval * 1000)" "round_even (interval * 1000) < 2 ^ 32" "0 \<le> count" "count < 2 ^ 32"
  shows "mu_sent (submitted w uid g (group_call gid request ''publish'' sid)) = goal_sent w (Trigger_goal gid request sid)
    \<and> mu_sent (submitted w uid g (renew_call sid)) = service_sent w (Renew_capture_session sid)
    \<and> mu_sent (submitted w uid g (release_call sid)) = service_sent w (Release_capture_session sid)
    \<and> mu_sent (submitted w uid g (cancel_call tid)) = service_sent w (Cancel_capture_operation tid)
    \<and> mu_sent (submitted w uid g (acquire_call groups interval owner))
        = service_sent w (Acquire_capture_session owner ''group'' groups (round_even (interval * 1000)) False)
    \<and> mu_sent (submitted w uid g (sequence_call groups interval count prefix synchronize))
        = service_sent w (Start_capture_sequence groups prefix (round_even (interval * 1000)) count synchronize
            (json_dumps (PDict [(''source'', PStr ''http_trigger_groups_periodic.py'')])))"
  using assms
  by (simp add: ros_safe_def sent_trigger sent_renew sent_cancel sent_acquire sent_sequence)

theorem client_requests_reach_the_manager_witness:
  "\<forall>w uid g. mu_sent (submitted w uid g (group_call ''front'' ''run_1_front'' ''publish'' ''session_1''))
      = goal_sent w (Trigger_goal ''front'' ''run_1_front'' ''session_1'')
    \<and> mu_sent (submitted w uid g (acquire_call [''front''] 2 ''run''))
      = service_sent w (Acquire_capture_session ''run'' ''group'' [''front''] 2000 False)"
proof -
  have "ros_safe ''front''" "ros_safe ''session_1''" "list_all is_id_char ''operation_1''" by code_simp+
  moreover have "round_even (2 * 1000) = 2000" by (simp add: round_even_def Let_def)
  ultimately show ?thesis
    using client_requests_reach_the_manager [of "''front''" "''session_1''" "''operation_1''" "[''front'']" 2 1]
    by simp
qed

end
