(* ===== verification/Ros_Client.thy ===== *)
theory Ros_Client
  imports Paths Py_Value Identity Programs
begin

section \<open>Clients of the ROS actions\<close>

text \<open>
  The programs \<^verbatim>\<open>ros_trigger.py\<close>, which has a group triggered through an action, and
  \<^verbatim>\<open>ros_trigger_and_receive.py\<close>, which also waits for the images of that trigger and saves them.

  The world gives the readings of the clock, whether ROS is still up at the \<open>n\<close>-th turn of the
  event loop, the callback that turn runs, and what the two futures of the action (its acceptance
  and its result) hold by then; a future holds the text of an exception or a result. Converting
  and writing an image, making the directory and writing the metadata are the world's: they may
  raise. Images are values of a type \<open>'f\<close>. What is printed is not modelled.
\<close>

subsection \<open>World and state\<close>

type_synonym stamp = "int \<times> int"

record group_state =
  gs_id :: string
  gs_members :: "string list"
  gs_mode :: string
  gs_source :: string

record timing =
  tm_sensor :: string
  tm_timestamp :: int
  tm_offset :: int
  tm_synchronized :: bool

record trigger_result =
  tr_success :: bool
  tr_message :: string
  tr_capture :: string
  tr_time :: stamp
  tr_participating :: "string list"
  tr_missing :: "string list"
  tr_span :: int
  tr_skew :: int
  tr_tolerance :: bool
  tr_timings :: "timing list"

datatype 'f arrival = Groups_arrived "group_state list" | Image_arrived string stamp 'f

record 'f ros_world =
  rw_clock :: "nat \<Rightarrow> rat"
  rw_ok :: "nat \<Rightarrow> bool"
  rw_arrival :: "nat \<Rightarrow> 'f arrival option"
  rw_publishers :: "nat \<Rightarrow> string \<Rightarrow> nat"
  rw_server :: bool
  rw_accepted :: "nat \<Rightarrow> (string + bool) option"
  rw_result :: "nat \<Rightarrow> (string + trigger_result) option"
  rw_mkdir :: "string \<Rightarrow> py_exn option"
  rw_imwrite :: "string \<Rightarrow> 'f \<Rightarrow> py_exn + bool"
  rw_write_text :: "string \<Rightarrow> py_exn option"

record 'f ros_client =
  rc_ticks :: nat
  rc_turns :: nat
  rc_group :: "group_state option"
  rc_frames :: "(stamp \<times> 'f) list dict"
  rc_subscribed :: "string list"
  rc_goals :: "(string \<times> string \<times> string) list"
  rc_images :: "(string \<times> 'f) list"
  rc_metadata :: "(string \<times> pydict) list"

type_synonym ('f, 'a) ros_prog = "('f ros_client, py_exn, 'a) prog"

subsection \<open>Callbacks\<close>

text \<open>The group of the client among those that arrive; a frame by its stamp, the eight newest entries of a camera.\<close>

definition on_groups :: "string \<Rightarrow> group_state list \<Rightarrow> 'f ros_client \<Rightarrow> 'f ros_client" where
  "on_groups gid groups c = c\<lparr>rc_group := List.find (\<lambda>g. gs_id g = gid) groups\<rparr>"

definition newest :: "(stamp \<times> 'f) list \<Rightarrow> (stamp \<times> 'f) list" where
  "newest frames = drop (length frames - 8) frames"

definition on_image :: "string \<Rightarrow> stamp \<Rightarrow> 'f \<Rightarrow> 'f ros_client \<Rightarrow> 'f ros_client" where
  "on_image sid key frame c =
     c\<lparr>rc_frames := dset sid (newest (AList.update key frame (dget (rc_frames c) sid []))) (rc_frames c)\<rparr>"

text \<open>An image only arrives for a camera the client has subscribed to.\<close>

definition on_arrival :: "string \<Rightarrow> 'f arrival option \<Rightarrow> 'f ros_client \<Rightarrow> 'f ros_client" where
  "on_arrival gid arrival c =
     (case arrival of
        None \<Rightarrow> c
      | Some (Groups_arrived groups) \<Rightarrow> on_groups gid groups c
      | Some (Image_arrived sid key frame) \<Rightarrow> if sid \<in> set (rc_subscribed c) then on_image sid key frame c else c)"

definition subscribe_to_members :: "group_state \<Rightarrow> 'f ros_client \<Rightarrow> 'f ros_client" where
  "subscribe_to_members g c = c\<lparr>rc_subscribed := remdups (gs_members g)\<rparr>"

subsection \<open>Waiting\<close>

definition clock :: "'f ros_world \<Rightarrow> ('f, rat) ros_prog" where
  "clock w = stepP (\<lambda>c. (Inr (rw_clock w (rc_ticks c)), c\<lparr>rc_ticks := rc_ticks c + 1\<rparr>))"

definition spin_once :: "'f ros_world \<Rightarrow> string \<Rightarrow> ('f, unit) ros_prog" where
  "spin_once w gid =
     stepP (\<lambda>c. (Inr (), on_arrival gid (rw_arrival w (rc_turns c)) c\<lparr>rc_turns := rc_turns c + 1\<rparr>))"

definition look :: "('f ros_client \<Rightarrow> 'a) \<Rightarrow> ('f, 'a) ros_prog" where
  "look f = stepP (\<lambda>c. (Inr (f c), c))"

definition spin_pass ::
  "'f ros_world \<Rightarrow> string \<Rightarrow> ('f ros_client \<Rightarrow> bool) \<Rightarrow> rat \<Rightarrow> string \<Rightarrow> unit \<Rightarrow> ('f, unit + unit) ros_prog" where
  "spin_pass w gid decided deadline description _ =
     bindP (look (\<lambda>c. \<not> rw_ok w (rc_turns c) \<or> decided c)) (\<lambda>over.
     if over then returnP (Inl ())
     else
       bindP (clock w) (\<lambda>t.
       if deadline - t \<le> 0 then raiseP (RuntimeErr (''timed out waiting for '' @ description))
       else bindP (spin_once w gid) (\<lambda>_. returnP (Inr ()))))"

definition spin_until ::
  "'f ros_world \<Rightarrow> string \<Rightarrow> ('f ros_client \<Rightarrow> bool) \<Rightarrow> rat \<Rightarrow> string \<Rightarrow> ('f, unit) ros_prog" where
  "spin_until w gid decided timeout description =
     bindP (clock w) (\<lambda>start. loopP (spin_pass w gid decided (start + timeout) description) ())"

text \<open>
  What a future holds after the wait. If ROS goes down first it holds nothing: \<^verbatim>\<open>ros_trigger.py\<close>
  notices that, the other client goes on with the missing result and fails on its attribute.
\<close>

definition future_value ::
  "bool \<Rightarrow> string \<Rightarrow> (string + 'a) option \<Rightarrow> 'a result" where
  "future_value checked description v =
     (case v of
        None \<Rightarrow> if checked then Inl (RuntimeErr (''ROS stopped while waiting for '' @ description)) else Inl AttrErr
      | Some (Inl text) \<Rightarrow> Inl (RuntimeErr (description @ '' failed: '' @ text))
      | Some (Inr x) \<Rightarrow> Inr x)"

definition liftR :: "'a result \<Rightarrow> ('f, 'a) ros_prog" where
  "liftR r = (case r of Inl e \<Rightarrow> raiseP e | Inr x \<Rightarrow> returnP x)"

definition wait_future ::
  "bool \<Rightarrow> 'f ros_world \<Rightarrow> string \<Rightarrow> (nat \<Rightarrow> (string + 'a) option) \<Rightarrow> rat \<Rightarrow> string \<Rightarrow> ('f, 'a) ros_prog" where
  "wait_future checked w gid future timeout description =
     bindP (spin_until w gid (\<lambda>c. future (rc_turns c) \<noteq> None) timeout description) (\<lambda>_.
     bindP (look (\<lambda>c. future (rc_turns c))) (\<lambda>v. liftR (future_value checked description v)))"

subsection \<open>Trigger or capture through an action\<close>

text \<open>
  \<open>send_goal\<close> of \<^verbatim>\<open>ros_trigger.py\<close>. A goal the client sends is entered with its action, group and request;
  this client holds no group and no images, so its callbacks change nothing it reads.
\<close>

definition enter_goal :: "string \<Rightarrow> string \<Rightarrow> string \<Rightarrow> ('f, unit) ros_prog" where
  "enter_goal action gid request = stepP (\<lambda>c. (Inr (), c\<lparr>rc_goals := rc_goals c @ [(action, gid, request)]\<rparr>))"

definition action_name :: "string \<Rightarrow> string result" where
  "action_name mode =
     (if mode = ''save'' then Inr ''/vixel/record_capture''
      else if mode = ''publish'' then Inr ''/vixel/trigger_group''
      else Inl ValueErr)"

definition send_ros_goal :: "'f ros_world \<Rightarrow> string \<Rightarrow> string \<Rightarrow> string \<Rightarrow> rat \<Rightarrow> ('f, trigger_result) ros_prog" where
  "send_ros_goal w gid mode request timeout =
     bindP (liftR (action_name mode)) (\<lambda>action.
     if \<not> rw_server w then raiseP (RuntimeErr (action @ '' action is unavailable''))
     else
       bindP (enter_goal action gid request) (\<lambda>_.
       bindP (wait_future True w gid (rw_accepted w) timeout (action @ '' goal acceptance'')) (\<lambda>accepted.
       if \<not> accepted then raiseP (RuntimeErr (action @ '' goal was rejected''))
       else
         bindP (wait_future True w gid (rw_result w) timeout (action @ '' result'')) (\<lambda>result.
         if \<not> tr_success result then
           raiseP (RuntimeErr (if tr_message result = '''' then ''trigger-and-'' @ mode @ '' failed'' else tr_message result))
         else returnP result))))"

fun caught_by_ros_trigger :: "py_exn \<Rightarrow> bool" where
  "caught_by_ros_trigger (RuntimeErr _) \<longleftrightarrow> True"
| "caught_by_ros_trigger ValueErr \<longleftrightarrow> True"
| "caught_by_ros_trigger _ \<longleftrightarrow> False"

definition ros_trigger_main :: "'f ros_world \<Rightarrow> string \<Rightarrow> string \<Rightarrow> string \<Rightarrow> rat \<Rightarrow> ('f, int) ros_prog" where
  "ros_trigger_main w gid mode request timeout =
     exceptP (bindP (send_ros_goal w gid mode request timeout) (\<lambda>_. returnP 0))
       (\<lambda>e. if caught_by_ros_trigger e then returnP 1 else raiseP e)"

subsection \<open>Trigger, receive and save\<close>

definition name_char :: "char \<Rightarrow> bool" where
  "name_char c \<longleftrightarrow> is_ascii_letter c \<or> is_digit c \<or> c \<in> {CHR ''.'', CHR ''_'', CHR ''-''}"

definition safe_name :: "string \<Rightarrow> string" where
  "safe_name s =
     (let cleaned = map (\<lambda>c. if name_char c then c else CHR ''_'') s in
      if cleaned = '''' then ''capture'' else cleaned)"

definition check :: "py_exn option \<Rightarrow> ('f, unit) ros_prog" where
  "check e = (case e of None \<Rightarrow> returnP () | Some x \<Rightarrow> raiseP x)"

definition save_frame :: "'f ros_world \<Rightarrow> string \<Rightarrow> stamp \<Rightarrow> string \<Rightarrow> ('f, unit) ros_prog" where
  "save_frame w destination key sid =
     bindP (look (\<lambda>c. map_of (dget (rc_frames c) sid []) key)) (\<lambda>found.
     bindP (liftR (or_raise found (KeyErr sid))) (\<lambda>frame.
     let path = path_in destination (safe_name sid @ ''.png'') in
     bindP (liftR (rw_imwrite w path frame)) (\<lambda>written.
     if \<not> written then raiseP (RuntimeErr (''OpenCV could not write '' @ path))
     else stepP (\<lambda>c. (Inr (), c\<lparr>rc_images := rc_images c @ [(path, frame)]\<rparr>)))))"

fun each :: "('a \<Rightarrow> ('f, unit) ros_prog) \<Rightarrow> 'a list \<Rightarrow> ('f, unit) ros_prog" where
  "each f [] = returnP ()"
| "each f (x # xs) = bindP (f x) (\<lambda>_. each f xs)"

definition save_frames :: "'f ros_world \<Rightarrow> string \<Rightarrow> string \<Rightarrow> stamp \<Rightarrow> string list \<Rightarrow> ('f, string) ros_prog" where
  "save_frames w output_root capture key sensors =
     (let destination = path_in output_root (safe_name capture) in
      bindP (check (rw_mkdir w destination)) (\<lambda>_.
      bindP (each (save_frame w destination key) sensors) (\<lambda>_. returnP destination)))"

definition timing_dict :: "timing \<Rightarrow> pyval" where
  "timing_dict t =
     PDict [(''sensor_id'', PStr (tm_sensor t)), (''device_timestamp_ns'', PInt (tm_timestamp t)),
       (''ptp_offset_ns'', PInt (tm_offset t)), (''synchronized'', PBool (tm_synchronized t))]"

definition trigger_metadata :: "trigger_result \<Rightarrow> pydict" where
  "trigger_metadata r =
     [(''capture_id'', PStr (tr_capture r)),
      (''scheduled_time'', PDict [(''sec'', PInt (fst (tr_time r))), (''nanosec'', PInt (snd (tr_time r)))]),
      (''participating_sensor_ids'', PList (map PStr (tr_participating r))),
      (''missing_sensor_ids'', PList (map PStr (tr_missing r))),
      (''trigger_span_ns'', PInt (tr_span r)),
      (''exposure_skew_ns'', PInt (tr_skew r)),
      (''within_tolerance'', PBool (tr_tolerance r)),
      (''camera_timings'', PList (map timing_dict (tr_timings r)))]"

definition received :: "stamp \<Rightarrow> string list \<Rightarrow> 'f ros_client \<Rightarrow> bool" where
  "received key sensors c \<longleftrightarrow> list_all (\<lambda>sid. map_of (dget (rc_frames c) sid []) key \<noteq> None) sensors"

definition group_of :: "'f ros_client \<Rightarrow> group_state result" where
  "group_of c = or_raise (rc_group c) AttrErr"

text \<open>\<open>run\<close> in three parts: subscribing, triggering, and collecting what was triggered.\<close>

definition receive_prepare :: "'f ros_world \<Rightarrow> string \<Rightarrow> rat \<Rightarrow> ('f, unit) ros_prog" where
  "receive_prepare w gid timeout =
     bindP (spin_until w gid (\<lambda>c. rc_group c \<noteq> None) timeout ''group state'') (\<lambda>_.
     bindP (bindP (look group_of) liftR) (\<lambda>g.
     if gs_mode g \<noteq> ''capture'' then raiseP (RuntimeErr ''group must be in capture mode'')
     else if gs_source g \<noteq> ''Action0'' then
       raiseP (RuntimeErr ''group has not migrated to automatic Action0 capture'')
     else
       bindP (stepP (\<lambda>c. (Inr (), subscribe_to_members g c))) (\<lambda>_.
       spin_until w gid (\<lambda>c. list_all (\<lambda>sid. 0 < rw_publishers w (rc_turns c) sid) (rc_subscribed c))
         timeout ''image_raw publishers'')))"

definition receive_trigger :: "'f ros_world \<Rightarrow> string \<Rightarrow> string \<Rightarrow> rat \<Rightarrow> ('f, trigger_result) ros_prog" where
  "receive_trigger w gid request timeout =
     (if \<not> rw_server w then raiseP (RuntimeErr ''/vixel/trigger_group action is unavailable'')
      else
        bindP (enter_goal ''/vixel/trigger_group'' gid request) (\<lambda>_.
        bindP (wait_future False w gid (rw_accepted w) timeout ''trigger goal acceptance'') (\<lambda>accepted.
        if \<not> accepted then raiseP (RuntimeErr ''trigger goal was rejected'')
        else
          bindP (wait_future False w gid (rw_result w) timeout ''trigger result'') (\<lambda>result.
          if \<not> tr_success result then
            raiseP (RuntimeErr (if tr_message result = '''' then ''group trigger failed'' else tr_message result))
          else returnP result))))"

definition receive_save :: "'f ros_world \<Rightarrow> string \<Rightarrow> trigger_result \<Rightarrow> ('f, string) ros_prog" where
  "receive_save w output_root result =
     bindP (save_frames w output_root (tr_capture result) (tr_time result) (tr_participating result)) (\<lambda>destination.
     bindP (check (rw_write_text w (path_in destination ''trigger_result.json''))) (\<lambda>_.
     bindP (stepP (\<lambda>c. (Inr (), c\<lparr>rc_metadata := rc_metadata c @
       [(path_in destination ''trigger_result.json'', trigger_metadata result)]\<rparr>))) (\<lambda>_.
     returnP destination)))"

definition receive_run :: "'f ros_world \<Rightarrow> string \<Rightarrow> string \<Rightarrow> string \<Rightarrow> rat \<Rightarrow> ('f, string) ros_prog" where
  "receive_run w gid request output_root timeout =
     bindP (receive_prepare w gid timeout) (\<lambda>_.
     bindP (receive_trigger w gid request timeout) (\<lambda>result.
     bindP (spin_until w gid (received (tr_time result) (tr_participating result)) timeout
       ''triggered image_raw frames'') (\<lambda>_.
     receive_save w output_root result)))"

fun caught_by_receive :: "py_exn \<Rightarrow> bool" where
  "caught_by_receive (RuntimeErr _) \<longleftrightarrow> True"
| "caught_by_receive (KeyErr _) \<longleftrightarrow> True"
| "caught_by_receive OSErr \<longleftrightarrow> True"
| "caught_by_receive TimeoutErr \<longleftrightarrow> True"
| "caught_by_receive _ \<longleftrightarrow> False"

definition receive_main :: "'f ros_world \<Rightarrow> string \<Rightarrow> string \<Rightarrow> string \<Rightarrow> rat \<Rightarrow> ('f, int) ros_prog" where
  "receive_main w gid request output_root timeout =
     exceptP (bindP (receive_run w gid request output_root timeout) (\<lambda>_. returnP 0))
       (\<lambda>e. if caught_by_receive e then returnP 1 else raiseP e)"

end
