(* ===== verification/Ros_Client_Safety.thy ===== *)
theory Ros_Client_Safety
  imports Ros_Client
begin

section \<open>The images a client saves are those of its trigger\<close>

text \<open>
  The frames a client holds came from the cameras they are filed under, at most eight of each; what
  it saves are the frames with the stamp of its own trigger; and it ends when the clock goes on.
\<close>

subsection \<open>Frames\<close>

lemma set_alist_update: "set (AList.update k v xs) \<subseteq> insert (k, v) (set xs)"
  by (induction xs) auto

lemma newest_subset: "set (newest frames) \<subseteq> set frames"
  by (simp add: newest_def set_drop_subset)

lemma newest_length: "length (newest frames) \<le> 8"
  by (simp add: newest_def)

text \<open>
  Every frame arrived, with its stamp and from its camera, at a turn of the event loop since
  \<open>start\<close>, and no camera has more than eight.
\<close>

definition frames_seen :: "'f ros_world \<Rightarrow> nat \<Rightarrow> 'f ros_client \<Rightarrow> bool" where
  "frames_seen w start c \<longleftrightarrow>
     start \<le> rc_turns c \<and>
     (\<forall>sid. length (dget (rc_frames c) sid []) \<le> 8 \<and>
        (\<forall>(key, frame) \<in> set (dget (rc_frames c) sid []).
           \<exists>k. start \<le> k \<and> k < rc_turns c \<and> rw_arrival w k = Some (Image_arrived sid key frame)))"

lemma frames_seenD:
  assumes "frames_seen w start c" "map_of (dget (rc_frames c) sid []) key = Some frame"
  shows "\<exists>k. start \<le> k \<and> k < rc_turns c \<and> rw_arrival w k = Some (Image_arrived sid key frame)"
  using assms map_of_SomeD [OF assms(2)] unfolding frames_seen_def by fast

lemma on_image_seen:
  assumes seen: "frames_seen w start c" and arrival: "rw_arrival w (rc_turns c) = Some (Image_arrived sid key frame)"
  shows "frames_seen w start (on_image sid key frame c\<lparr>rc_turns := rc_turns c + 1\<rparr>)"
  unfolding frames_seen_def
proof (intro conjI allI ballI)
  let ?c = "on_image sid key frame c\<lparr>rc_turns := rc_turns c + 1\<rparr>"
  show "start \<le> rc_turns ?c" using seen by (simp add: frames_seen_def)
  fix other
  show "length (dget (rc_frames ?c) other []) \<le> 8"
    using seen by (simp add: on_image_def dget_def dict_simps frames_seen_def newest_length)
  fix p assume p: "p \<in> set (dget (rc_frames ?c) other [])"
  have "set (dget (rc_frames ?c) other []) \<subseteq>
      (if other = sid then insert (key, frame) (set (dget (rc_frames c) sid [])) else set (dget (rc_frames c) other []))"
    using newest_subset [of "AList.update key frame (dget (rc_frames c) sid [])"] set_alist_update
    by (fastforce simp: on_image_def dget_def dict_simps)
  with p have "p \<in> set (dget (rc_frames c) other []) \<or> (other = sid \<and> p = (key, frame))" by (auto split: if_splits)
  then show "case p of (key, frame) \<Rightarrow>
      \<exists>k. start \<le> k \<and> k < rc_turns ?c \<and> rw_arrival w k = Some (Image_arrived other key frame)"
  proof
    assume "p \<in> set (dget (rc_frames c) other [])"
    with seen show ?thesis unfolding frames_seen_def by fastforce
  next
    assume "other = sid \<and> p = (key, frame)"
    with arrival seen show ?thesis unfolding frames_seen_def by (auto intro!: exI [of _ "rc_turns c"])
  qed
qed

lemma frames_seen_later:
  assumes "frames_seen w start c" "rc_frames c' = rc_frames c" "rc_turns c \<le> rc_turns c'"
  shows "frames_seen w start c'"
  using assms unfolding frames_seen_def by fastforce

lemma spin_seen: "preserves (frames_seen w start) (spin_once w gid)"
  unfolding spin_once_def
proof (rule preserves_stepP)
  fix c assume seen: "frames_seen w start c"
  show "frames_seen w start (snd (Inr (), on_arrival gid (rw_arrival w (rc_turns c)) c\<lparr>rc_turns := rc_turns c + 1\<rparr>))"
    using seen on_image_seen [OF seen]
    by (auto simp: on_arrival_def on_groups_def split: option.split arrival.split intro: frames_seen_later [OF seen])
qed

lemma seen_steps [keeping]:
  "preserves (frames_seen w start) (clock v)" "preserves (frames_seen w start) (look f)" "preserves (frames_seen w start) (liftR r)"
  "preserves (frames_seen w start) (enter_goal action gid request)"
  "preserves (frames_seen w start) (stepP (\<lambda>c. (Inr (), subscribe_to_members g c)))"
  unfolding clock_def look_def enter_goal_def liftR_def subscribe_to_members_def
  by (auto intro!: preserves_stepP keeping simp: frames_seen_def split: sum.split)

lemma spin_until_seen [keeping]: "preserves (frames_seen w start) (spin_until w gid decided timeout description)"
  unfolding spin_until_def spin_pass_def by (intro keeping spin_seen)

lemma wait_future_seen [keeping]: "preserves (frames_seen w start) (wait_future checked w gid future timeout description)"
  unfolding wait_future_def by (intro keeping)

subsection \<open>What a successful run has saved\<close>

lemma liftR_Some [simp]: "liftR v c = Some (Inr x, c') \<longleftrightarrow> v = Inr x \<and> c' = c"
  by (auto simp: liftR_def split: sum.splits)

lemma look_Some [simp]: "look f c = Some (r, c') \<longleftrightarrow> r = Inr (f c) \<and> c' = c"
  by (auto simp: look_def)

lemma check_Some [simp]: "check e c = Some (Inr x, c') \<longleftrightarrow> e = None \<and> c' = c"
  by (auto simp: check_def split: option.splits)

lemma future_value_Inr: "future_value checked description v = Inr x \<Longrightarrow> v = Some (Inr x)"
  by (auto simp: future_value_def split: option.splits sum.splits if_splits)

lemma wait_future_result:
  assumes "wait_future checked w gid future timeout description c = Some (Inr x, c')"
  shows "future (rc_turns c') = Some (Inr x)"
  using assms by (auto simp: wait_future_def bindP_Some dest!: future_value_Inr)

lemma save_frame_result:
  assumes "save_frame w destination key sid c = Some (Inr (), c')"
  shows "\<exists>frame. map_of (dget (rc_frames c) sid []) key = Some frame
    \<and> c' = c\<lparr>rc_images := rc_images c @ [(path_in destination (safe_name sid @ ''.png''), frame)]\<rparr>"
  using assms by (auto simp: save_frame_def bindP_Some Let_def result_simps split: if_splits)

text \<open>The file and frame of each camera.\<close>

definition saved_as :: "string \<Rightarrow> (string \<Rightarrow> 'f \<Rightarrow> bool) \<Rightarrow> string list \<Rightarrow> (string \<times> 'f) list \<Rightarrow> bool" where
  "saved_as destination P sensors images \<longleftrightarrow>
     list_all2 (\<lambda>sid (path, frame). path = path_in destination (safe_name sid @ ''.png'') \<and> P sid frame) sensors images"

lemma save_each_result:
  assumes "each (save_frame w destination key) sensors c = Some (Inr (), c')"
  shows "\<exists>images. c' = c\<lparr>rc_images := rc_images c @ images\<rparr>
    \<and> saved_as destination (\<lambda>sid frame. map_of (dget (rc_frames c) sid []) key = Some frame) sensors images"
  using assms
proof (induction sensors arbitrary: c)
  case Nil
  then show ?case by (intro exI [of _ "[]"]) (simp add: saved_as_def)
next
  case (Cons sid sensors)
  then obtain c1 where first: "save_frame w destination key sid c = Some (Inr (), c1)"
    and rest: "each (save_frame w destination key) sensors c1 = Some (Inr (), c')" by (auto simp: bindP_Some)
  from save_frame_result [OF first] obtain frame where frame: "map_of (dget (rc_frames c) sid []) key = Some frame"
    and c1: "c1 = c\<lparr>rc_images := rc_images c @ [(path_in destination (safe_name sid @ ''.png''), frame)]\<rparr>" by blast
  from Cons.IH [OF rest] obtain images where "c' = c1\<lparr>rc_images := rc_images c1 @ images\<rparr>"
    "saved_as destination (\<lambda>sid frame. map_of (dget (rc_frames c) sid []) key = Some frame) sensors images"
    by (auto simp: c1)
  with frame show ?case
    by (intro exI [of _ "(path_in destination (safe_name sid @ ''.png''), frame) # images"]) (simp add: c1 saved_as_def)
qed

lemma save_frames_result:
  assumes "save_frames w output_root capture key sensors c = Some (Inr destination, c')"
  shows "destination = path_in output_root (safe_name capture)
    \<and> (\<exists>images. c' = c\<lparr>rc_images := rc_images c @ images\<rparr>
      \<and> saved_as destination (\<lambda>sid frame. map_of (dget (rc_frames c) sid []) key = Some frame) sensors images)"
  using assms by (auto simp: save_frames_def Let_def bindP_Some dest!: save_each_result)

text \<open>Until it saves, the client writes nothing.\<close>

definition unwritten :: "(string \<times> 'f) list \<Rightarrow> (string \<times> pydict) list \<Rightarrow> 'f ros_client \<Rightarrow> bool" where
  "unwritten images metadata c \<longleftrightarrow> rc_images c = images \<and> rc_metadata c = metadata"

lemma unwritten_steps [keeping]:
  "preserves (unwritten i m) (clock v)" "preserves (unwritten i m) (look f)" "preserves (unwritten i m) (liftR r)"
  "preserves (unwritten i m) (enter_goal action gid request)"
  "preserves (unwritten i m) (stepP (\<lambda>c. (Inr (), subscribe_to_members g c)))"
  "preserves (unwritten i m) (spin_once w gid)"
  unfolding clock_def look_def enter_goal_def liftR_def subscribe_to_members_def spin_once_def
  by (auto intro!: preserves_stepP keeping simp: unwritten_def on_arrival_def on_groups_def on_image_def
      split: sum.split option.split arrival.split)

lemma spin_until_unwritten [keeping]: "preserves (unwritten i m) (spin_until w gid decided timeout description)"
  unfolding spin_until_def spin_pass_def by (intro keeping)

lemma wait_future_unwritten [keeping]: "preserves (unwritten i m) (wait_future checked w gid future timeout description)"
  unfolding wait_future_def by (intro keeping)

lemma prepare_keeps [keeping]: "preserves (frames_seen w start) (receive_prepare w gid timeout)"
  unfolding receive_prepare_def by (intro keeping)

lemma prepare_unwritten [keeping]: "preserves (unwritten i m) (receive_prepare w gid timeout)"
  unfolding receive_prepare_def by (intro keeping)

lemma trigger_keeps [keeping]:
  "preserves (frames_seen w start) (receive_trigger w gid request timeout)"
  "preserves (unwritten i m) (receive_trigger w gid request timeout)"
  unfolding receive_trigger_def by (intro keeping)+

lemma receive_trigger_result:
  assumes "receive_trigger w gid request timeout c = Some (Inr result, c')"
  shows "tr_success result \<and> (\<exists>n. rw_result w n = Some (Inr result))"
  using assms by (auto simp: receive_trigger_def bindP_Some dest!: wait_future_result split: if_splits)

text \<open>The stages of a successful run: the state before it saves, and what it saves.\<close>

lemma receive_run_stages:
  assumes run: "receive_run w gid request output_root timeout c = Some (Inr destination, c')"
    and before: "frames_seen w start c" "unwritten i m c"
  shows "\<exists>result n c1. rw_result w n = Some (Inr result) \<and> tr_success result
    \<and> frames_seen w start c1 \<and> unwritten i m c1
    \<and> receive_save w output_root result c1 = Some (Inr destination, c')"
proof -
  from run obtain a b result c1 where
    prepare: "receive_prepare w gid timeout c = Some (Inr (), a)"
    and trigger: "receive_trigger w gid request timeout a = Some (Inr result, b)"
    and spin: "spin_until w gid (received (tr_time result) (tr_participating result)) timeout
       ''triggered image_raw frames'' b = Some (Inr (), c1)"
    and save: "receive_save w output_root result c1 = Some (Inr destination, c')"
    by (auto simp: receive_run_def bindP_Some)
  have "frames_seen w start c1"
    by (rule preservesD [OF spin_until_seen spin preservesD [OF trigger_keeps(1) trigger preservesD [OF prepare_keeps prepare before(1)]]])
  moreover have "unwritten i m c1"
    by (rule preservesD [OF spin_until_unwritten spin preservesD [OF trigger_keeps(2) trigger preservesD [OF prepare_unwritten prepare before(2)]]])
  ultimately show ?thesis using receive_trigger_result [OF trigger] save by blast
qed

text \<open>C40: a run that returns saved, in a new directory named after the capture, one file for each
  camera that took part, in their order, named after the camera and holding an image that arrived
  from that camera during the run with the stamp of the trigger; and then the trigger's metadata.\<close>

theorem saved_images_match_trigger:
  assumes "receive_run w gid request output_root timeout c = Some (Inr destination, c')"
    and "rc_frames c = []"
  shows "\<exists>result n images. rw_result w n = Some (Inr result) \<and> tr_success result
    \<and> destination = path_in output_root (safe_name (tr_capture result))
    \<and> rc_images c' = rc_images c @ images
    \<and> saved_as destination (\<lambda>sid frame. \<exists>k. rc_turns c \<le> k \<and> k < rc_turns c'
        \<and> rw_arrival w k = Some (Image_arrived sid (tr_time result) frame)) (tr_participating result) images
    \<and> rc_metadata c' = rc_metadata c @ [(path_in destination ''trigger_result.json'', trigger_metadata result)]"
proof -
  have start: "frames_seen w (rc_turns c) c" using assms(2) by (simp add: frames_seen_def dget_def)
  have "unwritten (rc_images c) (rc_metadata c) c" by (simp add: unwritten_def)
  from receive_run_stages [OF assms(1) start this] obtain result n c1 where
    result: "rw_result w n = Some (Inr result)" "tr_success result" and seen: "frames_seen w (rc_turns c) c1"
    and unwritten: "unwritten (rc_images c) (rc_metadata c) c1"
    and save: "receive_save w output_root result c1 = Some (Inr destination, c')" by blast
  from save obtain c2 where
    frames: "save_frames w output_root (tr_capture result) (tr_time result) (tr_participating result) c1 = Some (Inr destination, c2)"
    and c': "c' = c2\<lparr>rc_metadata := rc_metadata c2 @ [(path_in destination ''trigger_result.json'', trigger_metadata result)]\<rparr>"
    by (auto simp: receive_save_def bindP_Some)
  from save_frames_result [OF frames] obtain images where
    "destination = path_in output_root (safe_name (tr_capture result))" and c2: "c2 = c1\<lparr>rc_images := rc_images c1 @ images\<rparr>"
    and images: "saved_as destination (\<lambda>sid frame. map_of (dget (rc_frames c1) sid []) (tr_time result) = Some frame)
       (tr_participating result) images" by blast
  moreover have "saved_as destination (\<lambda>sid frame. \<exists>k. rc_turns c \<le> k \<and> k < rc_turns c'
      \<and> rw_arrival w k = Some (Image_arrived sid (tr_time result) frame)) (tr_participating result) images"
    using images unfolding saved_as_def
    by (rule list_all2_mono) (auto simp: c' c2 dest: frames_seenD [OF seen])
  ultimately show ?thesis using result unwritten
    by (intro exI [of _ result] exI [of _ n] exI [of _ images]) (simp add: c' c2 unwritten_def)
qed

definition demo_world :: "string ros_world" where
  "demo_world =
     \<lparr>rw_clock = of_nat, rw_ok = (\<lambda>_. True),
      rw_arrival = (\<lambda>n. if n = 0
        then Some (Groups_arrived [\<lparr>gs_id = ''front'', gs_members = [''left''], gs_mode = ''capture'', gs_source = ''Action0''\<rparr>])
        else Some (Image_arrived ''left'' (5, 7) ''pixels'')),
      rw_publishers = (\<lambda>_ _. 1), rw_server = True, rw_accepted = (\<lambda>_. Some (Inr True)),
      rw_result = (\<lambda>_. Some (Inr \<lparr>tr_success = True, tr_message = '''', tr_capture = ''c1'', tr_time = (5, 7),
        tr_participating = [''left''], tr_missing = [], tr_span = 0, tr_skew = 0, tr_tolerance = True, tr_timings = []\<rparr>)),
      rw_mkdir = (\<lambda>_. None), rw_imwrite = (\<lambda>_ _. Inr True), rw_write_text = (\<lambda>_. None)\<rparr>"

definition demo_receiver :: "string ros_client" where
  "demo_receiver =
     \<lparr>rc_ticks = 0, rc_turns = 0, rc_group = None, rc_frames = [], rc_subscribed = [], rc_goals = [], rc_images = [],
      rc_metadata = []\<rparr>"

lemma demo_names: "path_in ''out'' (safe_name ''c1'') = ''out/c1''" "path_in ''out/c1'' (safe_name ''left'' @ ''.png'') = ''out/c1/left.png''"
    "path_in ''out/c1'' ''trigger_result.json'' = ''out/c1/trigger_result.json''"
  by code_simp+

lemma demo_received:
  "\<exists>c'. receive_run demo_world ''front'' '''' ''out'' 35 demo_receiver = Some (Inr ''out/c1'', c')
     \<and> rc_images c' = [(''out/c1/left.png'', ''pixels'')]"
  by (simp add: receive_run_def receive_prepare_def receive_trigger_def receive_save_def save_frames_def save_frame_def
      spin_until_def spin_pass_def loopP.simps wait_future_def bindP_def look_def clock_def spin_once_def enter_goal_def
      liftR_def check_def demo_world_def demo_receiver_def on_arrival_def on_groups_def on_image_def newest_def
      subscribe_to_members_def group_of_def received_def future_value_def dget_def dset_def or_raise_def demo_names
      Let_def)

theorem saved_images_match_trigger_witness:
  "\<exists>c' result n. receive_run demo_world ''front'' '''' ''out'' 35 demo_receiver = Some (Inr ''out/c1'', c')
     \<and> rw_result demo_world n = Some (Inr result) \<and> rc_images c' = [(''out/c1/left.png'', ''pixels'')]
     \<and> saved_as ''out/c1'' (\<lambda>sid frame. \<exists>k. k < rc_turns c'
         \<and> rw_arrival demo_world k = Some (Image_arrived sid (tr_time result) frame)) (tr_participating result) (rc_images c')"
proof -
  from demo_received obtain c' where run: "receive_run demo_world ''front'' '''' ''out'' 35 demo_receiver = Some (Inr ''out/c1'', c')"
    and images: "rc_images c' = [(''out/c1/left.png'', ''pixels'')]" by blast
  have "rc_frames demo_receiver = []" by (simp add: demo_receiver_def)
  from saved_images_match_trigger [OF run this] images run show ?thesis
    by (fastforce simp: demo_receiver_def)
qed

subsection \<open>The clients end\<close>

definition time_goes_on :: "'f ros_world \<Rightarrow> bool" where
  "time_goes_on w \<longleftrightarrow> (\<forall>t. \<exists>N. \<forall>n \<ge> N. t \<le> rw_clock w n)"

lemma ends_ros [ends]:
  "always_ends (clock w)" "always_ends (look f)" "always_ends (liftR r)" "always_ends (spin_once w gid)"
  "always_ends (enter_goal action gid request)" "always_ends (check e)"
  unfolding clock_def look_def liftR_def spin_once_def enter_goal_def check_def
  by (auto intro: ends split: sum.split option.split)

lemma ends_spin_pass: "always_ends (spin_pass w gid decided deadline description x)"
  unfolding spin_pass_def by (intro ends)

lemma on_arrival_ticks [simp]: "rc_ticks (on_arrival gid arrival c) = rc_ticks c"
  by (simp add: on_arrival_def on_groups_def on_image_def split: option.split arrival.split)

lemma spin_pass_Inr:
  assumes "spin_pass w gid decided deadline description x c = Some (Inr (Inr x'), c')"
  shows "rw_clock w (rc_ticks c) < deadline \<and> rc_ticks c' = rc_ticks c + 1"
  using assms by (auto simp: spin_pass_def bindP_Some clock_def spin_once_def split: if_splits)

interpretation spinning: timed_loop "rw_clock w" rc_ticks deadline "spin_pass w gid decided deadline description"
  for w :: "'f ros_world" and gid decided deadline description
proof
  fix x x' and c c' :: "'f ros_client"
  assume "spin_pass w gid decided deadline description x c = Some (Inr (Inr x'), c')"
  from spin_pass_Inr [OF this] show "\<exists>k \<ge> rc_ticks c. rw_clock w k < deadline \<and> rc_ticks c' = Suc k"
    by (intro exI [of _ "rc_ticks c"]) simp
qed (rule ends_spin_pass)

lemma ends_spin_until [ends]:
  assumes "time_goes_on w"
  shows "always_ends (spin_until w gid decided timeout description)"
  unfolding spin_until_def
proof (intro ends)
  fix start
  from assms obtain N where "\<forall>n \<ge> N. start + timeout \<le> rw_clock w n" unfolding time_goes_on_def by blast
  then show "always_ends (loopP (spin_pass w gid decided (start + timeout) description) ())"
    by (rule spinning.loop_ends)
qed

lemma ends_wait_future [ends]: "time_goes_on w \<Longrightarrow> always_ends (wait_future checked w gid future timeout description)"
  unfolding wait_future_def by (intro ends)

lemma ends_each: "(\<And>x. always_ends (f x)) \<Longrightarrow> always_ends (each f xs)"
  by (induction xs) (auto intro: ends)

lemma ends_save_frame: "always_ends (save_frame w destination key sid)"
  unfolding save_frame_def Let_def by (intro ends)

text \<open>Both programs end, with an exit status of their own or an exception they do not catch.\<close>

lemma ros_clients_end:
  assumes "time_goes_on w"
  shows "always_ends (ros_trigger_main w gid mode request timeout)"
    and "always_ends (receive_main w gid request output_root timeout)"
proof -
  show "always_ends (ros_trigger_main w gid mode request timeout)"
    unfolding ros_trigger_main_def send_ros_goal_def by (intro ends assms)
  show "always_ends (receive_main w gid request output_root timeout)"
    unfolding receive_main_def receive_run_def receive_prepare_def receive_trigger_def receive_save_def save_frames_def Let_def
    by (intro ends ends_each ends_save_frame assms)
qed

end
