(* ===== verification/Web_Safety.thy ===== *)
theory Web_Safety
  imports Gateway_Http Gateway_Safety
begin

section \<open>What an HTTP client can rely on\<close>

text \<open>
  Theorems on the interface of \<^verbatim>\<open>Gateway_Http\<close>: a success that the gateway reports was confirmed
  by the manager, what it sends to the manager is well formed whatever the client sends, reading
  changes nothing but the demand for previews, and images come from the directory of their capture.
\<close>

subsection \<open>Rules for methods\<close>

lemma liftW_trace [simp]: "snd (liftW r) = []"
  by (auto simp: liftW_def split: sum.splits)

definition claims :: "pydict \<Rightarrow> bool" where
  "claims document \<longleftrightarrow> truthy (attr document ''success'') \<or> truthy (attr document ''accepted'')"

definition replied :: "world \<Rightarrow> ros_request \<Rightarrow> pydict \<Rightarrow> bool" where
  "replied w request r \<longleftrightarrow>
     wo_service w request = Answer r \<or> wo_goal w request = Accepted (Answer r)
     \<or> (wo_goal w request = Accepted No_answer \<and> (wo_late_result w = Some r \<or> wo_cancelled_result w = Some r))"

definition evidence :: "world \<Rightarrow> ros_request list \<Rightarrow> bool" where
  "evidence w sent \<longleftrightarrow> (\<exists>request \<in> set sent. \<exists>r. replied w request r \<and> claims r)"

definition honest :: "world \<Rightarrow> pydict web \<Rightarrow> bool" where
  "honest w m \<longleftrightarrow> (\<forall>document. fst m = Inr document \<longrightarrow> claims document \<longrightarrow> evidence w (snd m))"

named_theorems honest_rules \<open>methods that claim success only on the manager's word\<close>

lemma evidence_append: "evidence w (a @ b) \<longleftrightarrow> evidence w a \<or> evidence w b"
  by (auto simp: evidence_def)

lemma honest_bind: "(\<And>x. fst m = Inr x \<Longrightarrow> honest w (f x)) \<Longrightarrow> honest w (bindW m f)"
  by (auto simp: honest_def fst_bindW snd_bindW evidence_append split: sum.splits)

lemma honest_confirmed: "(\<And>x. fst m = Inr x \<Longrightarrow> evidence w (snd m)) \<Longrightarrow> honest w (bindW m f)"
  by (auto simp: honest_def fst_bindW snd_bindW evidence_append split: sum.splits)

lemmas honest_lift [honest_rules] = honest_bind [where m = "liftW r" for r]

lemmas honest_capture_request [honest_rules] = honest_bind [where m = "capture_operation_request body" for body]

lemma honest_raise [honest_rules]: "honest w (raiseW e)"
  by (simp add: honest_def)

lemma honest_if [honest_rules]: "(c \<Longrightarrow> honest w m) \<Longrightarrow> (\<not> c \<Longrightarrow> honest w n) \<Longrightarrow> honest w (if c then m else n)"
  by simp

lemma call_service_Inr:
  "fst (call_service w request) = Inr r \<Longrightarrow> snd (call_service w request) = [request] \<and> wo_service w request = Answer r"
  by (auto simp: call_service_def await_def raiseW_def returnW_def split: reply.splits)

lemma accepted_call_Inr:
  "fst (accepted_call w flag failure request) = Inr r \<Longrightarrow>
   snd (accepted_call w flag failure request) = [request] \<and> wo_service w request = Answer r \<and> truthy (attr r flag)"
  using call_service_Inr [of w request]
  by (auto simp: accepted_call_def fst_bindW snd_bindW split: sum.splits if_splits)

lemma confirmed_evidence:
  "fst (accepted_call w flag failure request) = Inr r \<Longrightarrow> flag \<in> {''success'', ''accepted''} \<Longrightarrow>
   evidence w (snd (accepted_call w flag failure request))"
  using accepted_call_Inr [of w flag failure request r] by (auto simp: evidence_def replied_def claims_def)

lemma honest_confirmed_call [honest_rules]:
  "flag \<in> {''success'', ''accepted''} \<Longrightarrow> honest w (bindW (accepted_call w flag failure request) f)"
  using confirmed_evidence by (rule honest_confirmed)

lemma honest_call [honest_rules]:
  "(\<And>r. claims (document r) \<Longrightarrow> claims r) \<Longrightarrow>
   honest w (bindW (call_service w request) (\<lambda>r. returnW (document r)))"
  using call_service_Inr [of w request]
  by (auto simp: honest_def fst_bindW snd_bindW evidence_def replied_def split: sum.splits)

lemma send_goal_Inr:
  "fst (send_goal w unavailable rejected goal) = Inr r \<Longrightarrow>
   snd (send_goal w unavailable rejected goal) = [goal] \<and> wo_goal w goal = Accepted r"
  by (auto simp: send_goal_def raiseW_def split: goal_reply.splits option.splits)

lemma await_Inr: "fst (await r) = Inr res \<Longrightarrow> r = Answer res"
  by (cases r) (auto simp: await_def)

lemma capture_result_Inr:
  "fst (wait_for_capture_result w r) = Inr res \<Longrightarrow>
   r = Answer res \<or> (r = No_answer \<and> (wo_late_result w = Some res \<or> wo_cancelled_result w = Some res))"
  by (cases r) (auto simp: wait_for_capture_result_def await_def split: option.splits)

lemma honest_goal:
  assumes "\<And>r res. fst (wait r) = Inr res \<Longrightarrow>
      r = Answer res \<or> (r = No_answer \<and> (wo_late_result w = Some res \<or> wo_cancelled_result w = Some res))"
    and "\<And>res. claims (document res) \<Longrightarrow> claims res"
  shows "honest w (bindW (send_goal w unavailable rejected goal) (\<lambda>r. bindW (wait r) (\<lambda>res. returnW (document res))))"
proof -
  have "evidence w (snd (send_goal w unavailable rejected goal))"
    if r: "fst (send_goal w unavailable rejected goal) = Inr r" and res: "fst (wait r) = Inr res"
      and claim: "claims (document res)" for r res
  proof -
    have "replied w goal res"
      using assms(1) [OF res] send_goal_Inr [OF r] by (auto simp: replied_def)
    with assms(2) [OF claim] send_goal_Inr [OF r] show ?thesis by (auto simp: evidence_def)
  qed
  then show ?thesis
    by (auto simp: honest_def fst_bindW snd_bindW evidence_append split: sum.splits)
qed

lemmas honest_await = honest_goal [where wait = await, OF disjI1 [OF await_Inr]]

lemma claims_documents [simp]:
  "claims (done_with r @ [(''sensor'', v)]) \<longleftrightarrow> truthy (attr r ''success'')"
  "claims (done_with r @ [(''port'', v)]) \<longleftrightarrow> truthy (attr r ''success'')"
  "claims (done_with r) \<longleftrightarrow> truthy (attr r ''success'')"
  "claims [(''success'', v1), (''message'', v2), (''session_id'', v3)] \<longleftrightarrow> truthy v1"
  "\<not> claims [(''success'', PBool False), (''message'', v)]"
  by (simp_all add: claims_def done_with_def copied_def attr_def dget_def)

lemma claimsI: "truthy (attr r ''success'') \<Longrightarrow> claims r" "truthy (attr r ''accepted'') \<Longrightarrow> claims r"
  by (simp_all add: claims_def)

subsection \<open>Success is confirmed\<close>

lemma honest_update_sensor [honest_rules]: "honest w (update_sensor_web w g sid body)"
  unfolding update_sensor_web_def
  by (cases "map_of (gw_sensors g) sid")
     (auto intro!: honest_rules intro: claimsI)

lemma honest_update_known_sensor [honest_rules]: "honest w (update_known_sensor_web w g sid body)"
  unfolding update_known_sensor_web_def Let_def
  by (cases "map_of (gw_known_sensors g) sid") (auto intro!: honest_rules)

lemma honest_profile_methods [honest_rules]:
  "honest w (upsert_camera_profile w name body)"
  "honest w (delete_camera_profile w name)"
  unfolding upsert_camera_profile_def delete_camera_profile_def by (auto intro!: honest_rules)

lemma honest_import_camera_profile [honest_rules]: "honest w (import_camera_profile w body)"
  unfolding import_camera_profile_def Let_def
  by (auto intro!: honest_rules split: sum.splits pyval.splits)

lemma honest_settings_methods [honest_rules]:
  "honest w (apply_camera_settings w sid body)"
  "honest w (purge_known_sensor_web w sid)"
  "honest w (set_port_mode_web w nid body)"
  unfolding apply_camera_settings_def purge_known_sensor_web_def set_port_mode_web_def Let_def
  by (auto intro!: honest_rules intro: claimsI)

lemma honest_change_mode [honest_rules]: "honest w (change_mode w body)"
  unfolding change_mode_def Let_def by (auto intro!: honest_rules intro: claimsI)

lemma honest_group_methods [honest_rules]:
  "honest w (upsert_group_web w gid body)"
  "honest w (delete_group_web w gid)"
  unfolding upsert_group_web_def delete_group_web_def by (auto intro!: honest_rules intro: claimsI)

lemma honest_session_methods [honest_rules]:
  "honest w (acquire_capture_session w body)"
  "honest w (renew_capture_session_web w sid)"
  "honest w (release_capture_session w sid)"
  unfolding acquire_capture_session_def renew_capture_session_web_def release_capture_session_def Let_def
  by (auto intro!: honest_rules)

lemma honest_operation_methods [honest_rules]:
  "honest w (submit_capture_batch w body)"
  "honest w (start_capture_sequence w body)"
  "honest w (start_test_shot w body)"
  "honest w (cancel_capture_operation w uid)"
  unfolding submit_capture_batch_def start_capture_sequence_def start_test_shot_def
    cancel_capture_operation_def Let_def
  by (auto intro!: honest_rules split: prod.splits)

lemma claims_results:
  "claims (copied res [''success'', ''message'', ''capture_id'', ''directory'', ''saved_sensor_ids'',
     ''missing_sensor_ids'']) \<Longrightarrow> claims res"
  "claims (copied res [''success'', ''message'', ''capture_id''] @ [(''scheduled_time'', v)]
     @ copied res [''participating_sensor_ids'', ''missing_sensor_ids'', ''trigger_span_ns'',
         ''exposure_skew_ns'', ''within_tolerance''] @ [(''camera_timings'', v')]) \<Longrightarrow> claims res"
  by (simp_all add: claims_def copied_def attr_def dget_def)

lemma honest_captures [honest_rules]:
  "honest w (record_capture w gid body)"
  "honest w (trigger_group w gid body)"
  unfolding record_capture_def trigger_group_def
  by (rule honest_goal, erule capture_result_Inr, erule claims_results)
     (rule honest_goal, drule await_Inr, erule disjI1, erule claims_results)

lemma call_evidence:
  "fst (call_service w request) = Inr r \<Longrightarrow> claims r \<Longrightarrow> evidence w (snd (call_service w request))"
  using call_service_Inr [of w request r] by (auto simp: evidence_def replied_def)

lemma answered_honest:
  "honest w m \<Longrightarrow> mu_response (answered g (with_status c m)) = Json_response st document \<Longrightarrow> claims document \<Longrightarrow>
   evidence w (mu_sent (answered g (with_status c m)))"
  by (auto simp: honest_def answered_def with_status_def fst_bindW snd_bindW mutation_error_def error_response_def
      split: sum.splits web_exn.splits py_exn.splits)

definition backed :: "world \<Rightarrow> mutation \<Rightarrow> bool" where
  "backed w m \<longleftrightarrow>
     (\<forall>st document. mu_response m = Json_response st document \<longrightarrow> claims document
        \<longrightarrow> (st = 202 \<and> mu_thread m \<noteq> None) \<or> evidence w (mu_sent m))"

named_theorems backed_rules \<open>mutations that claim success only on the manager's word\<close>

lemma backed_if [backed_rules]: "backed w m \<Longrightarrow> backed w n \<Longrightarrow> backed w (if c then m else n)"
  by simp

lemma backed_answer [backed_rules]: "honest w m \<Longrightarrow> backed w (answered g (with_status c m))"
  using answered_honest by (auto simp: backed_def)

lemma backed_refusal [backed_rules]:
  "backed w \<lparr>mu_response = error_response st text, mu_sent = [], mu_gateway = g, mu_thread = None\<rparr>"
  by (simp add: backed_def error_response_def)

lemma backed_raise: "backed w (answered g (raiseW e))"
  by (auto simp: backed_def answered_def mutation_error_def error_response_def split: web_exn.splits py_exn.splits)

lemma backed_start [backed_rules]: "backed w (start_work uid kind target worker g)"
  by (auto simp: start_work_def backed_raise split: prod.splits sum.splits) (auto simp: backed_def)

lemma backed_forget [backed_rules]: "backed w (answered g (forget_sensor_web w sid body))"
proof -
  let ?q = "Forget_sensor sid (body_flag body ''force'' False)"
  have "evidence w (snd (forget_sensor_web w sid body))"
    if result: "fst (forget_sensor_web w sid body) = Inr (st, document)" and claim: "claims document" for st document
  proof -
    obtain r where r: "fst (call_service w ?q) = Inr r"
      using result by (cases "fst (call_service w ?q)") (simp_all add: forget_sensor_web_def fst_bindW)
    with result claim show ?thesis
      using call_evidence [of w ?q r] by (simp add: forget_sensor_web_def fst_bindW snd_bindW evidence_append)
        (auto simp: claimsI)
  qed
  then show ?thesis
    by (auto simp: backed_def answered_def mutation_error_def error_response_def
        split: sum.splits web_exn.splits py_exn.splits)
qed

lemma backed_route: "backed w (route_mutation w uid g verb path body)"
  unfolding route_mutation_def Let_def by (intro backed_rules honest_rules)

text \<open>C27: Whatever request a client sends and whatever the manager answers, a response to a mutation
  that says success or accepted is backed: either it is the acknowledgement, with status 202, of an
  operation that has been started, or the manager itself reported success to a request that the
  mutation sent.\<close>

theorem reported_success_is_confirmed:
  assumes "mu_response (mutate w uid g q) = Json_response st document"
    and "truthy (attr document ''success'') \<or> truthy (attr document ''accepted'')"
  shows "(st = 202 \<and> mu_thread (mutate w uid g q) \<noteq> None)
    \<or> (\<exists>request \<in> set (mu_sent (mutate w uid g q)). \<exists>r. replied w request r
         \<and> (truthy (attr r ''success'') \<or> truthy (attr r ''accepted'')))"
proof -
  have "backed w (mutate w uid g q)"
    by (auto simp: mutate_def backed_raise backed_route split: sum.splits)
  with assms show ?thesis by (auto simp: backed_def evidence_def claims_def)
qed

subsection \<open>Requests are well formed\<close>

text \<open>
  The shape of what the manager's services parse again: texts of JSON objects, cameras and groups by
  name, numbers in the range of their fields.
\<close>

definition json_object :: "string \<Rightarrow> bool" where
  "json_object text \<longleftrightarrow> (\<exists>d. text = json_dumps (PDict d))"

definition uint32 :: "int \<Rightarrow> bool" where
  "uint32 i \<longleftrightarrow> 0 \<le> i \<and> i < 2 ^ 32"

fun well_formed_request :: "ros_request \<Rightarrow> bool" where
  "well_formed_request (Update_sensor_metadata sid display location has_pose parent pose url enabled) =
     (length pose = 7)"
| "well_formed_request (Update_known_sensor sid notes profile settings) = json_object settings"
| "well_formed_request (Upsert_camera_profile document overwrite) =
     (\<exists>d name. document = json_dumps (PDict d) \<and> map_of d ''name'' = Some (PStr name))"
| "well_formed_request (Apply_camera_settings sid profile settings offline) = json_object settings"
| "well_formed_request (Prepare_capture_groups groups interval owner) =
     (length groups = 1 \<and> 0 < interval)"
| "well_formed_request (Acquire_capture_session owner kind targets interval exclusive) =
     (kind \<in> {''sensor'', ''group''} \<and> targets \<noteq> [] \<and> '''' \<notin> set targets \<and> uint32 interval)"
| "well_formed_request (Submit_capture_batch groups request synchronize metadata) = json_object metadata"
| "well_formed_request (Start_capture_sequence groups request interval count synchronize metadata) =
     (uint32 count \<and> json_object metadata)"
| "well_formed_request (Start_test_shot kind target request) =
     (kind \<in> {''sensor'', ''group''} \<and> target \<noteq> '''')"
| "well_formed_request request = True"

lemma sends_nothing [simp]: "emits P (liftW r)" "emits P (await a)"
  by (simp_all add: emits_def) (simp add: await_def split: reply.splits)

lemma sends_call [simp, emits_rules]: "P request \<Longrightarrow> emits P (call_service w request)"
  by (simp add: emits_def call_service_def await_def split: reply.splits)

lemma sends_accepted [simp, emits_rules]: "P request \<Longrightarrow> emits P (accepted_call w flag failure request)"
  unfolding accepted_call_def by (intro emits_rules) simp_all

lemma sends_goal [simp]: "P goal \<Longrightarrow> emits P (send_goal w unavailable rejected goal)"
  by (auto simp: emits_def send_goal_def split: goal_reply.splits option.splits)

lemma sends_capture_request [simp]: "emits P (capture_operation_request body)"
  by (simp add: capture_operation_request_def Let_def)

lemma dict_object: "is_dict v \<Longrightarrow> json_object (json_dumps v)"
  unfolding json_object_def by (metis is_dict_iff)

lemma capture_request_Inr:
  "fst (capture_operation_request body) = Inr (groups, request, synchronize, metadata) \<Longrightarrow> json_object metadata"
  by (auto simp: capture_operation_request_def Let_def dict_object split: if_splits)

lemma sends_capture_result [simp]: "P Cancel_record_goal \<Longrightarrow> emits P (wait_for_capture_result w r)"
  by (cases r) (auto simp: wait_for_capture_result_def emits_def await_def split: option.splits)

lemma numbers_length: "numbers v components = Inr xs \<Longrightarrow> length xs = length components"
  by (auto simp: numbers_def result_simps dest: list_all2_lengthD)

lemma update_request_Inr: "update_request sid current body = Inr request \<Longrightarrow> well_formed_request request"
  by (auto simp: update_request_def result_simps Let_def dest!: numbers_length)

lemma liftW_Inr [simp]: "fst (liftW r) = Inr x \<longleftrightarrow> r = Inr x"
  by (cases r) (simp_all add: liftW_def)

lemma profile_request:
  "well_formed_request (Upsert_camera_profile (json_dumps (PDict (dset ''name'' (PStr name) body))) overwrite)"
  unfolding well_formed_request.simps by (intro exI conjI, rule refl) (simp add: map_of_dset)

lemma sends_camera_methods:
  "emits well_formed_request (update_sensor_web w g sid body)"
  "emits well_formed_request (update_known_sensor_web w g sid body)"
  "emits well_formed_request (apply_camera_settings w sid body)"
  "emits well_formed_request (upsert_camera_profile w name body)"
  unfolding update_sensor_web_def update_known_sensor_web_def apply_camera_settings_def upsert_camera_profile_def Let_def
  by (auto intro!: emits_rules simp: dict_object profile_request dest: update_request_Inr
      simp del: json_dumps.simps well_formed_request.simps(3) split: option.splits)

lemma sends_import_camera_profile: "emits well_formed_request (import_camera_profile w body)"
  by (auto simp: import_camera_profile_def Let_def sends_camera_methods split: sum.splits pyval.splits)

lemma strings_of_nonempty:
  assumes "is_string_list v" "list_of v \<noteq> []" "PStr '''' \<notin> set (list_of v)"
  shows "strings_of (list_of v) \<noteq> [] \<and> '''' \<notin> set (strings_of (list_of v))"
proof -
  have "\<forall>x \<in> set (list_of v). x = PStr (str_of x)"
    using assms(1) by (auto simp: is_string_list_def list_all_iff is_str_iff)
  then have all: "filter is_str (list_of v) = list_of v" by (auto simp: is_str_iff filter_id_conv)
  have "'''' \<notin> str_of ` set (list_of v)"
    using \<open>\<forall>x \<in> set (list_of v). x = PStr (str_of x)\<close> assms(3) by (metis image_iff)
  with assms(2) all show ?thesis by (simp add: strings_of_def)
qed

lemma sends_session_methods:
  "emits well_formed_request (acquire_capture_session w body)"
  "emits well_formed_request (start_test_shot w body)"
  using strings_of_nonempty [of "dget body ''target_ids'' (PList [])"]
  by (auto simp: acquire_capture_session_def start_test_shot_def Let_def uint32_def intro!: emits_rules)

lemma sends_operation_methods:
  "emits well_formed_request (submit_capture_batch w body)"
  "emits well_formed_request (start_capture_sequence w body)"
  by (auto simp: submit_capture_batch_def start_capture_sequence_def uint32_def
      intro!: emits_rules dest!: capture_request_Inr)

lemma sends_other_methods:
  "emits well_formed_request (delete_camera_profile w name)"
  "emits well_formed_request (forget_sensor_web w sid body)"
  "emits well_formed_request (purge_known_sensor_web w sid)"
  "emits well_formed_request (change_mode w body)"
  "emits well_formed_request (renew_capture_session_web w sid)"
  "emits well_formed_request (release_capture_session w sid)"
  "emits well_formed_request (set_port_mode_web w nid body)"
  "emits well_formed_request (upsert_group_web w gid body)"
  "emits well_formed_request (delete_group_web w gid)"
  "emits well_formed_request (record_capture w gid body)"
  "emits well_formed_request (trigger_group w gid body)"
  "emits well_formed_request (cancel_capture_operation w uid)"
  "emits well_formed_request (enroll_web w sid body)"
  "emits well_formed_request (resolve_placement w sid body)"
  unfolding delete_camera_profile_def forget_sensor_web_def purge_known_sensor_web_def change_mode_def
    renew_capture_session_web_def release_capture_session_def set_port_mode_web_def upsert_group_web_def
    delete_group_web_def record_capture_def trigger_group_def cancel_capture_operation_def enroll_web_def
    resolve_placement_def Let_def
  by (auto intro!: emits_rules)

definition sound_mutation :: "world \<Rightarrow> mutation \<Rightarrow> bool" where
  "sound_mutation w m \<longleftrightarrow>
     (\<forall>request \<in> set (mu_sent m). well_formed_request request)
     \<and> (\<forall>uid worker. mu_thread m = Some (uid, worker)
          \<longrightarrow> (\<forall>request \<in> set (snd (run_worker w worker)). well_formed_request request))"

named_theorems sound_rules \<open>mutations that send well-formed requests\<close>

lemma sound_if [sound_rules]: "sound_mutation w m \<Longrightarrow> sound_mutation w n \<Longrightarrow> sound_mutation w (if c then m else n)"
  by simp

lemma sound_answer: "emits well_formed_request m \<Longrightarrow> sound_mutation w (answered g m)"
  by (simp add: sound_mutation_def answered_def emits_def)

lemma sound_status [sound_rules]:
  "emits well_formed_request m \<Longrightarrow> sound_mutation w (answered g (with_status c m))"
  by (rule sound_answer) (auto simp: with_status_def intro!: emits_rules)

lemma sound_refusal [sound_rules]:
  "sound_mutation w \<lparr>mu_response = r, mu_sent = [], mu_gateway = g, mu_thread = None\<rparr>"
  by (simp add: sound_mutation_def)

lemma sound_start [sound_rules]: "sound_mutation w (start_work uid kind target worker g)"
proof -
  have "emits well_formed_request (run_worker w worker)"
    by (cases worker) (simp_all add: run_worker_def sends_other_methods)
  then show ?thesis
    by (auto simp: start_work_def sound_mutation_def emits_def answered_def split: prod.splits sum.splits)
qed

lemma sound_route: "sound_mutation w (route_mutation w uid g verb path body)"
  unfolding route_mutation_def Let_def
  by (intro sound_rules sends_camera_methods sends_import_camera_profile sends_session_methods
      sends_operation_methods sends_other_methods sound_answer)


subsection \<open>Reading\<close>

definition is_query :: "ros_request \<Rightarrow> bool" where
  "is_query request \<longleftrightarrow> (\<exists>sid. request = Get_camera_features sid) \<or> request = Get_camera_profiles
     \<or> (\<exists>uid. request = Get_capture_operation uid)"

definition same_but_previews :: "gateway \<Rightarrow> gateway \<Rightarrow> bool" where
  "same_but_previews g g' \<longleftrightarrow>
     g'\<lparr>gw_preview_demand := gw_preview_demand g, gw_subscriptions := gw_subscriptions g\<rparr> = g"

lemma same_but_previews_refl [simp]: "same_but_previews g g"
  by (simp add: same_but_previews_def)

lemma request_preview_same: "same_but_previews g (snd (request_preview now sid g))"
  by (simp add: same_but_previews_def request_preview_def Let_def)

lemma preview_routes_same:
  "same_but_previews g (snd (preview_snapshot si none_match sid g))"
  "same_but_previews g (snd (preview_stream si sid g))"
  using request_preview_same [of g "si_now si" sid]
  by (auto simp: preview_snapshot_def preview_stream_def split: prod.splits bool.splits)

lemma sends_queries:
  "emits is_query (camera_profiles_web w)" "emits is_query (camera_features w sid)"
  "emits is_query (get_capture_operation w uid)"
  unfolding camera_profiles_web_def camera_features_def get_capture_operation_def
  by (auto intro!: emits_rules simp: is_query_def)

definition only_reads :: "gateway \<Rightarrow> (http_response \<times> ros_request list) \<times> gateway \<Rightarrow> bool" where
  "only_reads g r \<longleftrightarrow> (\<forall>request \<in> set (snd (fst r)). is_query request) \<and> same_but_previews g (snd r)"

lemma only_reads_if: "only_reads g m \<Longrightarrow> only_reads g n \<Longrightarrow> only_reads g (if c then m else n)"
  by simp

lemma only_reads_plain: "only_reads g ((r, []), g)"
  by (simp add: only_reads_def)

lemma only_reads_query: "emits is_query m \<Longrightarrow> only_reads g (queried st caught m, g)"
  by (simp add: only_reads_def queried_def emits_def)

lemma only_reads_export: "only_reads g (export_profile w name, g)"
proof -
  have "emits is_query (bindW (camera_profiles_web w) (\<lambda>document.
      liftW (bindR (py_list (attr document ''profiles'')) (profile_named name))))"
    by (intro emits_rules sends_queries) simp
  then show ?thesis by (simp add: only_reads_def export_profile_def emits_def Let_def)
qed

lemma only_reads_previews:
  "only_reads g (case preview_snapshot si none_match sid g of (r, g') \<Rightarrow> ((r, []), g'))"
  "only_reads g (case preview_stream si sid g of (r, g') \<Rightarrow> ((r, []), g'))"
  using preview_routes_same(1) [of g si none_match sid] preview_routes_same(2) [of g si sid]
  by (auto simp: only_reads_def split: prod.splits)

lemma get_only_reads: "only_reads g (get w si g q)"
  unfolding get_def Let_def
  by (intro only_reads_if only_reads_plain only_reads_query only_reads_export only_reads_previews sends_queries)

text \<open>A \<open>GET\<close> changes nothing that another client can see: it sends the manager only queries, and
  in the gateway it changes at most the demand for previews and the subscriptions that follow it,
  so the snapshot, the operations and the frames stay as they are.\<close>

theorem get_changes_only_preview_demand:
  "list_all is_query (snd (fst (get w si g q)))
   \<and> (snd (get w si g q))\<lparr>gw_preview_demand := gw_preview_demand g, gw_subscriptions := gw_subscriptions g\<rparr> = g
   \<and> state_snapshot (snd (get w si g q)) = state_snapshot g"
proof -
  have reads: "only_reads g (get w si g q)" by (rule get_only_reads)
  then have same: "same_but_previews g (snd (get w si g q))" by (simp add: only_reads_def)
  have "state_snapshot (snd (get w si g q))
    = state_snapshot ((snd (get w si g q))\<lparr>gw_preview_demand := gw_preview_demand g, gw_subscriptions := gw_subscriptions g\<rparr>)"
    by (simp add: state_snapshot_def)
  with reads same show ?thesis by (simp add: only_reads_def same_but_previews_def list_all_iff)
qed

subsection \<open>Images\<close>

lemma saved_image_Some:
  "saved_image si directory sid = Some data \<longleftrightarrow>
   (\<exists>d p. si_resolve si directory = Some d \<and> si_resolve si (path_in d (sid @ ''.png'')) = Some p
      \<and> path_parent p = d \<and> si_is_file si p \<and> si_read si p = Some data)"
  by (auto simp: saved_image_def split: option.splits if_splits)

lemma capture_record_Some: "capture_record g cid = Some r \<Longrightarrow> r \<in> set (gw_capture_records g) \<and> attr r ''capture_id'' = PStr cid"
  by (auto simp: capture_record_def find_Some_iff)

text \<open>C29: An image is served only for a complete capture in the manager's list that names the
  camera among its saved ones; the name cannot leave the directory, and the bytes are those of a
  regular file whose resolved location lies directly in the resolved directory of that capture.\<close>

theorem images_come_from_their_capture:
  assumes "capture_image si g cid sid = Image data"
  shows "CHR ''/'' \<notin> set sid \<and> sid \<noteq> ''..''
    \<and> (\<exists>r d p. r \<in> set (gw_capture_records g) \<and> attr r ''capture_id'' = PStr cid
         \<and> attr r ''status'' = PStr ''complete'' \<and> PStr sid \<in> set (list_of (dget r ''saved_sensor_ids'' (PList [])))
         \<and> si_resolve si (attr_text r ''directory'') = Some d
         \<and> si_resolve si (path_in d (sid @ ''.png'')) = Some p
         \<and> path_parent p = d \<and> si_is_file si p \<and> si_read si p = Some data)"
proof -
  from assms obtain r where
    name: "path_name sid = sid" "sid \<noteq> ''..''" and r: "capture_record g cid = Some r"
    and status: "attr r ''status'' = PStr ''complete''"
    and saved: "PStr sid \<in> set (list_of (dget r ''saved_sensor_ids'' (PList [])))"
    and image: "saved_image si (attr_text r ''directory'') sid = Some data"
    unfolding capture_image_def error_response_def by (auto split: if_splits option.splits)
  have "CHR ''/'' \<notin> set sid" using path_name_no_slash [of sid] name(1) by simp
  with name(2) status saved capture_record_Some [OF r] image show ?thesis
    unfolding saved_image_Some by blast
qed

definition image_record :: pydict where
  "image_record = [(''capture_id'', PStr ''c1''), (''status'', PStr ''complete''),
     (''directory'', PStr ''/data/c1''), (''saved_sensor_ids'', PList [PStr ''cam''])]"

definition image_site :: site where
  "image_site = \<lparr>si_now = 0, si_state_timeout = 5, si_page = None, si_machine_file = '''', si_inventory_file = '''',
     si_document = Inl '''', si_profile_files = (\<lambda>d. None), si_resolve = Some, si_is_file = (\<lambda>p. p = ''/data/c1/cam.png''),
     si_read = (\<lambda>p. Some ''PNG'')\<rparr>"

definition image_gateway :: gateway where
  "image_gateway = (new_gateway 1 1)\<lparr>gw_capture_records := [image_record]\<rparr>"

theorem images_come_from_their_capture_witness:
  "capture_image image_site image_gateway ''c1'' ''cam'' = Image ''PNG'' \<and> CHR ''/'' \<notin> set ''cam''"
proof -
  have "capture_image image_site image_gateway ''c1'' ''cam'' = Image ''PNG''" by code_simp
  with images_come_from_their_capture [OF this] show ?thesis by blast
qed

subsection \<open>Streams and connections\<close>

text \<open>Every frame of a stream has a larger number than the one before.\<close>

lemma sent_frames_increase:
  "sorted_wrt (<) (map fr_generation (sent_frames n seen)) \<and> (\<forall>f \<in> set (sent_frames n seen). n < fr_generation f)"
  by (induction n seen rule: sent_frames.induct) (auto simp: not_le intro: less_trans)

text \<open>
  The number starts again when a preview is withdrawn and offered again, so another image can
  get the tag of an earlier one.
\<close>

lemma frame_tag_repeats:
  "let g1 = gateway_step (Frame_arrives 2 ''cam'' ''jpeg'' ''A'') watched_gateway;
       g2 = gateway_step (Sensors_arrive 3 8 []) g1;
       g3 = gateway_step (Preview_wanted 4 ''cam'') (gateway_step (Sensors_arrive 4 9 [preview_camera]) g2);
       g4 = gateway_step (Frame_arrives 5 ''cam'' ''jpeg'' ''B'') g3
   in map (map_option fr_data) [map_of (gw_frames g1) ''cam'', map_of (gw_frames g4) ''cam''] = [Some ''A'', Some ''B'']
      \<and> map_option etag (map_of (gw_frames g1) ''cam'') = map_option etag (map_of (gw_frames g4) ''cam'')"
  by code_simp

text \<open>No connection is served without a slot, and every slot comes back.\<close>

definition slots_balanced :: "http_server \<Rightarrow> bool" where
  "slots_balanced sv \<longleftrightarrow> sv_free sv + sv_served sv = sv_slots sv"

lemma slots_stay_balanced:
  "slots_balanced (new_server n)"
  "slots_balanced sv \<Longrightarrow> slots_balanced (snd (process_request starts sv)) \<and> sv_slots (snd (process_request starts sv)) = sv_slots sv"
  "slots_balanced sv \<Longrightarrow> slots_balanced (end_request sv) \<and> sv_slots (end_request sv) = sv_slots sv"
  by (auto simp: slots_balanced_def new_server_def process_request_def end_request_def)

subsection \<open>Witnesses\<close>

definition patient_world :: world where
  "patient_world = \<lparr>wo_service = (\<lambda>request. Answer [(''success'', PBool True), (''message'', PStr ''done'')]),
     wo_goal = (\<lambda>goal. No_server), wo_late_result = None, wo_cancelled_result = None,
     wo_yaml_load = (\<lambda>text. Inl ''no YAML''), wo_yaml_dump = (\<lambda>d. ''''), wo_capture_timeout = 40000\<rparr>"

definition purge_message :: incoming where
  "purge_message = \<lparr>in_method = ''DELETE'', in_path = ''/api/v1/known-sensors/cam'', in_length = ''0'',
     in_read = (\<lambda>n. ''''), in_none_match = None\<rparr>"

theorem reported_success_is_confirmed_witness:
  "mu_response (mutate patient_world ''u'' (new_gateway 1 1) purge_message)
     = Json_response 200 [(''success'', PBool True), (''message'', PStr ''done'')]
   \<and> (\<exists>request r. replied patient_world request r)"
proof -
  have answer: "mu_response (mutate patient_world ''u'' (new_gateway 1 1) purge_message)
     = Json_response 200 [(''success'', PBool True), (''message'', PStr ''done'')]" by code_simp
  moreover have "truthy (attr [(''success'', PBool True), (''message'', PStr ''done'')] ''success'')" by code_simp
  ultimately show ?thesis using reported_success_is_confirmed [OF answer] by auto
qed

end
