(* ===== verification/Network_Setup.thy ===== *)
theory Network_Setup
  imports Ip_Address Port_Status Traced Paths
begin

section \<open>Configuring the managed networks of the host\<close>

text \<open>
  \<^verbatim>\<open>vixel_network/network_setup.py\<close>: the networks of the machine file are checked and turned
  into commands for NetworkManager, ethtool and sysctl, which are run or, in a dry run, printed.

  Parameters (\<open>system\<close>): what opening and parsing the machine file yields, how each command
  ends, and what sysfs, the search path and the file system hold. A computation carries the
  list of what it did (\<open>action\<close>).
\<close>

subsection \<open>Exceptions, actions, parameters\<close>

text \<open>\<open>Process_failed\<close> is \<^verbatim>\<open>subprocess.CalledProcessError\<close>; \<open>Index_failed\<close> an \<open>IndexError\<close>.\<close>

datatype setup_exn = Raised py_exn | Process_failed "string list" | Index_failed

datatype action =
    Ran "string list"
  | Shown string
  | Created string
  | Permissions string nat
  | Wrote string string

text \<open>How a command ends: its output, an exit status that is not zero, or no start at all.\<close>

datatype command_end = Output string | Exit_status | No_start

record system =
  sy_machine :: "string + pyval"
  sy_command :: "string list \<Rightarrow> command_end"
  sy_exists :: "string \<Rightarrow> bool"
  sy_address :: "string \<Rightarrow> string option"
  sy_carrier :: "string \<Rightarrow> string option"
  sy_which :: "string \<Rightarrow> string option"
  sy_root_user :: bool
  sy_path_exists :: "string \<Rightarrow> bool"
  sy_resolve :: "string \<Rightarrow> string"
  sy_writable :: "string \<Rightarrow> bool"

type_synonym 'a setup_io = "('a, setup_exn, action) traced"

definition liftN :: "'a result \<Rightarrow> 'a setup_io" where
  "liftN r = (case r of Inl e \<Rightarrow> raiseW (Raised e) | Inr x \<Rightarrow> returnW x)"

definition setup_error :: "string \<Rightarrow> 'a setup_io" where
  "setup_error text = raiseW (Raised (NetworkSetupError text))"

definition run_command :: "system \<Rightarrow> string list \<Rightarrow> string setup_io" where
  "run_command sy command =
     (case sy_command sy command of
        Output text \<Rightarrow> (Inr text, [Ran command])
      | Exit_status \<Rightarrow> (Inl (Process_failed command), [Ran command])
      | No_start \<Rightarrow> (Inl (Raised OSErr), []))"

subsection \<open>The machine file\<close>

record setup_network =
  nw_id :: string
  nw_interface :: string
  nw_mac :: string
  nw_host :: iface4
  nw_mtu :: int
  nw_rp_filter :: int
  nw_ring :: int

definition nw_profile :: "setup_network \<Rightarrow> string" where
  "nw_profile n = ''vixel-'' @ nw_id n"

definition load_machine :: "string \<Rightarrow> string + pyval \<Rightarrow> pyval result" where
  "load_machine path document =
     (case document of
        Inl reason \<Rightarrow> Inl (NetworkSetupError (''cannot read '' @ path @ '': '' @ reason))
      | Inr v \<Rightarrow>
          (let root = (if truthy v then v else PDict []) in
           bindR (py_get root ''schema_version'' (PInt 1)) (\<lambda>version.
           if \<not> py_eq version (PInt 1) then Inl (NetworkSetupError ''unsupported machine schema_version'')
           else Inr root)))"

text \<open>\<open>"approved" in value\<close> for any value.\<close>

definition member_of :: "string \<Rightarrow> pyval \<Rightarrow> bool result" where
  "member_of k v =
     (case v of
        PDict d \<Rightarrow> Inr (dhas d k)
      | PList xs \<Rightarrow> Inr (list_ex (py_eq (PStr k)) xs)
      | PStr s \<Rightarrow> Inr (contains k s)
      | _ \<Rightarrow> Inl TypeErr)"

definition invalid_network :: "string \<Rightarrow> 'a result \<Rightarrow> 'a result" where
  "invalid_network nid r =
     (case r of
        Inl (KeyErr k) \<Rightarrow> Inl (NetworkSetupError (''invalid managed network '' @ nid))
      | Inl TypeErr \<Rightarrow> Inl (NetworkSetupError (''invalid managed network '' @ nid))
      | Inl ValueErr \<Rightarrow> Inl (NetworkSetupError (''invalid managed network '' @ nid))
      | _ \<Rightarrow> r)"

definition network_fields :: "string \<Rightarrow> pyval \<Rightarrow> (string \<times> string \<times> iface4 option \<times> int \<times> int \<times> int) result" where
  "network_fields nid v =
     bindR (member_of ''approved'' v) (\<lambda>has_approved.
     bindR (if has_approved then py_index v ''approved'' else Inr PNone) (\<lambda>approved.
     if \<not> is_bool approved then
       Inl (NetworkSetupError (''managed network '' @ nid @ '' approved must be an explicit boolean''))
     else
     bindR (member_of ''auto_enroll'' v) (\<lambda>has_auto.
     bindR (if has_auto then py_index v ''auto_enroll'' else Inr (PBool False)) (\<lambda>auto_enroll.
     if \<not> is_bool auto_enroll then
       Inl (NetworkSetupError (''managed network '' @ nid @ '' auto_enroll must be a boolean''))
     else
     bindR (py_index v ''interface'') (\<lambda>interface.
     bindR (py_get v ''interface_mac'' (PStr '''')) (\<lambda>mac.
     bindR (py_index v ''host_cidr'') (\<lambda>cidr.
     bindR (ip_interface (py_str cidr)) (\<lambda>host.
     bindR (bindR (py_get v ''mtu'' (PInt 9000)) py_int) (\<lambda>mtu.
     bindR (bindR (py_get v ''rp_filter'' (PInt 0)) py_int) (\<lambda>rp_filter.
     bindR (bindR (py_get v ''rx_ring_size'' (PInt 4096)) py_int) (\<lambda>ring.
     Inr (py_str interface, lower (py_str mac), host, mtu, rp_filter, ring))))))))))))"

text \<open>One network after those in \<open>seen\<close>.\<close>

definition load_network :: "setup_network list \<Rightarrow> string \<Rightarrow> pyval \<Rightarrow> setup_network result" where
  "load_network seen nid v =
     bindR (invalid_network nid (network_fields nid v)) (\<lambda>(interface, mac, host, mtu, rp_filter, ring).
     case host of
       None \<Rightarrow> Inl (NetworkSetupError (''managed network '' @ nid @ '' must use IPv4''))
     | Some h \<Rightarrow>
         if interface \<in> nw_interface ` set seen then
           Inl (NetworkSetupError (''interface '' @ interface @ '' is managed more than once''))
         else if list_ex (\<lambda>n. net_overlaps h (nw_host n)) seen then
           Inl (NetworkSetupError (''subnet '' @ show_net h @ '' overlaps another managed network''))
         else if mtu < 1500 \<or> rp_filter \<notin> {0, 1, 2} \<or> ring < 256 then
           Inl (NetworkSetupError (''managed network '' @ nid @ '' has invalid MTU, rp_filter, or RX ring size''))
         else Inr \<lparr>nw_id = nid, nw_interface = interface, nw_mac = mac, nw_host = h, nw_mtu = mtu,
                   nw_rp_filter = rp_filter, nw_ring = ring\<rparr>)"

fun load_each :: "setup_network list \<Rightarrow> pydict \<Rightarrow> setup_network list result" where
  "load_each seen [] = Inr seen"
| "load_each seen ((nid, v) # raw) = bindR (load_network seen nid v) (\<lambda>n. load_each (seen @ [n]) raw)"

definition load_networks :: "string \<Rightarrow> string + pyval \<Rightarrow> setup_network list result" where
  "load_networks path document =
     bindR (load_machine path document) (\<lambda>root.
     bindR (py_get root ''managed_networks'' PNone) (\<lambda>section.
     case section of
       PDict raw \<Rightarrow>
         if raw = [] then Inl (NetworkSetupError ''machine YAML defines no managed_networks'')
         else load_each [] raw
     | _ \<Rightarrow> Inl (NetworkSetupError ''machine YAML defines no managed_networks'')))"

definition tuning_value :: "pyval \<Rightarrow> string \<Rightarrow> int \<Rightarrow> int result" where
  "tuning_value tuning key d =
     bindR (py_get tuning key (PInt d)) (\<lambda>v.
     case py_int v of
       Inl TypeErr \<Rightarrow> Inl (NetworkSetupError ''invalid host_tuning values'')
     | Inl ValueErr \<Rightarrow> Inl (NetworkSetupError ''invalid host_tuning values'')
     | r \<Rightarrow> r)"

definition host_tuning_commands :: "string \<Rightarrow> string + pyval \<Rightarrow> string list list result" where
  "host_tuning_commands path document =
     bindR (load_machine path document) (\<lambda>root.
     bindR (py_get root ''host_tuning'' PNone) (\<lambda>section.
     (let tuning = (if truthy section then section else PDict []) in
      bindR (tuning_value tuning ''udp_receive_buffer_bytes'' 33554432) (\<lambda>buffer.
      bindR (tuning_value tuning ''netdev_max_backlog'' 4096) (\<lambda>backlog.
      if buffer < 1048576 then Inl (NetworkSetupError ''udp_receive_buffer_bytes must be at least 1048576'')
      else if backlog < 1000 then Inl (NetworkSetupError ''netdev_max_backlog must be at least 1000'')
      else Inr
        [[''sysctl'', ''-w'', ''net.core.rmem_max='' @ show_int buffer],
         [''sysctl'', ''-w'', ''net.core.netdev_max_backlog='' @ show_int backlog]])))))"

subsection \<open>Commands\<close>

function words :: "string \<Rightarrow> string list" where
  "words s =
     (case dropWhile is_space s of
        [] \<Rightarrow> []
      | c # t \<Rightarrow> (c # takeWhile (\<lambda>x. \<not> is_space x) t) # words (dropWhile (\<lambda>x. \<not> is_space x) t))"
  by pat_completeness auto
termination
proof (relation "measure length")
  fix s c t assume "dropWhile is_space s = c # t"
  then have "length t < length s" using length_dropWhile_le [of is_space s] by simp
  then show "(dropWhile (\<lambda>x. \<not> is_space x) t, s) \<in> measure length"
    using length_dropWhile_le [of "\<lambda>x. \<not> is_space x" t] by simp
qed simp

declare words.simps [simp del]

fun after_dev :: "string list \<Rightarrow> string list" where
  "after_dev (a # b # ws) = (if a = ''dev'' then [b] else []) @ after_dev (b # ws)"
| "after_dev ws = []"

definition route_query :: "string list" where
  "route_query = [''ip'', ''-o'', ''route'', ''show'', ''default'']"

definition profile_query :: "string list" where
  "profile_query = [''nmcli'', ''-t'', ''-f'', ''NAME'', ''connection'', ''show'']"

definition default_route_interfaces :: "system \<Rightarrow> string list setup_io" where
  "default_route_interfaces sy = bindW (run_command sy route_query) (\<lambda>text. returnW (after_dev (words text)))"

definition profile_names :: "system \<Rightarrow> string list setup_io" where
  "profile_names sy =
     bindW (run_command sy profile_query) (\<lambda>text. returnW (filter (\<lambda>l. l \<noteq> '''') (lines_of text)))"

definition commands_for :: "setup_network \<Rightarrow> bool \<Rightarrow> bool \<Rightarrow> string list list" where
  "commands_for n profile_exists activate =
     (if profile_exists then []
      else [[''nmcli'', ''connection'', ''add'', ''type'', ''ethernet'',
             ''ifname'', nw_interface n, ''con-name'', nw_profile n]])
     @ [[''nmcli'', ''connection'', ''modify'', nw_profile n,
         ''connection.interface-name'', nw_interface n,
         ''connection.autoconnect'', ''yes'',
         ''connection.autoconnect-priority'', ''100'',
         ''ipv4.method'', ''manual'',
         ''ipv4.addresses'', show_iface (nw_host n),
         ''ipv4.gateway'', '''',
         ''ipv4.never-default'', ''yes'',
         ''ipv4.ignore-auto-dns'', ''yes'',
         ''ipv6.method'', ''disabled'',
         ''802-3-ethernet.mtu'', show_int (nw_mtu n)]
        @ (if nw_mac n \<noteq> '''' then [''802-3-ethernet.mac-address'', nw_mac n] else [])]
     @ (if activate then [[''nmcli'', ''connection'', ''up'', nw_profile n]] else [])
     @ [[''ethtool'', ''-G'', nw_interface n, ''rx'', show_int (nw_ring n)],
        [''sysctl'', ''-w'', ''net.ipv4.conf.'' @ nw_interface n @ ''.rp_filter='' @ show_int (nw_rp_filter n)]]"

text \<open>\<^verbatim>\<open>shlex.quote\<close> and \<^verbatim>\<open>shlex.join\<close>.\<close>

definition shell_safe :: "char \<Rightarrow> bool" where
  "shell_safe c \<longleftrightarrow>
     is_lower c \<or> is_digit c \<or> (65 \<le> code c \<and> code c \<le> 90) \<or> c \<in> set ''_@%+=:,./-''"

definition shell_quote :: "string \<Rightarrow> string" where
  "shell_quote s =
     (let q = chr 39 in
      if s = '''' then [q, q]
      else if list_all shell_safe s then s
      else [q] @ concat (map (\<lambda>c. if c = q then [q, chr 34, q, chr 34, q] else [c]) s) @ [q])"

definition shell_join :: "string list \<Rightarrow> string" where
  "shell_join command = join '' '' (map shell_quote command)"

subsection \<open>Applying\<close>

definition perform :: "system \<Rightarrow> bool \<Rightarrow> string list \<Rightarrow> unit setup_io" where
  "perform sy dry_run command =
     (if dry_run then (Inr (), [Shown (shell_join command)])
      else bindW (run_command sy command) (\<lambda>_. returnW ()))"

definition has_carrier :: "system \<Rightarrow> string \<Rightarrow> bool" where
  "has_carrier sy interface =
     (case sy_carrier sy interface of Some text \<Rightarrow> strip text = ''1'' | None \<Rightarrow> False)"

definition apply_network :: "system \<Rightarrow> bool \<Rightarrow> string list \<Rightarrow> string list \<Rightarrow> setup_network \<Rightarrow> unit setup_io" where
  "apply_network sy dry_run defaults existing n =
     (let interface = nw_interface n in
      if \<not> sy_exists sy interface then
        setup_error (''managed interface '' @ interface @ '' does not exist'')
      else if interface = ''lo'' \<or> interface \<in> set defaults then
        setup_error (''refusing to configure default-route interface '' @ interface)
      else
        (case sy_address sy interface of
           None \<Rightarrow> raiseW (Raised OSErr)
         | Some text \<Rightarrow>
             (let actual = lower (strip text) in
              if nw_mac n \<noteq> '''' \<and> actual \<noteq> nw_mac n then
                setup_error (''managed interface '' @ interface @ '' has MAC '' @ actual
                  @ '', expected '' @ nw_mac n)
              else
                eachW (perform sy dry_run)
                  (commands_for n (nw_profile n \<in> set existing) (has_carrier sy interface)))))"

definition apply_networks :: "system \<Rightarrow> string \<Rightarrow> bool \<Rightarrow> unit setup_io" where
  "apply_networks sy path dry_run =
     bindW (liftN (load_networks path (sy_machine sy))) (\<lambda>networks.
     bindW (default_route_interfaces sy) (\<lambda>defaults.
     bindW (if dry_run then returnW [] else profile_names sy) (\<lambda>existing.
     bindW (liftN (host_tuning_commands path (sy_machine sy))) (\<lambda>tuning.
     bindW (eachW (perform sy dry_run) tuning) (\<lambda>_.
     eachW (apply_network sy dry_run defaults existing) networks)))))"

subsection \<open>Installing the services\<close>

definition required_programs :: "string list" where
  "required_programs = [''ptp4l'', ''phc2sys'']"

definition found_program :: "system \<Rightarrow> string \<Rightarrow> bool" where
  "found_program sy program \<longleftrightarrow> sy_which sy program \<notin> {None, Some ''''}"

definition require_linuxptp :: "system \<Rightarrow> unit setup_io" where
  "require_linuxptp sy =
     (let missing = filter (\<lambda>p. \<not> found_program sy p) required_programs in
      if missing \<noteq> [] then
        setup_error (''linuxptp is required for synchronized camera groups; ''
          @ ''install it with: sudo apt install linuxptp '' @ ''(missing: '' @ join '', '' missing @ '')'')
      else returnW ())"

definition write_text :: "system \<Rightarrow> string \<Rightarrow> string \<Rightarrow> unit setup_io" where
  "write_text sy path text =
     (if sy_writable sy path then (Inr (), [Wrote path text]) else raiseW (Raised OSErr))"

definition unit_lines :: "string list \<Rightarrow> string" where
  "unit_lines ls = join [chr 10] ls"

definition render_ptp4l_config :: string where
  "render_ptp4l_config = unit_lines
     [''[global]'', ''time_stamping hardware'', ''network_transport UDPv4'', ''delay_mechanism E2E'',
      ''serverOnly 1'', ''gmCapable 1'', ''priority1 10'', ''priority2 10'', ''logging_level 6'', '''']"

definition login_command :: "string \<Rightarrow> string \<Rightarrow> string \<Rightarrow> string" where
  "login_command local_setup executable arguments =
     ''source /opt/ros/lyrical/setup.bash && source '' @ shell_quote local_setup @ '' && exec ''
     @ shell_quote executable @ arguments"

definition network_unit :: "string \<Rightarrow> string" where
  "network_unit command = unit_lines
     [''[Unit]'', ''Description=Configure Vixel managed sensor networks'', ''After=NetworkManager.service'',
      ''Wants=NetworkManager.service'', '''', ''[Service]'', ''Type=oneshot'',
      ''ExecStart=/bin/bash -lc '' @ shell_quote command, ''RemainAfterExit=yes'', '''', ''[Install]'',
      ''WantedBy=multi-user.target'', '''']"

definition ptp_unit :: "string \<Rightarrow> string" where
  "ptp_unit command = unit_lines
     [''[Unit]'', ''Description=Vixel camera Precision Time Protocol grandmaster'',
      ''After=vixel-network-setup.service'', ''Requires=vixel-network-setup.service'',
      ''StartLimitIntervalSec=60'', ''StartLimitBurst=5'', '''', ''[Service]'', ''Type=simple'',
      ''ExecStart=/bin/bash -lc '' @ shell_quote command, ''Restart=on-failure'', ''RestartSec=5'', '''',
      ''[Install]'', ''WantedBy=multi-user.target'', '''']"

definition supervisor_executable :: "system \<Rightarrow> string \<Rightarrow> string result" where
  "supervisor_executable sy executable =
     (let sibling = path_in (path_parent executable) ''vixel-ptp-supervisor'' in
      if sy_path_exists sy sibling then Inr sibling
      else if \<not> found_program sy ''vixel-ptp-supervisor'' then
        Inl (NetworkSetupError ''cannot locate vixel-ptp-supervisor'')
      else Inr (sy_resolve sy (the (sy_which sy ''vixel-ptp-supervisor''))))"

definition setup_script :: "system \<Rightarrow> string \<Rightarrow> string result" where
  "setup_script sy prefix =
     or_raise (List.find (sy_path_exists sy)
       [path_in (path_parent prefix) ''setup.bash'', path_in prefix ''share/vixel_network/local_setup.bash''])
       (NetworkSetupError ''cannot locate the Vixel workspace/package setup script'')"

text \<open>\<open>executable_path.parents[2]\<close> needs three components.\<close>

definition install_service :: "system \<Rightarrow> string \<Rightarrow> string \<Rightarrow> unit setup_io" where
  "install_service sy machine executable =
     bindW (require_linuxptp sy) (\<lambda>_.
     if \<not> sy_root_user sy then setup_error ''install-service must run as root''
     else
       (let path = sy_resolve sy executable; file = shell_quote (sy_resolve sy machine) in
        if length (path_parts path) < 3 then raiseW Index_failed
        else
        bindW (liftN (setup_script sy (path_parent (path_parent (path_parent path))))) (\<lambda>script.
        bindW (write_text sy ''/etc/systemd/system/vixel-network-setup.service''
          (network_unit (login_command script path ('' --machine-file '' @ file @ '' apply'')))) (\<lambda>_.
        bindW (liftN (supervisor_executable sy path)) (\<lambda>supervisor.
        bindW (Inr (), [Created ''/etc/linuxptp'']) (\<lambda>_.
        bindW (write_text sy ''/etc/linuxptp/vixel-ptp4l.conf'' render_ptp4l_config) (\<lambda>_.
        bindW (Inr (), [Permissions ''/etc/linuxptp/vixel-ptp4l.conf'' 420]) (\<lambda>_.
        bindW (write_text sy ''/etc/systemd/system/vixel-ptp.service''
          (ptp_unit (login_command script supervisor ('' --machine-file '' @ file)))) (\<lambda>_.
        bindW (eachW (perform sy False)
          [[''systemctl'', ''daemon-reload''], [''systemctl'', ''enable'', ''vixel-network-setup.service''],
           [''systemctl'', ''enable'', ''vixel-ptp.service''], [''systemctl'', ''restart'', ''vixel-ptp.service'']])
          (\<lambda>_. (Inr (), [Shown (''Installed /etc/systemd/system/vixel-network-setup.service, ''
             @ ''/etc/systemd/system/vixel-ptp.service, and /etc/linuxptp/vixel-ptp4l.conf; ''
             @ ''both are enabled and the PTP service is running'')])))))))))))"

subsection \<open>The command line\<close>

datatype setup_command = Validate | Apply bool | Install string

definition setup_work :: "system \<Rightarrow> string \<Rightarrow> setup_command \<Rightarrow> unit setup_io" where
  "setup_work sy path command =
     (case command of
        Validate \<Rightarrow>
          bindW (liftN (load_networks path (sy_machine sy))) (\<lambda>networks.
          bindW (require_linuxptp sy) (\<lambda>_.
          (Inr (), [Shown (''Valid configuration for '' @ show_nat (length networks)
             @ '' managed network(s); linuxptp is installed'')])))
      | Apply dry_run \<Rightarrow>
          if \<not> dry_run \<and> \<not> sy_root_user sy then setup_error ''apply must run as root (or use --dry-run)''
          else apply_networks sy path dry_run
      | Install program \<Rightarrow>
          install_service sy path
            (if found_program sy ''vixel-network-setup'' then the (sy_which sy ''vixel-network-setup'') else program))"

text \<open>The exit status; the other exceptions end the program with a traceback (\<open>None\<close>).\<close>

definition setup_main :: "system \<Rightarrow> string \<Rightarrow> setup_command \<Rightarrow> int option \<times> action list" where
  "setup_main sy path command =
     (case setup_work sy path command of
        (Inr (), actions) \<Rightarrow> (Some 0, actions)
      | (Inl (Raised (NetworkSetupError text)), actions) \<Rightarrow>
          (Some 1, actions @ [Shown (''vixel-network-setup: '' @ text)])
      | (Inl (Process_failed c), actions) \<Rightarrow> (Some 1, actions)
      | (_, actions) \<Rightarrow> (None, actions))"

end
