(* ===== verification/Network_Safety.thy ===== *)
theory Network_Safety
  imports Network_Setup
begin

section \<open>What configuring the host does to it\<close>

text \<open>
  Theorems on \<^verbatim>\<open>Network_Setup\<close>: the networks that are accepted do not interfere, and only the
  interfaces that passed the checks of \<open>apply_networks\<close> are configured.
\<close>

subsection \<open>Accepted networks\<close>

definition sane_network :: "setup_network \<Rightarrow> bool" where
  "sane_network n \<longleftrightarrow> 1500 \<le> nw_mtu n \<and> nw_rp_filter n \<in> {0, 1, 2} \<and> 256 \<le> nw_ring n"

definition networks_apart :: "setup_network list \<Rightarrow> bool" where
  "networks_apart ns \<longleftrightarrow>
     distinct (map nw_interface ns)
     \<and> sorted_wrt (\<lambda>m n. \<not> net_overlaps (nw_host n) (nw_host m)) ns \<and> list_all sane_network ns"

lemma load_network_Inr:
  assumes "load_network seen nid v = Inr n" "networks_apart seen"
  shows "networks_apart (seen @ [n]) \<and> nw_id n = nid"
proof -
  obtain interface mac host mtu rp_filter ring where
    "interface \<notin> nw_interface ` set seen" "\<not> list_ex (\<lambda>n. net_overlaps host (nw_host n)) seen"
    "\<not> (mtu < 1500 \<or> rp_filter \<notin> {0, 1, 2} \<or> ring < 256)"
    "n = \<lparr>nw_id = nid, nw_interface = interface, nw_mac = mac, nw_host = host, nw_mtu = mtu,
          nw_rp_filter = rp_filter, nw_ring = ring\<rparr>"
    using assms(1) unfolding load_network_def bindR_eq_Inr
    by (auto split: prod.splits option.splits if_splits)
  with assms(2) show ?thesis
    by (auto simp: networks_apart_def sane_network_def sorted_wrt_append list_ex_iff)
qed

lemma load_each_Inr:
  "load_each seen raw = Inr ns \<Longrightarrow> networks_apart seen \<Longrightarrow>
   networks_apart ns \<and> map nw_id ns = map nw_id seen @ dkeys raw"
proof (induction seen raw rule: load_each.induct)
  case (2 seen nid v raw)
  then obtain n where n: "load_network seen nid v = Inr n" "load_each (seen @ [n]) raw = Inr ns"
    by (auto simp: result_simps)
  with load_network_Inr [OF n(1) 2(3)] 2(1) [OF n(1) n(2)] show ?case by simp
qed auto

lemma load_networks_Inr:
  assumes "load_networks path document = Inr ns"
  shows "networks_apart ns \<and> ns \<noteq> []"
proof -
  obtain raw where "raw \<noteq> []" "load_each [] raw = Inr ns"
    using assms unfolding load_networks_def bindR_eq_Inr dict_case_Inr by (auto split: if_splits)
  with load_each_Inr [of "[]" raw ns] show ?thesis by (auto simp: networks_apart_def)
qed

text \<open>C31: The networks that the setup accepts do not interfere: each has an interface of its own,
  no address belongs to the subnets of two of them, and the MTU, the reverse-path filter and the
  receive ring are in range.\<close>

theorem accepted_networks_are_disjoint:
  assumes "load_networks path document = Inr ns"
  shows "distinct (map nw_interface ns)
    \<and> (\<forall>i j a. i < j \<and> j < length ns \<and> in_net a (nw_host (ns ! i)) \<longrightarrow> \<not> in_net a (nw_host (ns ! j)))
    \<and> list_all sane_network ns"
proof -
  have apart: "networks_apart ns" using load_networks_Inr [OF assms] by blast
  have "\<not> in_net a (nw_host (ns ! j))"
    if "i < j" "j < length ns" "in_net a (nw_host (ns ! i))" for i j a
  proof -
    have "\<not> net_overlaps (nw_host (ns ! j)) (nw_host (ns ! i))"
      using apart that(1,2) by (auto simp: networks_apart_def sorted_wrt_iff_nth_less)
    with that(3) show ?thesis by (auto simp: net_overlaps_iff)
  qed
  with apart show ?thesis by (auto simp: networks_apart_def)
qed

subsection \<open>Applying\<close>

definition default_routes :: "system \<Rightarrow> string list" where
  "default_routes sy = (case sy_command sy route_query of Output text \<Rightarrow> after_dev (words text) | _ \<Rightarrow> [])"

text \<open>The interface exists, carries no default route, and is the hardware of the machine file.\<close>

definition configurable :: "system \<Rightarrow> setup_network \<Rightarrow> bool" where
  "configurable sy n \<longleftrightarrow>
     sy_exists sy (nw_interface n) \<and> nw_interface n \<noteq> ''lo'' \<and> nw_interface n \<notin> set (default_routes sy)
     \<and> (\<exists>text. sy_address sy (nw_interface n) = Some text
          \<and> (nw_mac n = '''' \<or> lower (strip text) = nw_mac n))"

lemma emits_run [emits_rules]: "P (Ran command) \<Longrightarrow> emits P (run_command sy command)"
  by (simp add: emits_def run_command_def split: command_end.splits)

lemma emits_perform: "(\<not> dry_run \<Longrightarrow> P (Ran command)) \<Longrightarrow> (\<And>text. P (Shown text)) \<Longrightarrow> emits P (perform sy dry_run command)"
  by (simp add: perform_def emits_rules) (simp add: emits_def)

lemma emits_lift [simp, emits_rules]: "emits P (liftN r)"
  by (simp add: liftN_def split: sum.splits)

lemma liftN_Inr [simp]: "fst (liftN r) = Inr x \<longleftrightarrow> r = Inr x"
  by (cases r) (simp_all add: liftN_def)

lemma run_command_Inr: "fst (run_command sy command) = Inr text \<Longrightarrow>
   sy_command sy command = Output text \<and> snd (run_command sy command) = [Ran command]"
  by (auto simp: run_command_def split: command_end.splits)

lemma default_routes_Inr: "fst (default_route_interfaces sy) = Inr routes \<Longrightarrow> routes = default_routes sy"
  by (auto simp: default_route_interfaces_def bindW_Inr default_routes_def dest: run_command_Inr)

lemma perform_Inr: "fst (perform sy False command) = Inr () \<Longrightarrow> snd (perform sy False command) = [Ran command]"
  by (auto simp: perform_def bindW_Inr snd_bindW dest: run_command_Inr)

text \<open>What a command of a run may be.\<close>

definition intended :: "system \<Rightarrow> string \<Rightarrow> bool \<Rightarrow> action \<Rightarrow> bool" where
  "intended sy path dry_run act \<longleftrightarrow>
     (case act of
        Ran c \<Rightarrow> c \<in> {route_query, profile_query}
          \<or> (\<not> dry_run \<and> (\<exists>networks tuning. load_networks path (sy_machine sy) = Inr networks
                \<and> host_tuning_commands path (sy_machine sy) = Inr tuning
                \<and> (c \<in> set tuning
                   \<or> (\<exists>n \<in> set networks. configurable sy n \<and> (\<exists>old up. c \<in> set (commands_for n old up))))))
      | Shown text \<Rightarrow> dry_run
      | _ \<Rightarrow> False)"

lemma emits_performed:
  assumes "\<not> dry_run \<Longrightarrow> intended sy path dry_run (Ran command)"
  shows "emits (intended sy path dry_run) (perform sy dry_run command)"
proof (cases dry_run)
  case True
  then show ?thesis by (simp add: perform_def emits_def intended_def)
next
  case False
  then show ?thesis unfolding perform_def using assms by (auto intro!: emits_rules)
qed

lemma emits_apply_network:
  assumes "load_networks path (sy_machine sy) = Inr networks" "n \<in> set networks"
    and "host_tuning_commands path (sy_machine sy) = Inr tuning"
  shows "emits (intended sy path dry_run) (apply_network sy dry_run (default_routes sy) existing n)"
proof -
  have "emits (intended sy path dry_run) (eachW (perform sy dry_run) (commands_for n old up))"
    if "configurable sy n" for old up
    using assms that by (intro emits_each emits_performed) (auto simp: intended_def)
  then show ?thesis
    by (auto simp: apply_network_def setup_error_def Let_def configurable_def split: option.splits)
qed

lemma emits_apply_networks: "emits (intended sy path dry_run) (apply_networks sy path dry_run)"
proof -
  have queries: "emits (intended sy path dry_run) (default_route_interfaces sy)"
    "emits (intended sy path dry_run) (if dry_run then returnW [] else profile_names sy)"
    by (auto simp: default_route_interfaces_def profile_names_def intended_def intro!: emits_rules)
  show ?thesis
    unfolding apply_networks_def
    by (intro emits_rules emits_each queries)
       (auto simp: intended_def intro!: emits_performed dest!: default_routes_Inr intro: emits_apply_network)
qed

text \<open>A network that is applied is configurable and all of its commands have run.\<close>

lemma apply_network_Inr:
  assumes "fst (apply_network sy False (default_routes sy) existing n) = Inr ()"
  shows "configurable sy n
    \<and> snd (apply_network sy False (default_routes sy) existing n)
      = map Ran (commands_for n (nw_profile n \<in> set existing) (has_carrier sy (nw_interface n)))"
proof -
  have each: "snd (eachW (perform sy False) cs) = map Ran cs" if "fst (eachW (perform sy False) cs) = Inr ()" for cs
  proof -
    have "map (snd \<circ> perform sy False) cs = map (\<lambda>c. [Ran c]) cs"
      using that by (auto simp: fst_eachW perform_Inr)
    then show ?thesis unfolding snd_eachW [OF that] by (simp only: concat_map_singleton)
  qed
  from assms show ?thesis
    by (auto simp: apply_network_def setup_error_def Let_def configurable_def each split: option.splits if_splits)
qed


subsection \<open>Quoting for the shell\<close>

text \<open>
  How a shell splits a line into words, as far as quoting needs it: blanks separate, single quotes
  keep everything, double quotes keep text without expansions, and the characters that need no
  quoting stand for themselves.
\<close>

abbreviation quote1 :: char where "quote1 \<equiv> chr 39"
abbreviation quote2 :: char where "quote2 \<equiv> chr 34"

definition word_so_far :: "string option \<Rightarrow> string" where
  "word_so_far cur = (case cur of None \<Rightarrow> [] | Some w \<Rightarrow> w)"

function shell_words :: "string option \<Rightarrow> string \<Rightarrow> string list option" where
  "shell_words cur s =
     (case s of
        [] \<Rightarrow> Some (case cur of None \<Rightarrow> [] | Some w \<Rightarrow> [w])
      | c # r \<Rightarrow>
          if c = CHR '' '' then
            map_option (\<lambda>ws. (case cur of None \<Rightarrow> [] | Some w \<Rightarrow> [w]) @ ws) (shell_words None r)
          else if c = quote1 \<or> c = quote2 then
            (let t = takeWhile (\<lambda>x. x \<noteq> c) r in
             case dropWhile (\<lambda>x. x \<noteq> c) r of
               [] \<Rightarrow> None
             | _ # u \<Rightarrow>
                 if c = quote2 \<and> (\<exists>x \<in> set t. x \<in> {CHR ''$'', CHR ''`'', chr 92}) then None
                 else shell_words (Some (word_so_far cur @ t)) u)
          else if shell_safe c then shell_words (Some (word_so_far cur @ [c])) r
          else None)"
  by pat_completeness auto
termination
proof (relation "measure (\<lambda>(cur, s). length s)", goal_cases)
  case (3 cur s c r t x u)
  then have "length (x # u) \<le> length r" by (metis length_dropWhile_le)
  with 3 show ?case by simp
qed auto

declare shell_words.simps [simp del]

lemma code_quotes: "quote1 \<noteq> quote2" "quote1 \<noteq> CHR '' ''" "quote2 \<noteq> CHR '' ''"
  by code_simp+

lemma safe_not_quote: "shell_safe c \<Longrightarrow> c \<noteq> quote1 \<and> c \<noteq> quote2 \<and> c \<noteq> CHR '' ''"
proof -
  have "\<not> shell_safe quote1" "\<not> shell_safe quote2" "\<not> shell_safe (CHR '' '')" by code_simp+
  then show "shell_safe c \<Longrightarrow> ?thesis" by blast
qed

lemma shell_words_end: "shell_words None [] = Some []" "shell_words (Some w) [] = Some [w]"
  by (simp_all add: shell_words.simps)

lemma shell_words_blank: "shell_words (Some w) (CHR '' '' # r) = map_option (Cons w) (shell_words None r)"
  by (cases "shell_words None r") (simp_all add: shell_words.simps [of "Some w" "CHR '' '' # r"])

lemma shell_words_safe:
  "list_all shell_safe s \<Longrightarrow> s \<noteq> [] \<Longrightarrow> shell_words cur (s @ r) = shell_words (Some (word_so_far cur @ s)) r"
proof (induction s arbitrary: cur)
  case (Cons c s)
  then have "shell_words cur ((c # s) @ r) = shell_words (Some (word_so_far cur @ [c])) (s @ r)"
    using safe_not_quote [of c] by (simp add: shell_words.simps [of cur])
  with Cons show ?case by (cases "s = []") (simp_all add: word_so_far_def)
qed simp

lemma takeWhile_quote: "q \<notin> set t \<Longrightarrow> takeWhile (\<lambda>x. x \<noteq> q) (t @ q # u) = t"
  and dropWhile_quote: "q \<notin> set t \<Longrightarrow> dropWhile (\<lambda>x. x \<noteq> q) (t @ q # u) = q # u"
  by (induction t) auto

lemma shell_words_single:
  "quote1 \<notin> set t \<Longrightarrow> shell_words cur (quote1 # t @ quote1 # u) = shell_words (Some (word_so_far cur @ t)) u"
  using code_quotes
  by (simp add: shell_words.simps [of cur] takeWhile_quote dropWhile_quote)

lemma shell_words_double:
  "shell_words cur (quote2 # quote1 # quote2 # u) = shell_words (Some (word_so_far cur @ [quote1])) u"
proof -
  have "takeWhile (\<lambda>x. x \<noteq> quote2) (quote1 # quote2 # u) = [quote1]"
    "dropWhile (\<lambda>x. x \<noteq> quote2) (quote1 # quote2 # u) = quote2 # u"
    using code_quotes by simp_all
  moreover have "quote1 \<notin> {CHR ''$'', CHR ''`'', chr 92}" by code_simp
  ultimately show ?thesis using code_quotes by (simp add: shell_words.simps [of cur])
qed

definition quoted_body :: "string \<Rightarrow> string" where
  "quoted_body s = concat (map (\<lambda>c. if c = quote1 then [quote1, quote2, quote1, quote2, quote1] else [c]) s)"

lemma quoted_body_plain: "quote1 \<notin> set t \<Longrightarrow> quoted_body (t @ s) = t @ quoted_body s"
  by (induction t) (auto simp: quoted_body_def)

lemma shell_words_body:
  "shell_words cur (quote1 # quoted_body s @ quote1 # r) = shell_words (Some (word_so_far cur @ s)) r"
proof (induction "length s" arbitrary: s cur rule: less_induct)
  case less
  show ?case
  proof (cases "quote1 \<in> set s")
    case False
    with quoted_body_plain [of s "[]"] show ?thesis
      by (simp add: quoted_body_def shell_words_single)
  next
    case True
    then obtain t u where s: "s = t @ quote1 # u" and t: "quote1 \<notin> set t" by (metis split_list_first)
    have body: "quoted_body s = t @ quote1 # quote2 # quote1 # quote2 # quote1 # quoted_body u"
      using t by (simp add: s quoted_body_plain) (simp add: quoted_body_def)
    have "shell_words cur (quote1 # quoted_body s @ quote1 # r)
      = shell_words (Some (word_so_far cur @ t)) (quote2 # quote1 # quote2 # quote1 # quoted_body u @ quote1 # r)"
      using shell_words_single [OF t, of cur] by (simp add: body)
    also have "\<dots> = shell_words (Some (word_so_far cur @ t @ [quote1])) (quote1 # quoted_body u @ quote1 # r)"
      by (simp add: shell_words_double word_so_far_def)
    also have "\<dots> = shell_words (Some (word_so_far cur @ s)) r"
      using less [of u "Some (word_so_far cur @ t @ [quote1])"] by (simp add: s word_so_far_def)
    finally show ?thesis .
  qed
qed

lemma shell_words_quote: "shell_words None (shell_quote s @ r) = shell_words (Some s) r"
proof -
  consider "s = []" | "s \<noteq> []" "list_all shell_safe s" | "s \<noteq> []" "\<not> list_all shell_safe s" by blast
  then show ?thesis
  proof cases
    case 1
    then show ?thesis
      using shell_words_single [of "[]" None r] by (simp add: shell_quote_def word_so_far_def Let_def)
  next
    case 2
    then show ?thesis using shell_words_safe [of s None r] by (simp add: shell_quote_def word_so_far_def)
  next
    case 3
    then have "shell_quote s = quote1 # quoted_body s @ [quote1]"
      by (simp add: shell_quote_def quoted_body_def Let_def)
    with shell_words_body [of None s r] show ?thesis by (simp add: word_so_far_def)
  qed
qed


subsection \<open>Witnesses\<close>

definition demo_document :: pydict where
  "demo_document = [(''managed_networks'', PDict [(''net0'', PDict
     [(''approved'', PBool True), (''interface'', PStr ''eth1''), (''host_cidr'', PStr ''0.0.0.1/24'')])])]"

definition demo_network :: setup_network where
  "demo_network = \<lparr>nw_id = ''net0'', nw_interface = ''eth1'', nw_mac = '''', nw_host = \<lparr>if_ip = 1, if_plen = 24\<rparr>,
     nw_mtu = 9000, nw_rp_filter = 0, nw_ring = 4096\<rparr>"

definition demo_system :: system where
  "demo_system = \<lparr>sy_machine = Inr (PDict demo_document), sy_command = (\<lambda>c. Output ''''),
     sy_exists = (\<lambda>i. True), sy_address = (\<lambda>i. Some ''02:00''), sy_carrier = (\<lambda>i. None),
     sy_which = (\<lambda>p. None), sy_root_user = True, sy_path_exists = (\<lambda>p. False), sy_resolve = (\<lambda>p. p),
     sy_writable = (\<lambda>p. True)\<rparr>"

lemma demo_networks: "load_networks ''machine.yaml'' (sy_machine demo_system) = Inr [demo_network]"
  by code_simp

lemma demo_tuning:
  "host_tuning_commands ''machine.yaml'' (sy_machine demo_system)
   = Inr [[''sysctl'', ''-w'', ''net.core.rmem_max='' @ show_int 33554432],
          [''sysctl'', ''-w'', ''net.core.netdev_max_backlog='' @ show_int 4096]]"
  by (simp add: host_tuning_commands_def load_machine_def demo_system_def demo_document_def tuning_value_def
      dget_def)

theorem accepted_networks_are_disjoint_witness:
  "distinct (map nw_interface [demo_network]) \<and> list_all sane_network [demo_network]"
  using accepted_networks_are_disjoint [OF demo_networks] by blast


end
