(* ===== verification/Ptp_Supervisor.thy ===== *)
theory Ptp_Supervisor
  imports Network_Safety "HOL-Library.List_Lexorder"
begin

section \<open>The supervisor of the PTP processes\<close>

text \<open>
  \<^verbatim>\<open>vixel_network/ptp_supervisor.py\<close>: one \<^verbatim>\<open>ptp4l\<close> per managed port serves the time of the
  port's clock, and a \<^verbatim>\<open>phc2sys\<close> per further port keeps its clock on that of the first. When a
  process ends, or on a signal, all of them are stopped.

  A child is its command and, once it has ended, its status. Parameters: which commands start,
  what ends between two rounds of polling, whether a child ends within the time given to it
  after \<^verbatim>\<open>SIGTERM\<close>; \<^verbatim>\<open>SIGKILL\<close> ends any process. A signal is handled between two rounds, where the
  loop sleeps.
\<close>

subsection \<open>Ports\<close>

record ptp_port =
  pt_network :: string
  pt_interface :: string
  pt_phc :: string

text \<open>\<open>listing\<close>: the names in the directory \<^verbatim>\<open>device/ptp\<close> of an interface, if it can be read.\<close>

definition ptp_port_of :: "(string \<Rightarrow> string list option) \<Rightarrow> setup_network \<Rightarrow> ptp_port result" where
  "ptp_port_of listing n =
     (case listing (nw_interface n) of
        None \<Rightarrow> Inl (NetworkSetupError (''camera interface '' @ nw_interface n @ '' has no hardware PTP clock''))
      | Some names \<Rightarrow>
          (let clocks = sort (filter (starts_with ''ptp'') names) in
           if length clocks \<noteq> 1 then
             Inl (NetworkSetupError (''camera interface '' @ nw_interface n @ '' exposes ''
               @ show_nat (length clocks) @ '' PTP clocks''))
           else Inr \<lparr>pt_network = nw_id n, pt_interface = nw_interface n, pt_phc = ''/dev/'' @ hd clocks\<rparr>))"

definition discover_ptp_ports :: "(string \<Rightarrow> string list option) \<Rightarrow> setup_network list \<Rightarrow> ptp_port list result" where
  "discover_ptp_ports listing networks = mapR (ptp_port_of listing) (sort_key nw_id networks)"

definition ptp4l_command :: "string \<Rightarrow> ptp_port \<Rightarrow> string list" where
  "ptp4l_command config port = [''ptp4l'', ''-f'', config, ''-i'', pt_interface port, ''-m'']"

definition phc2sys_command :: "ptp_port \<Rightarrow> ptp_port \<Rightarrow> string list" where
  "phc2sys_command primary follower =
     [''phc2sys'', ''-s'', pt_phc primary, ''-c'', pt_phc follower, ''-O'', ''0'', ''-R'', ''16'', ''-S'', ''0.001'', ''-m'']"

subsection \<open>Processes\<close>

record child =
  ch_command :: "string list"
  ch_status :: "int option"

record supervisor =
  su_ports :: "ptp_port list"
  su_config :: string
  su_children :: "child list"
  su_stopping :: bool

definition running :: "child \<Rightarrow> bool" where
  "running c \<longleftrightarrow> ch_status c = None"

definition new_supervisor :: "ptp_port list \<Rightarrow> string \<Rightarrow> supervisor result" where
  "new_supervisor ports config =
     (if ports = [] then Inl (NetworkSetupError ''no managed PTP camera interfaces are configured'')
      else Inr \<lparr>su_ports = ports, su_config = config, su_children = [], su_stopping = False\<rparr>)"

text \<open>\<open>self.children.append(self.popen(command))\<close> for each command; a failing one leaves the earlier ones.\<close>

fun launch :: "(string list \<Rightarrow> bool) \<Rightarrow> string list list \<Rightarrow> supervisor \<Rightarrow> unit result \<times> supervisor" where
  "launch starts [] sv = (Inr (), sv)"
| "launch starts (c # cs) sv =
     (if starts c then
        launch starts cs (sv\<lparr>su_children := su_children sv @ [\<lparr>ch_command = c, ch_status = None\<rparr>]\<rparr>)
      else (Inl OSErr, sv))"

definition child_commands :: "supervisor \<Rightarrow> string list list" where
  "child_commands sv =
     map (ptp4l_command (su_config sv)) (su_ports sv)
     @ map (phc2sys_command (hd (su_ports sv))) (tl (su_ports sv))"

definition start_children :: "string option \<Rightarrow> (string list \<Rightarrow> bool) \<Rightarrow> supervisor \<Rightarrow> unit result \<times> supervisor" where
  "start_children unreadable starts sv =
     (case unreadable of
        Some reason \<Rightarrow> (Inl (NetworkSetupError (''cannot read linuxptp configuration '' @ su_config sv @ '': ''
          @ reason @ ''; re-run vixel-network-setup install-service'')), sv)
      | None \<Rightarrow> launch starts (child_commands sv) sv)"

text \<open>
  \<open>stop\<close>: a child that runs is terminated, then waited for until the common deadline, then killed.
\<close>

definition stop_child :: "(string list \<Rightarrow> bool) \<Rightarrow> child \<Rightarrow> child" where
  "stop_child obeys c =
     (if \<not> running c then c
      else c\<lparr>ch_status := Some (if obeys (ch_command c) then -15 else -9)\<rparr>)"

definition stop_children :: "(string list \<Rightarrow> bool) \<Rightarrow> supervisor \<Rightarrow> supervisor" where
  "stop_children obeys sv = sv\<lparr>su_stopping := True, su_children := map (stop_child obeys) (su_children sv)\<rparr>"

text \<open>What happens between two rounds: a signal or not, and the statuses of children that end.\<close>

record watch_round =
  ro_signal :: bool
  ro_ends :: "string list \<Rightarrow> int option"

definition pass_time :: "(string list \<Rightarrow> bool) \<Rightarrow> watch_round \<Rightarrow> supervisor \<Rightarrow> supervisor" where
  "pass_time obeys r sv =
     (let later = sv\<lparr>su_children := map (\<lambda>c. if running c then c\<lparr>ch_status := ro_ends r (ch_command c)\<rparr> else c)
                      (su_children sv)\<rparr> in
      if ro_signal r then stop_children obeys later else later)"

text \<open>The loop of \<open>run\<close>; \<open>None\<close>: it is still running after the rounds.\<close>

fun watch_children :: "(string list \<Rightarrow> bool) \<Rightarrow> watch_round list \<Rightarrow> supervisor \<Rightarrow> int option \<times> supervisor" where
  "watch_children obeys [] sv = (None, sv)"
| "watch_children obeys (r # rs) sv =
     (if su_stopping sv then (Some 0, sv)
      else if list_ex (\<lambda>c. \<not> running c) (su_children sv) then (Some 1, stop_children obeys sv)
      else watch_children obeys rs (pass_time obeys r sv))"

definition run_supervisor ::
  "string option \<Rightarrow> (string list \<Rightarrow> bool) \<Rightarrow> (string list \<Rightarrow> bool) \<Rightarrow> watch_round list \<Rightarrow> supervisor
     \<Rightarrow> int option result \<times> supervisor" where
  "run_supervisor unreadable starts obeys rounds sv =
     (case start_children unreadable starts sv of
        (Inl e, sv') \<Rightarrow> (Inl e, sv')
      | (Inr (), sv') \<Rightarrow> (case watch_children obeys rounds sv' of (st, sv'') \<Rightarrow> (Inr st, sv'')))"

text \<open>\<open>main\<close> up to the loop: the checks, and the ports or the supervisor.\<close>

definition prepare_supervisor ::
  "system \<Rightarrow> (string \<Rightarrow> string list option) \<Rightarrow> string \<Rightarrow> bool \<Rightarrow> (ptp_port list + supervisor) result" where
  "prepare_supervisor sy listing path check =
     (let missing = filter (\<lambda>p. \<not> found_program sy p) required_programs in
      if missing \<noteq> [] then
        Inl (NetworkSetupError (''linuxptp is not installed; run: sudo apt install linuxptp (missing: ''
          @ join '', '' missing @ '')''))
      else if \<not> sy_root_user sy \<and> \<not> check then Inl (NetworkSetupError ''PTP supervisor must run as root'')
      else
        bindR (load_networks path (sy_machine sy)) (\<lambda>networks.
        bindR (discover_ptp_ports listing networks) (\<lambda>ports.
        if check then Inr (Inl ports)
        else bindR (new_supervisor ports ''/etc/linuxptp/vixel-ptp4l.conf'') (\<lambda>sv. Inr (Inr sv)))))"

subsection \<open>Properties\<close>

lemma launch_Inr:
  "launch starts cs sv = (Inr (), sv') \<Longrightarrow>
   sv' = sv\<lparr>su_children := su_children sv @ map (\<lambda>c. \<lparr>ch_command = c, ch_status = None\<rparr>) cs\<rparr>"
proof (induction cs arbitrary: sv)
  case (Cons c cs)
  then have "launch starts cs (sv\<lparr>su_children := su_children sv @ [\<lparr>ch_command = c, ch_status = None\<rparr>]\<rparr>)
    = (Inr (), sv')" by (simp split: if_splits)
  from Cons.IH [OF this] show ?case by simp
qed simp

lemma stop_child_ends: "\<not> running (stop_child obeys c)"
  by (simp add: stop_child_def running_def)

lemma stopped: "list_all (\<lambda>c. \<not> running c) (su_children (stop_children obeys sv))"
  by (simp add: stop_children_def list_all_iff stop_child_ends)

lemma stopping_signal:
  "su_stopping (pass_time obeys r sv) \<Longrightarrow> su_stopping sv \<or>
     (ro_signal r \<and> list_all (\<lambda>c. \<not> running c) (su_children (pass_time obeys r sv)))"
  by (auto simp: pass_time_def Let_def stop_children_def list_all_iff stop_child_ends split: if_splits)

lemma commands_kept:
  "map ch_command (su_children (stop_children obeys sv)) = map ch_command (su_children sv)"
  "map ch_command (su_children (pass_time obeys r sv)) = map ch_command (su_children sv)"
  by (auto simp: pass_time_def Let_def stop_children_def stop_child_def)

definition quiet :: "supervisor \<Rightarrow> bool" where
  "quiet sv \<longleftrightarrow> (su_stopping sv \<longrightarrow> list_all (\<lambda>c. \<not> running c) (su_children sv))"

lemma quiet_pass: "quiet sv \<Longrightarrow> \<not> su_stopping sv \<Longrightarrow> quiet (pass_time obeys r sv)"
  using stopping_signal [of obeys r sv] by (auto simp: quiet_def)

lemma watch_ends:
  "watch_children obeys rs sv = (Some st, sv') \<Longrightarrow> quiet sv \<Longrightarrow>
   list_all (\<lambda>c. \<not> running c) (su_children sv') \<and> st \<in> {0, 1}
   \<and> map ch_command (su_children sv') = map ch_command (su_children sv)
   \<and> (st = 0 \<longrightarrow> su_stopping sv \<or> (\<exists>r \<in> set rs. ro_signal r))"
proof (induction rs arbitrary: sv)
  case (Cons r rs)
  show ?case
  proof (cases "su_stopping sv \<or> list_ex (\<lambda>c. \<not> running c) (su_children sv)")
    case True
    with Cons.prems stopped [of obeys sv] commands_kept(1) [of obeys sv] show ?thesis
      by (auto simp: quiet_def split: if_splits)
  next
    case False
    with Cons.prems have "watch_children obeys rs (pass_time obeys r sv) = (Some st, sv')" by simp
    moreover have "quiet (pass_time obeys r sv)" using Cons.prems(2) False by (simp add: quiet_pass)
    ultimately show ?thesis
      using Cons.IH stopping_signal [of obeys r sv] False commands_kept(2) [of obeys r sv] by auto
  qed
qed simp


subsection \<open>Witness and a limit\<close>

definition two_ports :: "ptp_port list" where
  "two_ports = [\<lparr>pt_network = ''a'', pt_interface = ''eth1'', pt_phc = ''/dev/ptp0''\<rparr>,
                \<lparr>pt_network = ''b'', pt_interface = ''eth2'', pt_phc = ''/dev/ptp1''\<rparr>]"

definition idle_supervisor :: supervisor where
  "idle_supervisor = \<lparr>su_ports = two_ports, su_config = ''c'', su_children = [], su_stopping = False\<rparr>"

definition signalled :: "watch_round list" where
  "signalled = [\<lparr>ro_signal = True, ro_ends = (\<lambda>c. None)\<rparr>, \<lparr>ro_signal = False, ro_ends = (\<lambda>c. None)\<rparr>]"


text \<open>
  When a later process does not start, the exception leaves the earlier ones running: nothing
  stops them.
\<close>

lemma failed_start_leaves_children:
  "let r = run_supervisor None (\<lambda>c. hd c = ''ptp4l'') (\<lambda>c. True) [] idle_supervisor in
   fst r = Inl OSErr \<and> length (filter running (su_children (snd r))) = 2"
  by code_simp

end
