(* ===== verification/Cli.thy ===== *)
theory Cli
  imports Inventory_Schema Paths
begin

section \<open>The command line tool\<close>

text \<open>
  \<^verbatim>\<open>vixel_manager/cli.py\<close>: where the machine file and the inventory are, and the commands that
  validate them and list or show sensors. The parser of the arguments is not modelled.

  Parameters (\<open>shell\<close>): the environment, what exists and can be written, what opening and parsing
  a file yields, the text of a file, and how the YAML library prints a mapping.
\<close>

record shell =
  sh_variable :: "string \<Rightarrow> string option"
  sh_home :: string
  sh_share :: string
  sh_exists :: "string \<Rightarrow> bool"
  sh_writable :: "string \<Rightarrow> bool"
  sh_text :: "string \<Rightarrow> string option"
  sh_yaml :: "string \<Rightarrow> pyval result"
  sh_dump :: "pydict \<Rightarrow> string"
  sh_exit :: "string list \<Rightarrow> int"
  sh_now :: string

definition override_or :: "shell \<Rightarrow> string \<Rightarrow> string \<Rightarrow> string" where
  "override_or sh name d =
     (case sh_variable sh name of Some v \<Rightarrow> if v = '''' then d else v | None \<Rightarrow> d)"

definition default_machine :: "shell \<Rightarrow> string" where
  "default_machine sh = override_or sh ''VIXEL_MACHINE_FILE'' ''/etc/vixel/machine.yaml''"

definition example_machine :: "shell \<Rightarrow> string" where
  "example_machine sh = path_in (sh_share sh) ''config/machine.example.yaml''"

definition default_inventory :: "shell \<Rightarrow> string" where
  "default_inventory sh = override_or sh ''VIXEL_INVENTORY_FILE''
     (if sh_exists sh ''/var/lib/vixel/inventory.yaml'' \<or> sh_writable sh ''/var/lib/vixel''
      then ''/var/lib/vixel/inventory.yaml''
      else path_in (case sh_variable sh ''XDG_STATE_HOME'' of Some d \<Rightarrow> d | None \<Rightarrow> path_in (sh_home sh) ''.local/state'')
             ''vixel/inventory.yaml'')"

definition load_document :: "shell \<Rightarrow> string \<Rightarrow> pydict result" where
  "load_document sh path =
     bindR (sh_yaml sh path) (\<lambda>v.
     case (if truthy v then v else PDict []) of PDict d \<Rightarrow> Inr d | _ \<Rightarrow> Inl AttrErr)"

definition validated_inventory :: "shell \<Rightarrow> pydict result" where
  "validated_inventory sh =
     bindR (bindR (load_document sh (default_machine sh)) validate_machine) (\<lambda>machine.
     bindR (load_document sh (default_inventory sh)) (\<lambda>data.
     validate_inventory (sh_now sh) data machine))"

subsection \<open>Commands: the exit status and the lines printed\<close>

type_synonym printed = "(int \<times> string list) result"

definition show_paths :: "shell \<Rightarrow> printed" where
  "show_paths sh = Inr (0,
     [''machine:   '' @ default_machine sh, ''example:   '' @ example_machine sh,
      ''inventory: '' @ default_inventory sh])"

definition show_file :: "shell \<Rightarrow> bool \<Rightarrow> printed" where
  "show_file sh machine =
     (case sh_text sh (if machine then default_machine sh else default_inventory sh) of
        Some text \<Rightarrow> Inr (0, [text])
      | None \<Rightarrow> Inl OSErr)"

definition validate_files :: "shell \<Rightarrow> printed" where
  "validate_files sh =
     bindR (validated_inventory sh) (\<lambda>_. Inr (0, [''Vixel machine and inventory YAML are valid'']))"

definition edit_machine :: "shell \<Rightarrow> printed" where
  "edit_machine sh =
     (let editor = override_or sh ''SUDO_EDITOR'' (override_or sh ''EDITOR'' ''nano''); machine = default_machine sh in
      Inr (sh_exit sh (if take 2 (split_on (CHR ''/'') machine) = ['''', ''etc''] then [''sudoedit'', machine]
             else [editor, machine]), []))"

definition first_text :: "pyval list \<Rightarrow> pyval" where
  "first_text vs = (case filter truthy vs of [] \<Rightarrow> PStr ''-'' | v # _ \<Rightarrow> v)"

definition tabbed :: "string list \<Rightarrow> string" where
  "tabbed xs = join [chr 9] xs"

definition known_line :: "pydict \<Rightarrow> string \<times> pyval \<Rightarrow> string result" where
  "known_line sensors entry =
     (case entry of
        (sid, known) \<Rightarrow>
          bindR (py_get known ''latest_observation'' (PDict [])) (\<lambda>latest.
          bindR (py_get latest ''network_id'' PNone) (\<lambda>network.
          bindR (py_get latest ''interface_name'' PNone) (\<lambda>interface.
          bindR (py_get (dget sensors sid (PDict [])) ''network_id'' PNone) (\<lambda>assigned.
          bindR (mapR (\<lambda>(k, d). bindR (py_get known k (PStr d)) (\<lambda>v. Inr (py_str v)))
            [(''catalog_state'', ''observed''), (''model'', ''-''), (''serial'', ''-''), (''last_seen_at'', ''-'')])
            (\<lambda>texts.
          Inr (tabbed (sid # texts @ [py_str (first_text [network, interface, assigned])]))))))))"

definition sensor_line :: "string \<times> pyval \<Rightarrow> string result" where
  "sensor_line entry =
     (case entry of
        (sid, sensor) \<Rightarrow>
          bindR (mapR (\<lambda>(k, d). bindR (py_get sensor k (PStr d)) (\<lambda>v. Inr (py_str v)))
            [(''location_label'', ''unknown''), (''network_id'', ''-''), (''assigned_address'', ''-'')])
            (\<lambda>texts. Inr (tabbed (sid # texts))))"

definition list_lines :: "(string \<times> pyval \<Rightarrow> string result) \<Rightarrow> string \<Rightarrow> pydict \<Rightarrow> printed" where
  "list_lines line none entries =
     (if entries = [] then Inr (0, [none]) else bindR (mapR line entries) (\<lambda>ls. Inr (0, ls)))"

definition inventory_list :: "shell \<Rightarrow> bool \<Rightarrow> printed" where
  "inventory_list sh everything =
     bindR (validated_inventory sh) (\<lambda>ivt.
     bindR (py_items (dget ivt ''sensors'' (PDict []))) (\<lambda>sensors.
     if everything then
       bindR (py_items (dget ivt ''known_sensors'' (PDict []))) (\<lambda>known.
       list_lines (known_line sensors) ''No known sensors'' known)
     else list_lines sensor_line ''No enrolled sensors'' sensors))"

definition inventory_show_sensor :: "shell \<Rightarrow> string \<Rightarrow> printed" where
  "inventory_show_sensor sh sid =
     bindR (validated_inventory sh) (\<lambda>ivt.
     bindR (py_items (dget ivt ''known_sensors'' (PDict []))) (\<lambda>knowns.
     bindR (py_items (dget ivt ''sensors'' (PDict []))) (\<lambda>sensors.
     case dget knowns sid PNone of
       PNone \<Rightarrow> Inl (RegistryError (''unknown sensor '' @ sid))
     | known \<Rightarrow>
         bindR (py_items known) (\<lambda>record.
         (let value = dupdate record [(''sensor_id'', PStr sid)] in
          Inr (0, [sh_dump sh (if dget sensors sid PNone = PNone then value
            else dset ''active_enrollment'' (dget sensors sid PNone) value)]))))))"

text \<open>The exceptions that \<open>main\<close> turns into exit status 1; the others end the program.\<close>

definition cli_status :: "printed \<Rightarrow> int option" where
  "cli_status r =
     (case r of
        Inr (st, ls) \<Rightarrow> Some st
      | Inl OSErr \<Rightarrow> Some 1
      | Inl YAMLErr \<Rightarrow> Some 1
      | Inl (RegistryError text) \<Rightarrow> Some 1
      | Inl e \<Rightarrow> None)"

end
