(* ===== verification/Spec2Isabelle.thy ===== *)
theory Spec2Isabelle
  imports Allocation Registry_Ops Identity_Stability Camera_Profiles
    Capture_Sessions Publish_Safety Manager_Start Gateway_Start Node_Main Client_Safety
    Ros_Client_Safety Web_Safety Ptp_Supervisor Cli
begin

text \<open>
  A verification development of Vixel, a ROS 2 platform that discovers, enrolls, synchronises and
  captures from GenICam cameras. It models the control plane, which is the Python code of the
  packages \<^verbatim>\<open>vixel_manager\<close>, \<^verbatim>\<open>vixel_web\<close> and \<^verbatim>\<open>vixel_network\<close>, and the client programs of \<^verbatim>\<open>examples\<close>.

  \<^bold>\<open>The program.\<close> The inventory manager (\<^verbatim>\<open>manager_node.py\<close>) owns the inventory of cameras through a
  registry that keeps it in one YAML file (\<^verbatim>\<open>registry.py\<close>). Providers report the cameras they
  observe; the manager enrolls them (a service for a user, or by itself on approved ports),
  leases them to captures (sessions), and publishes what it knows and what each provider has to
  do. The web gateway (\<^verbatim>\<open>gateway.py\<close>) mirrors what is published, turns HTTP requests into
  requests to the manager and forwards previews. Two helpers prepare the host: the network
  set-up (\<^verbatim>\<open>network_setup.py\<close>) and the PTP supervisor (\<^verbatim>\<open>ptp_supervisor.py\<close>); a command line tool
  (\<^verbatim>\<open>cli.py\<close>) shows and validates the files. The clients trigger groups once or in cycles, over HTTP
  (\<^verbatim>\<open>http_trigger.py\<close>, \<^verbatim>\<open>http_trigger_groups_periodic.py\<close>) or over ROS (\<^verbatim>\<open>ros_trigger.py\<close>,
  \<^verbatim>\<open>ros_trigger_and_receive.py\<close>).

  \<^bold>\<open>Foundations.\<close>
  \<^item> \<open>Prelude\<close>: exceptions as values (\<open>py_exn\<close>, \<open>'a result\<close>), insertion-ordered dictionaries,
    strings, decimal numbers; the collections \<open>result_simps\<close>, \<open>dict_simps\<close>, \<open>string_simps\<close>.
  \<^item> \<open>Py_Value\<close>, \<open>Json\<close>: the values that YAML and JSON documents hold, with Python's truth value,
    equality, conversions and printing. Floats are decimal numbers with infinities and NaN; they
    are only compared, converted and printed. Integers are unbounded, as in Python.
  \<^item> \<open>Store\<close>: state-passing operations \<open>('s, 'a) op\<close> whose state survives an exception; the
    replacement of a file as the system calls it consists of, each of which may fail.
  \<^item> \<open>Traced\<close>: computations that emit requests, commands or output; \<open>Polling\<close>: loops that look
    until something decides (\<open>partial_function\<close>; None is that the loop does not return);
    \<open>Programs\<close>: programs with state, exceptions, \<open>finally\<close> and loops that may run forever, with
    rules for partial correctness, histories, invariants and termination;
    \<open>Paths\<close>, \<open>Ip_Address\<close>: the parts of \<^verbatim>\<open>pathlib\<close> and \<^verbatim>\<open>ipaddress\<close> that the code uses.

  \<^bold>\<open>The registry.\<close> \<open>Identity\<close> (stable identifiers), \<open>Machine_Config\<close> (the machine file, its defaults,
  migration and checks), \<open>Inventory_Schema\<close> (the inventory, its migration and checks; validation
  is shown to establish \<open>valid_inventory\<close> and to be idempotent), \<open>Registry\<close> (the record
  \<open>registry\<close> and one operation per method), \<open>Camera_Profiles\<close> (\<^verbatim>\<open>camera_profiles.py\<close>).
  \<open>Registry_Safety\<close> closes the operations under a step relation: whatever runs and whatever the
  disk does, the file on disk can be opened again; a failed command leaves no trace.
  \<open>Allocation\<close> treats addresses, \<open>Registry_Ops\<close> archiving and replacement, \<open>Identity_Stability\<close>
  what an observation does to the identity of a camera.

  \<^bold>\<open>The manager.\<close> \<open>Manager_State\<close> is the record of the node's attributes, of which every callback is
  an operation. \<open>Capture_Sessions\<close> (leases), \<open>Manager_Modes\<close> (modes, groups, assignments),
  \<open>Manager_Messages\<close> (what is published; \<open>Publish_Safety\<close> its properties), \<open>Port_Status\<close>
  (\<^verbatim>\<open>port_status.py\<close>), \<open>Manager_Services\<close>, \<open>Manager_Settings\<close>, \<open>Enrollment\<close>, \<open>Capture_Requests\<close>
  (the services and actions). A callback is one atomic step, except that a callback which
  waits for a provider is split where it waits: \<open>apply_begin\<close>, \<open>apply_poll\<close>, \<open>apply_finish\<close>;
  \<open>enroll_begin\<close>, \<open>enroll_finish\<close>; \<open>place_begin\<close>, \<open>place_finish\<close>; \<open>capture_begin\<close>, \<open>capture_poll\<close>,
  \<open>capture_send\<close>, \<open>capture_finish\<close>; any other callback may run in between. \<open>Manager_Runs\<close> lists the
  callbacks (\<open>manager_step\<close>) and shows once, for any relation that the node's few effects keep,
  that every callback keeps it; \<open>Manager_Safety\<close>, \<open>Enrollment_Safety\<close> and \<open>Manager_Start\<close> (the
  state the constructor builds) draw the conclusions.

  \<^bold>\<open>The gateway.\<close> \<open>Gateway_Messages\<close> (documents made of messages), \<open>Gateway_State\<close> (the node's
  attributes and callbacks, \<open>gateway_step\<close>, \<open>gateway_run\<close>; its lock makes callbacks atomic),
  \<open>Gateway_Requests\<close> (methods that ask the manager), \<open>Gateway_Http\<close> (routing, bodies, status codes,
  images, streams, connection slots), \<open>Gateway_Start\<close>. \<open>Gateway_Safety\<close> is about the state in every
  interleaving, \<open>Web_Safety\<close> about what clients can cause and are told.

  \<^bold>\<open>The host.\<close> \<open>Network_Setup\<close> with \<open>Network_Safety\<close>, \<open>Ptp_Supervisor\<close>, \<open>Cli\<close>.

  \<^bold>\<open>The clients.\<close> \<open>Http_Client\<close> (the requests and what is made of the replies; quoting is undone by
  the gateway's \<open>unquote\<close>; the aggregate group that is chosen has exactly the requested cameras;
  each request is followed through the gateway to the manager), \<open>Periodic_Client\<close> (the program over
  the history of its requests and sleeps) with \<open>Client_Safety\<close>: the session is given back however a
  run ends, triggers follow two ready looks, status 0 of a saving run means a complete operation,
  bounded runs end. \<open>Ros_Client\<close> (the program over the event loop's callbacks) with
  \<open>Ros_Client_Safety\<close>: the saved images are those of the client's own trigger.

  \<^bold>\<open>Interfaces.\<close> The locale \<open>checked_document\<close> (a check that accepts its own output) is what every saved
  document relies on, interpreted by the inventory's validation; \<open>codec\<close> is a printed form
  with its parser, interpreted by IPv4; \<open>kept\<close>, \<open>service_effects\<close> and \<open>manager_effects\<close> are the
  laws of the manager's effects, interpreted four times (the run is a run of the registry,
  the generation grows, the session invariant is kept, services leave the claims alone);
  \<open>timed_polling\<close> is a loop with a deadline, interpreted by both waits of the manager;
  \<open>timed_loop\<close> is one in a program, interpreted by the clients' waits.

  \<^bold>\<open>Parameters and bounds.\<close> The clock, \<^verbatim>\<open>uuid4\<close>, what a YAML parser returns, which system call fails, what
  commands print and what providers and the manager answer are arguments (\<open>reg_env\<close>, \<open>mg_env\<close>,
  \<open>host\<close>, \<open>shell\<close>, \<open>surroundings\<close>, \<open>ros_world\<close>, \<dots>). Hypotheses on them: a fresh \<^verbatim>\<open>uuid4\<close> is not in use
  (\<open>admissible\<close>), what the YAML library wrote it reads back (only for reopening), and the clock
  passes every time (only for the clients' termination). Times are rational
  seconds. No definition takes fuel: loops recurse over the list they iterate, loops that wait
  are \<open>partial_function\<close> over the sequence of what they see, or follow a given list of rounds.

  \<^bold>\<open>Not modelled.\<close>
  \<^item> The GenICam provider and the capture recorder, which are C++ nodes on camera drivers and
    image libraries: the manager's side of their contracts is a parameter here.
  \<^item> The ROS middleware and wiring: \<open>_connect_provider\<close>, quality of service, time stamps of messages,
    generated message classes and their field checks. The nodes' main functions are in
    \<open>Node_Main\<close>: what they set up is taken down again however they end.
  \<^item> Sockets, HTTP parsing and logging of the standard library, \<^verbatim>\<open>argparse\<close>, the dashboard page.
  \<^item> Launch files and tests; of the clients, what they print and \<^verbatim>\<open>argparse\<close>.
\<close>

end
